(* ===== verification/Prelude.thy ===== *)
theory Prelude
  imports Main "HOL-Library.Word" "HOL-Library.Numeral_Type" "HOL-Library.State_Monad"
    "HOL-Library.Monad_Syntax"
begin

text \<open>
  What every component shares: the machine types of the C sources, little-endian byte
  strings, the C library functions the sources call on strings (\<^verbatim>\<open>strchr\<close>, \<^verbatim>\<open>atoi\<close>,
  \<^verbatim>\<open>strtoul\<close>), the truncation to a 32-bit \<^verbatim>\<open>int\<close>, and the hint collections
  \<^verbatim>\<open>host_simps\<close> (unfolding of the state monad) and \<^verbatim>\<open>le_simps\<close> (byte strings).
\<close>

section \<open>Machine types\<close>

type_synonym u8 = "8 word"
type_synonym u16 = "16 word"
type_synonym u32 = "32 word"
type_synonym bytes = "8 word list"

named_theorems host_simps
named_theorems le_simps

text \<open>A conversion of a mathematical integer to the C type \<^verbatim>\<open>int\<close> of 32 bits.\<close>

definition c_int :: "int \<Rightarrow> int" where
  "c_int i = (i + 2 ^ 31) mod 2 ^ 32 - 2 ^ 31"

lemma c_int_id: "- (2 ^ 31) \<le> i \<Longrightarrow> i < 2 ^ 31 \<Longrightarrow> c_int i = i"
  by (simp add: c_int_def)

lemma c_int_range: "- (2 ^ 31) \<le> c_int i" "c_int i < 2 ^ 31"
  by (simp_all add: c_int_def)

lemma c_int_cong: "c_int i mod 2 ^ 32 = i mod 2 ^ 32"
  unfolding c_int_def by (metis add_diff_cancel_right' mod_diff_left_eq)

lemma word_of_c_int: "word_of_int (c_int i) = (word_of_int i :: u32)"
  by (rule word_uint_eqI) (use c_int_cong [of i] in \<open>simp add: uint_word_of_int\<close>)

section \<open>Little-endian byte strings\<close>

fun le_bytes :: "nat \<Rightarrow> nat \<Rightarrow> bytes" where
  "le_bytes 0 v = []"
| "le_bytes (Suc n) v = of_nat (v mod 256) # le_bytes n (v div 256)"

fun le_nat :: "bytes \<Rightarrow> nat" where
  "le_nat [] = 0"
| "le_nat (b # bs) = unat b + 256 * le_nat bs"

lemma length_le_bytes [simp, le_simps]: "length (le_bytes n v) = n"
  by (induction n arbitrary: v) auto

lemma unat_byte [le_simps]: "unat (of_nat (v mod 256) :: u8) = v mod 256"
  by (simp add: unat_of_nat)

lemma le_nat_bytes: "le_nat (le_bytes n v) = v mod 256 ^ n"
  by (induction n arbitrary: v) (simp_all add: unat_of_nat mod_mult2_eq)

lemma le_nat_bytes_id [le_simps]: "v < 256 ^ n \<Longrightarrow> le_nat (le_bytes n v) = v"
  by (simp add: le_nat_bytes)

lemma le_nat_less: "le_nat bs < 256 ^ length bs"
proof (induction bs)
  case (Cons b bs)
  have "unat b < 256" using unsigned_less [of b] by simp
  with Cons show ?case by simp
qed simp

lemma le_bytes_nat: "le_bytes (length bs) (le_nat bs) = bs"
proof (induction bs)
  case (Cons b bs)
  have "unat b < 256" using unsigned_less [of b] by simp
  with Cons show ?case by simp
qed simp

section \<open>Slices of a list\<close>

definition slice :: "nat \<Rightarrow> nat \<Rightarrow> 'a list \<Rightarrow> 'a list" where
  "slice i n xs = take n (drop i xs)"

lemma length_slice [simp]: "i + n \<le> length xs \<Longrightarrow> length (slice i n xs) = n"
  by (simp add: slice_def)

lemma slice_0 [simp]: "slice 0 n xs = take n xs"
  by (simp add: slice_def)

lemma slice_append1: "i + n \<le> length xs \<Longrightarrow> slice i n (xs @ ys) = slice i n xs"
  by (simp add: slice_def)

lemma slice_append2: "length xs \<le> i \<Longrightarrow> slice i n (xs @ ys) = slice (i - length xs) n ys"
  by (simp add: slice_def)

lemma slice_full [simp]: "length xs \<le> n \<Longrightarrow> slice 0 n xs = xs"
  by (simp add: slice_def)

text \<open>Overwriting a stretch of an array, as \<^verbatim>\<open>memcpy (dst + i, src, n)\<close> does inside its bounds.\<close>

definition put_at :: "nat \<Rightarrow> 'a list \<Rightarrow> 'a list \<Rightarrow> 'a list" where
  "put_at i ys xs = take i xs @ ys @ drop (i + length ys) xs"

lemma length_put_at [simp]: "i + length ys \<le> length xs \<Longrightarrow> length (put_at i ys xs) = length xs"
  by (simp add: put_at_def)

lemma slice_put_at_same: "i \<le> length xs \<Longrightarrow> slice i (length ys) (put_at i ys xs) = ys"
  by (simp add: slice_def put_at_def)

lemma take_put_at: "i \<le> length xs \<Longrightarrow> take i (put_at i ys xs) = take i xs"
  by (simp add: put_at_def)

lemma drop_put_at:
  "i + length ys \<le> length xs \<Longrightarrow> drop (i + length ys) (put_at i ys xs) = drop (i + length ys) xs"
  by (simp add: put_at_def)

section \<open>C string functions\<close>

text \<open>\<^verbatim>\<open>strchr\<close>: the index of the first occurrence, \<^verbatim>\<open>None\<close> for the null pointer.\<close>

fun strchr :: "string \<Rightarrow> char \<Rightarrow> nat option" where
  "strchr [] c = None"
| "strchr (x # xs) c = (if x = c then Some 0 else map_option Suc (strchr xs c))"

lemma strchr_append_hit: "c \<notin> set xs \<Longrightarrow> strchr (xs @ c # ys) c = Some (length xs)"
  by (induction xs) auto

lemma strchr_None_iff: "strchr xs c = None \<longleftrightarrow> c \<notin> set xs"
  by (induction xs) auto

lemma strchr_SomeD:
  "strchr xs c = Some n \<Longrightarrow> n < length xs \<and> xs ! n = c \<and> c \<notin> set (take n xs)"
  by (induction xs arbitrary: n) (auto split: if_splits)

definition c_isspace :: "char \<Rightarrow> bool" where
  "c_isspace c = (c \<in> {CHR '' '', CHR 0x09, CHR 0x0A, CHR 0x0B, CHR 0x0C, CHR 0x0D})"

definition digit_val :: "char \<Rightarrow> nat option" where
  "digit_val c = (let n = of_char c :: nat in
     if 48 \<le> n \<and> n \<le> 57 then Some (n - 48)
     else if 97 \<le> n \<and> n \<le> 102 then Some (n - 87)
     else if 65 \<le> n \<and> n \<le> 70 then Some (n - 55)
     else None)"

fun digits_acc :: "nat \<Rightarrow> nat \<Rightarrow> string \<Rightarrow> nat" where
  "digits_acc base acc [] = acc"
| "digits_acc base acc (c # cs) = (case digit_val c of
      Some d \<Rightarrow> if d < base then digits_acc base (acc * base + d) cs else acc
    | None \<Rightarrow> acc)"

text \<open>The sign of a numeral and the rest of the string, after leading white space.\<close>

definition split_sign :: "string \<Rightarrow> bool \<times> string" where
  "split_sign s = (case dropWhile c_isspace s of
      c # cs \<Rightarrow> if c = CHR ''-'' then (True, cs) else if c = CHR ''+'' then (False, cs) else (False, c # cs)
    | [] \<Rightarrow> (False, []))"

text \<open>
  \<^verbatim>\<open>atoi\<close> is \<^verbatim>\<open>(int) strtol (s, NULL, 10)\<close>: \<^verbatim>\<open>strtol\<close> saturates at the bounds of
  a 64-bit \<^verbatim>\<open>long\<close> and the conversion keeps the low 32 bits.
\<close>

definition atoi :: "string \<Rightarrow> int" where
  "atoi s = (let (neg, ds) = split_sign s; v = int (digits_acc 10 0 ds)
     in c_int (if neg then max (- v) (- (2 ^ 63)) else min v (2 ^ 63 - 1)))"

text \<open>
  \<^verbatim>\<open>strtoul (s, NULL, 0)\<close> stored in a \<^verbatim>\<open>uint32_t\<close>: a leading \<^verbatim>\<open>0x\<close> selects base 16 and a
  leading \<^verbatim>\<open>0\<close> base 8, the value saturates at 64 bits, a minus sign negates it modulo the
  word size.
\<close>

definition strtoul_base :: "nat \<Rightarrow> string \<Rightarrow> nat" where
  "strtoul_base base ds = (let
     hex = (length ds \<ge> 3 \<and> ds ! 0 = CHR ''0'' \<and> ds ! 1 \<in> {CHR ''x'', CHR ''X''}
            \<and> digit_val (ds ! 2) \<noteq> None)
     in if base = 0 then (if hex then digits_acc 16 0 (drop 2 ds)
                          else if ds \<noteq> [] \<and> hd ds = CHR ''0'' then digits_acc 8 0 ds
                          else digits_acc 10 0 ds)
        else if base = 16 then digits_acc 16 0 (if hex then drop 2 ds else ds)
        else digits_acc base 0 ds)"

definition strtoul :: "nat \<Rightarrow> string \<Rightarrow> u32" where
  "strtoul base s = (let (neg, ds) = split_sign s; v = strtoul_base base ds
     in if v \<ge> 2 ^ 64 then word_of_int (2 ^ 64 - 1)
        else if neg then - word_of_nat v else word_of_nat v)"

text \<open>The conversions of \<^verbatim>\<open>printf\<close> that the sources use: upper-case hexadecimal with at least
  \<^verbatim>\<open>n\<close> digits, and decimal padded on the left.\<close>

definition hex_digit :: "nat \<Rightarrow> char" where
  "hex_digit d = (''0123456789ABCDEF'' ! d)"

definition hex_str :: "nat \<Rightarrow> nat \<Rightarrow> string" where
  "hex_str n v = List.map (\<lambda>i. hex_digit (v div 16 ^ (n - 1 - i) mod 16)) [0..<n]"

fun dec_nat :: "nat \<Rightarrow> string" where
  "dec_nat n = (if n < 10 then [hex_digit n] else dec_nat (n div 10) @ [hex_digit (n mod 10)])"

definition dec_int :: "int \<Rightarrow> string" where
  "dec_int i = (if i < 0 then CHR ''-'' # dec_nat (nat (- i)) else dec_nat (nat i))"

definition pad_left :: "nat \<Rightarrow> string \<Rightarrow> string" where
  "pad_left n s = replicate (n - length s) CHR '' '' @ s"

declare dec_nat.simps [simp del]

lemmas c_string_simps = atoi_def split_sign_def c_isspace_def digit_val_def c_int_def
  strtoul_def strtoul_base_def

lemma atoi_example: "atoi ''  -12ab'' = -12" "atoi ''48'' = 48"
  by (simp_all add: c_string_simps)

lemma strtoul_example: "strtoul 0 ''0x80000004'' = 0x80000004" "strtoul 0 ''-1'' = 0xFFFFFFFF"
  by (simp_all add: c_string_simps)

lemma atoi_range: "- (2 ^ 31) \<le> atoi s" "atoi s < 2 ^ 31"
  by (simp_all only: atoi_def Let_def case_prod_unfold c_int_range)

section \<open>The state monad\<close>

text \<open>A C function that returns \<^verbatim>\<open>-1\<close> on failure, and the early return its callers make of it.\<close>

definition or_fail :: "('s, int) state \<Rightarrow> ('s, int) state \<Rightarrow> ('s, int) state" where
  "or_fail m k = do { r \<leftarrow> m; if r = -1 then State_Monad.return (-1) else k }"

lemma run_state_if [host_simps]:
  "run_state (if b then m else n) s = (if b then run_state m s else run_state n s)"
  by simp

lemma run_state_update [host_simps]: "run_state (State_Monad.update f) s = ((), f s)"
  by (simp add: State_Monad.update_def)

lemma run_state_or_fail [host_simps]:
  "run_state (or_fail m k) s = (case run_state m s of (r, s') \<Rightarrow>
     if r = -1 then (-1, s') else run_state k s')"
  by (simp add: or_fail_def split: prod.splits)

lemmas run_state_basic [host_simps] = State_Monad.run_state_bind State_Monad.run_state_return

lemma find_append: "find P (xs @ ys) = (case find P xs of None \<Rightarrow> find P ys | Some x \<Rightarrow> Some x)"
  by (induction xs) auto

end
