(* ===== verification/Lexer.thy ===== *)
theory Lexer
  imports Prelude
begin

text \<open>
  The tokens of the shell: the rules of \<^verbatim>\<open>jzboot/src/shell_lex.l\<close> under the longest-match
  discipline of flex, and the refilling of the scanner's buffer by \<^verbatim>\<open>shell_pull\<close>.  A string
  token carries \<^verbatim>\<open>yyextra->strval\<close>, which is null for an empty pair of quotes.
\<close>

datatype token = TOK_EOF | TOK_SEPARATOR | TOK_STRING "string option" | TOK_SPACE | TOK_COMMENT

definition str_append :: "string option \<Rightarrow> string \<Rightarrow> string option" where
  "str_append str src = (case str of Some s \<Rightarrow> Some (s @ src) | None \<Rightarrow> Some src)"

definition word_char :: "char \<Rightarrow> bool" where
  "word_char c = (\<not> c_isspace c \<and> c \<notin> {CHR '';'', CHR 0x22, CHR ''#''})"

text \<open>The start condition \<^verbatim>\<open>STR\<close>, after an opening quote: the value and the rest after the closing
  quote, or \<^verbatim>\<open>None\<close> when the buffer ends first.  A run of plain characters is appended one
  character at a time here, in one piece by the scanner.\<close>

fun lex_str :: "string option \<Rightarrow> string \<Rightarrow> (string option \<times> string) option" where
  "lex_str acc [] = None"
| "lex_str acc (c # cs) =
     (if c = CHR 0x22 then Some (acc, cs)
      else if c = CHR 0x5C then
        (case cs of
           [] \<Rightarrow> None
         | d # ds \<Rightarrow> if d = CHR 0x22 then lex_str (str_append acc [CHR 0x22]) ds
                     else lex_str (str_append acc [CHR 0x5C]) (d # ds))
      else lex_str (str_append acc [c]) cs)"

text \<open>One token from the buffer; \<^verbatim>\<open>None\<close> when the match reaches the end of the buffer and the
  input may go on.\<close>

definition lex_token :: "bool \<Rightarrow> string \<Rightarrow> (token \<times> string) option" where
  "lex_token eof buf = (case buf of
     [] \<Rightarrow> if eof then Some (TOK_EOF, []) else None
   | c # cs \<Rightarrow>
       if c = CHR 0x22 then
         (case lex_str None cs of
            Some (v, rest) \<Rightarrow> Some (TOK_STRING v, rest)
          | None \<Rightarrow> if eof then Some (TOK_EOF, []) else None)
       else if c = CHR '';'' then Some (TOK_SEPARATOR, cs)
       else if c = CHR ''#'' then Some (TOK_COMMENT, cs)
       else if c_isspace c then
         (let rest = dropWhile c_isspace buf in
          if rest = [] \<and> \<not> eof then None else Some (TOK_SPACE, rest))
       else
         (let rest = dropWhile word_char buf in
          if rest = [] \<and> \<not> eof then None else Some (TOK_STRING (Some (takeWhile word_char buf)), rest)))"

lemma lex_token_eof: "lex_token True buf \<noteq> None"
  by (auto simp: lex_token_def Let_def split: list.splits option.splits)

text \<open>
  \<^verbatim>\<open>yylex\<close> with its input: the scanner's buffer, whether the end of the input was seen, and
  the line that \<^verbatim>\<open>shell_pull\<close> takes from, \<^verbatim>\<open>None\<close> when \<^verbatim>\<open>ctx->line\<close> points to freed
  memory.  The last component says whether \<^verbatim>\<open>shell_pull\<close> read through such a pointer; the
  input then counts as ended.
\<close>

definition YY_READ_BUF_SIZE :: nat where "YY_READ_BUF_SIZE = 8192"

definition shell_pull :: "nat \<Rightarrow> string \<Rightarrow> string \<times> string" where
  "shell_pull maxlen line = (let n = (if length line < maxlen then length line else maxlen)
     in (take n line, drop n line))"

lemma shell_pull_less: "shell_pull YY_READ_BUF_SIZE l = (got, l') \<Longrightarrow> got \<noteq> [] \<Longrightarrow> length l' < length l"
  by (auto simp: shell_pull_def YY_READ_BUF_SIZE_def Let_def split: if_splits)

function yylex :: "string \<Rightarrow> bool \<Rightarrow> string option \<Rightarrow> token \<times> string \<times> bool \<times> string option \<times> bool" where
  "yylex buf eof line = (case lex_token eof buf of
     Some (tok, rest) \<Rightarrow> (tok, rest, eof, line, False)
   | None \<Rightarrow> (case line of
       None \<Rightarrow> (TOK_EOF, [], True, None, True)
     | Some l \<Rightarrow> (case shell_pull YY_READ_BUF_SIZE l of
         (got, l') \<Rightarrow> if got = [] then yylex buf True (Some l') else yylex (buf @ got) eof (Some l'))))"
  by pat_completeness auto

termination
proof (relation "measures [\<lambda>(buf, eof, line). case line of None \<Rightarrow> 0 | Some l \<Rightarrow> length l,
    \<lambda>(buf, eof, line). if eof then 0 else 1]", goal_cases)
  case (2 buf eof line l got l')
  then have "eof = False" using lex_token_eof by (cases eof) auto
  moreover have "length l' \<le> length l" using 2 by (auto simp: shell_pull_def Let_def split: if_splits)
  ultimately show ?case using 2 by auto
next
  case (3 buf eof line l got l')
  then show ?case using shell_pull_less [of l got l'] by auto
qed simp

declare yylex.simps [simp del]

section \<open>Scanning a line that is not freed\<close>

text \<open>The tokens of a complete line.\<close>

lemma lex_str_progress: "lex_str acc cs = Some (v, rest) \<Longrightarrow> length rest < length cs"
proof (induction acc cs rule: lex_str.induct)
  case (2 acc c cs)
  show ?case
  proof (cases "c = CHR 0x5C")
    case True
    with 2 show ?thesis by (auto split: list.splits if_splits)
  next
    case False
    with 2 show ?thesis by (auto split: if_splits)
  qed
qed simp

lemma lex_token_progress:
  "lex_token eof buf = Some (tok, rest) \<Longrightarrow> tok \<noteq> TOK_EOF \<Longrightarrow> length rest < length buf"
proof -
  have *: "length (dropWhile P (c # cs)) < Suc (length cs)" if "P c" for P and c :: char and cs
    using that length_dropWhile_le [of P cs] by simp
  assume "lex_token eof buf = Some (tok, rest)" "tok \<noteq> TOK_EOF"
  then show ?thesis
    using * [of c_isspace] * [of word_char]
    by (auto simp: lex_token_def Let_def word_char_def dest!: lex_str_progress split: list.splits option.splits if_splits
        simp del: dropWhile.simps)
qed

lemma yylex_progress:
  "yylex buf eof line = (tok, buf', eof', line', bad) \<Longrightarrow> tok \<noteq> TOK_EOF \<Longrightarrow>
     length buf' + (case line' of None \<Rightarrow> 0 | Some l \<Rightarrow> length l)
       < length buf + (case line of None \<Rightarrow> 0 | Some l \<Rightarrow> length l)"
proof (induction buf eof line rule: yylex.induct)
  case (1 buf eof line)
  show ?case
  proof (cases "lex_token eof buf")
    case (Some p)
    then show ?thesis
      using 1(3,4) lex_token_progress by (cases p) (auto simp: yylex.simps [of buf])
  next
    case None
    then obtain l where l: "line = Some l"
      using 1(3,4) by (cases line) (auto simp: yylex.simps [of buf])
    obtain got l' where p: "shell_pull YY_READ_BUF_SIZE l = (got, l')" by force
    then have len: "length got + length l' = length l"
      by (auto simp: shell_pull_def Let_def)
    show ?thesis
    proof (cases "got = []")
      case True
      then have "yylex buf True (Some l') = (tok, buf', eof', line', bad)"
        using 1(3) None l p by (simp add: yylex.simps [of buf eof])
      from 1(1) [OF None l p [symmetric] True this 1(4)] show ?thesis using l len by simp
    next
      case False
      then have "yylex (buf @ got) eof (Some l') = (tok, buf', eof', line', bad)"
        using 1(3) None l p by (simp add: yylex.simps [of buf eof])
      from 1(2) [OF None l p [symmetric] False this 1(4)] show ?thesis using l len by simp
    qed
  qed
qed

end
