(* ===== verification/Config.thy ===== *)
theory Config
  imports Prelude
begin

text \<open>
  The environment of \<^verbatim>\<open>jzboot/src/config.c\<close>: the null-terminated array \<^verbatim>\<open>cfg_environ\<close>
  of strings \<^verbatim>\<open>VAR=value\<close>, its lookup, removal and update.  \<^verbatim>\<open>environ_map\<close> is the
  finite map the array stands for, and the operations are shown to implement the map
  operations.  The locale \<^verbatim>\<open>env_store\<close> is the contract the other components rely on.
\<close>

section \<open>State and operations\<close>

text \<open>\<^verbatim>\<open>cfg_environ\<close>: \<^verbatim>\<open>None\<close> is the null pointer, \<^verbatim>\<open>Some es\<close> an array of the entries
  \<^verbatim>\<open>es\<close> followed by the terminating null.\<close>

type_synonym environ = "string list option"

definition entries :: "environ \<Rightarrow> string list" where
  "entries env = (case env of None \<Rightarrow> [] | Some es \<Rightarrow> es)"

definition env_size :: "environ \<Rightarrow> nat" where
  "env_size env = length (entries env)"

text \<open>The test \<^verbatim>\<open>sep - str == len && memcmp (str, variable, len) == 0\<close> of every loop.\<close>

definition var_match :: "string \<Rightarrow> string \<Rightarrow> bool" where
  "var_match variable str = (case strchr str CHR ''='' of
      None \<Rightarrow> False
    | Some sep \<Rightarrow> sep = length variable \<and> take (length variable) str = variable)"

fun getenv_loop :: "string \<Rightarrow> string list \<Rightarrow> string option" where
  "getenv_loop variable [] = None"
| "getenv_loop variable (str # rest) =
     (if var_match variable str then Some (drop (length variable + 1) str)
      else getenv_loop variable rest)"

definition cfg_getenv :: "environ \<Rightarrow> string \<Rightarrow> string option" where
  "cfg_getenv env variable = (case env of None \<Rightarrow> None | Some es \<Rightarrow> getenv_loop variable es)"

text \<open>
  The byte-wise ascending copy of \<^verbatim>\<open>n\<close> array cells that the C library's \<^verbatim>\<open>memcpy\<close> makes,
  with the condition under which the C standard leaves its result undefined.
\<close>

fun memcpy_cells :: "nat \<Rightarrow> nat \<Rightarrow> nat \<Rightarrow> 'a list \<Rightarrow> 'a list" where
  "memcpy_cells dst src 0 xs = xs"
| "memcpy_cells dst src (Suc n) xs = memcpy_cells (Suc dst) (Suc src) n (xs[dst := xs ! src])"

definition overlaps :: "nat \<Rightarrow> nat \<Rightarrow> nat \<Rightarrow> bool" where
  "overlaps dst src n = (dst < src + n \<and> src < dst + n)"

text \<open>The array with its terminator, and the entries before the first null.\<close>

definition env_cells :: "string list \<Rightarrow> string option list" where
  "env_cells es = List.map Some es @ [None]"

fun cells_entries :: "string option list \<Rightarrow> string list" where
  "cells_entries (Some e # cs) = e # cells_entries cs"
| "cells_entries _ = []"

fun find_var :: "string \<Rightarrow> nat \<Rightarrow> string list \<Rightarrow> nat option" where
  "find_var variable i [] = None"
| "find_var variable i (str # rest) =
     (if var_match variable str then Some i else find_var variable (Suc i) rest)"

text \<open>\<^verbatim>\<open>cfg_unsetenv\<close>: the new array, and whether its \<^verbatim>\<open>memcpy\<close> was called on overlapping
  regions, which is undefined behaviour.\<close>

definition cfg_unsetenv :: "string \<Rightarrow> environ \<Rightarrow> environ \<times> bool" where
  "cfg_unsetenv variable env = (let size = env_size env in
     if size = 0 then (env, False)
     else (case find_var variable 0 (entries env) of
         None \<Rightarrow> (env, False)
       | Some i \<Rightarrow>
           (Some (cells_entries (take size (memcpy_cells i (i + 1) (size - i) (env_cells (entries env))))),
            overlaps i (i + 1) (size - i))))"

definition cfg_setenv :: "string \<Rightarrow> string \<Rightarrow> environ \<Rightarrow> environ" where
  "cfg_setenv variable newval env = (let size = env_size env; newstr = variable @ ''='' @ newval in
     case (if size > 0 then find_var variable 0 (entries env) else None) of
         Some i \<Rightarrow> Some ((entries env)[i := newstr])
       | None \<Rightarrow> Some (entries env @ [newstr]))"

section \<open>The map the array stands for\<close>

definition entry_name :: "string \<Rightarrow> string" where
  "entry_name str = takeWhile (\<lambda>c. c \<noteq> CHR ''='') str"

definition entry_value :: "string \<Rightarrow> string" where
  "entry_value str = drop (length (entry_name str) + 1) str"

definition environ_map :: "environ \<Rightarrow> string \<Rightarrow> string option" where
  "environ_map env = map_of (List.map (\<lambda>str. (entry_name str, entry_value str)) (entries env))"

text \<open>Every entry has a separator and no name occurs twice: what \<^verbatim>\<open>cfg_setenv\<close> maintains for
  names without \<^verbatim>\<open>=\<close>.\<close>

definition env_wf :: "environ \<Rightarrow> bool" where
  "env_wf env = ((\<forall>str \<in> set (entries env). CHR ''='' \<in> set str) \<and> distinct (List.map entry_name (entries env)))"

definition name_ok :: "string \<Rightarrow> bool" where
  "name_ok variable = (CHR ''='' \<notin> set variable)"

lemma entries_simps [simp]: "entries None = []" "entries (Some es) = es"
  by (simp_all add: entries_def)

lemma strchr_takeWhile: "c \<in> set s \<Longrightarrow> strchr s c = Some (length (takeWhile (\<lambda>x. x \<noteq> c) s))"
  by (induction s) auto

lemma var_match_iff:
  "var_match variable str \<longleftrightarrow> CHR ''='' \<in> set str \<and> entry_name str = variable"
proof (cases "CHR ''='' \<in> set str")
  case True
  have t: "take (length (entry_name str)) str = entry_name str"
    unfolding entry_name_def by (metis takeWhile_eq_take)
  have s: "strchr str CHR ''='' = Some (length (entry_name str))"
    using strchr_takeWhile [OF True] by (simp add: entry_name_def)
  show ?thesis unfolding var_match_def s option.case using True t by metis
next
  case False
  then have "strchr str CHR ''='' = None" by (simp add: strchr_None_iff)
  with False show ?thesis by (simp add: var_match_def)
qed

lemma name_ok_entry: "name_ok (entry_name str)"
  using set_takeWhileD by (fastforce simp: name_ok_def entry_name_def)

lemma entry_name_new [simp]: "name_ok v \<Longrightarrow> entry_name (v @ CHR ''='' # x) = v"
  by (simp add: entry_name_def name_ok_def takeWhile_append2 takeWhile_append)

lemma entry_value_new [simp]: "name_ok v \<Longrightarrow> entry_value (v @ CHR ''='' # x) = x"
  by (simp add: entry_value_def)

lemma find_var_None:
  "find_var v i es = None \<longleftrightarrow> (\<forall>str \<in> set es. \<not> var_match v str)"
  by (induction es arbitrary: i) auto

lemma find_var_Some:
  "find_var v i es = Some j \<Longrightarrow> i \<le> j \<and> j < i + length es \<and> var_match v (es ! (j - i))
     \<and> (\<forall>k < j - i. \<not> var_match v (es ! k))"
proof (induction es arbitrary: i)
  case (Cons e es)
  show ?case
  proof (cases "var_match v e")
    case True
    then show ?thesis using Cons.prems by simp
  next
    case False
    then have "find_var v (Suc i) es = Some j" using Cons.prems by simp
    from Cons.IH [OF this] obtain m where m: "j = Suc i + m"
      by (metis le_Suc_ex)
    with Cons.IH [OF \<open>find_var v (Suc i) es = Some j\<close>] False show ?thesis
      by (auto simp: nth_Cons split: nat.splits)
  qed
qed simp

lemma memcpy_cells_shift:
  "length pre = dst \<Longrightarrow> length xs = n
    \<Longrightarrow> memcpy_cells dst (Suc dst) n (pre @ x # xs) = pre @ xs @ [last (x # xs)]"
proof (induction n arbitrary: pre dst x xs)
  case (Suc n)
  then obtain y ys where xs: "xs = y # ys" "length ys = n" by (cases xs) auto
  have "(pre @ x # xs)[dst := (pre @ x # xs) ! Suc dst] = (pre @ [y]) @ y # ys"
    using Suc.prems xs by (simp add: list_update_append nth_append)
  with Suc.IH [of "pre @ [y]" "Suc dst" ys y] Suc.prems xs show ?case
    by simp
qed simp

lemma cells_entries_Some: "cells_entries (List.map Some es @ [None]) = es"
  by (induction es) auto

text \<open>The copy shifts the tail of the array, terminator included, over the removed entry.\<close>

lemma cfg_unsetenv_shift:
  assumes "i < length es"
  shows "cells_entries (take (length es) (memcpy_cells i (i + 1) (length es - i) (env_cells es)))
           = take i es @ drop (Suc i) es"
proof -
  let ?pre = "List.map Some (take i es)" and ?rest = "List.map Some (drop (Suc i) es) @ [None]"
  have es: "env_cells es = ?pre @ Some (es ! i) # ?rest"
    using assms by (simp add: env_cells_def flip: id_take_nth_drop) (metis id_take_nth_drop list.simps(9) map_append)
  have "memcpy_cells i (Suc i) (length es - i) (env_cells es)
      = ?pre @ ?rest @ [last (Some (es ! i) # ?rest)]"
    unfolding es by (rule memcpy_cells_shift) (use assms in auto)
  then have "take (length es) (memcpy_cells i (i + 1) (length es - i) (env_cells es))
      = List.map Some (take i es @ drop (Suc i) es) @ [None]"
    using assms by simp
  then show ?thesis by (simp only: cells_entries_Some)
qed

section \<open>Refinement of the map\<close>

lemma getenv_loop_map:
  "(\<forall>str \<in> set es. CHR ''='' \<in> set str) \<Longrightarrow>
     getenv_loop v es = map_of (List.map (\<lambda>str. (entry_name str, entry_value str)) es) v"
  by (induction es) (auto simp: var_match_iff entry_value_def)

lemma cfg_getenv_map: "env_wf env \<Longrightarrow> cfg_getenv env v = environ_map env v"
  by (cases env) (auto simp: cfg_getenv_def environ_map_def env_wf_def getenv_loop_map)

lemma cfg_getenv_bad_name: "\<not> name_ok v \<Longrightarrow> cfg_getenv env v = None"
proof (cases env)
  case (Some es)
  assume "\<not> name_ok v"
  then have "\<not> var_match v str" for str
    using name_ok_entry by (auto simp: var_match_iff)
  then have "getenv_loop v es = None" by (induction es) auto
  with Some show ?thesis by (simp add: cfg_getenv_def)
qed (simp add: cfg_getenv_def)

text \<open>The result of the search loop, on a well-formed array.\<close>

lemma find_var_wf_Some:
  assumes "env_wf env" "find_var v 0 (entries env) = Some i"
  shows "i < length (entries env)" "entry_name (entries env ! i) = v"
    "\<And>k. k < length (entries env) \<Longrightarrow> entry_name (entries env ! k) = v \<Longrightarrow> k = i"
proof -
  show i: "i < length (entries env)" and v: "entry_name (entries env ! i) = v"
    using find_var_Some [OF assms(2)] by (auto simp: var_match_iff)
  fix k assume "k < length (entries env)" "entry_name (entries env ! k) = v"
  with i v assms(1) show "k = i"
    by (auto simp: env_wf_def distinct_conv_nth)
qed

lemma find_var_wf_None:
  "env_wf env \<Longrightarrow> find_var v 0 (entries env) = None
    \<longleftrightarrow> v \<notin> set (List.map entry_name (entries env))"
  by (auto simp: find_var_None env_wf_def var_match_iff)

lemma environ_map_None: "\<forall>str \<in> set (entries env). entry_name str \<noteq> n \<Longrightarrow> environ_map env n = None"
  by (auto simp: environ_map_def map_of_eq_None_iff)

lemma environ_map_wf:
  assumes "env_wf env" "i < length (entries env)"
  shows "environ_map env (entry_name (entries env ! i)) = Some (entry_value (entries env ! i))"
proof -
  have "distinct (List.map fst (List.map (\<lambda>str. (entry_name str, entry_value str)) (entries env)))"
    using assms(1) by (simp add: env_wf_def o_def)
  then show ?thesis unfolding environ_map_def
    by (rule map_of_is_SomeI) (use assms(2) in auto)
qed

lemma cfg_setenv_cases:
  assumes "env_wf env"
  obtains (replace) i where "find_var v 0 (entries env) = Some i" "i < length (entries env)"
      "cfg_setenv v x env = Some ((entries env)[i := v @ CHR ''='' # x])"
  | (append) "v \<notin> set (List.map entry_name (entries env))"
      "cfg_setenv v x env = Some (entries env @ [v @ CHR ''='' # x])"
proof (cases "find_var v 0 (entries env)")
  case None
  then have "v \<notin> set (List.map entry_name (entries env))"
    using find_var_wf_None [OF assms] by blast
  moreover from None have "cfg_setenv v x env = Some (entries env @ [v @ CHR ''='' # x])"
    by (simp add: cfg_setenv_def Let_def)
  ultimately show ?thesis by (rule append)
next
  case (Some i)
  note i = find_var_wf_Some(1) [OF assms Some]
  with Some have "cfg_setenv v x env = Some ((entries env)[i := v @ CHR ''='' # x])"
    by (auto simp: cfg_setenv_def env_size_def Let_def)
  from replace [OF Some i this] show ?thesis .
qed

lemma map_update_names:
  "i < length es \<Longrightarrow> entry_name (es ! i) = entry_name e
    \<Longrightarrow> List.map entry_name (es[i := e]) = List.map entry_name es"
  by (metis list_update_id map_update nth_map)

lemma map_of_pairs_append:
  "map_of (List.map (\<lambda>str. (entry_name str, entry_value str)) (es @ [e])) n =
     (case map_of (List.map (\<lambda>str. (entry_name str, entry_value str)) es) n of
        None \<Rightarrow> if n = entry_name e then Some (entry_value e) else None | Some y \<Rightarrow> Some y)"
  by (auto simp: map_add_def split: option.splits)

lemma all_update: "\<forall>x \<in> set xs. P x \<Longrightarrow> P y \<Longrightarrow> \<forall>x \<in> set (xs[i := y]). P x"
  using set_update_subset_insert [of xs i y] by blast

lemma cfg_setenv_wf:
  assumes "env_wf env" "name_ok v"
  shows "env_wf (cfg_setenv v x env)"
proof (cases rule: cfg_setenv_cases [OF assms(1), where v=v and x=x, case_names replace append])
  case (replace i)
  then have "entry_name (entries env ! i) = entry_name (v @ CHR ''='' # x)"
    using find_var_wf_Some(2) [OF assms(1) replace(1)] assms(2) by simp
  note names = map_update_names [OF replace(2) this]
  show ?thesis unfolding env_wf_def replace(3) entries_simps names
    using assms(1) by (intro conjI all_update) (auto simp: env_wf_def)
next
  case append
  with assms show ?thesis by (auto simp: env_wf_def)
qed

lemma cfg_setenv_map:
  assumes "env_wf env" "name_ok v"
  shows "environ_map (cfg_setenv v x env) = (environ_map env)(v \<mapsto> x)"
proof
  fix n
  let ?e = "v @ CHR ''='' # x"
  note wf' = cfg_setenv_wf [OF assms, of x]
  show "environ_map (cfg_setenv v x env) n = ((environ_map env)(v \<mapsto> x)) n"
  proof (cases rule: cfg_setenv_cases [OF assms(1), where v=v and x=x, case_names replace append])
    case (replace i)
    note i = find_var_wf_Some(2,3) [OF assms(1) replace(1)]
    show ?thesis
    proof (cases "n \<in> set (List.map entry_name (entries env))")
      case True
      then obtain k where k: "k < length (entries env)" "entry_name (entries env ! k) = n"
        by (auto simp: in_set_conv_nth)
      show ?thesis
      proof (cases "k = i")
        case True
        with environ_map_wf [OF wf', of i] k i(1) replace(2,3) assms(2) show ?thesis by simp
      next
        case False
        with i(2) [OF k(1)] k(2) have "n \<noteq> v" by blast
        with False environ_map_wf [OF wf', of k] environ_map_wf [OF assms(1), of k] k replace(3)
        show ?thesis by simp
      qed
    next
      case False
      then have "n \<noteq> v" using i(1) replace(2) by force
      moreover have "\<forall>str \<in> set ((entries env)[i := ?e]). entry_name str \<noteq> n"
        by (rule all_update) (use False \<open>n \<noteq> v\<close> assms(2) in auto)
      then have "environ_map (cfg_setenv v x env) n = None"
        by (intro environ_map_None) (simp add: replace(3))
      moreover have "environ_map env n = None"
        by (rule environ_map_None) (use False in auto)
      ultimately show ?thesis by simp
    qed
  next
    case append
    then have "environ_map env v = None"
      by (auto simp: environ_map_def map_of_eq_None_iff)
    with append assms(2) show ?thesis
      unfolding append(2) environ_map_def entries_simps map_of_pairs_append
      by (auto simp: environ_map_def split: option.splits)
  qed
qed

lemma cfg_unsetenv_entries:
  assumes "env_wf env"
  shows "entries (fst (cfg_unsetenv v env)) = filter (\<lambda>str. entry_name str \<noteq> v) (entries env)"
proof (cases "find_var v 0 (entries env)")
  case None
  then have "\<forall>str \<in> set (entries env). entry_name str \<noteq> v"
    using find_var_wf_None [OF assms] by auto
  with None show ?thesis by (simp add: cfg_unsetenv_def Let_def)
next
  case (Some i)
  let ?es = "entries env"
  note i = find_var_wf_Some [OF assms Some]
  have ne: "\<forall>str \<in> set (take i ?es @ drop (Suc i) ?es). entry_name str \<noteq> v"
  proof
    fix str assume "str \<in> set (take i ?es @ drop (Suc i) ?es)"
    then obtain k where "k < length ?es" "k \<noteq> i" "str = ?es ! k"
      by (auto simp: in_set_conv_nth)
        (metis Suc_n_not_le_n add.commute add_Suc_right le_add1 less_diff_conv)
    with i(3) show "entry_name str \<noteq> v" by blast
  qed
  have "filter (\<lambda>str. entry_name str \<noteq> v) ?es
      = filter (\<lambda>str. entry_name str \<noteq> v) (take i ?es @ ?es ! i # drop (Suc i) ?es)"
    using i(1) by (simp flip: id_take_nth_drop)
  also have "\<dots> = take i ?es @ drop (Suc i) ?es"
    using ne i(2) by (auto simp: filter_id_conv)
  finally show ?thesis
    using Some i(1) cfg_unsetenv_shift [OF i(1)]
    by (auto simp: cfg_unsetenv_def env_size_def Let_def)
qed

lemma map_of_pairs_filter:
  "map_of (List.map (\<lambda>str. (entry_name str, entry_value str)) (filter (\<lambda>str. entry_name str \<noteq> v) es)) n
     = (if n = v then None else map_of (List.map (\<lambda>str. (entry_name str, entry_value str)) es) n)"
  by (induction es) auto

lemma cfg_unsetenv_map:
  "env_wf env \<Longrightarrow> environ_map (fst (cfg_unsetenv v env)) = (environ_map env)(v := None)"
  by (rule ext) (simp add: environ_map_def cfg_unsetenv_entries map_of_pairs_filter)

lemma cfg_unsetenv_wf: "env_wf env \<Longrightarrow> env_wf (fst (cfg_unsetenv v env))"
  by (simp add: env_wf_def cfg_unsetenv_entries distinct_map_filter)

lemma overlaps_shift: "overlaps i (i + 1) (n - i) \<longleftrightarrow> i + 1 < n"
  by (auto simp: overlaps_def)

section \<open>The contract of the environment\<close>

text \<open>A removal also tells whether its result is undefined; the laws hold for the others.\<close>

locale env_store =
  fixes get :: "'e \<Rightarrow> string \<Rightarrow> string option"
    and put :: "string \<Rightarrow> string \<Rightarrow> 'e \<Rightarrow> 'e"
    and del :: "string \<Rightarrow> 'e \<Rightarrow> 'e \<times> bool"
    and inv :: "'e \<Rightarrow> bool"
  assumes inv_put: "inv e \<Longrightarrow> name_ok v \<Longrightarrow> inv (put v x e)"
    and inv_del: "inv e \<Longrightarrow> \<not> snd (del v e) \<Longrightarrow> inv (fst (del v e))"
    and get_put: "inv e \<Longrightarrow> name_ok v \<Longrightarrow> get (put v x e) n = (if n = v then Some x else get e n)"
    and get_del: "inv e \<Longrightarrow> \<not> snd (del v e) \<Longrightarrow> get (fst (del v e)) n = (if n = v then None else get e n)"
begin

text \<open>Setting a list of variables, as a script of \<^verbatim>\<open>set\<close> commands does.\<close>

lemma inv_puts: "inv e \<Longrightarrow> \<forall>(v, x) \<in> set ps. name_ok v \<Longrightarrow> inv (fold (\<lambda>(v, x). put v x) ps e)"
  by (induction ps arbitrary: e) (auto simp: inv_put)

lemma get_puts:
  "inv e \<Longrightarrow> \<forall>(v, x) \<in> set ps. name_ok v
    \<Longrightarrow> get (fold (\<lambda>(v, x). put v x) ps e) n = (case map_of (rev ps) n of Some x \<Rightarrow> Some x | None \<Rightarrow> get e n)"
proof (induction ps rule: rev_induct)
  case (snoc p ps)
  obtain v x where "p = (v, x)" by (cases p)
  with snoc inv_puts [of e ps] show ?case by (auto simp: get_put split: option.splits)
qed simp

lemma put_put_get: "inv e \<Longrightarrow> name_ok v \<Longrightarrow> get (put v y (put v x e)) = get (put v y e)"
  by (rule ext) (simp add: get_put inv_put)

lemma del_put_get:
  "inv e \<Longrightarrow> name_ok v \<Longrightarrow> \<not> snd (del v (put v x e)) \<Longrightarrow> \<not> snd (del v e) \<Longrightarrow> get (fst (del v (put v x e))) = get (fst (del v e))"
  by (rule ext) (simp add: get_put get_del inv_put)

end

interpretation cfg: env_store cfg_getenv cfg_setenv cfg_unsetenv env_wf
proof unfold_locales
  fix e :: environ and v x n :: string
  assume e: "env_wf e"
  show "env_wf (fst (cfg_unsetenv v e))" using e by (rule cfg_unsetenv_wf)
  show "cfg_getenv (fst (cfg_unsetenv v e)) n = (if n = v then None else cfg_getenv e n)"
    using e by (simp add: cfg_getenv_map cfg_unsetenv_wf cfg_unsetenv_map)
  assume v: "name_ok v"
  show "env_wf (cfg_setenv v x e)" using e v by (rule cfg_setenv_wf)
  show "cfg_getenv (cfg_setenv v x e) n = (if n = v then Some x else cfg_getenv e n)"
    using e v by (simp add: cfg_getenv_map cfg_setenv_wf cfg_setenv_map)
qed

section \<open>Properties\<close>

lemma find_var_bad_name: "\<not> name_ok v \<Longrightarrow> find_var v i es = None"
  using name_ok_entry by (auto simp: find_var_None var_match_iff)

lemma snd_unsetenv:
  "snd (cfg_unsetenv v env) =
     (case find_var v 0 (entries env) of None \<Rightarrow> False | Some i \<Rightarrow> i + 1 < length (entries env))"
  by (auto simp: cfg_unsetenv_def Let_def env_size_def overlaps_def split: option.splits)

text \<open>\<^verbatim>\<open>cfg_unsetenv\<close> calls \<^verbatim>\<open>memcpy\<close> on overlapping regions, which is undefined in C,
  exactly when the variable it removes is not the last entry of the array.\<close>

theorem unsetenv_overlap_iff:
  assumes "env_wf env"
  shows "snd (cfg_unsetenv v env) \<longleftrightarrow>
     (\<exists>i. i + 1 < length (entries env) \<and> entry_name (entries env ! i) = v)"
proof (cases "find_var v 0 (entries env)")
  case None
  then have "v \<notin> set (List.map entry_name (entries env))"
    using find_var_wf_None [OF assms] by blast
  then have "entry_name (entries env ! k) \<noteq> v" if "k < length (entries env)" for k
    using that by (metis length_map nth_map nth_mem)
  then have "\<not> (\<exists>i. i + 1 < length (entries env) \<and> entry_name (entries env ! i) = v)"
    by (metis add_lessD1)
  with None show ?thesis by (simp add: snd_unsetenv)
next
  case (Some i)
  note i = find_var_wf_Some [OF assms Some]
  have "(\<exists>k. k + 1 < length (entries env) \<and> entry_name (entries env ! k) = v)
      \<longleftrightarrow> i + 1 < length (entries env)"
    using i(2) i(3) by (metis add_lessD1)
  with Some show ?thesis by (simp add: snd_unsetenv)
qed

lemma unsetenv_overlap_iff_witness:
  "snd (cfg_unsetenv ''CPU'' (Some [''CPU=4740'', ''EXTCLK=12'']))
   \<and> \<not> snd (cfg_unsetenv ''EXTCLK'' (Some [''CPU=4740'', ''EXTCLK=12'']))"
  using unsetenv_overlap_iff [of "Some [''CPU=4740'', ''EXTCLK=12'']" "''CPU''"]
    unsetenv_overlap_iff [of "Some [''CPU=4740'', ''EXTCLK=12'']" "''EXTCLK''"]
  by (auto simp: env_wf_def entry_name_def)

text \<open>C5.  The environment array implements a finite map, as far as the operations are defined: on a well-formed array a lookup
  returns the map's value, and setting a variable whose name has no \<^verbatim>\<open>=\<close> updates the map at that
  name only and keeps the array well-formed.  Unsetting the last variable, or one that is not set, removes exactly that name and keeps the array
  well-formed; unsetting any other variable calls \<^verbatim>\<open>memcpy\<close> on overlapping regions, which is undefined in C, and nothing is claimed
  about the array then.\<close>

theorem environ_refines_map:
  "env_wf env \<Longrightarrow>
     cfg_getenv env n = environ_map env n
   \<and> (name_ok v \<longrightarrow> env_wf (cfg_setenv v x env)
        \<and> environ_map (cfg_setenv v x env) = (environ_map env)(v \<mapsto> x))
   \<and> (snd (cfg_unsetenv v env) \<longleftrightarrow> (\<exists>i. i + 1 < length (entries env) \<and> entry_name (entries env ! i) = v))
   \<and> (\<not> snd (cfg_unsetenv v env) \<longrightarrow> env_wf (fst (cfg_unsetenv v env))
        \<and> environ_map (fst (cfg_unsetenv v env)) = (environ_map env)(v := None))"
  by (simp add: cfg_getenv_map cfg_setenv_wf cfg_setenv_map cfg_unsetenv_wf cfg_unsetenv_map unsetenv_overlap_iff)

lemma environ_refines_map_witness:
  "environ_map (cfg_setenv ''CPU'' ''4760'' (Some [''CPU=4740'', ''EXTCLK=12''])) ''CPU'' = Some ''4760''
   \<and> snd (cfg_unsetenv ''CPU'' (Some [''CPU=4740'', ''EXTCLK=12'']))
   \<and> environ_map (fst (cfg_unsetenv ''EXTCLK'' (Some [''CPU=4740'', ''EXTCLK=12'']))) ''EXTCLK'' = None"
proof -
  let ?env = "Some [''CPU=4740'', ''EXTCLK=12'']"
  have wf: "env_wf ?env" by (simp add: env_wf_def entry_name_def)
  have "\<not> (\<exists>i. i + 1 < length (entries ?env) \<and> entry_name (entries ?env ! i) = ''EXTCLK'')"
    by (simp add: entry_name_def)
  then show ?thesis
    using environ_refines_map [OF wf, of "''CPU''" "''CPU''" "''4760''"] environ_refines_map [OF wf, of "''EXTCLK''" "''EXTCLK''"]
    by (auto simp: name_ok_def entry_name_def)
qed

text \<open>A variable whose name contains \<^verbatim>\<open>=\<close> can be set but never found: every \<^verbatim>\<open>cfg_setenv\<close>
  of it appends one more entry, and every lookup of it fails.\<close>

theorem setenv_bad_name:
  assumes "\<not> name_ok v"
  shows "entries (cfg_setenv v x env) = entries env @ [v @ ''='' @ x]
       \<and> cfg_getenv (cfg_setenv v x env) v = None"
  using assms by (simp add: cfg_getenv_bad_name cfg_setenv_def find_var_bad_name Let_def)

lemma setenv_bad_name_witness:
  "length (entries (cfg_setenv ''A=B'' ''1'' (cfg_setenv ''A=B'' ''0'' None))) = 2
   \<and> cfg_getenv (cfg_setenv ''A=B'' ''1'' (cfg_setenv ''A=B'' ''0'' None)) ''A=B'' = None"
  using setenv_bad_name [of "''A=B''" "''1''" "cfg_setenv ''A=B'' ''0'' None"]
    setenv_bad_name [of "''A=B''" "''0''" None]
  by (simp add: name_ok_def)

end
