(* ===== verification/Codec.thy ===== *)
theory Codec
  imports Prelude
begin

unbundle bit_operations_syntax

text \<open>
  Fixed-width encodings of the packed structures the host and the device exchange.  The
  locale \<^verbatim>\<open>codec\<close> is the contract of an encoder of a fixed number of bytes and its
  decoder; \<^verbatim>\<open>codec_onto\<close> adds that every byte string of that length is an encoding.  The
  machine integers are interpreted here, the structures in the theories that declare them.
\<close>

locale codec =
  fixes enc :: "'a \<Rightarrow> bytes" and dec :: "bytes \<Rightarrow> 'a" and sz :: nat
  assumes length_enc: "length (enc x) = sz"
    and dec_enc: "dec (enc x) = x"
begin

lemma enc_inject: "enc x = enc y \<longleftrightarrow> x = y"
  by (metis dec_enc)

lemma dec_take: "dec (take sz (enc x @ bs)) = x"
  by (simp add: length_enc dec_enc)

lemma dec_slice: "length pre = i \<Longrightarrow> dec (slice i sz (pre @ enc x @ bs)) = x"
  by (simp add: slice_def length_enc dec_enc)

lemma dec_put_at: "i \<le> length bs \<Longrightarrow> dec (slice i sz (put_at i (enc x) bs)) = x"
  using slice_put_at_same [of i bs "enc x"] by (simp add: length_enc dec_enc)

lemma length_encs: "length (concat (map enc xs)) = sz * length xs"
  by (induction xs) (simp_all add: length_enc)

lemma dec_encs:
  "i < length xs \<Longrightarrow> dec (slice (sz * i) sz (concat (map enc xs))) = xs ! i"
proof (induction xs arbitrary: i)
  case (Cons x xs)
  show ?case
  proof (cases i)
    case 0
    then show ?thesis by (simp add: length_enc dec_enc)
  next
    case (Suc j)
    then have "slice (sz * i) sz (concat (map enc (x # xs))) = slice (sz * j) sz (concat (map enc xs))"
      by (simp add: slice_def length_enc)
    with Cons Suc show ?thesis by simp
  qed
qed simp

lemma encs_inject:
  "0 < sz \<Longrightarrow> concat (map enc xs) = concat (map enc ys) \<longleftrightarrow> xs = ys"
proof
  assume "0 < sz" and eq: "concat (map enc xs) = concat (map enc ys)"
  then have len: "length xs = length ys"
    by (metis length_encs nat_mult_eq_cancel1)
  show "xs = ys"
    by (rule nth_equalityI) (use len dec_encs eq in metis)+
qed simp

end

locale codec_onto = codec +
  assumes enc_dec: "length bs = sz \<Longrightarrow> enc (dec bs) = bs"
begin

lemma enc_surj: "length bs = sz \<Longrightarrow> \<exists>x. enc x = bs"
  using enc_dec by blast

lemma dec_inject: "length bs = sz \<Longrightarrow> length cs = sz \<Longrightarrow> dec bs = dec cs \<longleftrightarrow> bs = cs"
  by (metis enc_dec)

end

section \<open>Machine integers\<close>

definition enc_u8 :: "u8 \<Rightarrow> bytes" where
  "enc_u8 w = [w]"

definition dec_u8 :: "bytes \<Rightarrow> u8" where
  "dec_u8 bs = hd bs"

definition enc_u16 :: "u16 \<Rightarrow> bytes" where
  "enc_u16 w = le_bytes 2 (unat w)"

definition dec_u16 :: "bytes \<Rightarrow> u16" where
  "dec_u16 bs = of_nat (le_nat bs)"

definition enc_u32 :: "u32 \<Rightarrow> bytes" where
  "enc_u32 w = le_bytes 4 (unat w)"

definition dec_u32 :: "bytes \<Rightarrow> u32" where
  "dec_u32 bs = of_nat (le_nat bs)"

interpretation u8c: codec_onto enc_u8 dec_u8 1
  by unfold_locales (auto simp: enc_u8_def dec_u8_def length_Suc_conv)

interpretation u16c: codec_onto enc_u16 dec_u16 2
proof unfold_locales
  fix x :: u16 and bs :: bytes
  show "length (enc_u16 x) = 2" by (simp add: enc_u16_def)
  have "unat x < 256 ^ 2" using unsigned_less [of x] by simp
  then show "dec_u16 (enc_u16 x) = x" by (simp add: enc_u16_def dec_u16_def le_nat_bytes)
  show "length bs = 2 \<Longrightarrow> enc_u16 (dec_u16 bs) = bs"
    using le_nat_less [of bs] le_bytes_nat [of bs] by (simp add: enc_u16_def dec_u16_def unat_of_nat)
qed

interpretation u32c: codec_onto enc_u32 dec_u32 4
proof unfold_locales
  fix x :: u32 and bs :: bytes
  show "length (enc_u32 x) = 4" by (simp add: enc_u32_def)
  have "unat x < 256 ^ 4" using unsigned_less [of x] by simp
  then show "dec_u32 (enc_u32 x) = x" by (simp add: enc_u32_def dec_u32_def le_nat_bytes)
  show "length bs = 4 \<Longrightarrow> enc_u32 (dec_u32 bs) = bs"
    using le_nat_less [of bs] le_bytes_nat [of bs] by (simp add: enc_u32_def dec_u32_def unat_of_nat)
qed

lemmas codec_simps [le_simps] = u8c.length_enc u8c.dec_enc u16c.length_enc u16c.dec_enc
  u32c.length_enc u32c.dec_enc

section \<open>The halves of a word\<close>

text \<open>An address travels in the two 16-bit fields of a setup packet.\<close>

lemma unat_high_half: "unat (ucast (drop_bit 16 base) :: u16) = unat (base :: u32) div 65536"
proof -
  have "unat base div 65536 < 65536" using unsigned_less [of base] by (simp add: div_less_iff_less_mult)
  then show ?thesis by (simp add: drop_bit_eq_div unat_div_distrib unsigned_ucast_eq take_bit_nat_eq_self)
qed
lemma unat_low_half: "unat (ucast (base AND 0xFFFF) :: u16) = unat (base :: u32) mod 65536"
proof -
  have "base AND 0xFFFF = take_bit 16 base" by (simp add: take_bit_eq_mask mask_eq_exp_minus_1)
  then show ?thesis by (simp add: unsigned_ucast_eq unat_mod_distrib take_bit_eq_mod)
qed
lemma split_word: "push_bit 16 (ucast (ucast (drop_bit 16 base) :: u16)) + ucast (ucast (base AND 0xFFFF) :: u16) = (base :: u32)"
proof -
  have of: "(ucast x :: u32) = of_nat (unat x)" for x :: "u16" by simp
  have "push_bit 16 (of_nat n :: u32) = of_nat (n * 65536)" for n by (simp add: push_bit_eq_mult)
  then have "push_bit 16 (ucast (ucast (drop_bit 16 base) :: u16)) + ucast (ucast (base AND 0xFFFF) :: u16)
     = (of_nat (unat base div 65536 * 65536 + unat base mod 65536) :: u32)"
    unfolding of unat_high_half unat_low_half by (simp only: of_nat_add)
  also have "\<dots> = base" by simp
  finally show ?thesis .
qed

end
