(* ===== verification/Devmgr.thy ===== *)
theory Devmgr
  imports Prelude
begin

text \<open>
  The device manager of \<^verbatim>\<open>jzboot/src/devmgr.c\<close>: the linked list of the boot-mode devices found
  on the bus.  The C list is a value here, its head the newest registration; a device's
  \<^verbatim>\<open>data\<close> pointer (a \<^verbatim>\<open>libusb_device\<close>) is a natural number.
\<close>

record usb_device =
  dev_vid :: u16
  dev_pid :: u16
  dev_data :: nat

text \<open>The table \<^verbatim>\<open>devices\<close>, ended by a zero vendor.\<close>

definition devices :: "(u16 \<times> u16) list" where
  "devices = [(0x601a, 0x4740), (0x601a, 0x4750), (0x601a, 0x4760), (0, 0)]"

fun is_ingenic_loop :: "(u16 \<times> u16) list \<Rightarrow> u16 \<Rightarrow> u16 \<Rightarrow> bool" where
  "is_ingenic_loop [] vid pid = False"
| "is_ingenic_loop ((v, p) # ds) vid pid =
     (if v = 0 then False else if v = vid \<and> p = pid then True else is_ingenic_loop ds vid pid)"

definition is_ingenic :: "u16 \<Rightarrow> u16 \<Rightarrow> bool" where
  "is_ingenic vid pid = is_ingenic_loop devices vid pid"

definition add_device :: "u16 \<Rightarrow> u16 \<Rightarrow> nat \<Rightarrow> usb_device list \<Rightarrow> usb_device list" where
  "add_device vid pid data devs = \<lparr>dev_vid = vid, dev_pid = pid, dev_data = data\<rparr> # devs"

text \<open>\<^verbatim>\<open>enum_devices\<close> calls a handler for every device, counting from 0; the handler's effect is
  a function on a state of the caller's.\<close>

fun enum_loop :: "(int \<Rightarrow> u16 \<Rightarrow> u16 \<Rightarrow> nat \<Rightarrow> 's \<Rightarrow> 's) \<Rightarrow> int \<Rightarrow> usb_device list \<Rightarrow> 's \<Rightarrow> 's" where
  "enum_loop handler idx [] s = s"
| "enum_loop handler idx (d # ds) s =
     enum_loop handler (idx + 1) ds (handler idx (dev_vid d) (dev_pid d) (dev_data d) s)"

definition enum_devices :: "(int \<Rightarrow> u16 \<Rightarrow> u16 \<Rightarrow> nat \<Rightarrow> 's \<Rightarrow> 's) \<Rightarrow> usb_device list \<Rightarrow> 's \<Rightarrow> 's" where
  "enum_devices handler devs s = enum_loop handler 0 devs s"

fun get_device :: "int \<Rightarrow> usb_device list \<Rightarrow> nat option" where
  "get_device idx [] = None"
| "get_device idx (d # ds) = (if idx = 0 then Some (dev_data d) else get_device (idx - 1) ds)"

section \<open>Lookup and enumeration agree\<close>

lemma is_ingenic_iff: "is_ingenic vid pid \<longleftrightarrow> vid = 0x601a \<and> pid \<in> {0x4740, 0x4750, 0x4760}"
  by (auto simp: is_ingenic_def devices_def)

lemma get_device_nth:
  "get_device idx devs = (if 0 \<le> idx \<and> idx < int (length devs) then Some (dev_data (devs ! nat idx)) else None)"
proof (induction devs arbitrary: idx)
  case (Cons d ds)
  have "nat idx = Suc (nat (idx - 1))" if "0 < idx" using that by simp
  with Cons show ?case by auto
qed simp

definition collect :: "int \<Rightarrow> u16 \<Rightarrow> u16 \<Rightarrow> nat \<Rightarrow> (int \<times> u16 \<times> u16 \<times> nat) list \<Rightarrow> (int \<times> u16 \<times> u16 \<times> nat) list" where
  "collect idx vid pid data acc = acc @ [(idx, vid, pid, data)]"

lemma enum_loop_collect:
  "enum_loop collect i devs acc =
     acc @ List.map (\<lambda>k. (i + int k, dev_vid (devs ! k), dev_pid (devs ! k), dev_data (devs ! k))) [0..<length devs]"
proof (induction devs arbitrary: i acc)
  case (Cons d ds)
  have "[0..<length (d # ds)] = 0 # List.map Suc [0..<length ds]"
    by (simp add: upt_conv_Cons map_Suc_upt del: upt_Suc)
  moreover have "enum_loop collect i (d # ds) acc
      = enum_loop collect (i + 1) ds (acc @ [(i, dev_vid d, dev_pid d, dev_data d)])"
    by (simp only: enum_loop.simps collect_def [of i "dev_vid d" "dev_pid d" "dev_data d" acc])
  ultimately show ?case by (simp add: Cons o_def algebra_simps del: upt_Suc enum_loop.simps)
qed simp

end
