(* ===== verification/Host_World.thy ===== *)
theory Host_World
  imports Config Codec Devmgr
begin

text \<open>
  The state of the host process of \<^verbatim>\<open>jzboot\<close>: what its components share through global
  variables, the C library and \<^verbatim>\<open>libusb\<close>.  \<^verbatim>\<open>libusb\<close> is not part of the repository: it is
  the record \<^verbatim>\<open>libusb\<close> of functions on an abstract device state, an argument of every
  operation that calls it.
\<close>

section \<open>Errors\<close>

datatype errno = E_OK | EIO | EINVAL | EACCES | ENOENT | EBUSY | ETIMEDOUT | EOVERFLOW | EPIPE
  | EINTR | ENOMEM | ENOTSUP | EFAULT | EOTHER

section \<open>The parameter libusb\<close>

text \<open>
  A bulk transfer takes the handle, the endpoint and the buffer (its length is the size) and
  returns the status code, the buffer afterwards and the number of bytes transferred; a control
  transfer returns the number of bytes or a negative code.
\<close>

record 'd libusb =
  lu_init :: "'d \<Rightarrow> int \<times> 'd"
  lu_exit :: "'d \<Rightarrow> 'd"
  lu_device_list :: "'d \<Rightarrow> int \<times> nat list"
  lu_descriptor :: "nat \<Rightarrow> 'd \<Rightarrow> int \<times> u16 \<times> u16"
  lu_open :: "nat \<Rightarrow> 'd \<Rightarrow> int \<times> nat \<times> 'd"
  lu_close :: "nat \<Rightarrow> 'd \<Rightarrow> 'd"
  lu_kernel_driver_active :: "nat \<Rightarrow> int \<Rightarrow> 'd \<Rightarrow> int"
  lu_detach_kernel_driver :: "nat \<Rightarrow> int \<Rightarrow> 'd \<Rightarrow> int \<times> 'd"
  lu_claim_interface :: "nat \<Rightarrow> int \<Rightarrow> 'd \<Rightarrow> int \<times> 'd"
  lu_release_interface :: "nat \<Rightarrow> int \<Rightarrow> 'd \<Rightarrow> 'd"
  lu_control :: "nat \<Rightarrow> u8 \<Rightarrow> u8 \<Rightarrow> u16 \<Rightarrow> u16 \<Rightarrow> bytes \<Rightarrow> 'd \<Rightarrow> int \<times> bytes \<times> 'd"
  lu_bulk :: "nat \<Rightarrow> u8 \<Rightarrow> bytes \<Rightarrow> 'd \<Rightarrow> int \<times> bytes \<times> int \<times> 'd"

section \<open>The handle of the Ingenic protocol\<close>

text \<open>\<^verbatim>\<open>firmware_config_t\<close> and \<^verbatim>\<open>nand_config_t\<close> of \<^verbatim>\<open>jzboot/include/ingenic.h\<close>, in field order.\<close>

record stage1_debug =
  debug_ops :: u8
  pin_num :: u8
  dbg_start :: u32
  dbg_size :: u32

record firmware_config =
  cpu_id :: u32
  ext_clk :: u8
  cpu_speed :: u8
  phm_div :: u8
  use_uart :: u8
  baudrate :: u32
  bus_width :: u8
  bank_num :: u8
  row_addr :: u8
  col_addr :: u8
  is_mobile :: u8
  is_busshare :: u8
  fw_debug :: stage1_debug

record nand_config =
  nand_cpuid :: u32
  nand_bw :: u32
  nand_rc :: u32
  nand_ps :: u32
  nand_ppb :: u32
  nand_force_erase :: u32
  nand_pn :: u32
  nand_os :: u32
  nand_eccpos :: u32
  nand_bbpage :: u32
  nand_bbpos :: u32
  nand_plane :: u32
  nand_bchbit :: u32
  nand_wppin :: u32
  nand_bpc :: u32

text \<open>\<^verbatim>\<open>ingenic_callbacks_t\<close>: two function pointers, possibly null, on the object that the
  handle's \<^verbatim>\<open>callbacks_data\<close> points to.\<close>

record 'c callbacks =
  cmdset_change :: "(u32 \<Rightarrow> u32 \<Rightarrow> 'c \<Rightarrow> 'c) option"
  progress :: "(int \<Rightarrow> int \<Rightarrow> int \<Rightarrow> 'c \<Rightarrow> 'c) option"

record 'c ingenic_handle =
  h_usb :: nat
  h_type :: u32
  total_sdram_size :: u32
  h_callbacks :: "'c callbacks option"
  h_cfg :: firmware_config
  h_nand :: nand_config

section \<open>Files and the process state\<close>

text \<open>A file is its bytes and the length of the prefix that reads deliver before they stop
  short (all of it, unless the medium fails).\<close>

record c_file =
  f_data :: bytes
  f_readable :: nat

record ('d, 'c) world =
  usb :: 'd
  errno :: errno
  environ :: environ
  devlist :: "usb_device list"
  files :: "string \<Rightarrow> c_file option"
  fopen_errno :: "string \<Rightarrow> errno"
  writable :: "string \<Rightarrow> bool"
  hnd :: "'c ingenic_handle"
  cb_data :: 'c
  uninit :: "nat \<Rightarrow> u8"
  ub :: bool

type_synonym ('d, 'c, 'a) host = "(('d, 'c) world, 'a) state"

definition gets :: "('s \<Rightarrow> 'a) \<Rightarrow> ('s, 'a) state" where
  "gets f = do { s \<leftarrow> State_Monad.get; State_Monad.return (f s) }"

definition set_errno :: "errno \<Rightarrow> ('d, 'c, unit) host" where
  "set_errno e = State_Monad.update (\<lambda>w. w\<lparr>errno := e\<rparr>)"

text \<open>\<^verbatim>\<open>errno = e; return -1;\<close>\<close>

definition fail_with :: "errno \<Rightarrow> ('d, 'c, int) host" where
  "fail_with e = do { set_errno e; State_Monad.return (-1) }"

text \<open>Undefined behaviour of the C program is recorded, not given a result.\<close>

definition mark_ub :: "bool \<Rightarrow> ('d, 'c, unit) host" where
  "mark_ub b = State_Monad.update (\<lambda>w. w\<lparr>ub := ub w \<or> b\<rparr>)"

text \<open>\<^verbatim>\<open>fread (buf, 1, n, file)\<close> at a position of the stream.\<close>

definition fread_at :: "c_file \<Rightarrow> nat \<Rightarrow> nat \<Rightarrow> bytes" where
  "fread_at f pos n = take n (drop pos (take (f_readable f) (f_data f)))"

definition uninit_buf :: "nat \<Rightarrow> ('d, 'c) world \<Rightarrow> bytes" where
  "uninit_buf n w = List.map (uninit w) [0..<n]"

lemma length_uninit_buf [simp]: "length (uninit_buf n w) = n"
  by (simp add: uninit_buf_def)

lemma run_gets [host_simps]: "run_state (gets f) s = (f s, s)"
  by (simp add: gets_def)

lemma run_set_errno [host_simps]: "run_state (set_errno e) w = ((), w\<lparr>errno := e\<rparr>)"
  by (simp add: set_errno_def host_simps)

lemma run_fail_with [host_simps]: "run_state (fail_with e) w = (-1, w\<lparr>errno := e\<rparr>)"
  by (simp add: fail_with_def host_simps)

lemma run_mark_ub [host_simps]: "run_state (mark_ub b) w = ((), w\<lparr>ub := ub w \<or> b\<rparr>)"
  by (simp add: mark_ub_def host_simps)

section \<open>Layout of the packed structures\<close>

definition enc_debug :: "stage1_debug \<Rightarrow> bytes" where
  "enc_debug d = enc_u8 (debug_ops d) @ enc_u8 (pin_num d) @ enc_u32 (dbg_start d) @ enc_u32 (dbg_size d)"

definition dec_debug :: "bytes \<Rightarrow> stage1_debug" where
  "dec_debug bs = \<lparr>debug_ops = dec_u8 (slice 0 1 bs), pin_num = dec_u8 (slice 1 1 bs),
     dbg_start = dec_u32 (slice 2 4 bs), dbg_size = dec_u32 (slice 6 4 bs)\<rparr>"

definition enc_fw :: "firmware_config \<Rightarrow> bytes" where
  "enc_fw c = enc_u32 (cpu_id c) @ enc_u8 (ext_clk c) @ enc_u8 (cpu_speed c) @ enc_u8 (phm_div c)
     @ enc_u8 (use_uart c) @ enc_u32 (baudrate c) @ enc_u8 (bus_width c) @ enc_u8 (bank_num c)
     @ enc_u8 (row_addr c) @ enc_u8 (col_addr c) @ enc_u8 (is_mobile c) @ enc_u8 (is_busshare c)
     @ enc_debug (fw_debug c)"

definition dec_fw :: "bytes \<Rightarrow> firmware_config" where
  "dec_fw bs = \<lparr>cpu_id = dec_u32 (slice 0 4 bs), ext_clk = dec_u8 (slice 4 1 bs),
     cpu_speed = dec_u8 (slice 5 1 bs), phm_div = dec_u8 (slice 6 1 bs), use_uart = dec_u8 (slice 7 1 bs),
     baudrate = dec_u32 (slice 8 4 bs), bus_width = dec_u8 (slice 12 1 bs), bank_num = dec_u8 (slice 13 1 bs),
     row_addr = dec_u8 (slice 14 1 bs), col_addr = dec_u8 (slice 15 1 bs), is_mobile = dec_u8 (slice 16 1 bs),
     is_busshare = dec_u8 (slice 17 1 bs), fw_debug = dec_debug (slice 18 10 bs)\<rparr>"

definition nand_words :: "nand_config \<Rightarrow> u32 list" where
  "nand_words n = [nand_cpuid n, nand_bw n, nand_rc n, nand_ps n, nand_ppb n, nand_force_erase n, nand_pn n,
     nand_os n, nand_eccpos n, nand_bbpage n, nand_bbpos n, nand_plane n, nand_bchbit n, nand_wppin n, nand_bpc n]"

definition enc_nand :: "nand_config \<Rightarrow> bytes" where
  "enc_nand n = concat (List.map enc_u32 (nand_words n))"

definition word_at :: "nat \<Rightarrow> bytes \<Rightarrow> u32" where
  "word_at k bs = dec_u32 (slice (4 * k) 4 bs)"

definition dec_nand :: "bytes \<Rightarrow> nand_config" where
  "dec_nand bs = \<lparr>nand_cpuid = word_at 0 bs, nand_bw = word_at 1 bs, nand_rc = word_at 2 bs, nand_ps = word_at 3 bs,
     nand_ppb = word_at 4 bs, nand_force_erase = word_at 5 bs, nand_pn = word_at 6 bs, nand_os = word_at 7 bs,
     nand_eccpos = word_at 8 bs, nand_bbpage = word_at 9 bs, nand_bbpos = word_at 10 bs, nand_plane = word_at 11 bs,
     nand_bchbit = word_at 12 bs, nand_wppin = word_at 13 bs, nand_bpc = word_at 14 bs\<rparr>"

lemma slice_skip: "length a \<le> i \<Longrightarrow> slice i n (a @ b) = slice (i - length a) n b"
  by (rule slice_append2)

lemma slice_hit: "length a = n \<Longrightarrow> slice 0 n (a @ b) = a"
  by simp

lemma slice_hit_last: "length a = n \<Longrightarrow> slice 0 n a = a"
  by simp

lemmas slice_simps = slice_skip slice_hit slice_hit_last

interpretation dbg: codec enc_debug dec_debug 10
  by unfold_locales (simp_all add: enc_debug_def dec_debug_def slice_simps le_simps del: slice_0)

interpretation fw: codec enc_fw dec_fw 28
  by unfold_locales
    (simp_all add: enc_fw_def dec_fw_def slice_simps le_simps dbg.length_enc dbg.dec_enc del: slice_0)

lemma word_at_nth: "k < length ws \<Longrightarrow> word_at k (concat (List.map enc_u32 ws)) = ws ! k"
  by (simp add: word_at_def u32c.dec_encs)

interpretation nand: codec enc_nand dec_nand 60
  by unfold_locales
    (simp_all add: enc_nand_def dec_nand_def u32c.length_encs word_at_nth nand_words_def eval_nat_numeral
      del: list.map concat.simps)

end
