(* ===== verification/Usbdev.thy ===== *)
theory Usbdev
  imports Host_World
begin

unbundle bit_operations_syntax

text \<open>
  The wrapper of \<^verbatim>\<open>libusb\<close> in \<^verbatim>\<open>jzboot/src/usbdev.c\<close>: enumeration, opening and closing of a
  device, vendor control transfers and bulk transfers, with the translation of \<^verbatim>\<open>libusb\<close>
  codes to \<^verbatim>\<open>errno\<close>.  The locale \<^verbatim>\<open>usb_transport\<close> is what the protocol layer relies on.
\<close>

section \<open>Constants\<close>

definition INTERFACE_BOOT :: int where "INTERFACE_BOOT = 0"
definition ENDPOINT_OUT :: u8 where "ENDPOINT_OUT = 0x01"
definition ENDPOINT_IN :: u8 where "ENDPOINT_IN = 0x81"

datatype direction = USBDEV_FROMDEV | USBDEV_TODEV

text \<open>Codes of \<^verbatim>\<open>libusb\<close>'s interface (\<^verbatim>\<open>enum libusb_error\<close>, request types).\<close>

definition LIBUSB_REQUEST_TYPE_VENDOR :: u8 where "LIBUSB_REQUEST_TYPE_VENDOR = 0x40"
definition LIBUSB_ENDPOINT_IN :: u8 where "LIBUSB_ENDPOINT_IN = 0x80"

section \<open>Operations\<close>

definition libusb_errno :: "int \<Rightarrow> errno" where
  "libusb_errno code =
    (if code = -1 then EIO
     else if code = -2 then EINVAL
     else if code = -3 then EACCES
     else if code = -4 \<or> code = -5 then ENOENT
     else if code = -6 then EBUSY
     else if code = -7 then ETIMEDOUT
     else if code = -8 then EOVERFLOW
     else if code = -9 then EPIPE
     else if code = -10 then EINTR
     else if code = -11 then ENOMEM
     else if code = -12 then ENOTSUP
     else EFAULT)"

definition translate_libusb :: "int \<Rightarrow> ('d, 'c, int) host" where
  "translate_libusb code = (if code = 0 then State_Monad.return 0 else fail_with (libusb_errno code))"

text \<open>The state of the library as part of the process.\<close>

definition on_usb :: "('d \<Rightarrow> 'a \<times> 'd) \<Rightarrow> ('d, 'c, 'a) host" where
  "on_usb f = do {
     d \<leftarrow> gets usb;
     State_Monad.update (\<lambda>w. w\<lparr>usb := snd (f d)\<rparr>);
     State_Monad.return (fst (f d)) }"

fun enumerate_loop :: "'d libusb \<Rightarrow> nat list \<Rightarrow> ('d, 'c, int) host" where
  "enumerate_loop L [] = State_Monad.return 0"
| "enumerate_loop L (dev # rest) = do {
     d \<leftarrow> gets usb;
     case lu_descriptor L dev d of (ret, vid, pid) \<Rightarrow>
       if ret \<noteq> 0 then translate_libusb ret
       else do {
         (if is_ingenic vid pid
          then State_Monad.update (\<lambda>w. w\<lparr>devlist := add_device vid pid dev (devlist w)\<rparr>)
          else State_Monad.return ());
         enumerate_loop L rest } }"

definition usbdev_enumerate :: "'d libusb \<Rightarrow> ('d, 'c, int) host" where
  "usbdev_enumerate L = do {
     d \<leftarrow> gets usb;
     case lu_device_list L d of (devices_count, devs) \<Rightarrow>
       if devices_count < 0 then translate_libusb devices_count
       else enumerate_loop L (take (nat devices_count) devs) }"

definition usbdev_init :: "'d libusb \<Rightarrow> ('d, 'c, int) host" where
  "usbdev_init L = do {
     code \<leftarrow> on_usb (lu_init L);
     or_fail (translate_libusb code) (State_Monad.return 0) }"

definition usbdev_fini :: "'d libusb \<Rightarrow> ('d, 'c, unit) host" where
  "usbdev_fini L = on_usb (\<lambda>d. ((), lu_exit L d))"

definition usbdev_open :: "'d libusb \<Rightarrow> nat \<Rightarrow> ('d, 'c, nat option) host" where
  "usbdev_open L dev = do {
     res \<leftarrow> on_usb (\<lambda>d. case lu_open L dev d of (code, h, d') \<Rightarrow> ((code, h), d'));
     case res of (code, hndl) \<Rightarrow> do {
       r \<leftarrow> translate_libusb code;
       if r = -1 then State_Monad.return None
       else do {
         d \<leftarrow> gets usb;
         let ret = lu_kernel_driver_active L hndl INTERFACE_BOOT d;
         if ret < 0 then do {
           on_usb (\<lambda>d. ((), lu_close L hndl d));
           translate_libusb ret;
           State_Monad.return None }
         else do {
           det \<leftarrow> (if ret = 1 then do {
                     c \<leftarrow> on_usb (lu_detach_kernel_driver L hndl INTERFACE_BOOT);
                     translate_libusb c }
                   else State_Monad.return 0);
           if det = -1 then do {
             on_usb (\<lambda>d. ((), lu_close L hndl d));
             State_Monad.return None }
           else do {
             c \<leftarrow> on_usb (lu_claim_interface L hndl INTERFACE_BOOT);
             clm \<leftarrow> translate_libusb c;
             if clm = -1 then do {
               on_usb (\<lambda>d. ((), lu_close L hndl d));
               State_Monad.return None }
             else State_Monad.return (Some hndl) } } } } }"

definition usbdev_close :: "'d libusb \<Rightarrow> nat \<Rightarrow> ('d, 'c, unit) host" where
  "usbdev_close L hndl = do {
     on_usb (\<lambda>d. ((), lu_release_interface L hndl INTERFACE_BOOT d));
     on_usb (\<lambda>d. ((), lu_close L hndl d)) }"

text \<open>A vendor request returns the value of the C function and the buffer afterwards.\<close>

definition usbdev_vendor :: "'d libusb \<Rightarrow> nat \<Rightarrow> direction \<Rightarrow> u8 \<Rightarrow> u16 \<Rightarrow> u16 \<Rightarrow> bytes
    \<Rightarrow> ('d, 'c, int \<times> bytes) host" where
  "usbdev_vendor L hndl dir req val idx data = do {
     let type = (if dir = USBDEV_FROMDEV then LIBUSB_REQUEST_TYPE_VENDOR OR LIBUSB_ENDPOINT_IN
                 else LIBUSB_REQUEST_TYPE_VENDOR);
     res \<leftarrow> on_usb (\<lambda>d. case lu_control L hndl type req val idx data d of (ret, buf, d') \<Rightarrow> ((ret, buf), d'));
     case res of (ret, buf) \<Rightarrow>
       if ret \<ge> 0 then State_Monad.return (ret, buf)
       else do { r \<leftarrow> translate_libusb ret; State_Monad.return (r, buf) } }"

definition usbdev_sendbulk :: "'d libusb \<Rightarrow> nat \<Rightarrow> bytes \<Rightarrow> ('d, 'c, int) host" where
  "usbdev_sendbulk L hndl data = do {
     res \<leftarrow> on_usb (\<lambda>d. case lu_bulk L hndl ENDPOINT_OUT data d of (ret, buf, transferred, d') \<Rightarrow> ((ret, transferred), d'));
     case res of (ret, transferred) \<Rightarrow>
       or_fail (translate_libusb ret)
         (if transferred \<noteq> int (length data) then fail_with EIO else State_Monad.return 0) }"

definition usbdev_recvbulk :: "'d libusb \<Rightarrow> nat \<Rightarrow> bytes \<Rightarrow> ('d, 'c, int \<times> bytes) host" where
  "usbdev_recvbulk L hndl data = do {
     res \<leftarrow> on_usb (\<lambda>d. case lu_bulk L hndl ENDPOINT_IN data d of (ret, buf, transferred, d') \<Rightarrow> ((ret, buf, transferred), d'));
     case res of (ret, buf, transferred) \<Rightarrow> do {
       r \<leftarrow> translate_libusb ret;
       State_Monad.return (if r = -1 then -1 else transferred, buf) } }"

section \<open>Executions\<close>

lemma run_on_usb [host_simps]: "run_state (on_usb f) w = (fst (f (usb w)), w\<lparr>usb := snd (f (usb w))\<rparr>)"
  by (simp add: on_usb_def host_simps)

lemma run_translate [host_simps]:
  "run_state (translate_libusb code) w
     = (if code = 0 then (0, w) else (-1, w\<lparr>errno := libusb_errno code\<rparr>))"
  by (simp add: translate_libusb_def host_simps)

lemma run_vendor:
  "run_state (usbdev_vendor L h dir req val idx data) w =
     (case lu_control L h (if dir = USBDEV_FROMDEV then 0xC0 else 0x40) req val idx data (usb w) of
        (ret, buf, d) \<Rightarrow> if ret \<ge> 0 then ((ret, buf), w\<lparr>usb := d\<rparr>)
          else ((-1, buf), w\<lparr>usb := d, errno := libusb_errno ret\<rparr>))"
  by (simp add: usbdev_vendor_def host_simps LIBUSB_REQUEST_TYPE_VENDOR_def LIBUSB_ENDPOINT_IN_def
      Let_def split: prod.splits)

lemma run_sendbulk:
  "run_state (usbdev_sendbulk L h data) w =
     (case lu_bulk L h 1 data (usb w) of (ret, buf, transferred, d) \<Rightarrow>
        if ret \<noteq> 0 then (-1, w\<lparr>usb := d, errno := libusb_errno ret\<rparr>)
        else if transferred \<noteq> int (length data) then (-1, w\<lparr>usb := d, errno := EIO\<rparr>)
        else (0, w\<lparr>usb := d\<rparr>))"
  by (simp add: usbdev_sendbulk_def host_simps ENDPOINT_OUT_def split: prod.splits)

lemma run_recvbulk:
  "run_state (usbdev_recvbulk L h data) w =
     (case lu_bulk L h 0x81 data (usb w) of (ret, buf, transferred, d) \<Rightarrow>
        if ret \<noteq> 0 then ((-1, buf), w\<lparr>usb := d, errno := libusb_errno ret\<rparr>)
        else ((transferred, buf), w\<lparr>usb := d\<rparr>))"
  by (simp add: usbdev_recvbulk_def host_simps ENDPOINT_IN_def split: prod.splits)

end
