(* ===== verification/Ingenic.thy ===== *)
theory Ingenic
  imports Usbdev "HOL-Library.Signed_Division"
begin

unbundle bit_operations_syntax

text \<open>
  The boot protocol of \<^verbatim>\<open>jzboot/src/ingenic.c\<close>: probing the device, rebuilding the firmware
  configuration from the environment, loading the two boot stages, the SDRAM loader and the
  NAND operations.  Operations are programs of the state monad on \<^verbatim>\<open>world\<close> with
  \<^verbatim>\<open>libusb\<close> as a parameter; the return values are those of the C functions, so \<^verbatim>\<open>-1\<close> is
  failure.  Loops that need not terminate take fuel and return \<^verbatim>\<open>None\<close> when it runs out.
\<close>

section \<open>Constants of ingenic.h\<close>

definition VR_GET_CPU_INFO :: u8 where "VR_GET_CPU_INFO = 0x00"
definition VR_SET_DATA_ADDRESS :: u8 where "VR_SET_DATA_ADDRESS = 0x01"
definition VR_SET_DATA_LENGTH :: u8 where "VR_SET_DATA_LENGTH = 0x02"
definition VR_FLUSH_CACHES :: u8 where "VR_FLUSH_CACHES = 0x03"
definition VR_PROGRAM_START1 :: u8 where "VR_PROGRAM_START1 = 0x04"
definition VR_PROGRAM_START2 :: u8 where "VR_PROGRAM_START2 = 0x05"
definition VR_NOR_OPS :: u8 where "VR_NOR_OPS = 0x06"
definition VR_NAND_OPS :: u8 where "VR_NAND_OPS = 0x07"
definition VR_SDRAM_OPS :: u8 where "VR_SDRAM_OPS = 0x08"
definition VR_CONFIGRATION :: u8 where "VR_CONFIGRATION = 0x09"

lemmas vr_defs = VR_GET_CPU_INFO_def VR_SET_DATA_ADDRESS_def VR_SET_DATA_LENGTH_def VR_FLUSH_CACHES_def
  VR_PROGRAM_START1_def VR_PROGRAM_START2_def VR_NOR_OPS_def VR_NAND_OPS_def VR_SDRAM_OPS_def
  VR_CONFIGRATION_def

definition CMDSET_SPL :: u32 where "CMDSET_SPL = 1"
definition CMDSET_USBBOOT :: u32 where "CMDSET_USBBOOT = 2"
definition STAGE1_BASE :: u32 where "STAGE1_BASE = 0x2000"
definition STAGE2_CODESIZE :: u32 where "STAGE2_CODESIZE = 0x400000"
definition SDRAM_BASE :: u32 where "SDRAM_BASE = 0x80000000"
definition STAGE2_IOBUF :: int where "STAGE2_IOBUF = 2048 * 128"
definition DS_hand :: u16 where "DS_hand = 1"
definition SDRAM_LOAD :: u16 where "SDRAM_LOAD = 0"
definition INGENIC_STAGE1 :: int where "INGENIC_STAGE1 = 1"
definition INGENIC_STAGE2 :: int where "INGENIC_STAGE2 = 2"
definition STAGE1_DEBUG_MEMTEST :: u32 where "STAGE1_DEBUG_MEMTEST = 1"
definition STAGE1_DEBUG_GPIO_SET :: u32 where "STAGE1_DEBUG_GPIO_SET = 2"
definition STAGE1_DEBUG_GPIO_CLEAR :: u32 where "STAGE1_DEBUG_GPIO_CLEAR = 3"

definition NAND_QUERY :: u8 where "NAND_QUERY = 0"
definition NAND_INIT :: u8 where "NAND_INIT = 1"
definition NAND_READ_RAW :: u8 where "NAND_READ_RAW = 4"
definition NAND_ERASE :: u8 where "NAND_ERASE = 5"
definition NAND_READ :: u8 where "NAND_READ = 6"
definition NAND_PROGRAM :: u8 where "NAND_PROGRAM = 7"
definition NAND_READ_TO_RAM :: u8 where "NAND_READ_TO_RAM = 8"

lemmas nandop_defs = NAND_QUERY_def NAND_INIT_def NAND_READ_RAW_def NAND_ERASE_def NAND_READ_def
  NAND_PROGRAM_def NAND_READ_TO_RAM_def

definition OOB_ECC :: int where "OOB_ECC = 0"
definition OOB_NO_ECC :: int where "OOB_NO_ECC = 1"
definition NO_OOB :: int where "NO_OOB = 2"
definition NAND_RAW :: int where "NAND_RAW = 128"

definition PROGRESS_INIT :: int where "PROGRESS_INIT = 0"
definition PROGRESS_UPDATE :: int where "PROGRESS_UPDATE = 1"
definition PROGRESS_FINI :: int where "PROGRESS_FINI = 2"

section \<open>Identification\<close>

definition BUILDTYPE :: "u32 \<Rightarrow> u32 \<Rightarrow> u32" where
  "BUILDTYPE cmdset cpu = (push_bit 16 cmdset) OR (cpu AND 0xFFFF)"

definition CPUID :: "u32 \<Rightarrow> u32" where
  "CPUID cpu = cpu AND 0xFFFF"

definition CMDSET :: "u32 \<Rightarrow> u32" where
  "CMDSET cpu = drop_bit 16 (cpu AND 0xFFFF0000)"

definition magic_list :: "(string \<times> u32) list" where
  "magic_list =
    [(''JZ4740V1'', BUILDTYPE CMDSET_SPL 0x4740),
     (''JZ4750V1'', BUILDTYPE CMDSET_SPL 0x4750),
     (''JZ4760V1'', BUILDTYPE CMDSET_SPL 0x4760),
     (''Boot4740'', BUILDTYPE CMDSET_USBBOOT 0x4740),
     (''Boot4750'', BUILDTYPE CMDSET_USBBOOT 0x4750),
     (''Boot4760'', BUILDTYPE CMDSET_USBBOOT 0x4760)]"

text \<open>The C string in a buffer: the bytes before the first zero.\<close>

definition c_string :: "bytes \<Rightarrow> string" where
  "c_string bs = List.map (\<lambda>b. char_of (unat b)) (takeWhile (\<lambda>b. b \<noteq> 0) bs)"

definition ingenic_probe :: "'d libusb \<Rightarrow> nat \<Rightarrow> ('d, 'c, u32) host" where
  "ingenic_probe L usb_hndl = do {
     garbage \<leftarrow> gets (uninit_buf 8);
     res \<leftarrow> usbdev_vendor L usb_hndl USBDEV_FROMDEV VR_GET_CPU_INFO 0 0 garbage;
     case res of (ret, magic) \<Rightarrow>
       if ret = -1 then State_Monad.return 0
       else (case map_of magic_list (c_string (take 8 magic)) of
           Some type \<Rightarrow> State_Monad.return type
         | None \<Rightarrow> do { set_errno EINVAL; State_Monad.return 0 }) }"

text \<open>\<^verbatim>\<open>ingenic_open\<close> allocates the handle; its configuration fields are uninitialised, here
  whatever the process state holds for them.\<close>

definition ingenic_open :: "'d libusb \<Rightarrow> nat \<Rightarrow> ('d, 'c, bool) host" where
  "ingenic_open L usb_hndl = do {
     type \<leftarrow> ingenic_probe L usb_hndl;
     if type = 0 then State_Monad.return False
     else do {
       State_Monad.update (\<lambda>w. w\<lparr>hnd := (hnd w)\<lparr>h_usb := usb_hndl, h_type := type, h_callbacks := None\<rparr>\<rparr>);
       State_Monad.return True } }"

text \<open>The \<^verbatim>\<open>CALLBACK\<close> macro.  The second argument of \<^verbatim>\<open>cmdset_change\<close> is the type field of the
  handle, which the callback reads through its context.\<close>

definition callback_cmdset :: "u32 \<Rightarrow> ('d, 'c, unit) host" where
  "callback_cmdset cmdset = State_Monad.update (\<lambda>w.
     case h_callbacks (hnd w) of None \<Rightarrow> w
     | Some cb \<Rightarrow> (case cmdset_change cb of None \<Rightarrow> w
         | Some f \<Rightarrow> w\<lparr>cb_data := f cmdset (h_type (hnd w)) (cb_data w)\<rparr>))"

definition callback_progress :: "int \<Rightarrow> int \<Rightarrow> int \<Rightarrow> ('d, 'c, unit) host" where
  "callback_progress action val maxv = State_Monad.update (\<lambda>w.
     case h_callbacks (hnd w) of None \<Rightarrow> w
     | Some cb \<Rightarrow> (case progress cb of None \<Rightarrow> w
         | Some f \<Rightarrow> w\<lparr>cb_data := f action val maxv (cb_data w)\<rparr>))"

text \<open>The callback's data after a progress report.\<close>

definition notified :: "int \<Rightarrow> int \<Rightarrow> int \<Rightarrow> ('d, 'c) world \<Rightarrow> 'c" where
  "notified action val maxv w = (case h_callbacks (hnd w) of None \<Rightarrow> cb_data w
     | Some cb \<Rightarrow> (case progress cb of None \<Rightarrow> cb_data w | Some f \<Rightarrow> f action val maxv (cb_data w)))"

lemma run_callback_progress [host_simps]:
  "run_state (callback_progress action val maxv) w = ((), w\<lparr>cb_data := notified action val maxv w\<rparr>)"
  by (auto simp: callback_progress_def notified_def host_simps split: option.splits)

definition ingenic_redetect :: "'d libusb \<Rightarrow> ('d, 'c, int) host" where
  "ingenic_redetect L = do {
     h \<leftarrow> gets hnd;
     type \<leftarrow> ingenic_probe L (h_usb h);
     if type = 0 then State_Monad.return (-1)
     else do {
       State_Monad.update (\<lambda>w. w\<lparr>hnd := (hnd w)\<lparr>h_type := type\<rparr>\<rparr>);
       (if CMDSET (h_type h) \<noteq> CMDSET type then callback_cmdset (CMDSET type) else State_Monad.return ());
       State_Monad.return 0 } }"

definition ingenic_set_callbacks :: "'c callbacks option \<Rightarrow> 'c \<Rightarrow> ('d, 'c, unit) host" where
  "ingenic_set_callbacks cbs arg =
     State_Monad.update (\<lambda>w. w\<lparr>hnd := (hnd w)\<lparr>h_callbacks := cbs\<rparr>, cb_data := arg\<rparr>)"

definition ingenic_cmdset :: "'c ingenic_handle \<Rightarrow> u32" where
  "ingenic_cmdset handle = CMDSET (h_type handle)"

definition ingenic_type :: "'c ingenic_handle \<Rightarrow> u32" where
  "ingenic_type handle = CPUID (h_type handle)"

section \<open>The configuration\<close>

definition upd_cfg :: "(firmware_config \<Rightarrow> firmware_config) \<Rightarrow> ('d, 'c, unit) host" where
  "upd_cfg f = State_Monad.update (\<lambda>w. w\<lparr>hnd := (hnd w)\<lparr>h_cfg := f (h_cfg (hnd w))\<rparr>\<rparr>)"

definition upd_nand :: "(nand_config \<Rightarrow> nand_config) \<Rightarrow> ('d, 'c, unit) host" where
  "upd_nand f = State_Monad.update (\<lambda>w. w\<lparr>hnd := (hnd w)\<lparr>h_nand := f (h_nand (hnd w))\<rparr>\<rparr>)"

text \<open>The macro \<^verbatim>\<open>CFGOPT\<close>: an unset variable is \<^verbatim>\<open>EINVAL\<close>, a value that fails the test is an
  error that leaves \<^verbatim>\<open>errno\<close> alone.\<close>

definition CFGOPT :: "string \<Rightarrow> (int \<Rightarrow> bool) \<Rightarrow> (int \<Rightarrow> ('d, 'c, unit) host) \<Rightarrow> ('d, 'c, int) host" where
  "CFGOPT name test var = do {
     env \<leftarrow> gets environ;
     case cfg_getenv env name of
       None \<Rightarrow> fail_with EINVAL
     | Some str \<Rightarrow> let v = atoi str in
         if \<not> test v then State_Monad.return (-1) else do { var v; State_Monad.return 0 } }"

definition NOPT :: "string \<Rightarrow> (u32 \<Rightarrow> nand_config \<Rightarrow> nand_config) \<Rightarrow> ('d, 'c, int) host" where
  "NOPT name var = CFGOPT (''NAND_'' @ name) (\<lambda>v. True) (\<lambda>v. upd_nand (var (word_of_int v)))"

text \<open>\<^verbatim>\<open>(uint32_t)(2 << (row + col - 1)) * 2 * (bank + 1) * 2 * (2 - bus_width)\<close>.  The shift is
  undefined in C for a negative count and for a result that is not an \<^verbatim>\<open>int\<close>; the value given
  for it then is the machine's, which takes the count modulo 32.\<close>

definition shift_ub :: "firmware_config \<Rightarrow> bool" where
  "shift_ub c = (let n = uint (row_addr c) + uint (col_addr c) - 1 in n < 0 \<or> n \<ge> 30)"

definition sdram_size :: "firmware_config \<Rightarrow> u32" where
  "sdram_size c = (let n = uint (row_addr c) + uint (col_addr c) - 1 in
     push_bit (nat (n mod 32)) 2 * 2 * (word_of_int (uint (bank_num c)) + 1) * 2
       * (2 - word_of_int (uint (bus_width c))))"

definition no_debug :: stage1_debug where
  "no_debug = \<lparr>debug_ops = 0, pin_num = 0, dbg_start = 0, dbg_size = 0\<rparr>"

definition rebuild_nand :: "('d, 'c, int) host" where
  "rebuild_nand =
     or_fail (NOPT ''BUSWIDTH'' (\<lambda>v n. n\<lparr>nand_bw := v\<rparr>))
    (or_fail (NOPT ''ROWCYCLES'' (\<lambda>v n. n\<lparr>nand_rc := v\<rparr>))
    (or_fail (NOPT ''PAGESIZE'' (\<lambda>v n. n\<lparr>nand_ps := v\<rparr>))
    (or_fail (NOPT ''PAGEPERBLOCK'' (\<lambda>v n. n\<lparr>nand_ppb := v\<rparr>))
    (or_fail (NOPT ''FORCEERASE'' (\<lambda>v n. n\<lparr>nand_force_erase := v\<rparr>))
    (or_fail (NOPT ''OOBSIZE'' (\<lambda>v n. n\<lparr>nand_os := v\<rparr>))
    (or_fail (NOPT ''ECCPOS'' (\<lambda>v n. n\<lparr>nand_eccpos := v\<rparr>))
    (or_fail (NOPT ''BADBLOCKPOS'' (\<lambda>v n. n\<lparr>nand_bbpos := v\<rparr>))
    (or_fail (NOPT ''BADBLOCKPAGE'' (\<lambda>v n. n\<lparr>nand_bbpage := v\<rparr>))
    (or_fail (NOPT ''PLANENUM'' (\<lambda>v n. n\<lparr>nand_plane := v\<rparr>))
    (or_fail (NOPT ''BCHBIT'' (\<lambda>v n. n\<lparr>nand_bchbit := v\<rparr>))
    (or_fail (NOPT ''WPPIN'' (\<lambda>v n. n\<lparr>nand_wppin := v\<rparr>))
    (or_fail (NOPT ''BLOCKPERCHIP'' (\<lambda>v n. n\<lparr>nand_bpc := v\<rparr>))
    (State_Monad.return 0)))))))))))))"

definition u8_of :: "int \<Rightarrow> u8" where "u8_of v = word_of_int v"

definition rebuild_sdram :: "('d, 'c, int) host" where
  "rebuild_sdram =
     or_fail (CFGOPT ''SDRAM_BUSWIDTH'' (\<lambda>v. v = 16 \<or> v = 32) (\<lambda>v. upd_cfg (\<lambda>c. c\<lparr>bus_width := u8_of v\<rparr>)))
     (do {
       upd_cfg (\<lambda>c. c\<lparr>bus_width := (if bus_width c = 16 then 1 else 0)\<rparr>);
       or_fail (CFGOPT ''SDRAM_BANKS'' (\<lambda>v. v \<ge> 4 \<and> v mod 4 = 0) (\<lambda>v. upd_cfg (\<lambda>c. c\<lparr>bank_num := u8_of v\<rparr>)))
       (do {
         upd_cfg (\<lambda>c. c\<lparr>bank_num := bank_num c div 4\<rparr>);
         or_fail (CFGOPT ''SDRAM_ROWADDR'' (\<lambda>v. True) (\<lambda>v. upd_cfg (\<lambda>c. c\<lparr>row_addr := u8_of v\<rparr>)))
        (or_fail (CFGOPT ''SDRAM_COLADDR'' (\<lambda>v. True) (\<lambda>v. upd_cfg (\<lambda>c. c\<lparr>col_addr := u8_of v\<rparr>)))
        (or_fail (CFGOPT ''SDRAM_ISMOBILE'' (\<lambda>v. v = 0 \<or> v = 1) (\<lambda>v. upd_cfg (\<lambda>c. c\<lparr>is_mobile := u8_of v\<rparr>)))
        (or_fail (CFGOPT ''SDRAM_ISBUSSHARE'' (\<lambda>v. v = 0 \<or> v = 1) (\<lambda>v. upd_cfg (\<lambda>c. c\<lparr>is_busshare := u8_of v\<rparr>)))
        (State_Monad.return 0)))) }) })"

definition ingenic_rebuild :: "('d, 'c, int) host" where
  "ingenic_rebuild = do {
     h \<leftarrow> gets hnd;
     upd_cfg (\<lambda>c. c\<lparr>cpu_id := CPUID (h_type h)\<rparr>);
     or_fail (CFGOPT ''EXTCLK'' (\<lambda>v. v \<le> 27 \<and> v \<ge> 12) (\<lambda>v. upd_cfg (\<lambda>c. c\<lparr>ext_clk := u8_of v\<rparr>)))
    (or_fail (CFGOPT ''CPUSPEED'' (\<lambda>v. v mod 12 = 0)
        (\<lambda>v. upd_cfg (\<lambda>c. c\<lparr>cpu_speed := of_nat (nat (v mod 2 ^ 32) div unat (ext_clk c))\<rparr>)))
    (or_fail (CFGOPT ''PHMDIV'' (\<lambda>v. v \<le> 32 \<and> v \<ge> 2) (\<lambda>v. upd_cfg (\<lambda>c. c\<lparr>phm_div := u8_of v\<rparr>)))
    (or_fail (CFGOPT ''USEUART'' (\<lambda>v. True) (\<lambda>v. upd_cfg (\<lambda>c. c\<lparr>use_uart := u8_of v\<rparr>)))
    (or_fail (CFGOPT ''BAUDRATE'' (\<lambda>v. True) (\<lambda>v. upd_cfg (\<lambda>c. c\<lparr>baudrate := word_of_int v\<rparr>)))
    (or_fail rebuild_sdram
    (do {
       upd_cfg (\<lambda>c. c\<lparr>fw_debug := no_debug\<rparr>);
       w \<leftarrow> State_Monad.get;
       mark_ub (shift_ub (h_cfg (hnd w)));
       State_Monad.update (\<lambda>w. w\<lparr>hnd := (hnd w)\<lparr>total_sdram_size := sdram_size (h_cfg (hnd w))\<rparr>\<rparr>);
       upd_nand (\<lambda>n. n\<lparr>nand_cpuid := CPUID (h_type h)\<rparr>);
       rebuild_nand })))))) }"

definition ingenic_sdram_size :: "'c ingenic_handle \<Rightarrow> u32" where
  "ingenic_sdram_size handle = total_sdram_size handle"

end
