(* ===== verification/Ingenic_Load.thy ===== *)
theory Ingenic_Load
  imports Ingenic
begin

unbundle bit_operations_syntax

text \<open>
  The loading operations of \<^verbatim>\<open>jzboot/src/ingenic.c\<close>: the boot stages with the firmware
  configuration patched in, the memory test, the configuration of the second stage, and the
  loader that sends an image to SDRAM in blocks of at most \<^verbatim>\<open>STAGE2_IOBUF\<close> bytes.
\<close>

section \<open>Operations\<close>

definition ingenic_wordop :: "'d libusb \<Rightarrow> nat \<Rightarrow> u8 \<Rightarrow> u32 \<Rightarrow> ('d, 'c, int) host" where
  "ingenic_wordop L usb_hndl op base = do {
     res \<leftarrow> usbdev_vendor L usb_hndl USBDEV_TODEV op (ucast (drop_bit 16 base)) (ucast (base AND 0xFFFF)) [];
     State_Monad.return (fst res) }"

text \<open>\<^verbatim>\<open>fopen\<close>, the size by \<^verbatim>\<open>ftell\<close> as an \<^verbatim>\<open>int\<close>, and \<^verbatim>\<open>fread\<close> of the whole file: the result
  is the size and the bytes read, or \<^verbatim>\<open>None\<close> after an error.\<close>

definition read_whole_file :: "string \<Rightarrow> ('d, 'c, bytes option) host" where
  "read_whole_file file = do {
     w \<leftarrow> State_Monad.get;
     case files w file of
       None \<Rightarrow> do { set_errno (fopen_errno w file); State_Monad.return None }
     | Some f \<Rightarrow> do {
         let size = c_int (int (length (f_data f)));
         mark_ub (size < 0);
         let data = take (f_readable f) (take (nat size) (f_data f));
         if int (length data) \<noteq> size then do { set_errno EIO; State_Monad.return None }
         else State_Monad.return (Some data) } }"

definition stage_target :: "int \<Rightarrow> 'c ingenic_handle \<Rightarrow> (u32 \<times> u8) option" where
  "stage_target stage handle =
     (if stage = INGENIC_STAGE1 then Some (SDRAM_BASE + STAGE1_BASE, VR_PROGRAM_START1)
      else if stage = INGENIC_STAGE2
        then Some (SDRAM_BASE + total_sdram_size handle - STAGE2_CODESIZE, VR_PROGRAM_START2)
      else None)"

text \<open>\<^verbatim>\<open>memcpy (data + 8, &handle->cfg, sizeof (firmware_config_t))\<close>: out of the buffer's bounds
  for a file shorter than 36 bytes.\<close>

definition patch_cfg :: "firmware_config \<Rightarrow> bytes \<Rightarrow> bytes" where
  "patch_cfg c data = take (length data) (put_at 8 (enc_fw c) data)"

definition ingenic_loadstage :: "'d libusb \<Rightarrow> int \<Rightarrow> string option \<Rightarrow> ('d, 'c, int) host" where
  "ingenic_loadstage L stage file = do {
     h \<leftarrow> gets hnd;
     case file of
       None \<Rightarrow> fail_with EINVAL
     | Some name \<Rightarrow> (case stage_target stage h of
         None \<Rightarrow> fail_with EINVAL
       | Some (base, cmd) \<Rightarrow> do {
           contents \<leftarrow> read_whole_file name;
           case contents of
             None \<Rightarrow> State_Monad.return (-1)
           | Some data \<Rightarrow> do {
               mark_ub (length data < 36);
               or_fail (ingenic_wordop L (h_usb h) VR_SET_DATA_ADDRESS base)
              (or_fail (usbdev_sendbulk L (h_usb h) (patch_cfg (h_cfg h) data))
              (or_fail (if stage = INGENIC_STAGE2
                        then do { res \<leftarrow> usbdev_vendor L (h_usb h) USBDEV_TODEV VR_FLUSH_CACHES 0 0 [];
                                  State_Monad.return (fst res) }
                        else State_Monad.return 0)
              (or_fail (ingenic_wordop L (h_usb h) cmd base)
              (if stage = INGENIC_STAGE2 then ingenic_redetect L else State_Monad.return 0)))) } }) }"

definition ingenic_stage1_debugop :: "'d libusb \<Rightarrow> string option \<Rightarrow> u32 \<Rightarrow> u32 \<Rightarrow> u32 \<Rightarrow> u32 \<Rightarrow> ('d, 'c, int) host" where
  "ingenic_stage1_debugop L file op pin base len = do {
     upd_cfg (\<lambda>c. c\<lparr>fw_debug := \<lparr>debug_ops = ucast op, pin_num = ucast pin, dbg_start = base, dbg_size = len\<rparr>\<rparr>);
     ret \<leftarrow> ingenic_loadstage L INGENIC_STAGE1 file;
     upd_cfg (\<lambda>c. c\<lparr>fw_debug := no_debug\<rparr>);
     State_Monad.return ret }"

text \<open>The second component is \<^verbatim>\<open>*fail\<close>, where the function stores it.\<close>

definition ingenic_memtest :: "'d libusb \<Rightarrow> string option \<Rightarrow> u32 \<Rightarrow> u32 \<Rightarrow> ('d, 'c, int \<times> u32 option) host" where
  "ingenic_memtest L file base len = do {
     ret \<leftarrow> ingenic_stage1_debugop L file STAGE1_DEBUG_MEMTEST 0 base len;
     if ret = -1 then State_Monad.return (-1, None)
     else do {
       h \<leftarrow> gets hnd;
       garbage \<leftarrow> gets (uninit_buf 8);
       res \<leftarrow> usbdev_recvbulk L (h_usb h) garbage;
       case res of (ret, data) \<Rightarrow>
         if ret = -1 then State_Monad.return (-1, None)
         else if ret < 4 then do { set_errno EIO; State_Monad.return (-1, None) }
         else if word_at 0 data \<noteq> 0 then do { set_errno EFAULT; State_Monad.return (-1, Some (word_at 0 data)) }
         else State_Monad.return (0, None) } }"

definition ingenic_configure_stage2 :: "'d libusb \<Rightarrow> ('d, 'c, int) host" where
  "ingenic_configure_stage2 L = do {
     h \<leftarrow> gets hnd;
     or_fail (usbdev_sendbulk L (h_usb h) (enc_nand (h_nand h) @ enc_fw (h_cfg h)))
    (or_fail (do { res \<leftarrow> usbdev_vendor L (h_usb h) USBDEV_TODEV VR_CONFIGRATION DS_hand 0 [];
                   State_Monad.return (fst res) })
    (do { garbage \<leftarrow> gets (uninit_buf 32);
          res \<leftarrow> usbdev_recvbulk L (h_usb h) garbage;
          State_Monad.return (if fst res = -1 then -1 else 0) })) }"

text \<open>One turn of the loop of \<^verbatim>\<open>ingenic_load_sdram\<close>: a block, its address and length, the load
  request and the device's answer.\<close>

definition load_block :: "'d libusb \<Rightarrow> nat \<Rightarrow> bytes \<Rightarrow> u32 \<Rightarrow> u32 \<Rightarrow> ('d, 'c, int) host" where
  "load_block L usb_hndl data base block =
     or_fail (usbdev_sendbulk L usb_hndl (take (unat block) data))
    (or_fail (ingenic_wordop L usb_hndl VR_SET_DATA_ADDRESS base)
    (or_fail (ingenic_wordop L usb_hndl VR_SET_DATA_LENGTH block)
    (or_fail (do { res \<leftarrow> usbdev_vendor L usb_hndl USBDEV_TODEV VR_SDRAM_OPS SDRAM_LOAD 0 [];
                   State_Monad.return (fst res) })
    (do { garbage \<leftarrow> gets (uninit_buf 32);
          res \<leftarrow> usbdev_recvbulk L usb_hndl garbage;
          State_Monad.return (if fst res = -1 then -1 else 0) }))))"

definition block_of :: "u32 \<Rightarrow> u32" where
  "block_of len = (if len > word_of_int STAGE2_IOBUF then word_of_int STAGE2_IOBUF else len)"

lemma block_of_bounds: "len \<noteq> 0 \<Longrightarrow> 0 < unat (block_of len) \<and> unat (block_of len) \<le> unat len
    \<and> unat (block_of len) \<le> 262144"
  by (auto simp: block_of_def STAGE2_IOBUF_def word_less_nat_alt unat_gt_0)

lemma block_of_less: "len \<noteq> 0 \<Longrightarrow> unat (len - block_of len) < unat len"
proof -
  assume "len \<noteq> 0"
  note b = block_of_bounds [OF this]
  then have "unat (len - block_of len) = unat len - unat (block_of len)"
    by (simp add: unat_sub word_le_nat_alt)
  with b show ?thesis by linarith
qed

function load_sdram_loop :: "'d libusb \<Rightarrow> nat \<Rightarrow> bytes \<Rightarrow> u32 \<Rightarrow> u32 \<Rightarrow> int \<Rightarrow> int \<Rightarrow> ('d, 'c, int) host" where
  "load_sdram_loop L usb_hndl data base len val maxv =
     (if len = 0 then State_Monad.return 0
      else or_fail (load_block L usb_hndl data base (block_of len))
        (do {
           callback_progress PROGRESS_UPDATE (c_int (val + uint (block_of len))) maxv;
           load_sdram_loop L usb_hndl (drop (unat (block_of len)) data) (base + block_of len)
             (len - block_of len) (c_int (val + uint (block_of len))) maxv }))"
  by pat_completeness auto

termination
  by (relation "measure (\<lambda>(L, u, data, base, len, v, m). unat len)") (simp_all add: block_of_less)

declare load_sdram_loop.simps [simp del]

definition ingenic_load_sdram :: "'d libusb \<Rightarrow> bytes \<Rightarrow> u32 \<Rightarrow> u32 \<Rightarrow> ('d, 'c, int) host" where
  "ingenic_load_sdram L data base len = do {
     h \<leftarrow> gets hnd;
     mark_ub (length data < unat len);
     let maxv = c_int (uint len);
     callback_progress PROGRESS_INIT 0 maxv;
     or_fail (load_sdram_loop L (h_usb h) data base len 0 maxv)
       (do { callback_progress PROGRESS_FINI 0 0; State_Monad.return 0 }) }"

definition ingenic_load_sdram_file :: "'d libusb \<Rightarrow> u32 \<Rightarrow> string \<Rightarrow> ('d, 'c, int) host" where
  "ingenic_load_sdram_file L base file = do {
     contents \<leftarrow> read_whole_file file;
     case contents of
       None \<Rightarrow> State_Monad.return (-1)
     | Some data \<Rightarrow> ingenic_load_sdram L data base (of_nat (length data)) }"

definition ingenic_go :: "'d libusb \<Rightarrow> u32 \<Rightarrow> ('d, 'c, int) host" where
  "ingenic_go L address = do {
     h \<leftarrow> gets hnd;
     ingenic_wordop L (h_usb h) VR_PROGRAM_START2 address }"

end
