(* ===== verification/Elfldr.thy ===== *)
theory Elfldr
  imports Ingenic_Load
begin

unbundle bit_operations_syntax

text \<open>
  The kernel loader of \<^verbatim>\<open>jzboot/src/elfldr.c\<close>: ELF program segments, the argument block that
  the kernel receives, the initial ramdisk, and the MIPS trampoline that sets the argument
  registers and jumps to the entry point.
\<close>

section \<open>ELF structures\<close>

record elf_header =
  e_ident :: bytes
  e_type :: u16
  e_machine :: u16
  e_version :: u32
  e_entry :: u32
  e_phoff :: u32
  e_phentsize :: u16
  e_phnum :: u16

record elf_phdr =
  p_type :: u32
  p_offset :: u32
  p_paddr :: u32
  p_filesz :: u32
  p_memsz :: u32

definition dec_ehdr :: "bytes \<Rightarrow> elf_header" where
  "dec_ehdr bs = \<lparr>e_ident = slice 0 16 bs, e_type = dec_u16 (slice 16 2 bs), e_machine = dec_u16 (slice 18 2 bs),
     e_version = dec_u32 (slice 20 4 bs), e_entry = dec_u32 (slice 24 4 bs), e_phoff = dec_u32 (slice 28 4 bs),
     e_phentsize = dec_u16 (slice 42 2 bs), e_phnum = dec_u16 (slice 44 2 bs)\<rparr>"

definition dec_phdr :: "bytes \<Rightarrow> elf_phdr" where
  "dec_phdr bs = \<lparr>p_type = dec_u32 (slice 0 4 bs), p_offset = dec_u32 (slice 4 4 bs), p_paddr = dec_u32 (slice 12 4 bs),
     p_filesz = dec_u32 (slice 16 4 bs), p_memsz = dec_u32 (slice 20 4 bs)\<rparr>"

definition valid_ident :: bytes where
  "valid_ident = [0x7F, 0x45, 0x4C, 0x46, 1, 1, 1]"

text \<open>A short read sets \<^verbatim>\<open>EINVAL\<close> at the end of the file; an error of the medium has set
  \<^verbatim>\<open>errno\<close> itself.\<close>

definition short_read :: "c_file \<Rightarrow> ('d, 'c, int) host" where
  "short_read f = fail_with (if f_readable f < length (f_data f) then EIO else EINVAL)"

section \<open>Segments\<close>

definition load_limit :: "'c ingenic_handle \<Rightarrow> u32" where
  "load_limit h = ingenic_sdram_size h + SDRAM_BASE - STAGE2_CODESIZE"

definition load_segment :: "'d libusb \<Rightarrow> bytes \<Rightarrow> u32 \<Rightarrow> u32 \<Rightarrow> u32 \<Rightarrow> ('d, 'c, int) host" where
  "load_segment L data base filesz memsz = do {
     h \<leftarrow> gets hnd;
     let end_addr = base + memsz;
     let tail = memsz - filesz;
     if end_addr > load_limit h then State_Monad.return (-1)
     else or_fail (if filesz \<noteq> 0 then ingenic_load_sdram L data base filesz else State_Monad.return 0)
       (if tail \<noteq> 0 then ingenic_load_sdram L (replicate (unat tail) 0) (base + filesz) tail
        else State_Monad.return 0) }"

fun load_phdrs :: "'d libusb \<Rightarrow> c_file \<Rightarrow> nat \<Rightarrow> nat \<Rightarrow> u32 \<Rightarrow> ('d, 'c, int \<times> u32) host" where
  "load_phdrs L elf pos 0 end_addr = State_Monad.return (0, end_addr)"
| "load_phdrs L elf pos (Suc n) end_addr = do {
     let raw = fread_at elf pos 32;
     if length raw \<noteq> 32 then do { r \<leftarrow> short_read elf; State_Monad.return (r, end_addr) }
     else do {
       let phdr = dec_phdr raw;
       if p_type phdr = 1 then do {
         let data = fread_at elf (unat (p_offset phdr)) (unat (p_filesz phdr));
         if length data \<noteq> unat (p_filesz phdr) then do { r \<leftarrow> short_read elf; State_Monad.return (r, end_addr) }
         else do {
           r \<leftarrow> load_segment L data (p_paddr phdr) (p_filesz phdr) (p_memsz phdr);
           if r = -1 then State_Monad.return (-1, end_addr)
           else load_phdrs L elf (pos + 32) n (max (p_paddr phdr + p_memsz phdr) end_addr) } }
       else load_phdrs L elf (pos + 32) n end_addr } }"

text \<open>The result: the return value, \<^verbatim>\<open>*entry\<close> and \<^verbatim>\<open>*end\<close>.\<close>

definition load_elf_image :: "'d libusb \<Rightarrow> c_file \<Rightarrow> ('d, 'c, int \<times> u32 \<times> u32) host" where
  "load_elf_image L elf = do {
     let raw = fread_at elf 0 52;
     if length raw \<noteq> 52 then do { r \<leftarrow> short_read elf; State_Monad.return (r, 0, 0) }
     else do {
       let ehdr = dec_ehdr raw;
       if take 7 (e_ident ehdr) \<noteq> valid_ident \<or> e_type ehdr \<noteq> 2 \<or> e_machine ehdr \<noteq> 8 \<or> e_version ehdr \<noteq> 1
          \<or> e_phoff ehdr = 0 \<or> e_phentsize ehdr \<noteq> 32
       then do { r \<leftarrow> fail_with EINVAL; State_Monad.return (r, e_entry ehdr, 0) }
       else do {
         res \<leftarrow> load_phdrs L elf (unat (e_phoff ehdr)) (unat (e_phnum ehdr)) 0;
         State_Monad.return (fst res, e_entry ehdr, snd res) } } }"

section \<open>The trampoline\<close>

definition trampoline_template :: "u32 list" where
  "trampoline_template =
     [0x3c04ffff, 0x3484ffff, 0x3c05ffff, 0x34a5ffff, 0x3c06ffff, 0x34c6ffff,
      0x3c07ffff, 0x34e7ffff, 0x3c08ffff, 0x3508ffff, 0x01000008, 0x00000000]"

definition trampoline_set :: "nat \<Rightarrow> u32 \<Rightarrow> u32 list \<Rightarrow> u32 list" where
  "trampoline_set index val tr = (let i = index * 2 in
     tr[i := (tr ! i AND 0xFFFF0000) OR drop_bit 16 (val AND 0xFFFF0000),
        i + 1 := (tr ! (i + 1) AND 0xFFFF0000) OR (val AND 0x0000FFFF)])"

definition make_trampoline :: "u32 \<Rightarrow> u32 \<Rightarrow> u32 \<Rightarrow> u32 list" where
  "make_trampoline argc args_base entry =
     trampoline_set 4 entry (trampoline_set 3 0 (trampoline_set 2 0
       (trampoline_set 1 args_base (trampoline_set 0 argc trampoline_template))))"

section \<open>Arguments\<close>

definition count_args :: "string list \<Rightarrow> nat" where
  "count_args args = sum_list (List.map (\<lambda>a. length (filter (\<lambda>c. c = CHR '' '') a) + 1) args)"

text \<open>The command line: the arguments separated by spaces, the last one ended by a zero.\<close>

fun join_args :: "string list \<Rightarrow> string" where
  "join_args [] = []"
| "join_args [a] = a @ [CHR 0x00]"
| "join_args (a # b # rest) = a @ '' '' @ join_args (b # rest)"

text \<open>The loop over \<^verbatim>\<open>argc\<close>: each turn stores a pointer, then turns the next space into a zero.\<close>

fun split_loop :: "nat \<Rightarrow> u32 \<Rightarrow> nat \<Rightarrow> string \<Rightarrow> u32 list \<times> string" where
  "split_loop 0 base ptr cmdline = ([], cmdline)"
| "split_loop (Suc n) base ptr cmdline =
     (case strchr (takeWhile (\<lambda>c. c \<noteq> CHR 0x00) (drop ptr cmdline)) CHR '' '' of
        None \<Rightarrow> ([base + of_nat ptr], cmdline)
      | Some k \<Rightarrow> (case split_loop n base (ptr + k + 1) (cmdline[ptr + k := CHR 0x00]) of
          (ptrs, text) \<Rightarrow> ((base + of_nat ptr) # ptrs, text)))"

text \<open>The block that \<^verbatim>\<open>load_args\<close> sends: the pointers, then the split command line.  The array
  of pointers has \<^verbatim>\<open>argc\<close> cells; cells the loop leaves alone hold what \<^verbatim>\<open>malloc\<close> returned.\<close>

definition args_block :: "(nat \<Rightarrow> u8) \<Rightarrow> u32 \<Rightarrow> string list \<Rightarrow> bytes" where
  "args_block garbage base args = (let argc = count_args args in
     case split_loop argc (base + of_nat argc * 4) 0 (join_args args) of
       (ptrs, text) \<Rightarrow> concat (List.map enc_u32 ptrs)
         @ List.map (\<lambda>k. garbage k) [4 * length ptrs..<4 * argc]
         @ List.map (\<lambda>c. of_nat (of_char c)) text)"

text \<open>The result: the return value, \<^verbatim>\<open>*pargc\<close> and \<^verbatim>\<open>*end\<close>.\<close>

definition load_args :: "'d libusb \<Rightarrow> u32 \<Rightarrow> string list \<Rightarrow> ('d, 'c, int \<times> u32 \<times> u32) host" where
  "load_args L base args = do {
     garbage \<leftarrow> gets uninit;
     let argc = count_args args;
     let total_len = sum_list (List.map (\<lambda>a. length a + 1) args);
     let len = of_nat (4 * argc + total_len);
     ret \<leftarrow> load_segment L (args_block garbage base args) base len len;
     State_Monad.return (ret, of_nat argc, base + of_nat total_len + 4 * of_nat argc) }"

section \<open>The whole load\<close>

definition ALIGN_addr :: "u32 \<Rightarrow> u32" where
  "ALIGN_addr x = (x + 4095) AND NOT 4095"

definition initrd_args :: "u32 \<Rightarrow> u32 \<Rightarrow> string" where
  "initrd_args base len = take 63 (''rd_start=0x'' @ hex_str 8 (unat base) @ '' rd_size=0x'' @ hex_str 8 (unat len))"

text \<open>The part after the image: the arguments, the trampoline and the jump.\<close>

definition load_tail :: "'d libusb \<Rightarrow> u32 \<Rightarrow> u32 \<Rightarrow> string list \<Rightarrow> ('d, 'c, int) host" where
  "load_tail L entry end_addr args = do {
     let args_base = ALIGN_addr end_addr;
     res \<leftarrow> load_args L args_base args;
     case res of (ret, argc, end2) \<Rightarrow>
       if ret = -1 then State_Monad.return (-1)
       else do {
         let trampoline_base = ALIGN_addr end2;
         let trampoline = make_trampoline argc args_base entry;
         or_fail (load_segment L (concat (List.map enc_u32 trampoline)) trampoline_base 48 48)
           (ingenic_go L trampoline_base) } }"

definition load_initrd :: "'d libusb \<Rightarrow> u32 \<Rightarrow> string \<Rightarrow> ('d, 'c, int \<times> u32 \<times> string) host" where
  "load_initrd L end_addr initrd = do {
     let initrd_base = ALIGN_addr end_addr;
     w \<leftarrow> State_Monad.get;
     case files w initrd of
       None \<Rightarrow> do { set_errno (fopen_errno w initrd); State_Monad.return (-1, 0, []) }
     | Some f \<Rightarrow> do {
         let initrd_size = of_nat (length (f_data f));
         let end2 = initrd_base + initrd_size;
         if end2 > load_limit (hnd w) then State_Monad.return (-1, end2, [])
         else do {
           r \<leftarrow> ingenic_load_sdram_file L initrd_base initrd;
           State_Monad.return (r, end2, initrd_args initrd_base initrd_size) } } }"

definition load_elf :: "'d libusb \<Rightarrow> string \<Rightarrow> string \<Rightarrow> string option \<Rightarrow> ('d, 'c, int) host" where
  "load_elf L filename args initrd = do {
     w \<leftarrow> State_Monad.get;
     case files w filename of
       None \<Rightarrow> fail_with (fopen_errno w filename)
     | Some elf \<Rightarrow> do {
         res \<leftarrow> load_elf_image L elf;
         case res of (ret, entry, end_addr) \<Rightarrow>
           if ret = -1 then State_Monad.return (-1)
           else (case initrd of
               None \<Rightarrow> load_tail L entry end_addr [filename, args]
             | Some name \<Rightarrow> do {
                 ird \<leftarrow> load_initrd L end_addr name;
                 case ird of (r, end2, extra) \<Rightarrow>
                   if r = -1 then State_Monad.return (-1)
                   else load_tail L entry end2 [filename, args, extra] }) } }"

end
