(* ===== verification/Ingenic_Nand.thy ===== *)
theory Ingenic_Nand
  imports Ingenic_Load
begin

unbundle bit_operations_syntax

text \<open>
  The NAND operations of \<^verbatim>\<open>jzboot/src/ingenic.c\<close>.  \<^verbatim>\<open>dump_chunk\<close> and \<^verbatim>\<open>program_chunk\<close> are one
  turn of the loops of \<^verbatim>\<open>ingenic_dump_nand\<close> and \<^verbatim>\<open>ingenic_program_nand\<close>, with the way they leave
  it; the loops take fuel, because a page larger than the transfer buffer makes the chunk zero
  pages and the C loop endless.
\<close>

definition nandop_value :: "u8 \<Rightarrow> u8 \<Rightarrow> u8 \<Rightarrow> u16" where
  "nandop_value cs request param =
     word_of_int ((push_bit 12 (uint param)) OR (push_bit 4 (uint cs)) OR (uint request AND 0x0F))"

definition ingenic_nandop :: "'d libusb \<Rightarrow> nat \<Rightarrow> u8 \<Rightarrow> u8 \<Rightarrow> u8 \<Rightarrow> ('d, 'c, int) host" where
  "ingenic_nandop L usb_hndl cs request param = do {
     res \<leftarrow> usbdev_vendor L usb_hndl USBDEV_TODEV VR_NAND_OPS (nandop_value cs request param) 0 [];
     State_Monad.return (fst res) }"

record nand_info =
  ni_vid :: u8
  ni_pid :: u8
  ni_chip :: u8
  ni_page :: u8
  ni_plane :: u8

definition dec_nand_info :: "bytes \<Rightarrow> nand_info" where
  "dec_nand_info bs = \<lparr>ni_vid = bs ! 0, ni_pid = bs ! 1, ni_chip = bs ! 2, ni_page = bs ! 3, ni_plane = bs ! 4\<rparr>"

definition ingenic_query_nand :: "'d libusb \<Rightarrow> int \<Rightarrow> ('d, 'c, int \<times> nand_info option) host" where
  "ingenic_query_nand L cs = do {
     h \<leftarrow> gets hnd;
     r \<leftarrow> ingenic_nandop L (h_usb h) (u8_of cs) NAND_QUERY 0;
     if r = -1 then State_Monad.return (-1, None)
     else do {
       garbage \<leftarrow> gets (uninit_buf 32);
       res \<leftarrow> usbdev_recvbulk L (h_usb h) garbage;
       case res of (ret, dummy) \<Rightarrow>
         if ret = -1 then State_Monad.return (-1, None)
         else if ret mod 2 ^ 64 < 5 then do { set_errno EIO; State_Monad.return (-1, None) }
         else do {
           res2 \<leftarrow> usbdev_recvbulk L (h_usb h) dummy;
           State_Monad.return (if fst res2 = -1 then (-1, Some (dec_nand_info dummy))
                               else (0, Some (dec_nand_info dummy))) } } }"

text \<open>How a turn of a loop ends: the next turn, \<^verbatim>\<open>break\<close> with a value of \<^verbatim>\<open>ret\<close>, or \<^verbatim>\<open>return\<close>.\<close>

datatype 'a ctrl = Next 'a | Break int | Return int

definition page_size_of :: "nand_config \<Rightarrow> int \<Rightarrow> int" where
  "page_size_of n type = c_int (uint (nand_ps n + (if type = NO_OOB then 0 else nand_os n)))"

definition append_file :: "string \<Rightarrow> bytes \<Rightarrow> ('d, 'c, unit) host" where
  "append_file name bs = State_Monad.update (\<lambda>w. w\<lparr>files := (files w)(name \<mapsto>
     (case files w name of Some f \<Rightarrow> \<lparr>f_data = f_data f @ bs, f_readable = length (f_data f @ bs)\<rparr>
      | None \<Rightarrow> \<lparr>f_data = bs, f_readable = length bs\<rparr>))\<rparr>)"

text \<open>The outer \<^verbatim>\<open>ret\<close> after a turn that reached the data phase is the value of the NAND request:
  the loop body declares a second \<^verbatim>\<open>ret\<close> that shadows it.\<close>

definition dump_chunk :: "'d libusb \<Rightarrow> nat \<Rightarrow> u8 \<Rightarrow> bool \<Rightarrow> int \<Rightarrow> string \<Rightarrow> int \<Rightarrow> int \<Rightarrow> int
    \<Rightarrow> ('d, 'c, int ctrl) host" where
  "dump_chunk L u cs raw type filename page_size start chunk = do {
     let bytes = chunk * page_size;
     r1 \<leftarrow> ingenic_wordop L u VR_SET_DATA_ADDRESS (word_of_int start);
     if r1 = -1 then State_Monad.return (Break (-1))
     else do {
       r2 \<leftarrow> ingenic_wordop L u VR_SET_DATA_LENGTH (word_of_int chunk);
       if r2 = -1 then State_Monad.return (Break (-1))
       else do {
         r3 \<leftarrow> ingenic_nandop L u cs (if raw then NAND_READ_RAW else NAND_READ) (u8_of type);
         if r3 = -1 then State_Monad.return (Break (-1))
         else do {
           iobuf \<leftarrow> gets (uninit_buf (nat bytes));
           res \<leftarrow> usbdev_recvbulk L u iobuf;
           case res of (ret, data) \<Rightarrow>
             if ret = -1 then State_Monad.return (Return (-1))
             else if ret \<noteq> bytes then do { set_errno EIO; State_Monad.return (Break r3) }
             else do {
               garbage \<leftarrow> gets (uninit_buf 8);
               res2 \<leftarrow> usbdev_recvbulk L u garbage;
               case res2 of (ret2, result) \<Rightarrow>
                 if ret2 = -1 then State_Monad.return (Return (-1))
                 else if dec_u16 (slice 6 2 result) \<noteq> 0 \<and> \<not> raw
                   then do { set_errno EIO; State_Monad.return (Break r3) }
                 else do { append_file filename data; State_Monad.return (Next r3) } } } } } }"

fun dump_loop :: "nat \<Rightarrow> 'd libusb \<Rightarrow> nat \<Rightarrow> u8 \<Rightarrow> bool \<Rightarrow> int \<Rightarrow> string \<Rightarrow> int \<Rightarrow> int \<Rightarrow> int \<Rightarrow> int \<Rightarrow> int \<Rightarrow> int \<Rightarrow> int
    \<Rightarrow> ('d, 'c, int ctrl option) host" where
  "dump_loop 0 L u cs raw type filename page_size chunk_pages maxv ret start pages val =
     State_Monad.return (if pages > 0 then None else Some (Break ret))"
| "dump_loop (Suc fuel) L u cs raw type filename page_size chunk_pages maxv ret start pages val =
     (if pages > 0 then do {
        let chunk = (if pages < chunk_pages then pages else chunk_pages);
        c \<leftarrow> dump_chunk L u cs raw type filename page_size start chunk;
        case c of
          Next r \<Rightarrow> do {
            callback_progress PROGRESS_UPDATE (c_int (val + chunk)) maxv;
            dump_loop fuel L u cs raw type filename page_size chunk_pages maxv r
              (c_int (start + chunk)) (c_int (pages - chunk)) (c_int (val + chunk)) }
        | Break r \<Rightarrow> State_Monad.return (Some (Break r))
        | Return r \<Rightarrow> State_Monad.return (Some (Return r)) }
      else State_Monad.return (Some (Break ret)))"

text \<open>\<^verbatim>\<open>None\<close>: the fuel ran out.  A division by a zero page size traps; it is recorded as undefined.\<close>

definition ingenic_dump_nand :: "nat \<Rightarrow> 'd libusb \<Rightarrow> int \<Rightarrow> int \<Rightarrow> int \<Rightarrow> int \<Rightarrow> string \<Rightarrow> ('d, 'c, int option) host" where
  "ingenic_dump_nand fuel L cs start pages type0 filename = do {
     h \<leftarrow> gets hnd;
     let raw = (type0 AND NAND_RAW \<noteq> 0);
     let type = type0 AND (NOT NAND_RAW);
     let page_size = page_size_of (h_nand h) type;
     if page_size = 0 then do { mark_ub True; State_Monad.return (Some (-1)) }
     else do {
       let chunk_pages = STAGE2_IOBUF sdiv page_size;
       w \<leftarrow> State_Monad.get;
       if \<not> writable w filename then do { set_errno (fopen_errno w filename); State_Monad.return (Some (-1)) }
       else do {
         State_Monad.update (\<lambda>w. w\<lparr>files := (files w)(filename \<mapsto> \<lparr>f_data = [], f_readable = 0\<rparr>)\<rparr>);
         callback_progress PROGRESS_INIT 0 pages;
         c \<leftarrow> dump_loop fuel L (h_usb h) (u8_of cs) raw type filename page_size chunk_pages pages 0 start pages 0;
         case c of
           None \<Rightarrow> State_Monad.return None
         | Some (Return r) \<Rightarrow> State_Monad.return (Some r)
         | Some (Break r) \<Rightarrow> do { callback_progress PROGRESS_FINI 0 0; State_Monad.return (Some r) }
         | Some (Next r) \<Rightarrow> State_Monad.return (Some r) } } }"

definition ingenic_erase_nand :: "'d libusb \<Rightarrow> int \<Rightarrow> int \<Rightarrow> int \<Rightarrow> ('d, 'c, int) host" where
  "ingenic_erase_nand L cs start blocks = do {
     h \<leftarrow> gets hnd;
     or_fail (ingenic_wordop L (h_usb h) VR_SET_DATA_ADDRESS (word_of_int start))
    (or_fail (ingenic_wordop L (h_usb h) VR_SET_DATA_LENGTH (word_of_int blocks))
    (or_fail (ingenic_nandop L (h_usb h) (u8_of cs) NAND_ERASE 0)
    (do { garbage \<leftarrow> gets (uninit_buf 8);
          res \<leftarrow> usbdev_recvbulk L (h_usb h) garbage;
          State_Monad.return (if fst res = -1 then -1 else 0) }))) }"

definition program_chunk :: "'d libusb \<Rightarrow> nat \<Rightarrow> u8 \<Rightarrow> int \<Rightarrow> c_file \<Rightarrow> int \<Rightarrow> int \<Rightarrow> int \<Rightarrow> nat \<Rightarrow> int \<Rightarrow> int \<Rightarrow> int
    \<Rightarrow> ('d, 'c, int ctrl) host" where
  "program_chunk L u cs type inp page_size chunk_pages tail pos start pages chunk = do {
     let bytes = chunk * page_size;
     let got = fread_at inp pos (nat bytes);
     let pad = (pages < chunk_pages \<and> tail \<noteq> 0);
     let ret = int (length got) + (if pad then tail else 0);
     mark_ub (pad \<and> ret > chunk_pages * page_size);
     if ret \<noteq> bytes then do { set_errno EIO; State_Monad.return (Break (-1)) }
     else do {
       s \<leftarrow> usbdev_sendbulk L u (got @ (if pad then replicate (nat tail) 0xFF else []));
       if s = -1 then State_Monad.return (Return (-1))
       else do {
         r1 \<leftarrow> ingenic_wordop L u VR_SET_DATA_ADDRESS (word_of_int start);
         if r1 = -1 then State_Monad.return (Break (-1))
         else do {
           r2 \<leftarrow> ingenic_wordop L u VR_SET_DATA_LENGTH (word_of_int chunk);
           if r2 = -1 then State_Monad.return (Break (-1))
           else do {
             r3 \<leftarrow> ingenic_nandop L u cs NAND_PROGRAM (u8_of type);
             if r3 = -1 then State_Monad.return (Break (-1))
             else do {
               garbage \<leftarrow> gets (uninit_buf 8);
               res \<leftarrow> usbdev_recvbulk L u garbage;
               if fst res = -1 then State_Monad.return (Return (-1))
               else State_Monad.return (Next (fst res)) } } } } } }"

fun program_loop :: "nat \<Rightarrow> 'd libusb \<Rightarrow> nat \<Rightarrow> u8 \<Rightarrow> int \<Rightarrow> c_file \<Rightarrow> int \<Rightarrow> int \<Rightarrow> int \<Rightarrow> int \<Rightarrow> int \<Rightarrow> nat \<Rightarrow> int \<Rightarrow> int \<Rightarrow> int
    \<Rightarrow> ('d, 'c, int ctrl option) host" where
  "program_loop 0 L u cs type inp page_size chunk_pages tail maxv ret pos start pages val =
     State_Monad.return (if pages > 0 then None else Some (Break ret))"
| "program_loop (Suc fuel) L u cs type inp page_size chunk_pages tail maxv ret pos start pages val =
     (if pages > 0 then do {
        let chunk = (if pages < chunk_pages then pages else chunk_pages);
        c \<leftarrow> program_chunk L u cs type inp page_size chunk_pages tail pos start pages chunk;
        case c of
          Next r \<Rightarrow> do {
            callback_progress PROGRESS_UPDATE (c_int (val + chunk)) maxv;
            program_loop fuel L u cs type inp page_size chunk_pages tail maxv r
              (pos + length (fread_at inp pos (nat (chunk * page_size))))
              (c_int (start + chunk)) (c_int (pages - chunk)) (c_int (val + chunk)) }
        | Break r \<Rightarrow> State_Monad.return (Some (Break r))
        | Return r \<Rightarrow> State_Monad.return (Some (Return r)) }
      else State_Monad.return (Some (Break ret)))"

definition ingenic_program_nand :: "nat \<Rightarrow> 'd libusb \<Rightarrow> int \<Rightarrow> int \<Rightarrow> int \<Rightarrow> string \<Rightarrow> ('d, 'c, int option) host" where
  "ingenic_program_nand fuel L cs start type filename = do {
     h \<leftarrow> gets hnd;
     let page_size = page_size_of (h_nand h) type;
     if page_size = 0 then do { mark_ub True; State_Monad.return (Some (-1)) }
     else do {
       let chunk_pages = STAGE2_IOBUF sdiv page_size;
       w \<leftarrow> State_Monad.get;
       case files w filename of
         None \<Rightarrow> do { set_errno (fopen_errno w filename); State_Monad.return (Some (-1)) }
       | Some inp \<Rightarrow> do {
           let file_size0 = c_int (int (length (f_data inp)));
           let tail0 = file_size0 smod page_size;
           let tail = (if tail0 \<noteq> 0 then page_size - tail0 else 0);
           let file_size = c_int (file_size0 + tail);
           let pages = file_size sdiv page_size;
           callback_progress PROGRESS_INIT 0 pages;
           c \<leftarrow> program_loop fuel L (h_usb h) (u8_of cs) type inp page_size chunk_pages tail pages 0 0 start pages 0;
           case c of
             None \<Rightarrow> State_Monad.return None
           | Some (Return r) \<Rightarrow> State_Monad.return (Some r)
           | Some (Break r) \<Rightarrow> do { callback_progress PROGRESS_FINI 0 0; State_Monad.return (Some r) }
           | Some (Next r) \<Rightarrow> State_Monad.return (Some r) } } }"

definition ingenic_load_nand :: "'d libusb \<Rightarrow> int \<Rightarrow> int \<Rightarrow> int \<Rightarrow> u32 \<Rightarrow> ('d, 'c, int) host" where
  "ingenic_load_nand L cs start pages base = do {
     h \<leftarrow> gets hnd;
     or_fail (ingenic_wordop L (h_usb h) VR_PROGRAM_START1 base)
    (or_fail (ingenic_wordop L (h_usb h) VR_SET_DATA_ADDRESS (word_of_int start))
    (or_fail (ingenic_wordop L (h_usb h) VR_SET_DATA_LENGTH (word_of_int pages))
    (or_fail (ingenic_nandop L (h_usb h) (u8_of cs) NAND_READ_TO_RAM 0)
    (do { garbage \<leftarrow> gets (uninit_buf 8);
          res \<leftarrow> usbdev_recvbulk L (h_usb h) garbage;
          State_Monad.return (if fst res = -1 then -1 else 0) })))) }"

end
