(* ===== verification/Shell.thy ===== *)
theory Shell
  imports Lexer Elfldr Ingenic_Nand
begin

unbundle bit_operations_syntax

text \<open>
  The command interpreter of \<^verbatim>\<open>jzboot/src/shell.c\<close> with its built-in commands
  (\<^verbatim>\<open>shell_builtins.c\<close>) and the two command sets (\<^verbatim>\<open>spl_cmdset.c\<close>, \<^verbatim>\<open>usbboot_cmdset.c\<close>).
  The context is the object the callbacks of the protocol layer act on.  Commands nest
  through \<^verbatim>\<open>source\<close> and \<^verbatim>\<open>safe\<close>, so execution takes fuel for the nesting and returns
  \<^verbatim>\<open>None\<close> when it runs out.
\<close>

section \<open>Context and command tables\<close>

datatype handler = builtin_help_H | builtin_exit_H | builtin_source_H | builtin_echo_H | builtin_sleep_H
  | builtin_set_H | builtin_safe_H | builtin_redetect_H | builtin_rebuildcfg_H
  | spl_memtest_H | spl_gpio_H | spl_boot_H
  | usbboot_boot_H | usbboot_load_H | usbboot_go_H | usbboot_load_kernel_H | usbboot_nquery_H
  | usbboot_ndump_H | usbboot_nerase_H | usbboot_nprogram_H | usbboot_nload_H

record shell_command =
  sc_cmd :: string
  sc_description :: string
  sc_handler :: handler
  sc_args :: "string option"

text \<open>The fields of the context, and the statics of the completion.
  \<^verbatim>\<open>ctx_line\<close> is what \<^verbatim>\<open>ctx->line\<close> points to, \<^verbatim>\<open>None\<close> once that is freed;
  \<^verbatim>\<open>tty_cols\<close> the width of the terminal, \<^verbatim>\<open>None\<close> when standard output is none.\<close>

record shell_context =
  ctx_line :: "string option"
  set_cmds :: "shell_command list option"
  shell_exit_flag :: int
  prev_progress :: int
  tty_cols :: "int option"
  completion_matches :: "string option list"
  completion_pass :: bool
  completion_matches_offset :: nat
  stdout :: string
  ctx_ub :: bool

type_synonym ('d, 'a) shl = "(('d, shell_context) world, 'a) state"
type_synonym argv = "string option list"

definition builtin_cmdset :: "shell_command list" where
  "builtin_cmdset =
    [\<lparr>sc_cmd = ''help'', sc_description = ''Display this message'', sc_handler = builtin_help_H, sc_args = None\<rparr>,
     \<lparr>sc_cmd = ''exit'', sc_description = ''Batch: stop current script, interactive: end session'', sc_handler = builtin_exit_H, sc_args = None\<rparr>,
     \<lparr>sc_cmd = ''source'', sc_description = ''Run specified script'', sc_handler = builtin_source_H, sc_args = Some ''<FILENAME>''\<rparr>,
     \<lparr>sc_cmd = ''echo'', sc_description = ''Output specified string'', sc_handler = builtin_echo_H, sc_args = Some ''<STRING> ...''\<rparr>,
     \<lparr>sc_cmd = ''sleep'', sc_description = ''Sleep a specified amount of time'', sc_handler = builtin_sleep_H, sc_args = Some ''<MILLISECONDS>''\<rparr>,
     \<lparr>sc_cmd = ''set'', sc_description = ''Print or set configuraton variables'', sc_handler = builtin_set_H, sc_args = Some ''[VARIABLE] [VALUE]''\<rparr>,
     \<lparr>sc_cmd = ''safe'', sc_description = ''Run command ignoring errors'', sc_handler = builtin_safe_H, sc_args = Some ''<COMMAND> [ARG] ...''\<rparr>,
     \<lparr>sc_cmd = ''redetect'', sc_description = ''Redetect CPU'', sc_handler = builtin_redetect_H, sc_args = None\<rparr>,
     \<lparr>sc_cmd = ''rebuildcfg'', sc_description = ''Rebuild firmware configuration data'', sc_handler = builtin_rebuildcfg_H, sc_args = None\<rparr>]"

definition spl_cmdset :: "shell_command list" where
  "spl_cmdset =
    [\<lparr>sc_cmd = ''memtest'', sc_description = ''SDRAM test'', sc_handler = spl_memtest_H, sc_args = Some ''[BASE] <SIZE>''\<rparr>,
     \<lparr>sc_cmd = ''gpio'', sc_description = ''Set GPIO #PIN to STATE 0 or 1'', sc_handler = spl_gpio_H, sc_args = Some ''<PIN> <STATE>''\<rparr>,
     \<lparr>sc_cmd = ''boot'', sc_description = ''Load stage2 USB bootloader'', sc_handler = spl_boot_H, sc_args = None\<rparr>]"

definition usbboot_cmdset :: "shell_command list" where
  "usbboot_cmdset =
    [\<lparr>sc_cmd = ''boot'', sc_description = ''Reconfigure stage2'', sc_handler = usbboot_boot_H, sc_args = None\<rparr>,
     \<lparr>sc_cmd = ''load'', sc_description = ''Load file to SDRAM'', sc_handler = usbboot_load_H, sc_args = Some ''<FILE> <BASE>''\<rparr>,
     \<lparr>sc_cmd = ''go'', sc_description = ''Jump to <ADDRESS>'', sc_handler = usbboot_go_H, sc_args = Some ''<ADDRESS>''\<rparr>,
     \<lparr>sc_cmd = ''load_kernel'', sc_description = ''Load ELF kernel and initrd to memory'', sc_handler = usbboot_load_kernel_H, sc_args = Some ''<KERNEL> <CMDLINE> [INITRAMFS]''\<rparr>,
     \<lparr>sc_cmd = ''nquery'', sc_description = ''Query NAND information'', sc_handler = usbboot_nquery_H, sc_args = Some ''<DEVICE>''\<rparr>,
     \<lparr>sc_cmd = ''ndump'', sc_description = ''Dump NAND to file'', sc_handler = usbboot_ndump_H, sc_args = Some ''<DEVICE> <STARTPAGE> <PAGES> <FILE>''\<rparr>,
     \<lparr>sc_cmd = ''ndump_oob'', sc_description = ''Dump NAND with OOB to file'', sc_handler = usbboot_ndump_H, sc_args = Some ''<DEVICE> <STARTPAGE> <PAGES> <FILE>''\<rparr>,
     \<lparr>sc_cmd = ''nerase'', sc_description = ''Erase NAND blocks'', sc_handler = usbboot_nerase_H, sc_args = Some ''<DEVICE> <STARTBLOCK> <BLOCKS>''\<rparr>,
     \<lparr>sc_cmd = ''nprogram'', sc_description = ''Program NAND from file'', sc_handler = usbboot_nprogram_H, sc_args = Some ''<DEVICE> <STARTPAGE> <FILE>''\<rparr>,
     \<lparr>sc_cmd = ''nprogram_oob'', sc_description = ''Program NAND with OOB from file'', sc_handler = usbboot_nprogram_H, sc_args = Some ''<DEVICE> <STARTPAGE> <FILE>''\<rparr>,
     \<lparr>sc_cmd = ''nload'', sc_description = ''Load NAND data to SDRAM'', sc_handler = usbboot_nload_H, sc_args = Some ''<DEVICE> <STARTPAGE> <PAGES> <BASE>''\<rparr>]"

definition cmdsets :: "(u32 \<times> string \<times> shell_command list) list" where
  "cmdsets = [(CMDSET_SPL, ''SPL'', spl_cmdset), (CMDSET_USBBOOT, ''USBBoot'', usbboot_cmdset)]"

section \<open>Callbacks\<close>

definition ctx_print :: "string \<Rightarrow> shell_context \<Rightarrow> shell_context" where
  "ctx_print s c = c\<lparr>stdout := stdout c @ s\<rparr>"

definition shell_update_cmdset :: "u32 \<Rightarrow> u32 \<Rightarrow> shell_context \<Rightarrow> shell_context" where
  "shell_update_cmdset cmdset type c = (case find (\<lambda>(n, name, cmds). n = cmdset) cmdsets of
      None \<Rightarrow> c\<lparr>set_cmds := None\<rparr>
    | Some (n, name, cmds) \<Rightarrow>
        (ctx_print (''Shell: using command set '' @ [CHR 0x27] @ name @ [CHR 0x27] @ '', run '' @ [CHR 0x27] @ ''help''
           @ [CHR 0x27] @ '' for command list. CPU: '' @ hex_str 4 (unat (CPUID type)) @ [CHR 0x0A]) c)\<lparr>set_cmds := Some cmds\<rparr>)"

definition spaces :: "int \<Rightarrow> string" where
  "spaces n = replicate (nat n) CHR '' ''"

text \<open>The progress bar.  The products are of type \<^verbatim>\<open>int\<close>: where they overflow, and where
  \<^verbatim>\<open>max\<close> is zero, the behaviour is undefined.\<close>

definition shell_progress :: "int \<Rightarrow> int \<Rightarrow> int \<Rightarrow> shell_context \<Rightarrow> shell_context" where
  "shell_progress action val maxv c = (case tty_cols c of None \<Rightarrow> c
    | Some cols \<Rightarrow> (let bar_size = cols - 6 in
        if action = PROGRESS_UPDATE then
          (let progress = c_int (val * bar_size) sdiv maxv;
               percent = c_int (val * 100) sdiv maxv;
               c' = c\<lparr>ctx_ub := ctx_ub c \<or> maxv = 0 \<or> c_int (val * bar_size) \<noteq> val * bar_size
                        \<or> c_int (val * 100) \<noteq> val * 100\<rparr>
           in if progress \<noteq> prev_progress c then
                (ctx_print ([CHR 0x0D, CHR 0x7C] @ replicate (nat progress) CHR ''='' @ spaces (bar_size - max 0 progress)
                   @ [CHR 0x7C] @ pad_left 3 (dec_int percent) @ ''%'') c')\<lparr>prev_progress := progress\<rparr>
              else c')
        else if action = PROGRESS_INIT \<or> action = PROGRESS_FINI then
          ctx_print ([CHR 0x0D] @ spaces cols @ [CHR 0x0D])
            (if action = PROGRESS_INIT then c\<lparr>prev_progress := -1\<rparr> else c)
        else c))"

definition shell_callbacks :: "shell_context callbacks" where
  "shell_callbacks = \<lparr>cmdset_change = Some shell_update_cmdset, progress = Some shell_progress\<rparr>"

definition shell_init :: "int option \<Rightarrow> ('d, unit) shl" where
  "shell_init cols = do {
     ingenic_set_callbacks (Some shell_callbacks)
       \<lparr>ctx_line = None, set_cmds = None, shell_exit_flag = 0, prev_progress = 0, tty_cols = cols,
        completion_matches = [], completion_pass = False, completion_matches_offset = 0, stdout = [],
        ctx_ub = False\<rparr>;
     State_Monad.update (\<lambda>w. w\<lparr>cb_data :=
       shell_update_cmdset (ingenic_cmdset (hnd w)) (h_type (hnd w)) (cb_data w)\<rparr>) }"

section \<open>Helpers\<close>

definition ctx_update :: "(shell_context \<Rightarrow> shell_context) \<Rightarrow> ('d, unit) shl" where
  "ctx_update f = State_Monad.update (\<lambda>w. w\<lparr>cb_data := f (cb_data w)\<rparr>)"

definition out_str :: "string \<Rightarrow> ('d, unit) shl" where
  "out_str s = ctx_update (ctx_print s)"

definition shell_exit :: "int \<Rightarrow> ('d, unit) shl" where
  "shell_exit v = ctx_update (\<lambda>c. c\<lparr>shell_exit_flag := v\<rparr>)"

text \<open>A dereference of \<^verbatim>\<open>argv[n]\<close>: undefined past the end of the array and for the null pointer
  of an empty string token.\<close>

definition arg :: "argv \<Rightarrow> nat \<Rightarrow> ('d, string) shl" where
  "arg argv n = (let a = (if n < length argv then argv ! n else None) in do {
     mark_ub (a = None);
     State_Monad.return (case a of Some s \<Rightarrow> s | None \<Rightarrow> []) })"

definition lift_ret :: "('d, int) shl \<Rightarrow> ('d, int option) shl" where
  "lift_ret m = do { r \<leftarrow> m; State_Monad.return (Some r) }"

definition ret :: "int \<Rightarrow> ('d, int option) shl" where
  "ret r = State_Monad.return (Some r)"

section \<open>Enumeration and dispatch\<close>

fun enum_cmds :: "(shell_command \<Rightarrow> ('d, int option) shl) \<Rightarrow> shell_command list \<Rightarrow> ('d, int option) shl" where
  "enum_cmds callback [] = ret 0"
| "enum_cmds callback (c # cs) = do {
     r \<leftarrow> callback c;
     if r = Some 0 then enum_cmds callback cs else State_Monad.return r }"

definition shell_enumerate_commands :: "(shell_command \<Rightarrow> ('d, int option) shl) \<Rightarrow> ('d, int option) shl" where
  "shell_enumerate_commands callback = do {
     r \<leftarrow> enum_cmds callback builtin_cmdset;
     if r \<noteq> Some 0 then State_Monad.return r
     else do {
       w \<leftarrow> State_Monad.get;
       case set_cmds (cb_data w) of
         None \<Rightarrow> ret 0
       | Some cs \<Rightarrow> enum_cmds callback cs } }"

text \<open>The tokens that \<^verbatim>\<open>strtok_r (\<dots>, " ", \<dots>)\<close> yields.\<close>

fun strtok_acc :: "string \<Rightarrow> string \<Rightarrow> string list" where
  "strtok_acc acc [] = (if acc = [] then [] else [acc])"
| "strtok_acc acc (c # cs) = (if c = CHR '' '' then (if acc = [] then [] else [acc]) @ strtok_acc [] cs
     else strtok_acc (acc @ [c]) cs)"

fun check_args_loop :: "nat \<Rightarrow> nat \<Rightarrow> int \<Rightarrow> string list \<Rightarrow> bool \<times> int" where
  "check_args_loop argc pos max_tokens [] = (False, max_tokens)"
| "check_args_loop argc pos max_tokens (t # ts) =
     (if t = ''...'' then (False, -1)
      else if argc - 1 < pos \<and> hd t = CHR ''['' then (False, max_tokens + 1)
      else if argc - 1 < pos \<and> hd t = CHR ''<'' then (True, max_tokens + 1)
      else check_args_loop argc (pos + 1) (max_tokens + 1) ts)"

definition args_invalid :: "string option \<Rightarrow> nat \<Rightarrow> bool" where
  "args_invalid args argc = (case args of
     None \<Rightarrow> argc \<noteq> 1
   | Some a \<Rightarrow> (case check_args_loop argc 1 1 (strtok_acc [] a) of
       (invalid, max_tokens) \<Rightarrow> invalid \<or> (max_tokens \<noteq> -1 \<and> int argc > max_tokens)))"

definition shell_run_function :: "(handler \<Rightarrow> argv \<Rightarrow> ('d, int option) shl) \<Rightarrow> argv \<Rightarrow> shell_command
    \<Rightarrow> ('d, int option) shl" where
  "shell_run_function handle argv cmd = do {
     name \<leftarrow> arg argv 0;
     if sc_cmd cmd = name then
       (if args_invalid (sc_args cmd) (length argv) then lift_ret (fail_with EINVAL)
        else do {
          r \<leftarrow> handle (sc_handler cmd) argv;
          State_Monad.return (if r = Some 0 then Some 1 else r) })
     else ret 0 }"

definition shell_run_with :: "(handler \<Rightarrow> argv \<Rightarrow> ('d, int option) shl) \<Rightarrow> argv \<Rightarrow> ('d, int option) shl" where
  "shell_run_with handle argv = do {
     r \<leftarrow> shell_enumerate_commands (shell_run_function handle argv);
     if r = Some 0 then lift_ret (fail_with EINVAL)
     else State_Monad.return (if r = Some 1 then Some 0 else r) }"

section \<open>The interpreter of a line\<close>

datatype lex_state = STATE_WANTSTR | STATE_WANTSPACE

text \<open>The loop of \<^verbatim>\<open>shell_execute\<close> over the tokens, with the arguments collected so far.\<close>

fun execute_loop :: "nat \<Rightarrow> (argv \<Rightarrow> ('d, int option) shl) \<Rightarrow> string \<Rightarrow> bool \<Rightarrow> lex_state \<Rightarrow> argv
    \<Rightarrow> ('d, int option) shl" where
  "execute_loop 0 run buf eof st argv = State_Monad.return None"
| "execute_loop (Suc n) run buf eof st argv = do {
     line \<leftarrow> gets (\<lambda>w. ctx_line (cb_data w));
     case yylex buf eof line of (token, buf', eof', line', bad) \<Rightarrow> do {
       ctx_update (\<lambda>c. c\<lparr>ctx_line := line'\<rparr>);
       mark_ub bad;
       if token \<in> {TOK_SEPARATOR, TOK_COMMENT, TOK_EOF} then do {
         r \<leftarrow> (if argv \<noteq> [] then run argv else ret 0);
         if r = None then State_Monad.return None
         else if r = Some (-1) then ret (-1)
         else if token = TOK_SEPARATOR then execute_loop n run buf' eof' STATE_WANTSTR []
         else ret 0 }
       else (case (st, token) of
           (STATE_WANTSTR, TOK_STRING s) \<Rightarrow> execute_loop n run buf' eof' STATE_WANTSPACE (argv @ [s])
         | (_, TOK_SPACE) \<Rightarrow> execute_loop n run buf' eof' STATE_WANTSTR argv
         | _ \<Rightarrow> ret (-1)) } }"

text \<open>\<^verbatim>\<open>shell_execute\<close>: the copy of the line is freed at the end, and \<^verbatim>\<open>ctx->line\<close> then points
  to freed memory.  Every token takes a character, so the bound on the turns is enough.\<close>

definition shell_execute_with :: "(argv \<Rightarrow> ('d, int option) shl) \<Rightarrow> string \<Rightarrow> ('d, int option) shl" where
  "shell_execute_with run cmd = do {
     ctx_update (\<lambda>c. c\<lparr>ctx_line := Some cmd\<rparr>);
     r \<leftarrow> execute_loop (length cmd + 2) run [] False STATE_WANTSTR [];
     ctx_update (\<lambda>c. c\<lparr>ctx_line := None\<rparr>);
     State_Monad.return r }"

text \<open>The pieces that \<^verbatim>\<open>fgets\<close> reads into the 512 bytes of \<^verbatim>\<open>ctx->linebuf\<close>.\<close>

fun fgets_acc :: "string \<Rightarrow> string \<Rightarrow> string list" where
  "fgets_acc acc [] = (if acc = [] then [] else [acc])"
| "fgets_acc acc (c # cs) =
     (if c = CHR 0x0A \<or> length acc + 1 = 511 then (acc @ [c]) # fgets_acc [] cs
      else fgets_acc (acc @ [c]) cs)"

fun source_loop :: "(argv \<Rightarrow> ('d, int option) shl) \<Rightarrow> string list \<Rightarrow> ('d, int option) shl" where
  "source_loop run [] = ret 0"
| "source_loop run (line # lines) = do {
     ex \<leftarrow> gets (\<lambda>w. shell_exit_flag (cb_data w));
     if ex \<noteq> 0 then ret 0
     else do {
       r \<leftarrow> shell_execute_with run line;
       if r = None \<or> r = Some (-1) then State_Monad.return r
       else source_loop run lines } }"

definition text_of :: "bytes \<Rightarrow> string" where
  "text_of bs = List.map (\<lambda>b. char_of (unat b)) bs"

definition shell_source_with :: "(argv \<Rightarrow> ('d, int option) shl) \<Rightarrow> string \<Rightarrow> ('d, int option) shl" where
  "shell_source_with run filename = do {
     shell_exit 0;
     w \<leftarrow> State_Monad.get;
     case files w filename of
       None \<Rightarrow> lift_ret (fail_with (fopen_errno w filename))
     | Some f \<Rightarrow> source_loop run (fgets_acc [] (text_of (take (f_readable f) (f_data f)))) }"

section \<open>Built-in commands\<close>

definition cmd_width :: "shell_command \<Rightarrow> nat" where
  "cmd_width c = length (sc_cmd c) + (case sc_args c of None \<Rightarrow> 0 | Some a \<Rightarrow> length a + 1)"

definition help_line :: "nat \<Rightarrow> shell_command \<Rightarrow> string" where
  "help_line maxlen c = sc_cmd c @ (case sc_args c of None \<Rightarrow> [] | Some a \<Rightarrow> '' '' @ a)
     @ replicate (maxlen - cmd_width c) CHR '' '' @ sc_description c @ [CHR 0x0A]"

definition builtin_help :: "('d, int option) shl" where
  "builtin_help = do {
     w \<leftarrow> State_Monad.get;
     let cmds = builtin_cmdset @ (case set_cmds (cb_data w) of None \<Rightarrow> [] | Some cs \<Rightarrow> cs);
     let maxwidth = fold (\<lambda>c m. max (cmd_width c) m) cmds 0 + 2;
     shell_enumerate_commands (\<lambda>c. do { out_str (help_line maxwidth c); ret 0 }) }"

definition builtin_exit :: "('d, int option) shl" where
  "builtin_exit = do { shell_exit 1; ret 0 }"

definition builtin_source :: "(string \<Rightarrow> ('d, int option) shl) \<Rightarrow> argv \<Rightarrow> ('d, int option) shl" where
  "builtin_source source argv = do {
     f \<leftarrow> arg argv 1;
     r \<leftarrow> source f;
     shell_exit 0;
     State_Monad.return r }"

fun echo_loop :: "argv \<Rightarrow> ('d, unit) shl" where
  "echo_loop [] = State_Monad.return ()"
| "echo_loop (a # as) = do {
     s \<leftarrow> arg [a] 0;
     out_str (s @ (if as \<noteq> [] then '' '' else [CHR 0x0A]));
     echo_loop as }"

definition builtin_echo :: "argv \<Rightarrow> ('d, int option) shl" where
  "builtin_echo argv = do { echo_loop (drop 1 argv); ret 0 }"

definition builtin_sleep :: "argv \<Rightarrow> ('d, int option) shl" where
  "builtin_sleep argv = do { ms \<leftarrow> arg argv 1; ret 0 }"

definition builtin_redetect :: "'d libusb \<Rightarrow> ('d, int option) shl" where
  "builtin_redetect L = lift_ret (or_fail (ingenic_redetect L) (State_Monad.return 0))"

definition builtin_set :: "argv \<Rightarrow> ('d, int option) shl" where
  "builtin_set argv =
     (if length argv = 1 then do {
        w \<leftarrow> State_Monad.get;
        out_str (concat (List.map (\<lambda>e. e @ [CHR 0x0A]) (entries (environ w))));
        ret 0 }
      else if length argv = 2 then do {
        v \<leftarrow> arg argv 1;
        w \<leftarrow> State_Monad.get;
        mark_ub (snd (cfg_unsetenv v (environ w)));
        State_Monad.update (\<lambda>w. w\<lparr>environ := fst (cfg_unsetenv v (environ w))\<rparr>);
        ret 0 }
      else if length argv = 3 then do {
        v \<leftarrow> arg argv 1;
        x \<leftarrow> arg argv 2;
        State_Monad.update (\<lambda>w. w\<lparr>environ := cfg_setenv v x (environ w)\<rparr>);
        ret 0 }
      else ret 0)"

definition builtin_rebuildcfg :: "('d, int option) shl" where
  "builtin_rebuildcfg = lift_ret ingenic_rebuild"

definition builtin_safe :: "(argv \<Rightarrow> ('d, int option) shl) \<Rightarrow> argv \<Rightarrow> ('d, int option) shl" where
  "builtin_safe run argv = do {
     r \<leftarrow> run (drop 1 argv);
     State_Monad.return (if r = None then None else Some 0) }"

section \<open>The command set of the boot ROM\<close>

definition spl_stage1_op :: "'d libusb \<Rightarrow> u32 \<Rightarrow> u32 \<Rightarrow> u32 \<Rightarrow> u32 \<Rightarrow> ('d, int) shl" where
  "spl_stage1_op L op pin base len = do {
     env \<leftarrow> gets environ;
     case cfg_getenv env ''STAGE1_FILE'' of
       None \<Rightarrow> do { out_str (''Variable STAGE1_FILE is not set'' @ [CHR 0x0A]); State_Monad.return (-1) }
     | Some f \<Rightarrow> ingenic_stage1_debugop L (Some f) op pin base len }"

definition spl_memtest :: "'d libusb \<Rightarrow> argv \<Rightarrow> ('d, int) shl" where
  "spl_memtest L argv = do {
     w \<leftarrow> State_Monad.get;
     a \<leftarrow> (if length argv = 3 then do {
             s \<leftarrow> arg argv 1;
             n \<leftarrow> arg argv 2;
             State_Monad.return (strtoul 0 s, strtoul 0 n) }
           else State_Monad.return (SDRAM_BASE, ingenic_sdram_size (hnd w)));
     case cfg_getenv (environ w) ''STAGE1_FILE'' of
       None \<Rightarrow> do { out_str (''Variable STAGE1_FILE is not set'' @ [CHR 0x0A]); State_Monad.return (-1) }
     | Some f \<Rightarrow> do {
         res \<leftarrow> ingenic_memtest L (Some f) (fst a) (snd a);
         e \<leftarrow> gets errno;
         (if fst res = -1 then
            (if e = EFAULT then do {
               mark_ub (snd res = None);
               out_str (''Memory test failed at address 0x'' @ hex_str 8 (case snd res of Some v \<Rightarrow> unat v | None \<Rightarrow> 0) @ [CHR 0x0A]) }
             else State_Monad.return ())
          else out_str (''Memory test passed'' @ [CHR 0x0A]));
         State_Monad.return (fst res) } }"

definition spl_gpio :: "'d libusb \<Rightarrow> argv \<Rightarrow> ('d, int) shl" where
  "spl_gpio L argv = do {
     st \<leftarrow> arg argv 2;
     if st \<noteq> ''0'' \<and> st \<noteq> ''1'' then do {
       name \<leftarrow> arg argv 0;
       out_str (''Usage: '' @ name @ '' <PIN> <STATE>'' @ [CHR 0x0A] @ ''  STATE := 0 | 1'' @ [CHR 0x0A]);
       State_Monad.return (-1) }
     else do {
       pin \<leftarrow> arg argv 1;
       spl_stage1_op L (if st = ''1'' then STAGE1_DEBUG_GPIO_SET else STAGE1_DEBUG_GPIO_CLEAR)
         (word_of_int (atoi pin)) 0 0 } }"

definition spl_boot :: "'d libusb \<Rightarrow> ('d, int) shl" where
  "spl_boot L = or_fail (spl_stage1_op L 0 0 0 0) (do {
     env \<leftarrow> gets environ;
     case cfg_getenv env ''STAGE2_FILE'' of
       None \<Rightarrow> do { out_str (''Variable STAGE2_FILE is not set'' @ [CHR 0x0A]); State_Monad.return (-1) }
     | Some f \<Rightarrow> or_fail (ingenic_loadstage L INGENIC_STAGE2 (Some f)) (ingenic_configure_stage2 L) })"

section \<open>The command set of the second stage\<close>

definition usbboot_load :: "'d libusb \<Rightarrow> argv \<Rightarrow> ('d, int) shl" where
  "usbboot_load L argv = do {
     f \<leftarrow> arg argv 1;
     b \<leftarrow> arg argv 2;
     ingenic_load_sdram_file L (strtoul 0 b) f }"

definition usbboot_go :: "'d libusb \<Rightarrow> argv \<Rightarrow> ('d, int) shl" where
  "usbboot_go L argv = do { a \<leftarrow> arg argv 1; ingenic_go L (strtoul 0 a) }"

definition usbboot_nquery :: "'d libusb \<Rightarrow> argv \<Rightarrow> ('d, int) shl" where
  "usbboot_nquery L argv = do {
     d \<leftarrow> arg argv 1;
     res \<leftarrow> ingenic_query_nand L (atoi d);
     case res of (r, info) \<Rightarrow>
       if r = -1 then State_Monad.return (-1)
       else do {
         (case info of None \<Rightarrow> State_Monad.return ()
          | Some i \<Rightarrow> out_str (''VID:   '' @ hex_str 2 (unat (ni_vid i)) @ [CHR 0x0A]
              @ ''PID:   '' @ hex_str 2 (unat (ni_pid i)) @ [CHR 0x0A]
              @ ''Chip:  '' @ hex_str 2 (unat (ni_chip i)) @ [CHR 0x0A]
              @ ''Page:  '' @ hex_str 2 (unat (ni_page i)) @ [CHR 0x0A]
              @ ''Plane: '' @ hex_str 2 (unat (ni_plane i)) @ [CHR 0x0A]));
         State_Monad.return 0 } }"

definition usbboot_ndump :: "nat \<Rightarrow> 'd libusb \<Rightarrow> argv \<Rightarrow> ('d, int option) shl" where
  "usbboot_ndump fuel L argv = do {
     name \<leftarrow> arg argv 0;
     env \<leftarrow> gets environ;
     let type = (if name \<noteq> ''ndump_oob'' then NO_OOB else OOB_ECC);
     let type = (if cfg_getenv env ''NAND_RAW'' \<noteq> None then type OR NAND_RAW else type);
     dev \<leftarrow> arg argv 1;
     start \<leftarrow> arg argv 2;
     pages \<leftarrow> arg argv 3;
     f \<leftarrow> arg argv 4;
     ingenic_dump_nand fuel L (atoi dev) (atoi start) (atoi pages) type f }"

definition usbboot_nerase :: "'d libusb \<Rightarrow> argv \<Rightarrow> ('d, int) shl" where
  "usbboot_nerase L argv = do {
     dev \<leftarrow> arg argv 1;
     start \<leftarrow> arg argv 2;
     blocks \<leftarrow> arg argv 3;
     ingenic_erase_nand L (atoi dev) (atoi start) (atoi blocks) }"

definition usbboot_nprogram :: "nat \<Rightarrow> 'd libusb \<Rightarrow> argv \<Rightarrow> ('d, int option) shl" where
  "usbboot_nprogram fuel L argv = do {
     name \<leftarrow> arg argv 0;
     env \<leftarrow> gets environ;
     let type = (if name = ''nprogram_oob''
                 then (if cfg_getenv env ''NAND_RAW'' \<noteq> None then OOB_ECC else OOB_NO_ECC) else NO_OOB);
     dev \<leftarrow> arg argv 1;
     start \<leftarrow> arg argv 2;
     f \<leftarrow> arg argv 3;
     ingenic_program_nand fuel L (atoi dev) (atoi start) type f }"

definition usbboot_nload :: "'d libusb \<Rightarrow> argv \<Rightarrow> ('d, int) shl" where
  "usbboot_nload L argv = do {
     dev \<leftarrow> arg argv 1;
     start \<leftarrow> arg argv 2;
     pages \<leftarrow> arg argv 3;
     base \<leftarrow> arg argv 4;
     ingenic_load_nand L (atoi dev) (atoi start) (atoi pages) (strtoul 0 base) }"

definition usbboot_load_kernel :: "'d libusb \<Rightarrow> argv \<Rightarrow> ('d, int) shl" where
  "usbboot_load_kernel L argv = do {
     kernel \<leftarrow> arg argv 1;
     cmdline \<leftarrow> arg argv 2;
     initrd \<leftarrow> (if length argv = 4 then State_Monad.return (argv ! 3) else State_Monad.return None);
     load_elf L kernel cmdline initrd }"

section \<open>Execution\<close>

definition run_handler :: "nat \<Rightarrow> 'd libusb \<Rightarrow> (argv \<Rightarrow> ('d, int option) shl) \<Rightarrow> handler \<Rightarrow> argv
    \<Rightarrow> ('d, int option) shl" where
  "run_handler fuel L run h argv = (case h of
     builtin_help_H \<Rightarrow> builtin_help
   | builtin_exit_H \<Rightarrow> builtin_exit
   | builtin_source_H \<Rightarrow> builtin_source (shell_source_with run) argv
   | builtin_echo_H \<Rightarrow> builtin_echo argv
   | builtin_sleep_H \<Rightarrow> builtin_sleep argv
   | builtin_set_H \<Rightarrow> builtin_set argv
   | builtin_safe_H \<Rightarrow> builtin_safe run argv
   | builtin_redetect_H \<Rightarrow> builtin_redetect L
   | builtin_rebuildcfg_H \<Rightarrow> builtin_rebuildcfg
   | spl_memtest_H \<Rightarrow> lift_ret (spl_memtest L argv)
   | spl_gpio_H \<Rightarrow> lift_ret (spl_gpio L argv)
   | spl_boot_H \<Rightarrow> lift_ret (spl_boot L)
   | usbboot_boot_H \<Rightarrow> lift_ret (ingenic_configure_stage2 L)
   | usbboot_load_H \<Rightarrow> lift_ret (usbboot_load L argv)
   | usbboot_go_H \<Rightarrow> lift_ret (usbboot_go L argv)
   | usbboot_load_kernel_H \<Rightarrow> lift_ret (usbboot_load_kernel L argv)
   | usbboot_nquery_H \<Rightarrow> lift_ret (usbboot_nquery L argv)
   | usbboot_ndump_H \<Rightarrow> usbboot_ndump fuel L argv
   | usbboot_nerase_H \<Rightarrow> lift_ret (usbboot_nerase L argv)
   | usbboot_nprogram_H \<Rightarrow> usbboot_nprogram fuel L argv
   | usbboot_nload_H \<Rightarrow> lift_ret (usbboot_nload L argv))"

text \<open>\<^verbatim>\<open>shell_run\<close> with \<^verbatim>\<open>n\<close> levels of nesting left; \<^verbatim>\<open>loops\<close> is the fuel of the NAND loops.\<close>

fun shell_run :: "nat \<Rightarrow> nat \<Rightarrow> 'd libusb \<Rightarrow> argv \<Rightarrow> ('d, int option) shl" where
  "shell_run 0 loops L argv = State_Monad.return None"
| "shell_run (Suc n) loops L argv = shell_run_with (run_handler loops L (shell_run n loops L)) argv"

definition shell_execute :: "nat \<Rightarrow> nat \<Rightarrow> 'd libusb \<Rightarrow> string \<Rightarrow> ('d, int option) shl" where
  "shell_execute n loops L cmd = shell_execute_with (shell_run n loops L) cmd"

definition shell_source :: "nat \<Rightarrow> nat \<Rightarrow> 'd libusb \<Rightarrow> string \<Rightarrow> ('d, int option) shl" where
  "shell_source n loops L filename = shell_source_with (shell_run n loops L) filename"

text \<open>The interactive loop over the lines that standard input delivers before its end.\<close>

fun shell_interactive_loop :: "nat \<Rightarrow> nat \<Rightarrow> 'd libusb \<Rightarrow> string list \<Rightarrow> ('d, unit option) shl" where
  "shell_interactive_loop n loops L [] = do { out_str ''jzboot> ''; State_Monad.return (Some ()) }"
| "shell_interactive_loop n loops L (line # lines) = do {
     out_str ''jzboot> '';
     r \<leftarrow> shell_execute n loops L line;
     ex \<leftarrow> gets (\<lambda>w. shell_exit_flag (cb_data w));
     if r = None then State_Monad.return None
     else if ex \<noteq> 0 then State_Monad.return (Some ())
     else shell_interactive_loop n loops L lines }"

definition shell_interactive :: "nat \<Rightarrow> nat \<Rightarrow> 'd libusb \<Rightarrow> string list \<Rightarrow> ('d, unit option) shl" where
  "shell_interactive n loops L lines = do { shell_exit 0; shell_interactive_loop n loops L lines }"

end
