(* ===== verification/Jzboot_Main.thy ===== *)
theory Jzboot_Main
  imports Shell
begin

text \<open>
  The program \<^verbatim>\<open>jzboot/src/main.c\<close>: the options as \<^verbatim>\<open>getopt\<close> yields them, and the sequence
  enumerate, open, probe, configuration script, then a command line, a script or the
  interactive loop; resources are released on every path.
\<close>

record options =
  o_idx :: int
  o_enumerate :: bool
  o_cmd :: "string option"
  o_script :: "string option"
  o_config :: "string option"
  o_debug :: int

definition default_options :: options where
  "default_options = \<lparr>o_idx = -1, o_enumerate = False, o_cmd = None, o_script = None, o_config = None, o_debug = 1\<rparr>"

text \<open>\<^verbatim>\<open>Inl\<close> is the exit status of a run that ends in the option loop.\<close>

fun parse_options :: "(char \<times> string) list \<Rightarrow> options \<Rightarrow> int + options" where
  "parse_options [] o0 = Inr o0"
| "parse_options ((ch, optarg) # rest) o0 =
     (if ch = CHR ''e'' then parse_options rest (o0\<lparr>o_enumerate := True\<rparr>)
      else if ch = CHR ''i'' then parse_options rest (o0\<lparr>o_idx := atoi optarg\<rparr>)
      else if ch = CHR ''c'' then parse_options rest (o0\<lparr>o_cmd := Some optarg\<rparr>)
      else if ch = CHR ''b'' then parse_options rest (o0\<lparr>o_script := Some optarg\<rparr>)
      else if ch = CHR ''C'' then parse_options rest (o0\<lparr>o_config := Some optarg\<rparr>)
      else if ch = CHR ''d'' then parse_options rest (o0\<lparr>o_debug := atoi optarg\<rparr>)
      else if ch = CHR ''v'' then Inl 0
      else Inl 1)"

definition dev_line :: "int \<Rightarrow> u16 \<Rightarrow> u16 \<Rightarrow> nat \<Rightarrow> string \<Rightarrow> string" where
  "dev_line idx vid pid data acc = acc @ ''  Device '' @ dec_int idx @ '': '' @ hex_str 4 (unat vid) @ '':''
     @ hex_str 4 (unat pid) @ [CHR 0x0A]"

text \<open>The part with an open shell: the exit status.\<close>

definition run_shell :: "nat \<Rightarrow> nat \<Rightarrow> 'd libusb \<Rightarrow> options \<Rightarrow> string list \<Rightarrow> ('d, int option) shl" where
  "run_shell n loops L opt input = do {
     c \<leftarrow> (case o_config opt of None \<Rightarrow> ret 0 | Some f \<Rightarrow> shell_source n loops L f);
     if c = None then State_Monad.return None
     else if c = Some (-1) then ret 1
     else (case o_cmd opt of
         Some cmd \<Rightarrow> do {
           r \<leftarrow> shell_execute n loops L cmd;
           State_Monad.return (case r of None \<Rightarrow> None | Some v \<Rightarrow> Some (if v = -1 then 1 else 0)) }
       | None \<Rightarrow> (case o_script opt of
           Some f \<Rightarrow> do {
             r \<leftarrow> shell_source n loops L f;
             State_Monad.return (case r of None \<Rightarrow> None | Some v \<Rightarrow> Some (if v = -1 then 1 else 0)) }
         | None \<Rightarrow> do {
             r \<leftarrow> shell_interactive n loops L input;
             State_Monad.return (case r of None \<Rightarrow> None | Some _ \<Rightarrow> Some 0) })) }"

definition run_device :: "nat \<Rightarrow> nat \<Rightarrow> 'd libusb \<Rightarrow> options \<Rightarrow> int option \<Rightarrow> string list \<Rightarrow> nat \<Rightarrow> ('d, int option) shl" where
  "run_device n loops L opt cols input dev = do {
     h \<leftarrow> usbdev_open L dev;
     case h of
       None \<Rightarrow> ret 1
     | Some hndl \<Rightarrow> do {
         ok \<leftarrow> ingenic_open L hndl;
         r \<leftarrow> (if ok then do { shell_init cols; run_shell n loops L opt input } else ret 1);
         usbdev_close L hndl;
         State_Monad.return r } }"

definition jzboot_main :: "nat \<Rightarrow> nat \<Rightarrow> 'd libusb \<Rightarrow> (char \<times> string) list \<Rightarrow> int option \<Rightarrow> string list
    \<Rightarrow> ('d, int option) shl" where
  "jzboot_main n loops L args cols input = (case parse_options args default_options of
     Inl status \<Rightarrow> ret status
   | Inr opt \<Rightarrow>
       if \<not> o_enumerate opt \<and> o_idx opt < 0 then ret 1
       else do {
         i \<leftarrow> usbdev_init L;
         if i = -1 then ret 1
         else do {
           e \<leftarrow> usbdev_enumerate L;
           r \<leftarrow> (if e = -1 then ret 1
                 else if o_enumerate opt then do {
                   devs \<leftarrow> gets devlist;
                   out_str (''Ingenic devices list:'' @ [CHR 0x0A] @ enum_devices dev_line devs []);
                   ret 0 }
                 else do {
                   devs \<leftarrow> gets devlist;
                   case get_device (o_idx opt) devs of
                     None \<Rightarrow> ret 1
                   | Some dev \<Rightarrow> run_device n loops L opt cols input dev });
           usbdev_fini L;
           State_Monad.return r } })"

end
