(* ===== verification/Ingenic_Facts.thy ===== *)
theory Ingenic_Facts
  imports Ingenic_Load
begin

unbundle bit_operations_syntax

text \<open>
  What the configuration and the loading operations of \<^verbatim>\<open>jzboot/src/ingenic.c\<close> guarantee: the
  packing of the device type, the conditions under which \<^verbatim>\<open>ingenic_rebuild\<close> accepts an
  environment and the configuration it stores, the size of the memory it computes, and the
  requests that loading a boot stage sends to an arbitrary device.
\<close>

section \<open>The type word\<close>

lemma low_half: "(0xFFFF :: u32) = mask 16" "(0xFFFF0000 :: u32) = push_bit 16 (mask 16)"
  by (simp_all add: mask_eq_exp_minus_1)

lemma BUILDTYPE_parts: "CMDSET (BUILDTYPE cs cpu) = cs AND 0xFFFF" "CPUID (BUILDTYPE cs cpu) = cpu AND 0xFFFF"
  unfolding CMDSET_def CPUID_def BUILDTYPE_def low_half
  by (rule bit_word_eqI; auto simp: bit_simps)+

text \<open>The device type packs the command set and the processor: both are read back by
  \<^verbatim>\<open>CMDSET\<close> and \<^verbatim>\<open>CPUID\<close>, whatever the 16-bit values, and the identification table gives
  every magic string another, non-zero type.\<close>

theorem buildtype_roundtrip:
  "CMDSET (BUILDTYPE cs cpu) = cs AND 0xFFFF \<and> CPUID (BUILDTYPE cs cpu) = cpu AND 0xFFFF
   \<and> distinct (List.map snd magic_list) \<and> 0 \<notin> set (List.map snd magic_list)
   \<and> List.map (\<lambda>(m, t). (CMDSET t, CPUID t)) magic_list
       = [(CMDSET_SPL, 0x4740), (CMDSET_SPL, 0x4750), (CMDSET_SPL, 0x4760),
          (CMDSET_USBBOOT, 0x4740), (CMDSET_USBBOOT, 0x4750), (CMDSET_USBBOOT, 0x4760)]"
  by (simp add: BUILDTYPE_parts magic_list_def CMDSET_SPL_def CMDSET_USBBOOT_def)
    (simp add: BUILDTYPE_def)

section \<open>The configuration\<close>

text \<open>The value of an option, and the specification of \<^verbatim>\<open>ingenic_rebuild\<close>: which environments it
  accepts, and what it computes from an accepted one.\<close>

definition opt_val :: "environ \<Rightarrow> string \<Rightarrow> int" where
  "opt_val env name = (case cfg_getenv env name of None \<Rightarrow> 0 | Some str \<Rightarrow> atoi str)"

definition opt_ok :: "environ \<Rightarrow> string \<Rightarrow> (int \<Rightarrow> bool) \<Rightarrow> bool" where
  "opt_ok env name test = (case cfg_getenv env name of None \<Rightarrow> False | Some str \<Rightarrow> test (atoi str))"

definition nand_options :: "string list" where
  "nand_options = [''NAND_BUSWIDTH'', ''NAND_ROWCYCLES'', ''NAND_PAGESIZE'', ''NAND_PAGEPERBLOCK'', ''NAND_FORCEERASE'',
     ''NAND_OOBSIZE'', ''NAND_ECCPOS'', ''NAND_BADBLOCKPOS'', ''NAND_BADBLOCKPAGE'', ''NAND_PLANENUM'', ''NAND_BCHBIT'',
     ''NAND_WPPIN'', ''NAND_BLOCKPERCHIP'']"

definition env_valid :: "environ \<Rightarrow> bool" where
  "env_valid env =
    (opt_ok env ''EXTCLK'' (\<lambda>v. v \<le> 27 \<and> 12 \<le> v) \<and> opt_ok env ''CPUSPEED'' (\<lambda>v. 12 dvd v)
     \<and> opt_ok env ''PHMDIV'' (\<lambda>v. v \<le> 32 \<and> 2 \<le> v) \<and> opt_ok env ''USEUART'' (\<lambda>v. True)
     \<and> opt_ok env ''BAUDRATE'' (\<lambda>v. True) \<and> opt_ok env ''SDRAM_BUSWIDTH'' (\<lambda>v. v \<in> {16, 32})
     \<and> opt_ok env ''SDRAM_BANKS'' (\<lambda>v. 4 \<le> v \<and> 4 dvd v) \<and> opt_ok env ''SDRAM_ROWADDR'' (\<lambda>v. True)
     \<and> opt_ok env ''SDRAM_COLADDR'' (\<lambda>v. True) \<and> opt_ok env ''SDRAM_ISMOBILE'' (\<lambda>v. v \<in> {0, 1})
     \<and> opt_ok env ''SDRAM_ISBUSSHARE'' (\<lambda>v. v \<in> {0, 1})
     \<and> (\<forall>name \<in> set nand_options. opt_ok env name (\<lambda>v. True)))"

definition rebuilt_cfg :: "environ \<Rightarrow> u32 \<Rightarrow> firmware_config" where
  "rebuilt_cfg env cpu = \<lparr>cpu_id = cpu, ext_clk = u8_of (opt_val env ''EXTCLK''),
     cpu_speed = of_nat (nat (opt_val env ''CPUSPEED'' mod 2 ^ 32) div unat (u8_of (opt_val env ''EXTCLK''))),
     phm_div = u8_of (opt_val env ''PHMDIV''), use_uart = u8_of (opt_val env ''USEUART''),
     baudrate = word_of_int (opt_val env ''BAUDRATE''),
     bus_width = (if opt_val env ''SDRAM_BUSWIDTH'' = 16 then 1 else 0),
     bank_num = u8_of (opt_val env ''SDRAM_BANKS'') div 4,
     row_addr = u8_of (opt_val env ''SDRAM_ROWADDR''), col_addr = u8_of (opt_val env ''SDRAM_COLADDR''),
     is_mobile = u8_of (opt_val env ''SDRAM_ISMOBILE''), is_busshare = u8_of (opt_val env ''SDRAM_ISBUSSHARE''),
     fw_debug = no_debug\<rparr>"

text \<open>\<^verbatim>\<open>nand_pn\<close> is the field that the function leaves as it was.\<close>

definition rebuilt_nand :: "environ \<Rightarrow> u32 \<Rightarrow> u32 \<Rightarrow> nand_config" where
  "rebuilt_nand env cpu pn = (let v = (\<lambda>name. word_of_int (opt_val env (''NAND_'' @ name))) in
    \<lparr>nand_cpuid = cpu, nand_bw = v ''BUSWIDTH'', nand_rc = v ''ROWCYCLES'', nand_ps = v ''PAGESIZE'',
     nand_ppb = v ''PAGEPERBLOCK'', nand_force_erase = v ''FORCEERASE'', nand_pn = pn, nand_os = v ''OOBSIZE'',
     nand_eccpos = v ''ECCPOS'', nand_bbpage = v ''BADBLOCKPAGE'', nand_bbpos = v ''BADBLOCKPOS'',
     nand_plane = v ''PLANENUM'', nand_bchbit = v ''BCHBIT'', nand_wppin = v ''WPPIN'', nand_bpc = v ''BLOCKPERCHIP''\<rparr>)"

lemma run_CFGOPT:
  "run_state (CFGOPT name test var) w =
    (if opt_ok (environ w) name test then (0, snd (run_state (var (opt_val (environ w) name)) w))
     else (-1, if cfg_getenv (environ w) name = None then w\<lparr>errno := EINVAL\<rparr> else w))"
  by (auto simp: CFGOPT_def opt_ok_def opt_val_def host_simps split: option.splits prod.splits)

lemma run_upd_cfg: "run_state (upd_cfg f) w = ((), w\<lparr>hnd := (hnd w)\<lparr>h_cfg := f (h_cfg (hnd w))\<rparr>\<rparr>)"
  by (simp add: upd_cfg_def host_simps)

lemma run_upd_nand: "run_state (upd_nand f) w = ((), w\<lparr>hnd := (hnd w)\<lparr>h_nand := f (h_nand (hnd w))\<rparr>\<rparr>)"
  by (simp add: upd_nand_def host_simps)

lemma fst_if_fail: "(if b then (a :: int, x) else (c, y)) = (if b then a else c, if b then x else y)"
  by simp

lemma run_rebuild_nand:
  fixes w :: "('d, 'c) world"
  defines "ok \<equiv> \<forall>name \<in> set nand_options. opt_ok (environ w) name (\<lambda>v. True)"
  shows "fst (run_state rebuild_nand w) = (if ok then 0 else -1)"
    and "ok \<Longrightarrow> snd (run_state rebuild_nand w)
      = w\<lparr>hnd := (hnd w)\<lparr>h_nand := rebuilt_nand (environ w) (nand_cpuid (h_nand (hnd w))) (nand_pn (h_nand (hnd w)))\<rparr>\<rparr>"
  unfolding ok_def
  by (simp_all add: rebuild_nand_def NOPT_def host_simps run_CFGOPT run_upd_nand nand_options_def rebuilt_nand_def)

definition sdram_ok :: "environ \<Rightarrow> bool" where
  "sdram_ok env = (opt_ok env ''SDRAM_BUSWIDTH'' (\<lambda>v. v = 16 \<or> v = 32)
     \<and> opt_ok env ''SDRAM_BANKS'' (\<lambda>v. 4 \<le> v \<and> v mod 4 = 0) \<and> opt_ok env ''SDRAM_ROWADDR'' (\<lambda>v. True)
     \<and> opt_ok env ''SDRAM_COLADDR'' (\<lambda>v. True) \<and> opt_ok env ''SDRAM_ISMOBILE'' (\<lambda>v. v = 0 \<or> v = 1)
     \<and> opt_ok env ''SDRAM_ISBUSSHARE'' (\<lambda>v. v = 0 \<or> v = 1))"

definition sdram_cfg :: "environ \<Rightarrow> firmware_config \<Rightarrow> firmware_config" where
  "sdram_cfg env c = c\<lparr>bus_width := (if u8_of (opt_val env ''SDRAM_BUSWIDTH'') = 16 then 1 else 0),
     bank_num := u8_of (opt_val env ''SDRAM_BANKS'') div 4,
     row_addr := u8_of (opt_val env ''SDRAM_ROWADDR''), col_addr := u8_of (opt_val env ''SDRAM_COLADDR''),
     is_mobile := u8_of (opt_val env ''SDRAM_ISMOBILE''), is_busshare := u8_of (opt_val env ''SDRAM_ISBUSSHARE'')\<rparr>"

lemma run_rebuild_sdram:
  fixes w :: "('d, 'c) world"
  shows "fst (run_state rebuild_sdram w) = (if sdram_ok (environ w) then 0 else -1)"
    and "sdram_ok (environ w) \<Longrightarrow> snd (run_state rebuild_sdram w)
      = w\<lparr>hnd := (hnd w)\<lparr>h_cfg := sdram_cfg (environ w) (h_cfg (hnd w))\<rparr>\<rparr>"
  by (simp_all add: rebuild_sdram_def host_simps run_CFGOPT run_upd_cfg sdram_ok_def sdram_cfg_def)

text \<open>The tests before the SDRAM options.\<close>

definition head_ok :: "environ \<Rightarrow> bool" where
  "head_ok env = (opt_ok env ''EXTCLK'' (\<lambda>v. v \<le> 27 \<and> 12 \<le> v) \<and> opt_ok env ''CPUSPEED'' (\<lambda>v. v mod 12 = 0)
     \<and> opt_ok env ''PHMDIV'' (\<lambda>v. v \<le> 32 \<and> 2 \<le> v) \<and> opt_ok env ''USEUART'' (\<lambda>v. True)
     \<and> opt_ok env ''BAUDRATE'' (\<lambda>v. True))"

lemma env_valid_parts:
  "env_valid env \<longleftrightarrow> head_ok env \<and> sdram_ok env \<and> (\<forall>name \<in> set nand_options. opt_ok env name (\<lambda>v. True))"
  by (simp add: env_valid_def head_ok_def sdram_ok_def dvd_eq_mod_eq_0)

lemma bus_width_val:
  assumes "sdram_ok env"
  shows "u8_of (opt_val env ''SDRAM_BUSWIDTH'') = 16 \<longleftrightarrow> opt_val env ''SDRAM_BUSWIDTH'' = 16"
proof -
  have "opt_val env ''SDRAM_BUSWIDTH'' = 16 \<or> opt_val env ''SDRAM_BUSWIDTH'' = 32"
    using assms by (simp add: sdram_ok_def opt_ok_def opt_val_def split: option.splits)
  then show ?thesis by (elim disjE) (simp_all add: u8_of_def)
qed

lemma run_ingenic_rebuild:
  fixes w :: "('d, 'c) world"
  defines "cpu \<equiv> CPUID (h_type (hnd w))"
  shows "fst (run_state ingenic_rebuild w) = (if env_valid (environ w) then 0 else -1)"
    and "env_valid (environ w) \<Longrightarrow> snd (run_state ingenic_rebuild w)
      = w\<lparr>hnd := (hnd w)\<lparr>h_cfg := rebuilt_cfg (environ w) cpu,
             total_sdram_size := sdram_size (rebuilt_cfg (environ w) cpu),
             h_nand := rebuilt_nand (environ w) cpu (nand_pn (h_nand (hnd w)))\<rparr>,
          ub := ub w \<or> shift_ub (rebuilt_cfg (environ w) cpu)\<rparr>"
  unfolding env_valid_parts cpu_def
  by (simp_all add: ingenic_rebuild_def host_simps run_CFGOPT run_upd_cfg run_upd_nand run_rebuild_sdram run_rebuild_nand
      split_def head_ok_def)
    (cases "h_cfg (hnd w)"; simp add: sdram_cfg_def rebuilt_cfg_def bus_width_val)

definition demo_env :: environ where
  "demo_env = Some ([''EXTCLK=12'', ''CPUSPEED=252'', ''PHMDIV=3'', ''USEUART=1'', ''BAUDRATE=57600'',
     ''SDRAM_BUSWIDTH=16'', ''SDRAM_BANKS=4'', ''SDRAM_ROWADDR=13'', ''SDRAM_COLADDR=9'', ''SDRAM_ISMOBILE=0'',
     ''SDRAM_ISBUSSHARE=1''] @ List.map (\<lambda>name. name @ ''=1'') nand_options)"

lemmas env_eval = demo_env_def nand_options_def cfg_getenv_def var_match_def opt_ok_def opt_val_def c_string_simps

lemma demo_env_valid: "env_valid demo_env"
  by (simp add: env_valid_def env_eval)

lemma demo_env_vals: "opt_val demo_env ''SDRAM_ROWADDR'' = 13" "opt_val demo_env ''SDRAM_COLADDR'' = 9"
  "opt_val demo_env ''SDRAM_BANKS'' = 4" "opt_val demo_env ''SDRAM_BUSWIDTH'' = 16"
  by (simp_all add: env_eval)

section \<open>The size of the memory\<close>

lemma unat_u8_of: "0 \<le> v \<Longrightarrow> v < 256 \<Longrightarrow> unat (u8_of v) = nat v"
  by (simp add: u8_of_def uint_word_of_int flip: nat_uint_eq)

lemma sdram_size_as_nat:
  assumes "1 \<le> unat (row_addr c) + unat (col_addr c)" "unat (row_addr c) + unat (col_addr c) \<le> 30"
    and "bus_width c = 0 \<or> bus_width c = 1"
  shows "\<not> shift_ub c" "sdram_size c = of_nat (2 ^ (unat (row_addr c) + unat (col_addr c)) * (2 * unat (bank_num c) + 2)
    * (if bus_width c = 1 then 2 else 4))"
proof -
  define n where "n = unat (row_addr c) + unat (col_addr c) - 1"
  have n: "uint (row_addr c) + uint (col_addr c) - 1 = int n" "n < 30" "unat (row_addr c) + unat (col_addr c) = Suc n"
    using assms(1,2) by (simp_all only: n_def of_nat_diff uint_nat)
  then show "\<not> shift_ub c" by (simp add: shift_ub_def)
  have "int n mod 32 = int n" by (rule mod_pos_pos_trivial) (use n(2) in auto)
  then have "nat (int n mod 32) = n" by (simp only: nat_int)
  moreover have "(word_of_int (uint (bank_num c)) :: u32) = of_nat (unat (bank_num c))"
    unfolding uint_nat by (rule of_int_of_nat_eq)
  moreover have "push_bit n (2 :: u32) = of_nat (2 ^ Suc n)" by (simp add: push_bit_eq_mult)
  ultimately show "sdram_size c = of_nat (2 ^ (unat (row_addr c) + unat (col_addr c)) * (2 * unat (bank_num c) + 2)
      * (if bus_width c = 1 then 2 else 4))"
    using assms(3) unfolding sdram_size_def Let_def n(1,3) by (auto simp: algebra_simps)
qed

text \<open>For row and column widths inside the range of an \<^verbatim>\<open>int\<close> shift, the memory size computed
  by \<^verbatim>\<open>ingenic_rebuild\<close> has no undefined shift and counts \<^verbatim>\<open>banks / 2 + 2\<close> banks: it is the
  capacity of the chips exactly for the four-bank parts, although every multiple of four is
  accepted.\<close>

theorem sdram_capacity:
  assumes "env_valid env" "0 \<le> opt_val env ''SDRAM_ROWADDR''" "0 \<le> opt_val env ''SDRAM_COLADDR''"
    and "opt_val env ''SDRAM_ROWADDR'' + opt_val env ''SDRAM_COLADDR'' \<in> {1..30}"
    and "opt_val env ''SDRAM_BANKS'' < 256"
  defines "bits \<equiv> nat (opt_val env ''SDRAM_ROWADDR'' + opt_val env ''SDRAM_COLADDR'')"
    and "banks \<equiv> nat (opt_val env ''SDRAM_BANKS'')" and "width \<equiv> nat (opt_val env ''SDRAM_BUSWIDTH'')"
  assumes "2 ^ bits * (banks div 2 + 2) * (width div 8) < 2 ^ 32"
  shows "\<not> shift_ub (rebuilt_cfg env cpu)
    \<and> unat (sdram_size (rebuilt_cfg env cpu)) = 2 ^ bits * (banks div 2 + 2) * (width div 8)
    \<and> (unat (sdram_size (rebuilt_cfg env cpu)) = 2 ^ bits * banks * (width div 8) \<longleftrightarrow> banks = 4)"
proof -
  let ?c = "rebuilt_cfg env cpu"
  have sd: "sdram_ok env" using assms(1) by (simp add: env_valid_parts)
  then have B: "4 \<le> opt_val env ''SDRAM_BANKS''" "opt_val env ''SDRAM_BANKS'' mod 4 = 0"
      "opt_val env ''SDRAM_BUSWIDTH'' = 16 \<or> opt_val env ''SDRAM_BUSWIDTH'' = 32"
    unfolding sdram_ok_def opt_ok_def opt_val_def by (simp_all split: option.splits)
  then have b: "4 dvd banks" "4 \<le> banks" "banks < 256" and w: "width = 16 \<or> width = 32"
    using assms(5) unfolding banks_def width_def
    by (auto simp: mod_0_imp_dvd simp flip: int_dvd_int_iff [of 4, simplified])
  have "unat (bank_num ?c) = banks div 4"
    using b assms(5) unat_u8_of [of "opt_val env ''SDRAM_BANKS''"]
    by (simp add: rebuilt_cfg_def unat_div banks_def)
  then have bank: "2 * unat (bank_num ?c) + 2 = banks div 2 + 2" using b(1) by (auto elim: dvdE)
  have rc: "unat (row_addr ?c) + unat (col_addr ?c) = bits"
    using assms(2-4) by (simp add: rebuilt_cfg_def unat_u8_of bits_def nat_add_distrib)
  have bits: "1 \<le> bits" "bits \<le> 30" using assms(4) by (auto simp: bits_def)
  have bw: "bus_width ?c = (if width = 16 then 1 else 0)"
    by (simp add: rebuilt_cfg_def width_def nat_eq_iff)
  then have wid: "(if bus_width ?c = 1 then 2 else 4) = width div 8" using w by auto
  note sz = sdram_size_as_nat [of ?c, unfolded rc bank wid, OF bits]
  have size: "unat (sdram_size ?c) = 2 ^ bits * (banks div 2 + 2) * (width div 8)"
  proof -
    have "sdram_size ?c = of_nat (2 ^ bits * (banks div 2 + 2) * (width div 8))"
      by (rule sz(2)) (simp add: bw)
    moreover have "2 ^ bits * (banks div 2 + 2) * (width div 8) < 2 ^ LENGTH(32)" using assms(9) by simp
    ultimately show ?thesis by (simp only: unat_of_nat mod_less)
  qed
  have "banks div 2 + 2 = banks \<longleftrightarrow> banks = 4" using b(1,2) by (auto elim!: dvdE)
  moreover have "width div 8 \<noteq> 0" using w by auto
  ultimately have "2 ^ bits * (banks div 2 + 2) * (width div 8) = 2 ^ bits * banks * (width div 8) \<longleftrightarrow> banks = 4"
    by (simp only: mult_cancel1 mult_cancel2) simp
  moreover have "\<not> shift_ub ?c" by (rule sz(1)) (simp add: bw)
  ultimately show ?thesis unfolding size by blast
qed

lemma sdram_capacity_witness:
  "unat (sdram_size (rebuilt_cfg demo_env 0x4740)) = 0x2000000"
  using sdram_capacity [of demo_env "0x4740"] demo_env_valid by (simp add: demo_env_vals)

section \<open>The documented configurations\<close>

text \<open>The values that the comments of \<^verbatim>\<open>config/initial.cfg\<close> offer, for every option that they give values for.\<close>

definition documented :: "environ \<Rightarrow> bool" where
  "documented env =
    (opt_ok env ''SDRAM_BUSWIDTH'' (\<lambda>v. v \<in> {16, 32}) \<and> opt_ok env ''SDRAM_BANKS'' (\<lambda>v. v \<in> {2, 4})
     \<and> opt_ok env ''SDRAM_ROWADDR'' (\<lambda>v. v \<in> {11..13}) \<and> opt_ok env ''SDRAM_COLADDR'' (\<lambda>v. v \<in> {8..12})
     \<and> opt_ok env ''SDRAM_ISMOBILE'' (\<lambda>v. v \<in> {0, 1}) \<and> opt_ok env ''SDRAM_ISBUSSHARE'' (\<lambda>v. v \<in> {0, 1})
     \<and> opt_ok env ''NAND_BUSWIDTH'' (\<lambda>v. v \<in> {8, 16, 32}) \<and> opt_ok env ''NAND_ROWCYCLES'' (\<lambda>v. v \<in> {2, 3})
     \<and> opt_ok env ''NAND_PAGESIZE'' (\<lambda>v. v \<in> {512, 2048, 4096}) \<and> opt_ok env ''NAND_FORCEERASE'' (\<lambda>v. v \<in> {0, 1})
     \<and> opt_ok env ''NAND_BCHBIT'' (\<lambda>v. v \<in> {4, 8}) \<and> (\<forall>name \<in> set nand_options. opt_ok env name (\<lambda>v. True)))"

lemma opt_okD: "opt_ok env name test \<Longrightarrow> test (opt_val env name)"
  by (simp add: opt_ok_def opt_val_def split: option.splits)

lemma opt_ok_mono: "opt_ok env name test \<Longrightarrow> test' (opt_val env name) \<Longrightarrow> opt_ok env name test'"
  by (simp add: opt_ok_def opt_val_def split: option.splits)

lemma documented_valid:
  assumes "documented env" "head_ok env"
  shows "env_valid env \<longleftrightarrow> opt_val env ''SDRAM_BANKS'' = 4"
proof
  assume "env_valid env"
  then have "4 \<le> opt_val env ''SDRAM_BANKS''" by (auto simp: env_valid_def dest!: opt_okD [of _ "''SDRAM_BANKS''"])
  moreover have "opt_val env ''SDRAM_BANKS'' \<in> {2, 4}" using assms(1) by (auto simp: documented_def dest: opt_okD)
  ultimately show "opt_val env ''SDRAM_BANKS'' = 4" by auto
next
  assume "opt_val env ''SDRAM_BANKS'' = 4"
  then show "env_valid env"
    using assms by (auto simp: documented_def env_valid_parts sdram_ok_def elim: opt_ok_mono dest: opt_okD)
qed

lemma documented_capacity:
  assumes "documented env" "head_ok env" "opt_val env ''SDRAM_BANKS'' = 4"
  shows "\<not> shift_ub (rebuilt_cfg env cpu)
    \<and> unat (sdram_size (rebuilt_cfg env cpu)) = 2 ^ nat (opt_val env ''SDRAM_ROWADDR'' + opt_val env ''SDRAM_COLADDR'') * 4
        * (nat (opt_val env ''SDRAM_BUSWIDTH'') div 8)"
proof -
  let ?r = "opt_val env ''SDRAM_ROWADDR''" and ?k = "opt_val env ''SDRAM_COLADDR''" and ?w = "opt_val env ''SDRAM_BUSWIDTH''"
  have r: "?r \<in> {11..13}" "?k \<in> {8..12}" "?w \<in> {16, 32}"
    using assms(1) unfolding documented_def by (blast dest: opt_okD)+
  have "(2::nat) ^ nat (?r + ?k) \<le> 2 ^ 25" using r by (intro power_increasing) auto
  then have small: "2 ^ nat (?r + ?k) * (nat (opt_val env ''SDRAM_BANKS'') div 2 + 2) * (nat ?w div 8) < 2 ^ 32"
    using assms(3) r(3) by auto
  have "env_valid env" using documented_valid [OF assms(1,2)] assms(3) by simp
  then show ?thesis
    using sdram_capacity [of env cpu, OF _ _ _ _ _ small] r assms(3) by auto
qed

text \<open>C6.  What \<^verbatim>\<open>ingenic_rebuild\<close> accepts and stores.  It succeeds exactly on the environments that define every option
  and pass the tests that the code makes (\<^verbatim>\<open>env_valid\<close>); then the handle holds the configuration those values stand for, every
  other part of the process is untouched, and the one NAND field that no option sets (\<^verbatim>\<open>nand_pn\<close>) keeps its former value.
  The tests are not the documented ranges: of the configurations that \<^verbatim>\<open>initial.cfg\<close> offers (with a crystal, a speed and a divider
  that pass), those with four banks are accepted, and the memory size is then the capacity of the chips, while those with two banks are
  refused, although they are offered too.  Beyond them, any numbers of row and column bits are accepted.\<close>

theorem rebuild_correct:
  fixes w :: "('d, 'c) world"
  shows "case run_state ingenic_rebuild w of (ret, w') \<Rightarrow>
     ret = (if env_valid (environ w) then 0 else -1)
     \<and> (ret = 0 \<longrightarrow> (let cpu = CPUID (h_type (hnd w)); cfg = rebuilt_cfg (environ w) cpu in
          w' = w\<lparr>hnd := (hnd w)\<lparr>h_cfg := cfg, total_sdram_size := sdram_size cfg,
                   h_nand := rebuilt_nand (environ w) cpu (nand_pn (h_nand (hnd w)))\<rparr>,
                 ub := ub w \<or> shift_ub cfg\<rparr>))
     \<and> (documented (environ w) \<and> head_ok (environ w) \<longrightarrow>
          (opt_val (environ w) ''SDRAM_BANKS'' = 2 \<longrightarrow> ret = -1)
        \<and> (opt_val (environ w) ''SDRAM_BANKS'' = 4 \<longrightarrow> ret = 0 \<and> ub w' = ub w
            \<and> unat (total_sdram_size (hnd w')) = 2 ^ nat (opt_val (environ w) ''SDRAM_ROWADDR'' + opt_val (environ w) ''SDRAM_COLADDR'')
                * 4 * (nat (opt_val (environ w) ''SDRAM_BUSWIDTH'') div 8)))"
  using run_ingenic_rebuild [of w] documented_valid [of "environ w"] documented_capacity [of "environ w"] by (auto simp: split_def)

definition two_banks :: environ where
  "two_banks = cfg_setenv ''SDRAM_BANKS'' ''2'' (cfg_setenv ''NAND_BUSWIDTH'' ''8'' (cfg_setenv ''NAND_ROWCYCLES'' ''3''
     (cfg_setenv ''NAND_PAGESIZE'' ''2048'' (cfg_setenv ''NAND_BCHBIT'' ''8'' demo_env))))"

section \<open>The requests of a stage load\<close>

text \<open>A device in general: it sees the transfers so far and answers with a status, a number of
  bytes and a buffer.\<close>

datatype transfer = Control u8 u8 u16 u16 bytes | Bulk_out bytes | Bulk_in bytes

type_synonym replies = "transfer list \<Rightarrow> transfer \<Rightarrow> int \<times> int \<times> bytes"

definition recorder :: "replies \<Rightarrow> transfer list libusb" where
  "recorder R = \<lparr>lu_init = (\<lambda>d. (0, d)), lu_exit = (\<lambda>d. d), lu_device_list = (\<lambda>d. (0, [])),
     lu_descriptor = (\<lambda>n d. (0, 0, 0)), lu_open = (\<lambda>n d. (0, n, d)), lu_close = (\<lambda>n d. d),
     lu_kernel_driver_active = (\<lambda>h i d. 0), lu_detach_kernel_driver = (\<lambda>h i d. (0, d)),
     lu_claim_interface = (\<lambda>h i d. (0, d)), lu_release_interface = (\<lambda>h i d. d),
     lu_control = (\<lambda>h type req val idx data d. let t = Control type req val idx data in
       case R d t of (st, n, buf) \<Rightarrow> (st, buf, d @ [t])),
     lu_bulk = (\<lambda>h ep data d. let t = (if ep = 1 then Bulk_out data else Bulk_in data) in
       case R d t of (st, n, buf) \<Rightarrow> (st, buf, n, d @ [t]))\<rparr>"

text \<open>A transfer succeeds; the transfers that are sent when the first failure stops the sequence.\<close>

definition accepts :: "replies \<Rightarrow> transfer list \<Rightarrow> transfer \<Rightarrow> bool" where
  "accepts R d t = (case R d t of (st, n, buf) \<Rightarrow> (case t of Control _ _ _ _ _ \<Rightarrow> st \<ge> 0
     | Bulk_out bs \<Rightarrow> st = 0 \<and> n = int (length bs) | Bulk_in bs \<Rightarrow> st = 0 \<and> n \<noteq> -1))"

fun sent :: "replies \<Rightarrow> transfer list \<Rightarrow> transfer list \<Rightarrow> transfer list" where
  "sent R d [] = d"
| "sent R d (t # ts) = (if accepts R d t then sent R (d @ [t]) ts else d @ [t])"

fun all_accepted :: "replies \<Rightarrow> transfer list \<Rightarrow> transfer list \<Rightarrow> bool" where
  "all_accepted R d [] = True"
| "all_accepted R d (t # ts) = (accepts R d t \<and> all_accepted R (d @ [t]) ts)"

definition word_transfer :: "u8 \<Rightarrow> u32 \<Rightarrow> transfer" where
  "word_transfer op v = Control 0x40 op (ucast (drop_bit 16 v)) (ucast (v AND 0xFFFF)) []"

lemma recorder_simps [simp]:
  "lu_control (recorder R) h type req val idx data d = (case R d (Control type req val idx data) of
     (st, n, buf) \<Rightarrow> (st, buf, d @ [Control type req val idx data]))"
  "lu_bulk (recorder R) h 1 data d = (case R d (Bulk_out data) of (st, n, buf) \<Rightarrow> (st, buf, n, d @ [Bulk_out data]))"
  "lu_bulk (recorder R) h 0x81 data d = (case R d (Bulk_in data) of (st, n, buf) \<Rightarrow> (st, buf, n, d @ [Bulk_in data]))"
  by (simp_all add: recorder_def Let_def)

text \<open>A program sends a sequence of transfers, up to the first that fails, and returns \<^verbatim>\<open>-1\<close>
  exactly when one does; but for \<^verbatim>\<open>errno\<close> it changes nothing else.\<close>

definition plays :: "(transfer list, 'c, int) host \<Rightarrow> replies \<Rightarrow> transfer list \<Rightarrow> bool" where
  "plays m R ts = (\<forall>w. \<exists>e r. run_state m w = (r, w\<lparr>usb := sent R (usb w) ts, errno := e\<rparr>)
     \<and> (r = -1 \<longleftrightarrow> \<not> all_accepted R (usb w) ts))"

lemma sent_append: "sent R d (ts @ us) = (if all_accepted R d ts then sent R (sent R d ts) us else sent R d ts)"
  by (induction ts arbitrary: d) auto

lemma all_accepted_append:
  "all_accepted R d (ts @ us) \<longleftrightarrow> all_accepted R d ts \<and> all_accepted R (sent R d ts) us"
  by (induction ts arbitrary: d) auto

lemma same_errno: "\<exists>e. w\<lparr>usb := d\<rparr> = w\<lparr>usb := d, errno := e\<rparr>"
  by (rule exI [of _ "errno w"], cases w) simp

lemma same_world: "\<exists>e. w = w\<lparr>errno := e\<rparr>"
  by (rule exI [of _ "errno w"], cases w) simp

lemma plays_return: "plays (State_Monad.return 0) R []"
  by (simp add: plays_def host_simps same_world)

lemma plays_vendor:
  "plays (do { res \<leftarrow> usbdev_vendor (recorder R) h USBDEV_TODEV op val idx data; State_Monad.return (fst res) })
     R [Control 0x40 op val idx data]"
  unfolding plays_def
proof
  fix w :: "(transfer list, 'c) world"
  obtain st n buf where "R (usb w) (Control 0x40 op val idx data) = (st, n, buf)" by (metis prod_cases3)
  then show "\<exists>e r. run_state (do { res \<leftarrow> usbdev_vendor (recorder R) h USBDEV_TODEV op val idx data; State_Monad.return (fst res) }) w
      = (r, w\<lparr>usb := sent R (usb w) [Control 0x40 op val idx data], errno := e\<rparr>)
    \<and> (r = -1) = (\<not> all_accepted R (usb w) [Control 0x40 op val idx data])"
    by (cases "st \<ge> 0") (simp_all add: accepts_def host_simps run_vendor same_errno, blast)
qed

lemma plays_word: "plays (ingenic_wordop (recorder R) h op v) R [word_transfer op v]"
  unfolding ingenic_wordop_def word_transfer_def by (rule plays_vendor)

lemma plays_sendbulk: "plays (usbdev_sendbulk (recorder R) h data) R [Bulk_out data]"
  unfolding plays_def
proof
  fix w :: "(transfer list, 'c) world"
  obtain st n buf where "R (usb w) (Bulk_out data) = (st, n, buf)" by (metis prod_cases3)
  then show "\<exists>e r. run_state (usbdev_sendbulk (recorder R) h data) w
      = (r, w\<lparr>usb := sent R (usb w) [Bulk_out data], errno := e\<rparr>) \<and> (r = -1) = (\<not> all_accepted R (usb w) [Bulk_out data])"
    by (cases "st = 0") (simp_all add: accepts_def host_simps run_sendbulk same_errno, blast+)
qed

lemma plays_or_fail:
  fixes m :: "(transfer list, 'c, int) host"
  shows "plays m R ts \<Longrightarrow> plays k R us \<Longrightarrow> plays (or_fail m k) R (ts @ us)"
  unfolding plays_def
proof
  fix w :: "(transfer list, 'c) world"
  assume m: "\<forall>w. \<exists>e r. run_state m w = (r, w\<lparr>usb := sent R (usb w) ts, errno := e\<rparr>) \<and> (r = -1) = (\<not> all_accepted R (usb w) ts)"
    and k: "\<forall>w. \<exists>e r. run_state k w = (r, w\<lparr>usb := sent R (usb w) us, errno := e\<rparr>) \<and> (r = -1) = (\<not> all_accepted R (usb w) us)"
  obtain e r where 1: "run_state m w = (r, w\<lparr>usb := sent R (usb w) ts, errno := e\<rparr>)" "(r = -1) = (\<not> all_accepted R (usb w) ts)"
    using m by blast
  let ?w = "w\<lparr>usb := sent R (usb w) ts, errno := e\<rparr>"
  obtain e' r' where "run_state k ?w = (r', ?w\<lparr>usb := sent R (usb ?w) us, errno := e'\<rparr>)" "(r' = -1) = (\<not> all_accepted R (usb ?w) us)"
    using k by blast
  with 1 show "\<exists>e r. run_state (or_fail m k) w = (r, w\<lparr>usb := sent R (usb w) (ts @ us), errno := e\<rparr>)
      \<and> (r = -1) = (\<not> all_accepted R (usb w) (ts @ us))"
    by (auto simp: host_simps sent_append all_accepted_append)
qed

lemma plays_or_return: "plays m R ts \<Longrightarrow> plays (or_fail m (State_Monad.return 0)) R ts"
  using plays_or_fail [OF _ plays_return] by force

lemma playsD:
  "plays m R ts \<Longrightarrow> \<exists>e r. run_state m w = (r, w\<lparr>usb := sent R (usb w) ts, errno := e\<rparr>)
     \<and> (r = -1 \<longleftrightarrow> \<not> all_accepted R (usb w) ts)"
  unfolding plays_def by blast

text \<open>The transfers of the first stage.\<close>

definition stage1_transfers :: "firmware_config \<Rightarrow> bytes \<Rightarrow> transfer list" where
  "stage1_transfers c data = [word_transfer 1 0x80002000, Bulk_out (patch_cfg c data), word_transfer 4 0x80002000]"

lemma patch_cfg_bytes:
  assumes "36 \<le> length data"
  shows "length (patch_cfg c data) = length data" "dec_fw (slice 8 28 (patch_cfg c data)) = c"
    "take 8 (patch_cfg c data) = take 8 data" "drop 36 (patch_cfg c data) = drop 36 data"
proof -
  have p: "patch_cfg c data = put_at 8 (enc_fw c) data"
    using assms by (simp add: patch_cfg_def fw.length_enc)
  show "length (patch_cfg c data) = length data" using assms by (simp add: p fw.length_enc)
  show "dec_fw (slice 8 28 (patch_cfg c data)) = c" unfolding p by (rule fw.dec_put_at) (use assms in simp)
  show "take 8 (patch_cfg c data) = take 8 data" using assms by (simp add: p take_put_at)
  show "drop 36 (patch_cfg c data) = drop 36 data"
    using drop_put_at [of 8 "enc_fw c" data] assms by (simp add: p fw.length_enc)
qed

lemma run_read_whole_file:
  "files w name = Some \<lparr>f_data = data, f_readable = n\<rparr> \<Longrightarrow> length data < 2 ^ 31 \<Longrightarrow> length data \<le> n
   \<Longrightarrow> run_state (read_whole_file name) w = (Some data, w)"
  by (cases w) (simp add: read_whole_file_def host_simps c_int_id Let_def)

text \<open>C7.  Loading the first stage sends the load address, the file with the handle's configuration
  written over its bytes 8 to 35 and every other byte as it was, and the start request, in this
  order, to any device; it stops after the first transfer that fails and returns \<^verbatim>\<open>-1\<close> exactly
  then.  The overwrite is inside the buffer exactly for files of at least 36 bytes.\<close>

theorem loadstage1_transfers:
  fixes w :: "(transfer list, 'c) world"
  assumes "files w name = Some \<lparr>f_data = data, f_readable = n\<rparr>" "length data \<le> n" "length data < 2 ^ 31"
  defines "ts \<equiv> stage1_transfers (h_cfg (hnd w)) data"
  shows "\<exists>ret e. run_state (ingenic_loadstage (recorder R) INGENIC_STAGE1 (Some name)) w
       = (ret, w\<lparr>ub := ub w \<or> length data < 36, usb := sent R (usb w) ts, errno := e\<rparr>)
     \<and> (ret = -1 \<longleftrightarrow> \<not> all_accepted R (usb w) ts)
     \<and> (36 \<le> length data \<longrightarrow> (\<exists>image. ts ! 1 = Bulk_out image \<and> length image = length data
         \<and> dec_fw (slice 8 28 image) = h_cfg (hnd w) \<and> take 8 image = take 8 data \<and> drop 36 image = drop 36 data))"
proof -
  let ?u = "h_usb (hnd w)" and ?w = "w\<lparr>ub := ub w \<or> length data < 36\<rparr>"
  let ?prog = "or_fail (ingenic_wordop (recorder R) ?u 1 0x80002000)
     (or_fail (usbdev_sendbulk (recorder R) ?u (patch_cfg (h_cfg (hnd w)) data))
       (or_fail (State_Monad.return 0) (or_fail (ingenic_wordop (recorder R) ?u 4 0x80002000) (State_Monad.return 0))))"
  have "plays ?prog R ts" unfolding ts_def stage1_transfers_def
    using plays_or_fail [OF plays_word plays_or_fail [OF plays_sendbulk plays_or_fail [OF plays_return plays_or_return [OF plays_word]]]]
    by simp
  then obtain e r where "run_state ?prog ?w = (r, ?w\<lparr>usb := sent R (usb w) ts, errno := e\<rparr>)"
      "r = -1 \<longleftrightarrow> \<not> all_accepted R (usb w) ts"
    using playsD [of ?prog R ts ?w] by auto
  moreover have "run_state (ingenic_loadstage (recorder R) INGENIC_STAGE1 (Some name)) w = run_state ?prog ?w"
    by (simp add: ingenic_loadstage_def host_simps run_read_whole_file [OF assms(1,3,2)] stage_target_def
      INGENIC_STAGE1_def INGENIC_STAGE2_def vr_defs SDRAM_BASE_def STAGE1_BASE_def del: run_state_or_fail)
  moreover have "36 \<le> length data \<longrightarrow> (\<exists>image. ts ! 1 = Bulk_out image \<and> length image = length data
         \<and> dec_fw (slice 8 28 image) = h_cfg (hnd w) \<and> take 8 image = take 8 data \<and> drop 36 image = drop 36 data)"
    using patch_cfg_bytes [of data "h_cfg (hnd w)"] by (simp add: ts_def stage1_transfers_def)
  ultimately show ?thesis by auto
qed

definition demo_cfg :: firmware_config where
  "demo_cfg = rebuilt_cfg demo_env 0x4740"

definition silent_device :: replies where
  "silent_device = (\<lambda>d t. case t of Control _ _ _ _ bs \<Rightarrow> (0, 0, bs) | Bulk_out bs \<Rightarrow> (0, int (length bs), bs)
     | Bulk_in bs \<Rightarrow> (0, int (length bs), bs))"

definition start_world :: "bytes \<Rightarrow> (transfer list, unit) world" where
  "start_world data = \<lparr>usb = [], errno = E_OK, environ = demo_env, devlist = [],
     files = (\<lambda>n. if n = ''stage1.bin'' then Some \<lparr>f_data = data, f_readable = length data\<rparr> else None),
     fopen_errno = (\<lambda>_. ENOENT), writable = (\<lambda>_. True),
     hnd = \<lparr>h_usb = 1, h_type = BUILDTYPE CMDSET_SPL 0x4740, total_sdram_size = 0x2000000, h_callbacks = None,
       h_cfg = demo_cfg, h_nand = rebuilt_nand demo_env 0x4740 0\<rparr>,
     cb_data = (), uninit = (\<lambda>_. 0), ub = False\<rparr>"

lemma loadstage1_transfers_witness:
  "\<exists>ret w'. run_state (ingenic_loadstage (recorder silent_device) INGENIC_STAGE1 (Some ''stage1.bin''))
       (start_world (replicate 40 7)) = (ret, w')
     \<and> ret \<noteq> -1 \<and> usb w' = stage1_transfers demo_cfg (replicate 40 7) \<and> \<not> ub w'"
  using loadstage1_transfers [of "start_world (replicate 40 7)" "''stage1.bin''" "replicate 40 7" 40 silent_device]
  by (auto simp: start_world_def stage1_transfers_def accepts_def silent_device_def word_transfer_def)

lemma rebuild_correct_witness:
  "row_addr (h_cfg (hnd (snd (run_state ingenic_rebuild (start_world []))))) = 13
   \<and> fst (run_state ingenic_rebuild ((start_world [])\<lparr>environ := two_banks\<rparr>)) = -1"
proof -
  have "documented two_banks" "head_ok two_banks" "opt_val two_banks ''SDRAM_BANKS'' = 2"
    by (simp_all add: two_banks_def cfg_setenv_def documented_def head_ok_def env_eval Let_def env_size_def entries_def)
  then show ?thesis
    using rebuild_correct [of "start_world []"] rebuild_correct [of "(start_world [])\<lparr>environ := two_banks\<rparr>"] demo_env_valid
    by (simp add: start_world_def split_def Let_def rebuilt_cfg_def demo_env_vals u8_of_def)
qed

end
