(* ===== verification/Nand_Facts.thy ===== *)
theory Nand_Facts
  imports Ingenic_Nand Ingenic_Facts
begin

unbundle bit_operations_syntax

text \<open>
  What the NAND operations of \<^verbatim>\<open>jzboot/src/ingenic.c\<close> guarantee: when their loops end, how they
  end when the device answers short, and what happens to the tail of a file.
\<close>

section \<open>Termination of the loops\<close>

text \<open>The geometry for which the loops advance: a page fits the transfer buffer.\<close>

definition page_fits :: "nand_config \<Rightarrow> int \<Rightarrow> bool" where
  "page_fits n type = (0 < page_size_of n type \<and> page_size_of n type \<le> STAGE2_IOBUF)"

lemma sdiv_pos: "0 \<le> a \<Longrightarrow> 0 < b \<Longrightarrow> a sdiv b = a div (b :: int)"
  by (cases "a = 0") (simp_all add: signed_divide_int_def)

lemma chunk_pages_pos: "page_fits n type \<Longrightarrow> 0 < STAGE2_IOBUF sdiv page_size_of n type"
  by (simp add: page_fits_def sdiv_pos STAGE2_IOBUF_def pos_imp_zdiv_pos_iff)

lemma c_int_pages: "0 < p \<Longrightarrow> p < 2 ^ 31 \<Longrightarrow> 0 < c \<Longrightarrow> c_int (p - (if p < c then p else c)) = p - (if p < c then p else c)"
  by (rule c_int_id) auto

text \<open>One turn of the loops; \<^verbatim>\<open>c\<close> is the number of pages of the turn.\<close>

lemma run_dump_loop:
  assumes "0 < pages" "c = (if pages < cp then pages else cp)"
  shows "run_state (dump_loop (Suc fuel) L u cs raw type file ps cp maxv ret start pages val) w =
    (case run_state (dump_chunk L u cs raw type file ps start c) w of
       (Next r, w') \<Rightarrow> run_state (dump_loop fuel L u cs raw type file ps cp maxv r (c_int (start + c))
           (c_int (pages - c)) (c_int (val + c))) (w'\<lparr>cb_data := notified PROGRESS_UPDATE (c_int (val + c)) maxv w'\<rparr>)
     | (Break r, w') \<Rightarrow> (Some (Break r), w')
     | (Return r, w') \<Rightarrow> (Some (Return r), w'))"
  using assms(1) unfolding dump_loop.simps assms(2) [symmetric] Let_def
  by (simp add: host_simps split: prod.splits ctrl.splits)

lemma run_program_loop:
  assumes "0 < pages" "c = (if pages < cp then pages else cp)"
  shows "run_state (program_loop (Suc fuel) L u cs type inp ps cp tail maxv ret pos start pages val) w =
    (case run_state (program_chunk L u cs type inp ps cp tail pos start pages c) w of
       (Next r, w') \<Rightarrow> run_state (program_loop fuel L u cs type inp ps cp tail maxv r
           (pos + length (fread_at inp pos (nat (c * ps)))) (c_int (start + c)) (c_int (pages - c)) (c_int (val + c)))
           (w'\<lparr>cb_data := notified PROGRESS_UPDATE (c_int (val + c)) maxv w'\<rparr>)
     | (Break r, w') \<Rightarrow> (Some (Break r), w')
     | (Return r, w') \<Rightarrow> (Some (Return r), w'))"
  using assms(1) unfolding program_loop.simps assms(2) [symmetric] Let_def
  by (simp add: host_simps split: prod.splits ctrl.splits)

lemma turn_pages:
  assumes "0 < pages" "pages < 2 ^ 31" "0 < cp" "c = (if pages < cp then pages else cp)" "nat pages \<le> Suc fuel"
  shows "c_int (pages - c) = pages - c" "c_int (pages - c) < 2 ^ 31" "nat (c_int (pages - c)) \<le> fuel"
proof -
  show "c_int (pages - c) = pages - c" using assms(1-4) by (intro c_int_id) (auto split: if_splits)
  then show "c_int (pages - c) < 2 ^ 31" "nat (c_int (pages - c)) \<le> fuel" using assms by (auto split: if_splits)
qed

lemma dump_loop_ends:
  assumes "0 < cp" "pages < 2 ^ 31" "nat pages \<le> fuel"
  shows "fst (run_state (dump_loop fuel L u cs raw type file ps cp maxv ret start pages val) w) \<noteq> None"
  using assms
proof (induction fuel arbitrary: ret start pages val w)
  case (Suc fuel)
  define c where "c = (if pages < cp then pages else cp)"
  show ?case
  proof (cases "pages > 0")
    case True
    note IH = Suc.IH [OF Suc.prems(1) turn_pages(2,3) [OF True Suc.prems(2,1) c_def Suc.prems(3)]]
    show ?thesis unfolding run_dump_loop [OF True c_def] by (simp split: ctrl.splits prod.splits) (use IH in blast)
  qed (simp add: host_simps)
qed (simp add: host_simps)

lemma program_loop_ends:
  assumes "0 < cp" "pages < 2 ^ 31" "nat pages \<le> fuel"
  shows "fst (run_state (program_loop fuel L u cs type inp ps cp tail maxv ret pos start pages val) w) \<noteq> None"
  using assms
proof (induction fuel arbitrary: ret pos start pages val w)
  case (Suc fuel)
  define c where "c = (if pages < cp then pages else cp)"
  show ?case
  proof (cases "pages > 0")
    case True
    note IH = Suc.IH [OF Suc.prems(1) turn_pages(2,3) [OF True Suc.prems(2,1) c_def Suc.prems(3)]]
    show ?thesis unfolding run_program_loop [OF True c_def] by (simp split: ctrl.splits prod.splits) (use IH in blast)
  qed (simp add: host_simps)
qed (simp add: host_simps)

lemma padded_size:
  fixes ps :: int
  assumes "0 < ps" "ps \<le> STAGE2_IOBUF" "len < 2 ^ 31 - 2 ^ 18"
  defines "t0 \<equiv> c_int (int len) smod ps"
  defines "tail \<equiv> (if t0 \<noteq> 0 then ps - t0 else 0)"
  shows "c_int (int len) = int len" "t0 = int len mod ps" "0 \<le> tail" "tail < ps" "ps dvd int len + tail"
    "c_int (int len + tail) = int len + tail" "(int len + tail) sdiv ps = (int len + tail) div ps"
proof -
  show len: "c_int (int len) = int len" using assms(3) by (intro c_int_id) auto
  have pos: "0 \<le> int len mod ps" "int len mod ps < ps" using assms(1) by auto
  show t0: "t0 = int len mod ps"
    unfolding t0_def len using assms(1) by (cases "len = 0") (simp_all add: signed_modulo_int_def)
  show "0 \<le> tail" "tail < ps" using pos by (auto simp: tail_def t0)
  show "ps dvd int len + tail"
  proof (cases "int len mod ps = 0")
    case False
    have "int len + (ps - int len mod ps) = ps * (int len div ps + 1)"
      using div_mult_mod_eq [of "int len" ps] by (simp add: algebra_simps)
    with False show ?thesis by (simp add: tail_def t0)
  qed (simp add: tail_def t0 mod_0_imp_dvd)
  show "c_int (int len + tail) = int len + tail"
    using assms(2,3) \<open>0 \<le> tail\<close> \<open>tail < ps\<close> by (intro c_int_id) (auto simp: STAGE2_IOBUF_def)
  show "(int len + tail) sdiv ps = (int len + tail) div ps"
    using assms(1) \<open>0 \<le> tail\<close> by (intro sdiv_pos) auto
qed

lemma pages_le_length:
  fixes ps :: int
  assumes "0 < ps" "tail < ps" "0 \<le> tail"
  shows "nat ((int len + tail) div ps) \<le> len"
proof (cases "len = 0")
  case False
  have "int len * 1 \<le> int len * ps" using assms(1) by (intro mult_left_mono) auto
  then have "int len + tail < (int len + 1) * ps" using assms(2) by (simp add: distrib_right)
  moreover have "(int len + tail) div ps * ps \<le> int len + tail"
    using div_mult_mod_eq [of "int len + tail" ps] pos_mod_sign [OF assms(1), of "int len + tail"] by linarith
  ultimately have "(int len + tail) div ps * ps < (int len + 1) * ps" by linarith
  then have "(int len + tail) div ps < int len + 1" using assms(1) by (simp only: mult_less_cancel_right)
  then show ?thesis by simp
qed (use assms in simp)

lemma dump_nand_ends:
  fixes w :: "('d, 'c) world"
  assumes "page_fits (h_nand (hnd w)) (type AND NOT NAND_RAW)" "pages < 2 ^ 31" "nat pages \<le> fuel"
  shows "fst (run_state (ingenic_dump_nand fuel L cs start pages type name) w) \<noteq> None"
proof -
  let ?type = "type AND NOT NAND_RAW" and ?n = "h_nand (hnd w)"
  let ?w = "w\<lparr>files := (files w)(name \<mapsto> \<lparr>f_data = [], f_readable = 0\<rparr>), cb_data := notified PROGRESS_INIT 0 pages
    (w\<lparr>files := (files w)(name \<mapsto> \<lparr>f_data = [], f_readable = 0\<rparr>)\<rparr>)\<rparr>"
  let ?loop = "dump_loop fuel L (h_usb (hnd w)) (u8_of cs) (type AND NAND_RAW \<noteq> 0) ?type name (page_size_of ?n ?type)
    (STAGE2_IOBUF sdiv page_size_of ?n ?type) pages 0 start pages 0"
  have ps: "page_size_of ?n ?type \<noteq> 0" using assms(1) by (auto simp: page_fits_def)
  obtain c w' where run: "run_state ?loop ?w = (c, w')" by fastforce
  with dump_loop_ends [OF chunk_pages_pos [OF assms(1)] assms(2,3)] have "c \<noteq> None" by (metis fst_conv)
  then obtain x where "c = Some x" by blast
  with run ps show ?thesis
    by (cases x) (simp_all add: ingenic_dump_nand_def host_simps Let_def)
qed

lemma program_nand_ends:
  fixes w :: "('d, 'c) world"
  assumes "page_fits (h_nand (hnd w)) type" "files w name = Some f" "length (f_data f) < 2 ^ 31 - 2 ^ 18"
    "length (f_data f) \<le> fuel"
  shows "fst (run_state (ingenic_program_nand fuel L cs start type name) w) \<noteq> None"
proof -
  let ?len = "int (length (f_data f))" and ?ps = "page_size_of (h_nand (hnd w)) type"
  have ps: "0 < ?ps" "?ps \<le> STAGE2_IOBUF" using assms(1) by (auto simp: page_fits_def)
  note sz = padded_size [OF ps assms(3)]
  define tail where "tail = (if c_int ?len smod ?ps \<noteq> 0 then ?ps - c_int ?len smod ?ps else 0)"
  note sz = sz [folded tail_def]
  have pages: "c_int (c_int ?len + tail) = ?len + tail" using sz(1,6) by simp
  let ?pages = "(?len + tail) div ?ps"
  let ?w = "w\<lparr>cb_data := notified PROGRESS_INIT 0 ?pages w\<rparr>"
  let ?loop = "program_loop fuel L (h_usb (hnd w)) (u8_of cs) type f ?ps (STAGE2_IOBUF sdiv ?ps) tail ?pages 0 0 start ?pages 0"
  have "nat ?pages \<le> length (f_data f)" by (rule pages_le_length [OF ps(1) sz(4,3)])
  then have "?pages \<le> ?len" "nat ?pages \<le> fuel" using assms(4) by linarith+
  moreover have "?len < 2 ^ 31" using assms(3) by simp
  ultimately have bounds: "?pages < 2 ^ 31" "nat ?pages \<le> fuel" by linarith+
  obtain c w' where run: "run_state ?loop ?w = (c, w')" by fastforce
  with program_loop_ends [OF chunk_pages_pos [OF assms(1)] bounds] have "c \<noteq> None" by (metis fst_conv)
  then obtain x where "c = Some x" by blast
  with run ps(1) show ?thesis
    by (cases x) (simp_all add: ingenic_program_nand_def host_simps Let_def assms(2) tail_def [symmetric] pages sz(7))
qed

text \<open>C29.  The loops of the NAND dump and of the NAND program end for every device, every file and
  every answer, provided a page fits the transfer buffer: fuel for one turn per page is enough
  (one per byte of the file for a program).\<close>

theorem nand_loops_end:
  fixes w :: "('d, 'c) world"
  shows "(page_fits (h_nand (hnd w)) (type AND NOT NAND_RAW) \<and> pages < 2 ^ 31 \<and> nat pages \<le> fuel
      \<longrightarrow> fst (run_state (ingenic_dump_nand fuel L cs start pages type name) w) \<noteq> None)
   \<and> (page_fits (h_nand (hnd w)) type \<and> files w name = Some f \<and> length (f_data f) < 2 ^ 31 - 2 ^ 18
      \<and> length (f_data f) \<le> fuel
      \<longrightarrow> fst (run_state (ingenic_program_nand fuel L cs start type name) w) \<noteq> None)"
  using dump_nand_ends program_nand_ends by blast

lemma demo_page_fits: "page_fits (rebuilt_nand demo_env 0x4740 0) 0"
  by (simp add: page_fits_def page_size_of_def rebuilt_nand_def STAGE2_IOBUF_def NO_OOB_def c_int_def env_eval)

lemma start_world_sel: "h_nand (hnd (start_world data)) = rebuilt_nand demo_env 0x4740 0"
  "files (start_world data) ''stage1.bin'' = Some \<lparr>f_data = data, f_readable = length data\<rparr>"
  "usb (start_world data) = []" "h_usb (hnd (start_world data)) = 1" "writable (start_world data) name"
  by (simp_all add: start_world_def)

lemma nand_loops_end_witness:
  "fst (run_state (ingenic_dump_nand 3 (recorder silent_device) 0 0 3 0 ''out'') (start_world [])) \<noteq> None
   \<and> fst (run_state (ingenic_program_nand 5 (recorder silent_device) 0 0 0 ''stage1.bin'') (start_world [1, 2, 3, 4, 5])) \<noteq> None"
  using nand_loops_end [where w = "start_world []" and type = 0 and pages = 3 and fuel = 3, THEN conjunct1, THEN mp]
    nand_loops_end [where w = "start_world [1, 2, 3, 4, 5]" and type = 0 and fuel = 5
      and name = "''stage1.bin''", THEN conjunct2, THEN mp]
    demo_page_fits by (simp add: start_world_sel)

section \<open>A page larger than the transfer buffer\<close>

text \<open>A device that accepts every request and answers every read with zeros.\<close>

definition obliging :: "replies \<Rightarrow> bool" where
  "obliging R = (\<forall>d t. case t of Control a b c e bs \<Rightarrow> fst (R d t) = 0
     | Bulk_out bs \<Rightarrow> R d t = (0, int (length bs), bs)
     | Bulk_in bs \<Rightarrow> R d t = (0, int (length bs), replicate (length bs) 0))"

lemma obligingD:
  assumes "obliging R"
  shows "R d (Bulk_in bs) = (0, int (length bs), replicate (length bs) 0)" "fst (R d (Control a b c e bs)) = 0"
proof -
  have *: "case t of Control a b c e bs \<Rightarrow> fst (R d t) = 0
     | Bulk_out bs \<Rightarrow> R d t = (0, int (length bs), bs)
     | Bulk_in bs \<Rightarrow> R d t = (0, int (length bs), replicate (length bs) 0)" for t
    using assms by (simp add: obliging_def)
  show "R d (Bulk_in bs) = (0, int (length bs), replicate (length bs) 0)" using * [of "Bulk_in bs"] by simp
  show "fst (R d (Control a b c e bs)) = 0" using * [of "Control a b c e bs"] by simp
qed

lemma run_word_obliging:
  assumes "obliging R"
  shows "run_state (ingenic_wordop (recorder R) u op v) w = (0, w\<lparr>usb := usb w @ [word_transfer op v]\<rparr>)"
    and "run_state (ingenic_nandop (recorder R) u cs req param) w
      = (0, w\<lparr>usb := usb w @ [Control 0x40 7 (nandop_value cs req param) 0 []]\<rparr>)"
  using obligingD(2) [OF assms]
  by (simp_all add: ingenic_wordop_def ingenic_nandop_def word_transfer_def host_simps run_vendor vr_defs
    split: prod.splits) (metis fst_conv order_refl)+

lemma dump_chunk_empty:
  assumes "obliging R"
  shows "\<exists>w'. run_state (dump_chunk (recorder R) u cs raw type file ps start 0) w = (Next 0, w')"
  by (simp add: dump_chunk_def host_simps run_word_obliging [OF assms] run_recvbulk obligingD(1) [OF assms]
    uninit_buf_def dec_u16_def split_def slice_def eval_nat_numeral)

lemma dump_loop_endless:
  assumes "obliging R" "0 < pages" "pages < 2 ^ 31"
  shows "fst (run_state (dump_loop fuel (recorder R) u cs raw type file ps 0 maxv ret start pages val) w) = None"
proof (induction fuel arbitrary: ret start val w)
  case (Suc fuel)
  have c: "(0 :: int) = (if pages < 0 then pages else 0)" using assms(2) by simp
  have "c_int (pages - 0) = pages" using assms(2,3) by (simp add: c_int_id)
  moreover obtain w' where "run_state (dump_chunk (recorder R) u cs raw type file ps start 0) w = (Next 0, w')"
    using dump_chunk_empty [OF assms(1)] by blast
  ultimately show ?case
    unfolding run_dump_loop [OF assms(2) c] by (simp add: Suc.IH)
qed (use assms(2) in \<open>simp add: host_simps\<close>)

lemma sdiv_small: "0 \<le> a \<Longrightarrow> a < b \<Longrightarrow> a sdiv b = (0 :: int)"
  by (cases "a = 0") (simp_all add: sdiv_pos)

text \<open>The state in which the loop of a dump starts, and its result when the loop ends.\<close>

definition dump_start :: "string \<Rightarrow> int \<Rightarrow> ('d, 'c) world \<Rightarrow> ('d, 'c) world" where
  "dump_start name pages w = (let w1 = w\<lparr>files := (files w)(name \<mapsto> \<lparr>f_data = [], f_readable = 0\<rparr>)\<rparr>
     in w1\<lparr>cb_data := notified PROGRESS_INIT 0 pages w1\<rparr>)"

lemma run_dump_nand:
  fixes w :: "('d, 'c) world" and type :: int
  defines "ps \<equiv> page_size_of (h_nand (hnd w)) (type AND NOT NAND_RAW)"
  assumes "ps \<noteq> 0" "writable w name"
    and "run_state (dump_loop fuel L (h_usb (hnd w)) (u8_of cs) (type AND NAND_RAW \<noteq> 0) (type AND NOT NAND_RAW) name ps
       (STAGE2_IOBUF sdiv ps) pages 0 start pages 0) (dump_start name pages w) = (c, w')"
  shows "run_state (ingenic_dump_nand fuel L cs start pages type name) w = (case c of None \<Rightarrow> (None, w')
     | Some (Break r) \<Rightarrow> (Some r, w'\<lparr>cb_data := notified PROGRESS_FINI 0 0 w'\<rparr>)
     | Some (Return r) \<Rightarrow> (Some r, w') | Some (Next r) \<Rightarrow> (Some r, w'))"
  using assms by (simp add: ingenic_dump_nand_def dump_start_def host_simps Let_def split: option.splits ctrl.splits)

text \<open>C34.  With a page larger than the transfer buffer the dump asks for no page at a time: against
  a device that accepts every request it never ends, with any fuel, though it reports progress
  and the device answers each turn.\<close>

theorem dump_oversized_page_endless:
  fixes w :: "(transfer list, 'c) world"
  assumes "obliging R" "0 < pages" "pages < 2 ^ 31" "writable w name"
    and "STAGE2_IOBUF < page_size_of (h_nand (hnd w)) (type AND NOT NAND_RAW)"
  shows "fst (run_state (ingenic_dump_nand fuel (recorder R) cs start pages type name) w) = None"
proof -
  let ?type = "type AND NOT NAND_RAW"
  let ?ps = "page_size_of (h_nand (hnd w)) ?type"
  have ps: "?ps \<noteq> 0" "STAGE2_IOBUF sdiv ?ps = 0" using assms(5) by (auto simp: STAGE2_IOBUF_def sdiv_small)
  obtain c w' where run: "run_state (dump_loop fuel (recorder R) (h_usb (hnd w)) (u8_of cs) (type AND NAND_RAW \<noteq> 0) ?type name ?ps
      (STAGE2_IOBUF sdiv ?ps) pages 0 start pages 0) (dump_start name pages w) = (c, w')" by fastforce
  with dump_loop_endless [OF assms(1-3)] have "c = None" unfolding ps(2) by (metis fst_conv)
  with run_dump_nand [OF ps(1) assms(4) run] show ?thesis by simp
qed

definition zero_device :: replies where
  "zero_device = (\<lambda>d t. case t of Control a b c e bs \<Rightarrow> (0, 0, bs) | Bulk_out bs \<Rightarrow> (0, int (length bs), bs)
     | Bulk_in bs \<Rightarrow> (0, int (length bs), replicate (length bs) 0))"

lemma obliging_zero: "obliging zero_device"
  by (simp add: obliging_def zero_device_def split: transfer.splits)

definition wide_world :: "(transfer list, unit) world" where
  "wide_world = (start_world [])\<lparr>hnd := (hnd (start_world []))\<lparr>h_nand := (rebuilt_nand demo_env 0x4740 0)\<lparr>nand_ps := 0x80000\<rparr>\<rparr>\<rparr>"

lemma dump_oversized_page_endless_witness:
  "fst (run_state (ingenic_dump_nand 1000 (recorder zero_device) 0 0 1 0 ''out'') wide_world) = None"
  using dump_oversized_page_endless [OF obliging_zero, of 1 wide_world "''out''" 0 1000]
  by (simp add: wide_world_def start_world_sel page_size_of_def rebuilt_nand_def STAGE2_IOBUF_def NO_OOB_def c_int_def env_eval)

section \<open>A short answer\<close>

text \<open>A NAND dump whose data phase is answered short is not reported: \<^verbatim>\<open>errno\<close> is \<^verbatim>\<open>EIO\<close> and
  the file stays empty, but the value returned is that of the last request, not \<^verbatim>\<open>-1\<close>, because
  the loop body declares a second \<^verbatim>\<open>ret\<close>.\<close>

theorem dump_truncated_reports_success:
  fixes w :: "(transfer list, 'c) world"
  defines "ps \<equiv> page_size_of (h_nand (hnd w)) 0"
  assumes "0 < ps" "ps \<le> STAGE2_IOBUF" "writable w name"
    and "\<forall>d a b c e bs. fst (R d (Control a b c e bs)) = 0"
    and "\<forall>d bs. fst (R d (Bulk_in bs)) = 0 \<and> fst (snd (R d (Bulk_in bs))) = got"
    and "got \<noteq> ps" "got \<noteq> -1"
  shows "\<exists>w'. run_state (ingenic_dump_nand (Suc fuel) (recorder R) cs start 1 0 name) w = (Some 0, w')
    \<and> errno w' = EIO \<and> files w' name = Some \<lparr>f_data = [], f_readable = 0\<rparr>"
proof -
  let ?w = "dump_start name 1 w" and ?u = "h_usb (hnd w)"
  have cp: "1 \<le> STAGE2_IOBUF sdiv ps"
    using chunk_pages_pos [of "h_nand (hnd w)" 0] assms(2,3) by (simp add: page_fits_def ps_def)
  have word: "run_state (ingenic_wordop (recorder R) u op v) x = (0, x\<lparr>usb := usb x @ [word_transfer op v]\<rparr>)"
    "run_state (ingenic_nandop (recorder R) u c req param) x = (0, x\<lparr>usb := usb x @ [Control 0x40 7 (nandop_value c req param) 0 []]\<rparr>)"
    for u op v c req param and x :: "(transfer list, 'c) world"
    using assms(5) by (simp_all add: ingenic_wordop_def ingenic_nandop_def word_transfer_def host_simps run_vendor vr_defs
      split: prod.splits) (metis fst_conv order_refl)+
  have recv: "\<exists>buf x'. run_state (usbdev_recvbulk (recorder R) u b) x = ((got, buf), x') \<and> files x' = files x" for u b
    and x :: "(transfer list, 'c) world"
    using assms(6) by (cases "R (usb x) (Bulk_in b)") (auto simp: run_recvbulk dest!: spec2 [of _ "usb x" b])
  have chunk: "\<exists>w'. run_state (dump_chunk (recorder R) ?u (u8_of cs) False 0 name ps start 1) ?w = (Break 0, w')
      \<and> errno w' = EIO \<and> files w' = files ?w"
  proof -
    let ?x = "?w\<lparr>usb := usb ?w @ [word_transfer 1 (word_of_int start), word_transfer 2 (word_of_int 1),
       Control 0x40 7 (nandop_value (u8_of cs) NAND_READ (u8_of 0)) 0 []]\<rparr>"
    obtain buf x' where "run_state (usbdev_recvbulk (recorder R) ?u (uninit_buf (nat ps) ?x)) ?x = ((got, buf), x')"
        "files x' = files ?x"
      using recv by blast
    then show ?thesis using assms(7,8) by (simp add: dump_chunk_def host_simps word vr_defs Let_def)
  qed
  then obtain w' where w': "run_state (dump_chunk (recorder R) ?u (u8_of cs) False 0 name ps start 1) ?w = (Break 0, w')"
      "errno w' = EIO" "files w' = files ?w" by blast
  have c: "(1 :: int) = (if 1 < STAGE2_IOBUF sdiv ps then 1 else STAGE2_IOBUF sdiv ps)" using cp by simp
  have "run_state (dump_loop (Suc fuel) (recorder R) ?u (u8_of cs) False 0 name ps (STAGE2_IOBUF sdiv ps) 1 0 start 1 0) ?w
      = (Some (Break 0), w')"
    by (subst run_dump_loop [OF _ c]) (simp_all add: w'(1))
  then have "run_state (ingenic_dump_nand (Suc fuel) (recorder R) cs start 1 0 name) w
      = (Some 0, w'\<lparr>cb_data := notified PROGRESS_FINI 0 0 w'\<rparr>)"
    using run_dump_nand [of w 0 name "Suc fuel" "recorder R" cs 1 start "Some (Break 0)" w'] assms(2,4)
    by (simp add: ps_def NAND_RAW_def)
  with w' show ?thesis by (simp add: dump_start_def Let_def)
qed

definition short_device :: replies where
  "short_device = (\<lambda>d t. case t of Control a b c e bs \<Rightarrow> (0, 0, bs) | Bulk_out bs \<Rightarrow> (0, int (length bs), bs)
     | Bulk_in bs \<Rightarrow> (0, 1, bs))"

lemma dump_truncated_reports_success_witness:
  "\<exists>w'. run_state (ingenic_dump_nand 5 (recorder short_device) 0 0 1 0 ''out'') (start_world []) = (Some 0, w')
    \<and> errno w' = EIO \<and> files w' ''out'' = Some \<lparr>f_data = [], f_readable = 0\<rparr>"
  using dump_truncated_reports_success [of "start_world []" "''out''" short_device 1 4 0 0] demo_page_fits
  by (simp add: start_world_sel page_fits_def short_device_def numeral_eq_Suc)
    (simp add: page_size_of_def rebuilt_nand_def NO_OOB_def c_int_def env_eval)

section \<open>The tail of a file\<close>

lemma program_chunk_ends:
  fixes cp :: int
  assumes "cp \<le> pages" "0 \<le> c * ps"
  shows "case run_state (program_chunk L u cs type inp ps cp tail pos start pages c) w of
      (Next r, w') \<Rightarrow> int (length (fread_at inp pos (nat (c * ps)))) = c * ps
    | (Break r, w') \<Rightarrow> r = -1 | (Return r, w') \<Rightarrow> r = -1"
  using assms by (simp add: program_chunk_def host_simps Let_def split: prod.splits)

lemma length_fread_at: "length (fread_at f pos n) \<le> length (f_data f) - pos"
  by (simp add: fread_at_def)

text \<open>The loop fails when the last turn is a full one and the file ends inside it.\<close>

lemma program_loop_tail_fails:
  assumes "0 < ps" "0 < cp" "0 < tail" "0 < pages" "pages < 2 ^ 31" "cp dvd pages" "nat pages \<le> fuel"
    and "int (length (f_data inp)) + tail \<le> int pos + pages * ps"
  shows "\<exists>c w'. run_state (program_loop fuel L u cs type inp ps cp tail maxv ret pos start pages val) w = (Some c, w')
    \<and> (c = Break (-1) \<or> c = Return (-1))"
  using assms
proof (induction fuel arbitrary: ret pos start pages val w)
  case (Suc fuel)
  have ge: "cp \<le> pages" using Suc.prems(4,6) by (simp add: zdvd_imp_le)
  have c: "cp = (if pages < cp then pages else cp)" using ge by simp
  let ?run = "run_state (program_chunk L u cs type inp ps cp tail pos start pages cp) w"
  obtain r w' where run: "?run = (r, w')" by fastforce
  have pos: "0 \<le> cp * ps" using Suc.prems(1,2) by simp
  note ends = program_chunk_ends [OF ge pos, where L = L and u = u and cs = cs and type = type and inp = inp and tail = tail
      and pos = pos and start = start and w = w, unfolded run]
  note turn = turn_pages [OF Suc.prems(4,5,2) c Suc.prems(7)]
  show ?case
  proof (cases r)
    case (Next v)
    with ends have got: "int (length (fread_at inp pos (nat (cp * ps)))) = cp * ps" by simp
    with length_fread_at [of inp pos "nat (cp * ps)"] Suc.prems(1,2)
    have room: "int pos + cp * ps \<le> int (length (f_data inp))"
      by (smt (verit) mult_pos_pos of_nat_diff of_nat_0_le_iff of_nat_le_iff diff_is_0_eq nat_le_linear of_nat_0 le_zero_eq)
    have "pages \<noteq> cp" using room Suc.prems(3,8) by auto
    then have p: "0 < pages - cp" "cp dvd pages - cp" using ge Suc.prems(6) by auto
    have len: "int (length (f_data inp)) + tail \<le> int (pos + length (fread_at inp pos (nat (cp * ps)))) + (pages - cp) * ps"
      using Suc.prems(8) got by (simp add: left_diff_distrib)
    show ?thesis
      unfolding run_program_loop [OF Suc.prems(4) c] run Next prod.case ctrl.case turn(1)
      by (rule Suc.IH [OF Suc.prems(1-3) p(1) _ p(2) _ len]) (use turn(2,3) in \<open>simp_all only: turn(1)\<close>)
  next
    case (Break v)
    with ends show ?thesis unfolding run_program_loop [OF Suc.prems(4) c] run by simp
  next
    case (Return v)
    with ends show ?thesis unfolding run_program_loop [OF Suc.prems(4) c] run by simp
  qed
qed simp

text \<open>\<^verbatim>\<open>ingenic_program_nand\<close> pads the last page of a file only when the last transfer is not
  a full one: a file that ends inside the last page of a full transfer cannot be programmed.
  The operation returns \<^verbatim>\<open>-1\<close> with every device, although all but the last transfer may have
  been programmed.\<close>

theorem program_full_tail_fails:
  fixes w :: "('d, 'c) world" and type :: int
  defines "ps \<equiv> page_size_of (h_nand (hnd w)) type"
  assumes "0 < ps" "ps \<le> STAGE2_IOBUF" "files w name = Some f" "length (f_data f) < 2 ^ 31 - 2 ^ 18"
    and "int (length (f_data f)) mod ps \<noteq> 0"
    and "(STAGE2_IOBUF div ps) dvd (int (length (f_data f)) div ps + 1)"
    and "length (f_data f) \<le> fuel"
  shows "fst (run_state (ingenic_program_nand fuel L cs start type name) w) = Some (-1)"
proof -
  let ?len = "int (length (f_data f))"
  note sz = padded_size [OF assms(2,3,5)]
  define tail where "tail = (if c_int ?len smod ps \<noteq> 0 then ps - c_int ?len smod ps else 0)"
  note sz = sz [folded tail_def]
  have pages: "c_int (c_int ?len + tail) = ?len + tail" using sz(1,6) by simp
  have tail: "0 < tail" "?len + tail = (?len div ps + 1) * ps"
    using assms(2,6) sz(2) pos_mod_bound [OF assms(2), of ?len]
    by (simp_all add: tail_def distrib_right minus_mod_eq_div_mult)
  have t: "tail = ps - ?len mod ps" using assms(6) sz(2) by (simp add: tail_def)
  from tail have num: "(?len + tail) div ps = ?len div ps + 1" using assms(2) by simp
  let ?pages = "?len div ps + 1"
  let ?w = "w\<lparr>cb_data := notified PROGRESS_INIT 0 ?pages w\<rparr>"
  let ?loop = "program_loop fuel L (h_usb (hnd w)) (u8_of cs) type f ps (STAGE2_IOBUF sdiv ps) tail ?pages 0 0 start ?pages 0"
  have cp: "0 < STAGE2_IOBUF sdiv ps" "STAGE2_IOBUF sdiv ps = STAGE2_IOBUF div ps"
    using assms(2,3) chunk_pages_pos [of "h_nand (hnd w)" type] by (auto simp: page_fits_def ps_def sdiv_pos STAGE2_IOBUF_def)
  have "0 \<le> ?len div ps" using assms(2) by (simp add: pos_imp_zdiv_nonneg_iff)
  moreover have "nat ?pages \<le> length (f_data f)" using pages_le_length [OF assms(2) sz(4,3)] num by metis
  ultimately have p: "0 < ?pages" "?pages < 2 ^ 31" "nat ?pages \<le> fuel" using assms(5,8) by simp_all
  have room: "?len + tail \<le> int 0 + ?pages * ps" using tail(2) by simp
  obtain c w' where run: "run_state ?loop ?w = (Some c, w')" and c: "c = Break (-1) \<or> c = Return (-1)"
    using program_loop_tail_fails [OF assms(2) cp(1) tail(1) p(1,2) _ p(3) room] assms(7) unfolding cp(2) by blast
  from c show ?thesis
    using run assms(2,6) sz(7)
    by (elim disjE) (simp_all add: ingenic_program_nand_def host_simps Let_def assms(4) ps_def [symmetric]
      sz(2) t [symmetric] pages num)
qed

text \<open>A page of the whole transfer buffer: every file that is not a multiple of it fails.\<close>

definition full_world :: "(transfer list, unit) world" where
  "full_world = (start_world [7])\<lparr>hnd := (hnd (start_world []))\<lparr>h_nand := (rebuilt_nand demo_env 0x4740 0)\<lparr>nand_ps := 0x3FFFF\<rparr>\<rparr>\<rparr>"

lemma program_full_tail_fails_witness:
  "fst (run_state (ingenic_program_nand 1 (recorder silent_device) 0 0 0 ''stage1.bin'') full_world) = Some (-1)"
proof -
  have ps: "page_size_of (h_nand (hnd full_world)) 0 = 0x40000"
    by (simp add: full_world_def page_size_of_def rebuilt_nand_def NO_OOB_def c_int_def env_eval)
  show ?thesis
    using program_full_tail_fails [where w = full_world and type = 0 and name = "''stage1.bin''" and fuel = 1, unfolded ps]
    by (simp add: full_world_def start_world_sel STAGE2_IOBUF_def)
qed

end
