(* ===== verification/Sdram_Target.thy ===== *)
theory Sdram_Target
  imports Elfldr
begin

unbundle bit_operations_syntax

text \<open>
  What the SDRAM loader of the host relies on: the locale \<^verbatim>\<open>sdram_target\<close> is the contract of a
  device that answers one block of the load protocol by storing it.  Under the contract the
  loop, the file loader and the segment loader of the host are total and store what they are
  given, whatever the size.
\<close>

section \<open>Memory\<close>

text \<open>The bytes stored at ascending addresses, which wrap at 32 bits.\<close>

fun mem_put :: "u32 \<Rightarrow> bytes \<Rightarrow> (u32 \<Rightarrow> u8) \<Rightarrow> (u32 \<Rightarrow> u8)" where
  "mem_put a [] m = m"
| "mem_put a (b # bs) m = mem_put (a + 1) bs (m(a := b))"

lemma mem_put_append:
  "mem_put a (xs @ ys) m = mem_put (a + of_nat (length xs)) ys (mem_put a xs m)"
  by (induction xs arbitrary: a m) (simp_all add: add.assoc)

lemma mem_put_outside: "x \<notin> (\<lambda>i. a + of_nat i) ` {..<length bs} \<Longrightarrow> mem_put a bs m x = m x"
proof (induction bs arbitrary: a m)
  case (Cons b bs)
  have "x \<noteq> a" using Cons.prems by (force simp: image_iff)
  moreover have "x \<notin> (\<lambda>i. (a + 1) + of_nat i) ` {..<length bs}"
  proof
    assume "x \<in> (\<lambda>i. (a + 1) + of_nat i) ` {..<length bs}"
    then obtain i where "i < length bs" "x = a + of_nat (Suc i)" by (auto simp: add.assoc)
    with Cons.prems show False by (force simp: image_iff)
  qed
  ultimately show ?case using Cons.IH by simp
qed simp

lemma of_nat_u32_nonzero: "0 < n \<Longrightarrow> n < 2 ^ 32 \<Longrightarrow> of_nat n \<noteq> (0 :: u32)"
  using word_of_nat_eq_0_iff [where ?'a = 32, of n] by (auto dest: dvd_imp_le)

lemma mem_put_inside:
  "length bs \<le> 2 ^ 32 \<Longrightarrow> i < length bs \<Longrightarrow> mem_put a bs m (a + of_nat i) = bs ! i"
proof (induction bs arbitrary: a m i)
  case (Cons b bs)
  show ?case
  proof (cases i)
    case 0
    have "a \<notin> (\<lambda>i. (a + 1) + of_nat i) ` {..<length bs}"
    proof
      assume "a \<in> (\<lambda>i. (a + 1) + of_nat i) ` {..<length bs}"
      then obtain i where i: "i < length bs" "a + of_nat (Suc i) = a" by (auto simp: add.assoc)
      then have "of_nat (Suc i) = (0 :: u32)" by (simp only: add_cancel_left_right)
      with i Cons.prems of_nat_u32_nonzero [of "Suc i"] show False by simp
    qed
    with 0 show ?thesis by (simp add: mem_put_outside)
  next
    case (Suc j)
    have "mem_put (a + 1) bs (m(a := b)) (a + 1 + of_nat j) = bs ! j"
      by (rule Cons.IH) (use Suc Cons.prems in auto)
    then show ?thesis using Suc by (simp only: mem_put.simps nth_Cons_Suc of_nat_Suc add.assoc)
  qed
qed simp

section \<open>The contract\<close>

text \<open>Everything of the process state but the device is left alone by a block.\<close>

locale sdram_target =
  fixes L :: "'d libusb" and h :: nat and mem :: "'d \<Rightarrow> u32 \<Rightarrow> u8" and ready :: "'d \<Rightarrow> bool"
  assumes block_stored:
    "ready (usb (w :: ('d, 'c) world)) \<Longrightarrow> 0 < unat len \<Longrightarrow> unat len \<le> 262144 \<Longrightarrow> unat len \<le> length data \<Longrightarrow>
       \<exists>d. run_state (load_block L h data base len) w = (0, w\<lparr>usb := d\<rparr>) \<and> ready d
          \<and> mem d = mem_put base (take (unat len) data) (mem (usb w))"
begin

lemma load_loop:
  fixes w :: "('d, 'c) world"
  assumes "ready (usb w)" "unat len \<le> length data"
  shows "\<exists>d c. run_state (load_sdram_loop L h data base len val maxv) w = (0, w\<lparr>usb := d, cb_data := c\<rparr>)
     \<and> ready d \<and> mem d = mem_put base (take (unat len) data) (mem (usb w))"
  using assms
proof (induction "unat len" arbitrary: data base len val w rule: less_induct)
  case less
  show ?case
  proof (cases "len = 0")
    case True
    then show ?thesis using less.prems by (auto simp: load_sdram_loop.simps [of _ _ _ _ 0] intro!: exI [of _ "usb w"] exI [of _ "cb_data w"])
  next
    case False
    let ?b = "block_of len"
    note b = block_of_bounds [OF False]
    obtain d where d: "run_state (load_block L h data base ?b) w = (0, w\<lparr>usb := d\<rparr>)" "ready d"
        "mem d = mem_put base (take (unat ?b) data) (mem (usb w))"
      using block_stored [of w ?b data base] b less.prems by auto
    define w1 where "w1 = w\<lparr>usb := d, cb_data := notified PROGRESS_UPDATE (c_int (val + uint ?b)) maxv (w\<lparr>usb := d\<rparr>)\<rparr>"
    obtain d' c' where rest: "run_state (load_sdram_loop L h (drop (unat ?b) data) (base + ?b) (len - ?b)
          (c_int (val + uint ?b)) maxv) w1 = (0, w1\<lparr>usb := d', cb_data := c'\<rparr>)" "ready d'"
        "mem d' = mem_put (base + ?b) (take (unat (len - ?b)) (drop (unat ?b) data)) (mem (usb w1))"
      using less.hyps [OF block_of_less [OF False], of w1 "drop (unat ?b) data" "base + ?b"] d(2) less.prems b
      by (force simp: w1_def unat_sub word_le_nat_alt)
    have "take (unat len) data = take (unat ?b) data @ take (unat (len - ?b)) (drop (unat ?b) data)"
      using b by (simp add: unat_sub word_le_nat_alt flip: take_add)
    then have "mem d' = mem_put base (take (unat len) data) (mem (usb w))"
      using rest(3) d(3) b less.prems by (auto simp: w1_def mem_put_append min_def)
    moreover have "run_state (load_sdram_loop L h data base len val maxv) w = (0, w1\<lparr>usb := d', cb_data := c'\<rparr>)"
      using False d(1) rest(1) by (simp add: load_sdram_loop.simps [of _ _ _ _ len] host_simps w1_def split: prod.splits)
    ultimately show ?thesis using rest(2) by (auto simp: w1_def)
  qed
qed

text \<open>The result of a load, stated once for the loop and its callers: the return value is 0 and
  the process state differs only in the device, the callback's data and perhaps \<^verbatim>\<open>ub\<close>.\<close>

lemma load_sdram:
  fixes w :: "('d, 'c) world"
  assumes "ready (usb w)" "unat len \<le> length data" "h_usb (hnd w) = h"
  shows "\<exists>d c. run_state (ingenic_load_sdram L data base len) w = (0, w\<lparr>usb := d, cb_data := c\<rparr>)
     \<and> ready d \<and> mem d = mem_put base (take (unat len) data) (mem (usb w))"
proof -
  let ?w = "w\<lparr>cb_data := notified PROGRESS_INIT 0 (c_int (uint len)) w\<rparr>"
  obtain d c where l: "run_state (load_sdram_loop L h data base len 0 (c_int (uint len))) ?w
        = (0, ?w\<lparr>usb := d, cb_data := c\<rparr>)" "ready d" "mem d = mem_put base (take (unat len) data) (mem (usb ?w))"
    using load_loop [of ?w len data base 0 "c_int (uint len)"] assms(1,2) by auto
  with assms have "run_state (ingenic_load_sdram L data base len) w
      = (0, w\<lparr>usb := d, cb_data := notified PROGRESS_FINI 0 0 (w\<lparr>usb := d, cb_data := c\<rparr>)\<rparr>)"
    by (simp add: ingenic_load_sdram_def host_simps Let_def)
  with l show ?thesis by auto
qed

lemma load_sdram_file:
  fixes w :: "('d, 'c) world"
  assumes "ready (usb w)" "h_usb (hnd w) = h" "files w name = Some f"
    and "length (f_data f) < 2 ^ 31" "length (f_data f) \<le> f_readable f"
  shows "\<exists>d c. run_state (ingenic_load_sdram_file L base name) w = (0, w\<lparr>usb := d, cb_data := c\<rparr>)
     \<and> ready d \<and> mem d = mem_put base (f_data f) (mem (usb w))"
proof -
  have size: "c_int (int (length (f_data f))) = int (length (f_data f))"
    using assms(4) by (intro c_int_id) auto
  have "unat (of_nat (length (f_data f)) :: u32) = length (f_data f)"
    using assms(4) by (simp add: unat_of_nat)
  with load_sdram [of w "of_nat (length (f_data f))" "f_data f" base] assms size show ?thesis
    by (auto simp: ingenic_load_sdram_file_def read_whole_file_def host_simps)
qed

lemma load_segment:
  fixes w :: "('d, 'c) world"
  assumes "ready (usb w)" "h_usb (hnd w) = h" "unat filesz = length data" "filesz \<le> memsz"
    and "base + memsz \<le> load_limit (hnd w)"
  shows "\<exists>d c. run_state (load_segment L data base filesz memsz) w = (0, w\<lparr>usb := d, cb_data := c\<rparr>)
     \<and> ready d \<and> mem d = mem_put base (data @ replicate (unat (memsz - filesz)) 0) (mem (usb w))"
proof -
  have ok: "\<not> load_limit (hnd w) < base + memsz" using assms(5) by simp
  obtain d c where one: "run_state (if filesz \<noteq> 0 then ingenic_load_sdram L data base filesz else State_Monad.return 0) w
        = (0, w\<lparr>usb := d, cb_data := c\<rparr>)" "ready d" "mem d = mem_put base data (mem (usb w))"
  proof (cases "filesz = 0")
    case True
    with assms show ?thesis by (intro that [where d = "usb w" and c = "cb_data w"]) (auto simp: host_simps)
  next
    case False
    with load_sdram [of w filesz data base] assms that show ?thesis by auto
  qed
  let ?w = "w\<lparr>usb := d, cb_data := c\<rparr>" and ?zs = "replicate (unat (memsz - filesz)) (0 :: u8)"
  obtain d' c' where two: "run_state (if memsz - filesz \<noteq> 0 then ingenic_load_sdram L ?zs (base + filesz) (memsz - filesz)
          else State_Monad.return 0) ?w = (0, w\<lparr>usb := d', cb_data := c'\<rparr>)" "ready d'"
        "mem d' = mem_put (base + filesz) ?zs (mem d)"
  proof (cases "memsz - filesz = 0")
    case True
    with one(2) show ?thesis by (intro that [where d' = d and c' = c]) (auto simp: host_simps)
  next
    case False
    with load_sdram [of ?w "memsz - filesz" ?zs "base + filesz"] assms one(2) that show ?thesis by auto
  qed
  have len: "of_nat (length data) = filesz" by (simp flip: assms(3))
  show ?thesis
    using ok one two by (auto simp: load_segment_def host_simps Let_def mem_put_append len)
qed

end

end
