(* ===== verification/Elf_Facts.thy ===== *)
theory Elf_Facts
  imports Sdram_Target
begin

unbundle bit_operations_syntax

text \<open>
  What the kernel loader of \<^verbatim>\<open>jzboot/src/elfldr.c\<close> guarantees: the trampoline, run by an
  interpreter of the MIPS instructions it uses, sets the argument registers and jumps to the
  entry point; the argument block is an array of pointers to the words of the command line;
  the limit test of \<^verbatim>\<open>load_segment\<close>.
\<close>

section \<open>The trampoline as a program\<close>

text \<open>The instructions \<^verbatim>\<open>lui\<close>, \<^verbatim>\<open>ori\<close>, \<^verbatim>\<open>jr\<close> and \<^verbatim>\<open>nop\<close> of the MIPS32 architecture.  A jump executes the
  instruction in its delay slot; the result is the address jumped to and the registers.\<close>

definition mips_rs :: "u32 \<Rightarrow> nat" where "mips_rs i = unat (drop_bit 21 i AND 31)"
definition mips_rt :: "u32 \<Rightarrow> nat" where "mips_rt i = unat (drop_bit 16 i AND 31)"

definition mips_alu :: "u32 \<Rightarrow> (nat \<Rightarrow> u32) \<Rightarrow> (nat \<Rightarrow> u32) option" where
  "mips_alu i r =
     (if i = 0 then Some r
      else if drop_bit 26 i = 15 then Some (r(mips_rt i := push_bit 16 (i AND 0xFFFF)))
      else if drop_bit 26 i = 13 then Some (r(mips_rt i := r (mips_rs i) OR (i AND 0xFFFF)))
      else None)"

fun mips_run :: "u32 list \<Rightarrow> (nat \<Rightarrow> u32) \<Rightarrow> (u32 \<times> (nat \<Rightarrow> u32)) option" where
  "mips_run [] r = None"
| "mips_run (i # rest) r =
     (if drop_bit 26 i = 0 \<and> i AND 0x1FFFFF = 8
      then (case rest of [] \<Rightarrow> None | d # _ \<Rightarrow> map_option (\<lambda>r'. (r (mips_rs i), r')) (mips_alu d r))
      else (case mips_alu i r of None \<Rightarrow> None | Some r' \<Rightarrow> mips_run rest r'))"

text \<open>An instruction with a 16-bit immediate.\<close>

definition instr :: "u32 \<Rightarrow> u32 \<Rightarrow> u32" where
  "instr t h = push_bit 16 t OR take_bit 16 h"

lemma instr_fields:
  "drop_bit 16 (instr t h) = take_bit 16 t" "instr t h AND 0xFFFF = take_bit 16 h"
proof -
  have m: "(0xFFFF :: u32) = mask 16" by (simp add: mask_eq_exp_minus_1)
  show "drop_bit 16 (instr t h) = take_bit 16 t" "instr t h AND 0xFFFF = take_bit 16 h"
    unfolding instr_def m by (rule bit_word_eqI; auto simp: bit_simps)+
qed

lemma instr_op:
  "drop_bit 26 (instr t h) = drop_bit 10 (take_bit 16 t)" "mips_rs (instr t h) = unat (drop_bit 5 (take_bit 16 t) AND 31)"
  "mips_rt (instr t h) = unat (take_bit 16 t AND 31)"
proof -
  have *: "drop_bit (16 + k) (instr t h) = drop_bit k (take_bit 16 t)" for k
    using instr_fields(1) [of t h] drop_bit_drop_bit [of k 16 "instr t h"] by (simp add: add.commute)
  show "drop_bit 26 (instr t h) = drop_bit 10 (take_bit 16 t)" "mips_rs (instr t h) = unat (drop_bit 5 (take_bit 16 t) AND 31)"
    "mips_rt (instr t h) = unat (take_bit 16 t AND 31)"
    using * [of 10] * [of 5] by (simp_all add: mips_rs_def mips_rt_def instr_fields)
qed

lemma set_high: "(w AND 0xFFFF0000) OR drop_bit 16 (v AND 0xFFFF0000) = instr (drop_bit 16 w) (drop_bit 16 v)"
  and set_low: "(w AND 0xFFFF0000) OR (v AND 0xFFFF) = instr (drop_bit 16 w) v"
  for w v :: u32
proof -
  have m: "(0xFFFF :: u32) = mask 16" "(0xFFFF0000 :: u32) = push_bit 16 (mask 16)" by (simp_all add: mask_eq_exp_minus_1)
  show "(w AND 0xFFFF0000) OR drop_bit 16 (v AND 0xFFFF0000) = instr (drop_bit 16 w) (drop_bit 16 v)"
    "(w AND 0xFFFF0000) OR (v AND 0xFFFF) = instr (drop_bit 16 w) v"
    unfolding instr_def m by (rule bit_word_eqI; auto simp: bit_simps)+
qed

lemma join_halves: "push_bit 16 (take_bit 16 (drop_bit 16 v)) OR take_bit 16 v = v" for v :: u32
  by (rule bit_word_eqI) (auto simp: bit_simps)

lemma make_trampoline_code:
  "make_trampoline argc args_base entry =
     [instr 0x3c04 (drop_bit 16 argc), instr 0x3484 argc, instr 0x3c05 (drop_bit 16 args_base), instr 0x34a5 args_base,
      instr 0x3c06 0, instr 0x34c6 0, instr 0x3c07 0, instr 0x34e7 0,
      instr 0x3c08 (drop_bit 16 entry), instr 0x3508 entry, 0x01000008, 0]"
  by (simp add: make_trampoline_def trampoline_set_def trampoline_template_def Let_def set_high set_low)
    (simp add: instr_def)

lemma instr_nonzero: "take_bit 16 t \<noteq> 0 \<Longrightarrow> instr t h \<noteq> 0"
  using instr_fields(1) [of t h] by auto

lemma trampoline_code:
  "\<exists>r'. mips_run (make_trampoline argc args_base entry) r = Some (entry, r')
     \<and> r' 4 = argc \<and> r' 5 = args_base \<and> r' 6 = 0 \<and> r' 7 = 0 \<and> (\<forall>k. k \<notin> {4, 5, 6, 7, 8} \<longrightarrow> r' k = r k)"
  unfolding make_trampoline_code
  by (simp add: mips_alu_def instr_op instr_fields instr_nonzero join_halves)
    (simp add: mips_rs_def mips_rt_def)

text \<open>C30.  The code that \<^verbatim>\<open>load_elf\<close> builds, run on any registers, jumps to the entry point with
  the number of arguments in \<^verbatim>\<open>a0\<close>, their address in \<^verbatim>\<open>a1\<close>, zero in \<^verbatim>\<open>a2\<close> and \<^verbatim>\<open>a3\<close>, and every
  register but \<^verbatim>\<open>t0\<close> otherwise as it was.\<close>

theorem trampoline_runs:
  "\<exists>r'. mips_run (make_trampoline argc args_base entry) r = Some (entry, r')
     \<and> r' 4 = argc \<and> r' 5 = args_base \<and> r' 6 = 0 \<and> r' 7 = 0 \<and> (\<forall>k. k \<notin> {4, 5, 6, 7, 8} \<longrightarrow> r' k = r k)"
  by (rule trampoline_code)

lemma trampoline_runs_witness:
  "\<exists>r'. mips_run (make_trampoline 3 0x80600000 0x80010000) (\<lambda>_. 7) = Some (0x80010000, r') \<and> r' 4 = 3 \<and> r' 2 = 7"
  using trampoline_runs [of 3 "0x80600000" "0x80010000" "\<lambda>_. 7"] by auto

section \<open>The arguments of the kernel\<close>

text \<open>The words of a command line, the offsets and the text the loop leaves.\<close>

fun words_of :: "string \<Rightarrow> string list" where
  "words_of [] = [[]]"
| "words_of (c # cs) = (if c = CHR '' '' then [] # words_of cs
     else (case words_of cs of [] \<Rightarrow> [[c]] | w # ws \<Rightarrow> (c # w) # ws))"

fun with_spaces :: "string list \<Rightarrow> string" where
  "with_spaces [] = []"
| "with_spaces [a] = a"
| "with_spaces (a # b # rest) = a @ CHR '' '' # with_spaces (b # rest)"

fun ends_at :: "nat \<Rightarrow> string list \<Rightarrow> nat list" where
  "ends_at i [] = []"
| "ends_at i (w # ws) = i # ends_at (i + length w + 1) ws"

definition zero_ended :: "string list \<Rightarrow> string" where
  "zero_ended ws = concat (List.map (\<lambda>w. w @ [CHR 0x00]) ws)"

lemma words_of_no_space: "CHR '' '' \<notin> set line \<Longrightarrow> words_of line = [line]"
  by (induction line) auto

lemma words_of_space: "CHR '' '' \<notin> set a \<Longrightarrow> words_of (a @ CHR '' '' # b) = a # words_of b"
  by (induction a) auto

lemma words_of_nonempty: "words_of line \<noteq> []"
  by (induction line) (auto split: list.splits)

lemma words_of_no_zero: "CHR 0x00 \<notin> set line \<Longrightarrow> w \<in> set (words_of line) \<Longrightarrow> CHR 0x00 \<notin> set w"
  by (induction line arbitrary: w) (auto split: if_splits list.splits)

lemma length_words_of: "length (words_of line) = length (filter (\<lambda>c. c = CHR '' '') line) + 1"
  by (induction line) (auto split: list.splits simp: words_of_nonempty)

lemma length_zero_ended_words: "length (zero_ended (words_of line)) = length line + 1"
proof (induction line)
  case (Cons c cs)
  then show ?case by (cases "words_of cs") (auto simp: zero_ended_def words_of_nonempty)
qed (simp add: zero_ended_def)

lemma join_args_text: "args \<noteq> [] \<Longrightarrow> join_args args = with_spaces args @ [CHR 0x00]"
  by (induction args rule: with_spaces.induct) auto

lemma count_args_words: "args \<noteq> [] \<Longrightarrow> count_args args = length (words_of (with_spaces args))"
  unfolding length_words_of by (induction args rule: with_spaces.induct) (auto simp: count_args_def)

lemma set_with_spaces: "set (with_spaces args) \<subseteq> insert CHR '' '' (\<Union> (set ` set args))"
  by (induction args rule: with_spaces.induct) auto

lemma length_with_spaces: "args \<noteq> [] \<Longrightarrow> length (with_spaces args) + 1 = sum_list (List.map (\<lambda>a. length a + 1) args)"
  by (induction args rule: with_spaces.induct) auto

lemma split_loop_words:
  assumes "CHR 0x00 \<notin> set line"
  shows "split_loop (length (words_of line)) base (length pre) (pre @ line @ [CHR 0x00])
     = (List.map (\<lambda>i. base + of_nat i) (ends_at (length pre) (words_of line)), pre @ zero_ended (words_of line))"
  using assms
proof (induction "length line" arbitrary: line pre rule: less_induct)
  case less
  have tw: "takeWhile (\<lambda>c. c \<noteq> CHR 0x00) (line @ [CHR 0x00]) = line"
    using less.prems by (simp add: takeWhile_eq_all_conv takeWhile_append)
  obtain m where m: "length (words_of line) = Suc m" using words_of_nonempty by (metis length_0_conv not0_implies_Suc)
  show ?case
  proof (cases "CHR '' '' \<in> set line")
    case False
    then have "strchr line CHR '' '' = None" by (simp add: strchr_None_iff)
    with False tw show ?thesis by (simp add: words_of_no_space zero_ended_def)
  next
    case True
    then obtain a b where ab: "line = a @ CHR '' '' # b" "CHR '' '' \<notin> set a" by (metis split_list_first)
    then have k: "strchr line CHR '' '' = Some (length a)" by (simp add: strchr_append_hit)
    have mb: "m = length (words_of b)" using m ab by (simp add: words_of_space)
    have upd: "(pre @ line @ [CHR 0x00])[length pre + length a := CHR 0x00] = (pre @ a @ [CHR 0x00]) @ b @ [CHR 0x00]"
      using list_update_length [of "pre @ a" "CHR '' ''" "b @ [CHR 0x00]" "CHR 0x00"] by (simp add: ab)
    have IH: "split_loop m base (length (pre @ a @ [CHR 0x00])) ((pre @ a @ [CHR 0x00]) @ b @ [CHR 0x00])
      = (List.map (\<lambda>i. base + of_nat i) (ends_at (length (pre @ a @ [CHR 0x00])) (words_of b)),
         (pre @ a @ [CHR 0x00]) @ zero_ended (words_of b))"
      unfolding mb by (rule less.hyps) (use ab less.prems in auto)
    have "split_loop (Suc m) base (length pre) (pre @ line @ [CHR 0x00])
      = (case split_loop m base (length pre + length a + 1) ((pre @ line @ [CHR 0x00])[length pre + length a := CHR 0x00]) of
          (ptrs, t) \<Rightarrow> ((base + of_nat (length pre)) # ptrs, t))"
      using tw k by simp
    also have "\<dots> = (List.map (\<lambda>i. base + of_nat i) (ends_at (length pre) (words_of line)), pre @ zero_ended (words_of line))"
      unfolding upd using IH ab(2) by (simp add: ab(1) words_of_space zero_ended_def)
    finally show ?thesis unfolding m .
  qed
qed

lemma length_ends_at [simp]: "length (ends_at i ws) = length ws"
  by (induction ws arbitrary: i) auto

lemma ends_at_shift: "ends_at (j + i) ws = List.map (\<lambda>x. x + i) (ends_at j ws)"
proof (induction ws arbitrary: j)
  case (Cons w ws)
  have "j + i + length w + 1 = j + length w + 1 + i" by simp
  with Cons [of "j + length w + 1"] show ?case by (simp only: ends_at.simps list.map)
qed simp

lemma ends_at_nth: "k < length ws \<Longrightarrow> drop (ends_at 0 ws ! k) (zero_ended ws) = ws ! k @ CHR 0x00 # zero_ended (drop (Suc k) ws)"
proof (induction ws arbitrary: k)
  case (Cons w ws)
  show ?case
  proof (cases k)
    case 0
    then show ?thesis by (simp add: zero_ended_def)
  next
    case (Suc m)
    then have "ends_at 0 (w # ws) ! k = ends_at 0 ws ! m + (length w + 1)"
      using Cons.prems ends_at_shift [of 0 "length w + 1" ws] by simp
    then show ?thesis using Cons Suc by (simp add: zero_ended_def)
  qed
qed simp

lemma ends_at_less: "k < length ws \<Longrightarrow> ends_at 0 ws ! k < length (zero_ended ws)"
  using ends_at_nth [of k ws] by (metis append_is_Nil_conv drop_all linorder_not_le list.distinct(1))

definition byte_of :: "char \<Rightarrow> u8" where "byte_of c = of_nat (of_char c)"

lemma c_string_ended: "CHR 0x00 \<notin> set w \<Longrightarrow> c_string (List.map byte_of w @ 0 # rest) = w"
proof (induction w)
  case (Cons c w)
  have *: "unat (byte_of c) = of_char c"
    using nat_of_char_less_256 [of c] by (simp add: byte_of_def unat_of_nat)
  have "(of_char (CHR 0x00) :: nat) = 0" by simp
  then have "(of_char c :: nat) \<noteq> 0" using Cons.prems by (metis list.set_intros(1) of_char_eq_iff)
  then have "byte_of c \<noteq> 0" using * by (metis unsigned_0)
  with Cons * show ?case by (simp add: c_string_def)
qed (simp add: c_string_def)

lemma args_block_layout:
  assumes "args \<noteq> []" "\<forall>a \<in> set args. CHR 0x00 \<notin> set a"
  defines "ws \<equiv> words_of (with_spaces args)"
  shows "args_block g base args =
    concat (List.map enc_u32 (List.map (\<lambda>i. base + of_nat (length ws) * 4 + of_nat i) (ends_at 0 ws)))
      @ List.map byte_of (zero_ended ws)"
proof -
  have nz: "CHR 0x00 \<notin> set (with_spaces args)" using assms(2) set_with_spaces [of args] by auto
  have "split_loop (length ws) (base + of_nat (length ws) * 4) 0 (join_args args)
      = (List.map (\<lambda>i. base + of_nat (length ws) * 4 + of_nat i) (ends_at 0 ws), zero_ended ws)"
    using split_loop_words [OF nz, of _ "[]"] assms(1) by (simp add: join_args_text ws_def)
  then show ?thesis
    using count_args_words [OF assms(1)] by (simp add: args_block_def ws_def [symmetric] Let_def byte_of_def)
qed

text \<open>C31.  The block that \<^verbatim>\<open>load_args\<close> sends to \<^verbatim>\<open>base\<close> is the argument vector of the kernel: it has
  one pointer per word of the command line (the arguments joined by spaces and split again at
  every space), and the pointer \<^verbatim>\<open>k\<close> leads, inside the block, to a C string that is word \<^verbatim>\<open>k\<close>.\<close>

theorem args_point_to_words:
  fixes base :: u32 and g :: "nat \<Rightarrow> u8"
  assumes "args \<noteq> []" "\<forall>a \<in> set args. CHR 0x00 \<notin> set a"
    and "4 * count_args args + sum_list (List.map (\<lambda>a. length a + 1) args) < 2 ^ 32"
  defines "ws \<equiv> words_of (with_spaces args)" and "block \<equiv> args_block g base args"
  shows "length ws = count_args args
    \<and> length block = 4 * count_args args + sum_list (List.map (\<lambda>a. length a + 1) args)
    \<and> (\<forall>k < count_args args. c_string (drop (unat (word_at k block - base)) block) = ws ! k)"
proof -
  let ?n = "length ws" and ?bytes = "List.map byte_of (zero_ended ws)"
  define ptrs where "ptrs = List.map (\<lambda>i. base + of_nat ?n * 4 + of_nat i) (ends_at 0 ws)"
  have block: "block = concat (List.map enc_u32 ptrs) @ ?bytes"
    unfolding block_def ptrs_def ws_def by (rule args_block_layout [OF assms(1,2)])
  have n: "?n = count_args args" unfolding ws_def by (rule count_args_words [OF assms(1), symmetric])
  have lp: "length (concat (List.map enc_u32 ptrs)) = 4 * ?n"
    unfolding u32c.length_encs by (simp add: ptrs_def)
  have lz: "length (zero_ended ws) = sum_list (List.map (\<lambda>a. length a + 1) args)"
    using length_with_spaces [OF assms(1)] by (simp add: ws_def length_zero_ended_words)
  have "c_string (drop (unat (word_at k block - base)) block) = ws ! k" if k: "k < ?n" for k
  proof -
    let ?e = "ends_at 0 ws ! k"
    have "slice (4 * k) 4 block = slice (4 * k) 4 (concat (List.map enc_u32 ptrs))"
      unfolding block by (rule slice_append1) (use k lp in simp)
    then have "word_at k block = base + (of_nat (4 * ?n + ?e))"
      using k word_at_nth [of k ptrs] by (simp add: word_at_def ptrs_def algebra_simps)
    moreover have "4 * ?n + ?e < 2 ^ 32" using ends_at_less [OF k] lz n assms(3) by simp
    ultimately have "unat (word_at k block - base) = 4 * ?n + ?e" by (simp add: unat_of_nat del: of_nat_add)
    then have "drop (unat (word_at k block - base)) block = List.map byte_of (drop ?e (zero_ended ws))"
      by (simp add: block lp drop_map)
    also have "\<dots> = List.map byte_of (ws ! k) @ 0 # List.map byte_of (zero_ended (drop (Suc k) ws))"
      using ends_at_nth [OF k] by (simp add: byte_of_def)
    finally have d: "drop (unat (word_at k block - base)) block = \<dots>" .
    have "CHR 0x00 \<notin> set (with_spaces args)" using assms(2) set_with_spaces [of args] by auto
    then have "CHR 0x00 \<notin> set (ws ! k)" using k words_of_no_zero [of "with_spaces args" "ws ! k"] by (simp add: ws_def)
    then show ?thesis unfolding d by (rule c_string_ended)
  qed
  with lz lp n show ?thesis by (simp add: block)
qed

lemma args_point_to_words_witness:
  "c_string (drop (unat (word_at 2 (args_block (\<lambda>_. 0) 0x80001000 [''zImage'', ''a=1 b'']) - 0x80001000))
     (args_block (\<lambda>_. 0) 0x80001000 [''zImage'', ''a=1 b''])) = ''b''"
  using args_point_to_words [of "[''zImage'', ''a=1 b'']" "\<lambda>_. 0" "0x80001000"]
  by (simp add: count_args_def)

end
