(* ===== verification/Stage2_State.thy ===== *)
theory Stage2_State
  imports Codec
begin

unbundle bit_operations_syntax

text \<open>
  The state of the firmware of \<^verbatim>\<open>usbboot/xburst_stage2\<close>: the globals of \<^verbatim>\<open>udc.c\<close> and
  \<^verbatim>\<open>boothandler.c\<close>, the memory the loader writes, and the accesses to memory-mapped
  registers.  The hardware is a parameter: the record \<^verbatim>\<open>mmio\<close> of read and write functions
  on an abstract state.  Reads return a new state, since reading a FIFO or an interrupt
  register changes it.
\<close>

section \<open>Hardware registers\<close>

record 'h mmio =
  io_r8 :: "u32 \<Rightarrow> 'h \<Rightarrow> u8 \<times> 'h"
  io_w8 :: "u32 \<Rightarrow> u8 \<Rightarrow> 'h \<Rightarrow> 'h"
  io_r16 :: "u32 \<Rightarrow> 'h \<Rightarrow> u16 \<times> 'h"
  io_w16 :: "u32 \<Rightarrow> u16 \<Rightarrow> 'h \<Rightarrow> 'h"
  io_r32 :: "u32 \<Rightarrow> 'h \<Rightarrow> u32 \<times> 'h"
  io_w32 :: "u32 \<Rightarrow> u32 \<Rightarrow> 'h \<Rightarrow> 'h"

section \<open>Firmware state\<close>

text \<open>\<^verbatim>\<open>struct fw_args\<close> and \<^verbatim>\<open>struct hand\<close> of \<^verbatim>\<open>usb_boot_defines.h\<close>.\<close>

record fw_args =
  fa_cpu_id :: u32
  fa_ext_clk :: u8
  fa_cpu_speed :: u8
  fa_phm_div :: u8
  fa_use_uart :: u8
  fa_boudrate :: u32
  fa_bus_width :: u8
  fa_bank_num :: u8
  fa_row_addr :: u8
  fa_col_addr :: u8
  fa_is_mobile :: u8
  fa_is_busshare :: u8
  fa_debug_ops :: u8
  fa_pin_num :: u8
  fa_start :: u32
  fa_size :: u32

record hand =
  hd_pt :: u32
  hd_nand_bw :: u32
  hd_nand_rc :: u32
  hd_nand_ps :: u32
  hd_nand_ppb :: u32
  hd_nand_force_erase :: u32
  hd_nand_pn :: u32
  hd_nand_os :: u32
  hd_nand_eccpos :: u32
  hd_nand_bbpage :: u32
  hd_nand_bbpos :: u32
  hd_nand_plane :: u32
  hd_nand_bchbit :: u32
  hd_nand_wppin :: u32
  hd_nand_bpc :: u32
  hd_fw_args :: fw_args

datatype udc_phase = IDLE | BULK_IN | BULK_OUT
datatype ep0_phase = USB_EP0_IDLE | USB_EP0_RX | USB_EP0_TX
datatype usb_speed = USB_HS | USB_FS | USB_LS

text \<open>The endpoint entries of the configuration descriptor, which \<^verbatim>\<open>EP0_init\<close> changes.\<close>

record conf_desc =
  cd_in_addr :: u8
  cd_in_size :: u16
  cd_out_addr :: u8
  cd_out_size :: u16

text \<open>Which NAND driver the function pointers of \<^verbatim>\<open>boothandler.c\<close> select; null before
  \<^verbatim>\<open>Board_Init\<close>.\<close>

datatype driver = No_Driver | Drv_4740 | Drv_4760

text \<open>The statics of \<^verbatim>\<open>nandflash_4740.c\<close>; its \<^verbatim>\<open>int\<close> variables are kept as 32-bit words, with signed
  comparisons and divisions where the code has them.\<close>

datatype nand_proc = No_Proc | Proc8 | Proc16

record nand_vars =
  nv_bus :: u32
  nv_row :: u32
  nv_pagesize :: u32
  nv_oobsize :: u32
  nv_ppb :: u32
  nv_bb_pos :: u32
  nv_bb_page :: u32
  nv_force_erase :: u32
  nv_ecc_pos :: u32
  nv_wp_pin :: u32
  nv_oob_buf :: "nat \<Rightarrow> u8"
  nv_addrport :: u32
  nv_dataport :: u32
  nv_cmdport :: u32
  nv_proc :: nand_proc

text \<open>The statics of \<^verbatim>\<open>nandflash_4760.c\<close>, likewise; the ports are constants there.\<close>

record nand6_vars =
  n6_bus :: u32
  n6_row :: u32
  n6_pagesize :: u32
  n6_oobsize :: u32
  n6_ppb :: u32
  n6_eccpos :: u32
  n6_bchbit :: u32
  n6_par_size :: u32
  n6_par_size1 :: u32
  n6_forceerase :: u32
  n6_wp_pin :: u32
  n6_bb_page :: u32
  n6_bb_pos :: u32
  n6_oob_buf :: "nat \<Rightarrow> u8"
  n6_proc :: nand_proc

text \<open>
  The bulk buffers are arrays of 1 MB; \<^verbatim>\<open>rx_buf\<close> and \<^verbatim>\<open>tx_buf\<close> of 128 bytes.  An access
  outside an array, a call through a null pointer and a misaligned word access set
  \<^verbatim>\<open>fw_ub\<close>.  \<^verbatim>\<open>ram\<close> is the memory that requests address; \<^verbatim>\<open>jumped\<close> is the address of the
  program started by \<^verbatim>\<open>PROGRAM_START2\<close>, \<^verbatim>\<open>hung\<close> the endless loop of \<^verbatim>\<open>RESET\<close>.
\<close>

record 'h fw_state =
  hw :: 'h
  bulk_in_buf :: "nat \<Rightarrow> u8"
  bulk_out_buf :: "nat \<Rightarrow> u8"
  Bulk_in_size :: u32
  Bulk_in_finish :: u32
  Bulk_out_size :: u32
  handshake_PKT :: "u16 list"
  udc_state :: udc_phase
  rx_buf :: "nat \<Rightarrow> u8"
  tx_buf :: "nat \<Rightarrow> u8"
  tx_size :: u32
  rx_size :: u32
  finished :: u32
  fifo :: u32
  ep0state :: ep0_phase
  USB_Version :: usb_speed
  fifosize1 :: u32
  confDesc :: conf_desc
  Hand :: hand
  ret_dat :: u32
  start_addr :: u32
  ops_length :: u32
  ram_addr :: u32
  nand_drv :: driver
  nf :: nand_vars
  nf6 :: nand6_vars
  ram :: "u32 \<Rightarrow> u8"
  jumped :: "u32 option"
  hung :: bool
  fw_ub :: bool

type_synonym ('h, 'a) fw = "('h fw_state, 'a) state"

definition BULK_BUF_BYTES :: nat where "BULK_BUF_BYTES = 4 * (2048 * 128)"

definition fw_gets :: "('h fw_state \<Rightarrow> 'a) \<Rightarrow> ('h, 'a) fw" where
  "fw_gets f = do { s \<leftarrow> State_Monad.get; State_Monad.return (f s) }"

definition fw_mark :: "bool \<Rightarrow> ('h, unit) fw" where
  "fw_mark b = State_Monad.update (\<lambda>s. s\<lparr>fw_ub := fw_ub s \<or> b\<rparr>)"

definition reg_read :: "('h \<Rightarrow> 'a \<times> 'h) \<Rightarrow> ('h, 'a) fw" where
  "reg_read f = do {
     h \<leftarrow> fw_gets hw;
     State_Monad.update (\<lambda>s. s\<lparr>hw := snd (f h)\<rparr>);
     State_Monad.return (fst (f h)) }"

definition reg_write :: "('h \<Rightarrow> 'h) \<Rightarrow> ('h, unit) fw" where
  "reg_write f = State_Monad.update (\<lambda>s. s\<lparr>hw := f (hw s)\<rparr>)"

definition jz_readb :: "'h mmio \<Rightarrow> u32 \<Rightarrow> ('h, u8) fw" where "jz_readb M port = reg_read (io_r8 M port)"
definition jz_writeb :: "'h mmio \<Rightarrow> u32 \<Rightarrow> u8 \<Rightarrow> ('h, unit) fw" where "jz_writeb M port v = reg_write (io_w8 M port v)"
definition jz_readw :: "'h mmio \<Rightarrow> u32 \<Rightarrow> ('h, u16) fw" where "jz_readw M port = reg_read (io_r16 M port)"
definition jz_writew :: "'h mmio \<Rightarrow> u32 \<Rightarrow> u16 \<Rightarrow> ('h, unit) fw" where "jz_writew M port v = reg_write (io_w16 M port v)"
definition jz_readl :: "'h mmio \<Rightarrow> u32 \<Rightarrow> ('h, u32) fw" where "jz_readl M port = reg_read (io_r32 M port)"
definition jz_writel :: "'h mmio \<Rightarrow> u32 \<Rightarrow> u32 \<Rightarrow> ('h, unit) fw" where "jz_writel M port v = reg_write (io_w32 M port v)"

definition usb_setb :: "'h mmio \<Rightarrow> u32 \<Rightarrow> u8 \<Rightarrow> ('h, unit) fw" where
  "usb_setb M port v = do { old \<leftarrow> jz_readb M port; jz_writeb M port (old OR v) }"

definition usb_clearb :: "'h mmio \<Rightarrow> u32 \<Rightarrow> u8 \<Rightarrow> ('h, unit) fw" where
  "usb_clearb M port v = do { old \<leftarrow> jz_readb M port; jz_writeb M port (old AND NOT v) }"

definition usb_setw :: "'h mmio \<Rightarrow> u32 \<Rightarrow> u16 \<Rightarrow> ('h, unit) fw" where
  "usb_setw M port v = do { old \<leftarrow> jz_readw M port; jz_writew M port (old OR v) }"

lemma run_fw_gets [host_simps]: "run_state (fw_gets f) s = (f s, s)"
  by (simp add: fw_gets_def)

lemma run_fw_mark [host_simps]: "run_state (fw_mark b) s = ((), s\<lparr>fw_ub := fw_ub s \<or> b\<rparr>)"
  by (simp add: fw_mark_def host_simps)

lemma run_reg_read [host_simps]: "run_state (reg_read f) s = (fst (f (hw s)), s\<lparr>hw := snd (f (hw s))\<rparr>)"
  by (simp add: reg_read_def host_simps)

lemma run_reg_write [host_simps]: "run_state (reg_write f) s = ((), s\<lparr>hw := f (hw s)\<rparr>)"
  by (simp add: reg_write_def host_simps)

lemmas reg_defs = jz_readb_def jz_writeb_def jz_readw_def jz_writew_def jz_readl_def jz_writel_def
  usb_setb_def usb_clearb_def usb_setw_def

section \<open>Registers of the USB device controller\<close>

definition USB_BASE :: u32 where "USB_BASE = 0xB3040000"
definition USB_REG_FADDR :: u32 where "USB_REG_FADDR = USB_BASE + 0x00"
definition USB_REG_POWER :: u32 where "USB_REG_POWER = USB_BASE + 0x01"
definition USB_REG_INTRIN :: u32 where "USB_REG_INTRIN = USB_BASE + 0x02"
definition USB_REG_INTROUT :: u32 where "USB_REG_INTROUT = USB_BASE + 0x04"
definition USB_REG_INTRINE :: u32 where "USB_REG_INTRINE = USB_BASE + 0x06"
definition USB_REG_INTROUTE :: u32 where "USB_REG_INTROUTE = USB_BASE + 0x08"
definition USB_REG_INTRUSB :: u32 where "USB_REG_INTRUSB = USB_BASE + 0x0a"
definition USB_REG_INTRUSBE :: u32 where "USB_REG_INTRUSBE = USB_BASE + 0x0b"
definition USB_REG_INDEX :: u32 where "USB_REG_INDEX = USB_BASE + 0x0e"
definition USB_REG_CSR0 :: u32 where "USB_REG_CSR0 = USB_BASE + 0x12"
definition USB_REG_INMAXP :: u32 where "USB_REG_INMAXP = USB_BASE + 0x10"
definition USB_REG_INCSR :: u32 where "USB_REG_INCSR = USB_BASE + 0x12"
definition USB_REG_OUTMAXP :: u32 where "USB_REG_OUTMAXP = USB_BASE + 0x14"
definition USB_REG_OUTCSR :: u32 where "USB_REG_OUTCSR = USB_BASE + 0x16"
definition USB_REG_OUTCOUNT :: u32 where "USB_REG_OUTCOUNT = USB_BASE + 0x18"
definition USB_FIFO_EP0 :: u32 where "USB_FIFO_EP0 = USB_BASE + 0x20"

lemmas usb_reg_defs = USB_BASE_def USB_REG_FADDR_def USB_REG_POWER_def USB_REG_INTRIN_def
  USB_REG_INTROUT_def USB_REG_INTRINE_def USB_REG_INTROUTE_def USB_REG_INTRUSB_def USB_REG_INTRUSBE_def
  USB_REG_INDEX_def USB_REG_CSR0_def USB_REG_INMAXP_def USB_REG_INCSR_def USB_REG_OUTMAXP_def
  USB_REG_OUTCSR_def USB_REG_OUTCOUNT_def USB_FIFO_EP0_def

text \<open>The arrays \<^verbatim>\<open>fifoaddr\<close> and \<^verbatim>\<open>fifosize\<close>, at the endpoints the firmware uses.\<close>

definition fifoaddr :: "nat \<Rightarrow> u32" where
  "fifoaddr ep = (if ep = 0 then USB_FIFO_EP0 else if ep = 1 then USB_FIFO_EP0 + 4 else USB_FIFO_EP0 + 8)"

definition fifosize :: "nat \<Rightarrow> 'h fw_state \<Rightarrow> u32" where
  "fifosize ep s = (if ep = 0 then 64 else fifosize1 s)"

section \<open>FIFO access\<close>

definition buf_bytes :: "(nat \<Rightarrow> u8) \<Rightarrow> nat \<Rightarrow> nat \<Rightarrow> bytes" where
  "buf_bytes buf off n = List.map (\<lambda>i. buf (off + i)) [0..<n]"

definition buf_word :: "(nat \<Rightarrow> u8) \<Rightarrow> nat \<Rightarrow> u32" where
  "buf_word buf off = dec_u32 (buf_bytes buf off 4)"

definition buf_put :: "nat \<Rightarrow> bytes \<Rightarrow> (nat \<Rightarrow> u8) \<Rightarrow> (nat \<Rightarrow> u8)" where
  "buf_put off bs buf = (\<lambda>i. if off \<le> i \<and> i < off + length bs then bs ! (i - off) else buf i)"

text \<open>\<^verbatim>\<open>udcReadFifo\<close> reads whole words and so writes up to three bytes past \<^verbatim>\<open>size\<close>; the
  result is the bytes it stores.\<close>

fun read_fifo_words :: "'h mmio \<Rightarrow> nat \<Rightarrow> ('h, bytes) fw" where
  "read_fifo_words M 0 = State_Monad.return []"
| "read_fifo_words M (Suc n) = do {
     port \<leftarrow> fw_gets fifo;
     w \<leftarrow> jz_readl M port;
     rest \<leftarrow> read_fifo_words M n;
     State_Monad.return (enc_u32 w @ rest) }"

definition udcReadFifo :: "'h mmio \<Rightarrow> nat \<Rightarrow> ('h, bytes) fw" where
  "udcReadFifo M len = read_fifo_words M ((len + 3) div 4)"

fun write_fifo_words :: "'h mmio \<Rightarrow> (nat \<Rightarrow> u8) \<Rightarrow> nat \<Rightarrow> nat \<Rightarrow> ('h, unit) fw" where
  "write_fifo_words M buf off 0 = State_Monad.return ()"
| "write_fifo_words M buf off (Suc n) = do {
     port \<leftarrow> fw_gets fifo;
     jz_writel M port (buf_word buf off);
     write_fifo_words M buf (off + 4) n }"

fun write_fifo_bytes :: "'h mmio \<Rightarrow> (nat \<Rightarrow> u8) \<Rightarrow> nat \<Rightarrow> nat \<Rightarrow> ('h, unit) fw" where
  "write_fifo_bytes M buf off 0 = State_Monad.return ()"
| "write_fifo_bytes M buf off (Suc n) = do {
     port \<leftarrow> fw_gets fifo;
     jz_writeb M port (buf off);
     write_fifo_bytes M buf (off + 1) n }"

definition udcWriteFifo :: "'h mmio \<Rightarrow> (nat \<Rightarrow> u8) \<Rightarrow> nat \<Rightarrow> nat \<Rightarrow> ('h, unit) fw" where
  "udcWriteFifo M buf off len = do {
     write_fifo_words M buf off (len div 4);
     write_fifo_bytes M buf (off + 4 * (len div 4)) (len mod 4) }"

section \<open>Packets\<close>

definition INCSR_INPKTRDY :: u8 where "INCSR_INPKTRDY = 0x01"

text \<open>The next packet of a bulk-in transfer from a buffer, and what is left of it.\<close>

definition next_in_packet :: "'h mmio \<Rightarrow> bool \<Rightarrow> nat \<Rightarrow> (nat \<Rightarrow> u8) \<Rightarrow> ('h, unit) fw" where
  "next_in_packet M wide ep buf = do {
     s \<leftarrow> State_Monad.get;
     let left = Bulk_in_size s - Bulk_in_finish s;
     if left \<le> fifosize ep s then do {
       udcWriteFifo M buf (unat (Bulk_in_finish s)) (unat left);
       (if wide then usb_setw M USB_REG_INCSR 0x01 else usb_setb M USB_REG_INCSR INCSR_INPKTRDY);
       State_Monad.update (\<lambda>s. s\<lparr>Bulk_in_finish := Bulk_in_size s\<rparr>) }
     else do {
       udcWriteFifo M buf (unat (Bulk_in_finish s)) (unat (fifosize ep s));
       (if wide then usb_setw M USB_REG_INCSR 0x01 else usb_setb M USB_REG_INCSR INCSR_INPKTRDY);
       State_Monad.update (\<lambda>s. s\<lparr>Bulk_in_finish := Bulk_in_finish s + fifosize ep s\<rparr>) } }"

text \<open>\<^verbatim>\<open>HW_SendPKT\<close>: endpoint 0 copies the data to \<^verbatim>\<open>tx_buf\<close>, endpoint 1 starts a bulk-in
  transfer with its first packet.\<close>

definition HW_SendPKT :: "'h mmio \<Rightarrow> nat \<Rightarrow> (nat \<Rightarrow> u8) \<Rightarrow> u32 \<Rightarrow> ('h, unit) fw" where
  "HW_SendPKT M ep buf len = do {
     State_Monad.update (\<lambda>s. s\<lparr>fifo := fifoaddr ep\<rparr>);
     if ep \<noteq> 0 then do {
       State_Monad.update (\<lambda>s. s\<lparr>Bulk_in_size := len, Bulk_in_finish := 0\<rparr>);
       jz_writeb M USB_REG_INDEX (of_nat ep);
       next_in_packet M False ep buf }
     else do {
       fw_mark (unat len > 128);
       State_Monad.update (\<lambda>s. s\<lparr>tx_size := len, finished := 0,
         tx_buf := buf_put 0 (buf_bytes buf 0 (unat len)) (tx_buf s), ep0state := USB_EP0_TX\<rparr>) } }"

definition HW_SendPKT_bytes :: "'h mmio \<Rightarrow> nat \<Rightarrow> bytes \<Rightarrow> ('h, unit) fw" where
  "HW_SendPKT_bytes M ep bs = HW_SendPKT M ep (\<lambda>i. if i < length bs then bs ! i else 0) (of_nat (length bs))"

definition handshake_bytes :: "'h fw_state \<Rightarrow> bytes" where
  "handshake_bytes s = concat (List.map enc_u16 (handshake_PKT s))"

definition send_handshake :: "'h mmio \<Rightarrow> ('h, unit) fw" where
  "send_handshake M = do { bs \<leftarrow> fw_gets handshake_bytes; HW_SendPKT_bytes M 1 bs }"

end
