(* ===== verification/Boothandler.thy ===== *)
theory Boothandler
  imports Stage2_State
begin

unbundle bit_operations_syntax

text \<open>
  The request handlers of \<^verbatim>\<open>usbboot/xburst_stage2/boothandler.c\<close>.  The NAND functions are
  called through the pointers that \<^verbatim>\<open>Board_Init\<close> sets from the CPU identifier, here a table of
  driver records indexed by the selected driver.  The serial messages and the cache
  maintenance have no effect on the modelled state.
\<close>

section \<open>Drivers\<close>

datatype buf_ptr = In_Buf | Ram_At u32

record 'h nand_driver =
  nd_init :: "u32 list \<Rightarrow> ('h, unit) fw"
  nd_query :: "('h, unit) fw"
  nd_program :: "u32 \<Rightarrow> u32 \<Rightarrow> nat \<Rightarrow> ('h, u32) fw"
  nd_erase :: "u32 \<Rightarrow> u32 \<Rightarrow> u32 \<Rightarrow> ('h, u32) fw"
  nd_read :: "buf_ptr \<Rightarrow> u32 \<Rightarrow> u32 \<Rightarrow> nat \<Rightarrow> ('h, u32) fw"
  nd_read_oob :: "u32 \<Rightarrow> u32 \<Rightarrow> ('h, u32) fw"
  nd_read_raw :: "u32 \<Rightarrow> u32 \<Rightarrow> nat \<Rightarrow> ('h, u32) fw"
  nd_mark_bad :: "u32 \<Rightarrow> ('h, u32) fw"
  nd_enable :: "u32 \<Rightarrow> ('h, unit) fw"
  nd_disable :: "u32 \<Rightarrow> ('h, unit) fw"

type_synonym 'h drivers = "driver \<Rightarrow> 'h nand_driver"

text \<open>A call through a function pointer: null until a driver is selected.\<close>

definition call_nand :: "'h drivers \<Rightarrow> ('h nand_driver \<Rightarrow> ('h, 'a) fw) \<Rightarrow> ('h, 'a) fw" where
  "call_nand D f = do {
     d \<leftarrow> fw_gets nand_drv;
     fw_mark (d = No_Driver);
     f (D d) }"

section \<open>Requests\<close>

text \<open>\<^verbatim>\<open>USB_DeviceRequest\<close>, read from the eight bytes of a setup packet.\<close>

record dev_request =
  bmRequestType :: u8
  bRequest :: u8
  wValue :: u16
  wIndex :: u16
  wLength :: u16

definition dec_request :: "bytes \<Rightarrow> dev_request" where
  "dec_request bs = \<lparr>bmRequestType = dec_u8 (slice 0 1 bs), bRequest = dec_u8 (slice 1 1 bs),
     wValue = dec_u16 (slice 2 2 bs), wIndex = dec_u16 (slice 4 2 bs), wLength = dec_u16 (slice 6 2 bs)\<rparr>"

definition enc_request :: "dev_request \<Rightarrow> bytes" where
  "enc_request r = enc_u8 (bmRequestType r) @ enc_u8 (bRequest r) @ enc_u16 (wValue r)
     @ enc_u16 (wIndex r) @ enc_u16 (wLength r)"

interpretation req: codec enc_request dec_request 8
  by unfold_locales
    (simp_all add: enc_request_def dec_request_def le_simps slice_append2 del: slice_0, simp_all add: le_simps)

definition ERR_OK :: u16 where "ERR_OK = 0"
definition ERR_OPS_NOTSUPPORT :: u16 where "ERR_OPS_NOTSUPPORT = 9"

text \<open>\<^verbatim>\<open>(((u32) dreq->wValue) << 16) + (u32) dreq->wIndex\<close>\<close>

definition req_word :: "dev_request \<Rightarrow> u32" where
  "req_word r = push_bit 16 (ucast (wValue r)) + ucast (wIndex r)"

definition dec_fw_args :: "bytes \<Rightarrow> fw_args" where
  "dec_fw_args bs = \<lparr>fa_cpu_id = dec_u32 (slice 0 4 bs), fa_ext_clk = dec_u8 (slice 4 1 bs),
     fa_cpu_speed = dec_u8 (slice 5 1 bs), fa_phm_div = dec_u8 (slice 6 1 bs), fa_use_uart = dec_u8 (slice 7 1 bs),
     fa_boudrate = dec_u32 (slice 8 4 bs), fa_bus_width = dec_u8 (slice 12 1 bs), fa_bank_num = dec_u8 (slice 13 1 bs),
     fa_row_addr = dec_u8 (slice 14 1 bs), fa_col_addr = dec_u8 (slice 15 1 bs), fa_is_mobile = dec_u8 (slice 16 1 bs),
     fa_is_busshare = dec_u8 (slice 17 1 bs), fa_debug_ops = dec_u8 (slice 18 1 bs), fa_pin_num = dec_u8 (slice 19 1 bs),
     fa_start = dec_u32 (slice 20 4 bs), fa_size = dec_u32 (slice 24 4 bs)\<rparr>"

definition hand_word :: "nat \<Rightarrow> bytes \<Rightarrow> u32" where
  "hand_word k bs = dec_u32 (slice (4 * k) 4 bs)"

text \<open>\<^verbatim>\<open>sizeof (struct hand)\<close> is 88.\<close>

definition dec_hand :: "bytes \<Rightarrow> hand" where
  "dec_hand bs = \<lparr>hd_pt = hand_word 0 bs, hd_nand_bw = hand_word 1 bs, hd_nand_rc = hand_word 2 bs,
     hd_nand_ps = hand_word 3 bs, hd_nand_ppb = hand_word 4 bs, hd_nand_force_erase = hand_word 5 bs,
     hd_nand_pn = hand_word 6 bs, hd_nand_os = hand_word 7 bs, hd_nand_eccpos = hand_word 8 bs,
     hd_nand_bbpage = hand_word 9 bs, hd_nand_bbpos = hand_word 10 bs, hd_nand_plane = hand_word 11 bs,
     hd_nand_bchbit = hand_word 12 bs, hd_nand_wppin = hand_word 13 bs, hd_nand_bpc = hand_word 14 bs,
     hd_fw_args = dec_fw_args (slice 60 28 bs)\<rparr>"

definition config_hand :: "('h, unit) fw" where
  "config_hand = State_Monad.update (\<lambda>s. s\<lparr>Hand := dec_hand (buf_bytes (bulk_out_buf s) 0 88)\<rparr>)"

definition ascii :: "string \<Rightarrow> bytes" where
  "ascii s = List.map (\<lambda>c. of_nat (of_char c)) s"

definition GET_CPU_INFO_Handle :: "'h mmio \<Rightarrow> ('h, u16) fw" where
  "GET_CPU_INFO_Handle M = do {
     cpu \<leftarrow> fw_gets (\<lambda>s. fa_cpu_id (hd_fw_args (Hand s)));
     (if cpu = 0x4760 then HW_SendPKT_bytes M 0 (ascii ''Boot4760'')
      else if cpu = 0x4740 then HW_SendPKT_bytes M 0 (ascii ''Boot4740'')
      else HW_SendPKT_bytes M 0 (ascii '' UNKNOW ''));
     State_Monad.update (\<lambda>s. s\<lparr>udc_state := IDLE\<rparr>);
     State_Monad.return ERR_OK }"

definition SET_DATA_ADDERSS_Handle :: "dev_request \<Rightarrow> ('h, u16) fw" where
  "SET_DATA_ADDERSS_Handle dreq = do {
     State_Monad.update (\<lambda>s. s\<lparr>start_addr := req_word dreq\<rparr>);
     State_Monad.return ERR_OK }"

definition SET_DATA_LENGTH_Handle :: "dev_request \<Rightarrow> ('h, u16) fw" where
  "SET_DATA_LENGTH_Handle dreq = do {
     State_Monad.update (\<lambda>s. s\<lparr>ops_length := req_word dreq\<rparr>);
     State_Monad.return ERR_OK }"

definition FLUSH_CACHES_Handle :: "('h, u16) fw" where
  "FLUSH_CACHES_Handle = State_Monad.return ERR_OK"

definition PROGRAM_START1_Handle :: "dev_request \<Rightarrow> ('h, u16) fw" where
  "PROGRAM_START1_Handle dreq = do {
     State_Monad.update (\<lambda>s. s\<lparr>ram_addr := req_word dreq\<rparr>);
     State_Monad.return ERR_OK }"

definition PROGRAM_START2_Handle :: "'h mmio \<Rightarrow> dev_request \<Rightarrow> ('h, u16) fw" where
  "PROGRAM_START2_Handle M dreq = do {
     jz_writeb M USB_REG_POWER 0;
     State_Monad.update (\<lambda>s. s\<lparr>jumped := Some (req_word dreq)\<rparr>);
     State_Monad.return ERR_OK }"

definition NOR_OPS_Handle :: "('h, u16) fw" where
  "NOR_OPS_Handle = State_Monad.return ERR_OK"

text \<open>\<^verbatim>\<open>handshake_PKT[0] = (u16) ret_dat; handshake_PKT[1] = (u16) (ret_dat >> 16);\<close>\<close>

definition put_ret_dat :: "('h, unit) fw" where
  "put_ret_dat = State_Monad.update (\<lambda>s. s\<lparr>handshake_PKT :=
     (handshake_PKT s)[0 := ucast (ret_dat s), 1 := ucast (drop_bit 16 (ret_dat s))]\<rparr>)"

definition set_ret_dat :: "u32 \<Rightarrow> ('h, unit) fw" where
  "set_ret_dat r = State_Monad.update (\<lambda>s. s\<lparr>ret_dat := r\<rparr>)"

definition set_phase :: "udc_phase \<Rightarrow> ('h, unit) fw" where
  "set_phase p = State_Monad.update (\<lambda>s. s\<lparr>udc_state := p\<rparr>)"

definition send_in_buf :: "'h mmio \<Rightarrow> u32 \<Rightarrow> ('h, unit) fw" where
  "send_in_buf M len = do {
     buf \<leftarrow> fw_gets bulk_in_buf;
     fw_mark (unat len > BULK_BUF_BYTES);
     HW_SendPKT M 1 buf len }"

definition NAND_READ_Case :: "'h mmio \<Rightarrow> 'h drivers \<Rightarrow> nat \<Rightarrow> ('h, unit) fw" where
  "NAND_READ_Case M D option = do {
     s \<leftarrow> State_Monad.get;
     if option \<in> {0, 1, 2} then do {
       r \<leftarrow> call_nand D (\<lambda>d. nd_read d In_Buf (start_addr s) (ops_length s) option);
       set_ret_dat r;
       put_ret_dat;
       t \<leftarrow> State_Monad.get;
       send_in_buf M (ops_length t * (hd_nand_ps (Hand t) + (if option = 2 then 0 else hd_nand_os (Hand t))));
       set_phase BULK_IN }
     else State_Monad.return () }"

definition NAND_READ_RAW_Case :: "'h mmio \<Rightarrow> 'h drivers \<Rightarrow> nat \<Rightarrow> ('h, unit) fw" where
  "NAND_READ_RAW_Case M D option = do {
     s \<leftarrow> State_Monad.get;
     r \<leftarrow> call_nand D (\<lambda>d. nd_read_raw d (start_addr s) (ops_length s) option);
     t \<leftarrow> State_Monad.get;
     send_in_buf M (ops_length t * (hd_nand_ps (Hand t) + (if option = 0 then hd_nand_os (Hand t) else 0)));
     put_ret_dat;
     set_phase BULK_IN }"

definition NAND_OPS_Handle :: "'h mmio \<Rightarrow> 'h drivers \<Rightarrow> dev_request \<Rightarrow> ('h, u16) fw" where
  "NAND_OPS_Handle M D dreq = (let
       CSn = drop_bit 4 (uint (wValue dreq)) AND 0xff;
       option = nat (drop_bit 12 (uint (wValue dreq)) AND 0xff);
       op = uint (wValue dreq) AND 0xf
     in do {
       call_nand D (\<lambda>d. nd_enable d (word_of_int CSn));
       s \<leftarrow> State_Monad.get;
       if op = 0 then do {
         call_nand D nd_query;
         send_in_buf M 8;
         State_Monad.update (\<lambda>s. s\<lparr>handshake_PKT := (handshake_PKT s)[3 := ERR_OK]\<rparr>);
         set_phase BULK_IN;
         State_Monad.return ERR_OK }
       else if op = 1 then State_Monad.return ERR_OK
       else if op = 2 then do {
         r \<leftarrow> call_nand D (\<lambda>d. nd_mark_bad d (start_addr s));
         set_ret_dat r;
         put_ret_dat;
         send_handshake M;
         set_phase IDLE;
         State_Monad.return ERR_OK }
       else if op = 3 then do {
         let len = ops_length s * hd_nand_ps (Hand s);
         fw_mark (unat len > BULK_BUF_BYTES);
         State_Monad.update (\<lambda>s. s\<lparr>bulk_in_buf := (\<lambda>i. if i < unat len then 0 else bulk_in_buf s i)\<rparr>);
         r \<leftarrow> call_nand D (\<lambda>d. nd_read_oob d (start_addr s) (ops_length s));
         set_ret_dat r;
         put_ret_dat;
         t \<leftarrow> State_Monad.get;
         send_in_buf M (ops_length t * hd_nand_ps (Hand t));
         set_phase BULK_IN;
         State_Monad.return ERR_OK }
       else if op = 4 then do { NAND_READ_RAW_Case M D option; State_Monad.return ERR_OK }
       else if op = 5 then do {
         r \<leftarrow> call_nand D (\<lambda>d. nd_erase d (ops_length s) (start_addr s) (hd_nand_force_erase (Hand s)));
         set_ret_dat r;
         put_ret_dat;
         send_handshake M;
         set_phase IDLE;
         State_Monad.return ERR_OK }
       else if op = 6 then do { NAND_READ_Case M D option; State_Monad.return ERR_OK }
       else if op = 7 then do {
         r \<leftarrow> call_nand D (\<lambda>d. nd_program d (start_addr s) (ops_length s) option);
         set_ret_dat r;
         put_ret_dat;
         send_handshake M;
         set_phase IDLE;
         State_Monad.return ERR_OK }
       else if op = 8 then do {
         r \<leftarrow> call_nand D (\<lambda>d. nd_read d (Ram_At (ram_addr s)) (start_addr s) (ops_length s) 2);
         State_Monad.update (\<lambda>s. s\<lparr>handshake_PKT := (handshake_PKT s)[3 := ERR_OK]\<rparr>);
         send_handshake M;
         set_phase IDLE;
         State_Monad.return ERR_OK }
       else do {
         call_nand D (\<lambda>d. nd_disable d (word_of_int CSn));
         State_Monad.return ERR_OPS_NOTSUPPORT } })"

text \<open>The copy of \<^verbatim>\<open>n\<close> bytes of a buffer to memory, byte by byte in ascending order; addresses
  wrap at 32 bits.\<close>

fun memcpy_ram :: "u32 \<Rightarrow> (nat \<Rightarrow> u8) \<Rightarrow> nat \<Rightarrow> nat \<Rightarrow> (u32 \<Rightarrow> u8) \<Rightarrow> (u32 \<Rightarrow> u8)" where
  "memcpy_ram dst buf off 0 m = m"
| "memcpy_ram dst buf off (Suc n) m = memcpy_ram (dst + 1) buf (off + 1) n (m(dst := buf off))"

definition SDRAM_OPS_Handle :: "'h mmio \<Rightarrow> dev_request \<Rightarrow> ('h, u16) fw" where
  "SDRAM_OPS_Handle M dreq = do {
     s \<leftarrow> State_Monad.get;
     (if wValue dreq AND 0xf = 0 then do {
        fw_mark (unat (ops_length s) > BULK_BUF_BYTES);
        State_Monad.update (\<lambda>s. s\<lparr>ram := memcpy_ram (start_addr s) (bulk_out_buf s) 0 (unat (ops_length s)) (ram s),
          ret_dat := start_addr s\<rparr>);
        put_ret_dat;
        send_handshake M;
        set_phase IDLE }
      else State_Monad.return ());
     State_Monad.return ERR_OK }"

definition Board_Init :: "'h drivers \<Rightarrow> ('h, unit) fw" where
  "Board_Init D = do {
     h \<leftarrow> fw_gets Hand;
     if fa_cpu_id (hd_fw_args h) = 0x4740 then do {
       nd_init (D Drv_4740) [hd_nand_bw h, hd_nand_rc h, hd_nand_ps h, hd_nand_ppb h, hd_nand_bbpage h,
         hd_nand_bbpos h, hd_nand_force_erase h, hd_nand_eccpos h];
       State_Monad.update (\<lambda>s. s\<lparr>nand_drv := Drv_4740\<rparr>) }
     else if fa_cpu_id (hd_fw_args h) = 0x4760 then do {
       nd_init (D Drv_4760) [hd_nand_bw h, hd_nand_rc h, hd_nand_ps h, hd_nand_ppb h, hd_nand_bchbit h,
         hd_nand_eccpos h, hd_nand_bbpos h, hd_nand_bbpage h, hd_nand_force_erase h];
       State_Monad.update (\<lambda>s. s\<lparr>nand_drv := Drv_4760\<rparr>) }
     else State_Monad.return () }"

definition CONFIGRATION_Handle :: "'h drivers \<Rightarrow> dev_request \<Rightarrow> ('h, u16) fw" where
  "CONFIGRATION_Handle D dreq = do {
     (if wValue dreq AND 0xf = 1 then config_hand else State_Monad.return ());
     Board_Init D;
     State_Monad.return ERR_OK }"

text \<open>The watchdog is armed and the handler then loops for ever.\<close>

definition WDT_TDR :: u32 where "WDT_TDR = 0xB0002000"
definition WDT_TCER :: u32 where "WDT_TCER = 0xB0002004"
definition WDT_TCNT :: u32 where "WDT_TCNT = 0xB0002008"
definition WDT_TCSR :: u32 where "WDT_TCSR = 0xB000200C"
definition TCU_TSCR :: u32 where "TCU_TSCR = 0xB000203C"

definition RESET_Handle :: "'h mmio \<Rightarrow> ('h, unit) fw" where
  "RESET_Handle M = do {
     v \<leftarrow> jz_readw M WDT_TCSR;
     jz_writew M WDT_TCSR ((v AND NOT 0x7) OR 0x4);
     v \<leftarrow> jz_readw M WDT_TCSR;
     jz_writew M WDT_TCSR ((v AND NOT 0x38) OR 0x18);
     jz_writew M WDT_TDR 100;
     jz_writew M WDT_TCNT 0;
     jz_writel M TCU_TSCR 0x10000;
     c \<leftarrow> jz_readb M WDT_TCER;
     jz_writeb M WDT_TCER (c OR 1);
     State_Monad.update (\<lambda>s. s\<lparr>hung := True\<rparr>) }"

end
