(* ===== verification/Udc.thy ===== *)
theory Udc
  imports Boothandler
begin

unbundle bit_operations_syntax

text \<open>
  The USB device driver of \<^verbatim>\<open>usbboot/xburst_stage2/udc.c\<close>: descriptors, standard and vendor
  requests on endpoint 0, the bulk endpoints and the interrupt poll \<^verbatim>\<open>udc4740Proc\<close> that
  \<^verbatim>\<open>usb_main\<close> repeats for ever.
\<close>

section \<open>Packets from the receive buffer\<close>

definition HW_GetPKT :: "nat \<Rightarrow> u32 \<Rightarrow> ('h, bytes) fw" where
  "HW_GetPKT ep len = do {
     s \<leftarrow> State_Monad.get;
     let out = buf_bytes (rx_buf s) 0 (unat len);
     State_Monad.update (\<lambda>s. s\<lparr>fifo := fifoaddr ep\<rparr>);
     let moved = (if rx_size s > len then len else rx_size s);
     let left = (if rx_size s > len then rx_size s - len else 0);
     State_Monad.update (\<lambda>s. s\<lparr>rx_size := left,
       rx_buf := buf_put 0 (buf_bytes (rx_buf s) (unat moved) (unat left)) (rx_buf s)\<rparr>);
     State_Monad.return out }"

section \<open>Descriptors\<close>

definition devDesc :: bytes where
  "devDesc = [18, 1, 0x00, 0x02, 0xff, 0xff, 0xff, 64, 0x1a, 0x60, 0x40, 0x47, 0xff, 0xff, 0, 0, 0, 1]"

definition conf_desc_bytes :: "conf_desc \<Rightarrow> bytes" where
  "conf_desc_bytes c =
     [9, 2, 32, 0, 0x01, 0x01, 0x00, 0xc0, 0x64]
   @ [9, 4, 0x00, 0x00, 0x02, 0xff, 0xff, 0xff, 0x00]
   @ [7, 5, cd_in_addr c, 2] @ enc_u16 (cd_in_size c) @ [16]
   @ [7, 5, cd_out_addr c, 2] @ enc_u16 (cd_out_size c) @ [16]"

definition str_desc :: "nat \<Rightarrow> bytes" where
  "str_desc len = concat (List.map enc_u16 ((0x0300 OR of_nat len)
     # [0x0041, 0x0030, 0x0030, 0x0041, 0x0030, 0x0030, 0x0041, 0x0030, 0x0030, 0x0041, 0x0030, 0x0030]))"

definition sendDevDescString :: "'h mmio \<Rightarrow> nat \<Rightarrow> ('h, unit) fw" where
  "sendDevDescString M len0 = (let len = (if len0 \<ge> 26 then 26 else len0)
     in HW_SendPKT_bytes M 0 (take len (str_desc len)))"

definition sendDevDesc :: "'h mmio \<Rightarrow> nat \<Rightarrow> ('h, unit) fw" where
  "sendDevDesc M len = (if len = 18 then HW_SendPKT_bytes M 0 devDesc
     else HW_SendPKT_bytes M 0 (take 8 devDesc))"

definition sendConfDesc :: "'h mmio \<Rightarrow> nat \<Rightarrow> ('h, unit) fw" where
  "sendConfDesc M len = do {
     bs \<leftarrow> fw_gets (\<lambda>s. conf_desc_bytes (confDesc s));
     if len = 9 then HW_SendPKT_bytes M 0 (take 9 bs)
     else if len = 8 then HW_SendPKT_bytes M 0 (take 8 bs)
     else HW_SendPKT_bytes M 0 bs }"

definition EP0_init :: "u32 \<Rightarrow> u32 \<Rightarrow> u32 \<Rightarrow> u32 \<Rightarrow> ('h, unit) fw" where
  "EP0_init out_ep out_sz in_ep in_sz = State_Monad.update (\<lambda>s. s\<lparr>confDesc :=
     \<lparr>cd_in_addr = ucast (push_bit 7 1 OR in_ep), cd_in_size = ucast in_sz,
      cd_out_addr = ucast (push_bit 7 0 OR out_ep), cd_out_size = ucast out_sz\<rparr>\<rparr>)"

section \<open>Reset\<close>

definition set_speed :: "'h mmio \<Rightarrow> bool \<Rightarrow> ('h, unit) fw" where
  "set_speed M full = do {
     jz_writeb M USB_REG_INDEX 1;
     jz_writew M USB_REG_INMAXP (if full then 64 else 512);
     jz_writew M USB_REG_INCSR 0x2048;
     jz_writeb M USB_REG_INDEX 1;
     jz_writew M USB_REG_OUTMAXP (if full then 64 else 512);
     jz_writew M USB_REG_OUTCSR 0x0090;
     State_Monad.update (\<lambda>s. s\<lparr>USB_Version := (if full then USB_FS else USB_HS),
       fifosize1 := (if full then 64 else 512)\<rparr>);
     EP0_init 1 (if full then 64 else 512) 1 (if full then 64 else 512) }"

definition udc_clear :: "('h, unit) fw" where
  "udc_clear = State_Monad.update (\<lambda>s. s\<lparr>ep0state := USB_EP0_IDLE, Bulk_in_size := 0, Bulk_in_finish := 0,
     Bulk_out_size := 0, udc_state := IDLE, tx_size := 0, rx_size := 0, finished := 0\<rparr>)"

definition udc_reset :: "'h mmio \<Rightarrow> ('h, unit) fw" where
  "udc_reset M = do {
     udc_clear;
     _ \<leftarrow> jz_readb M USB_REG_POWER;
     jz_writew M USB_REG_INTRINE 0;
     jz_writew M USB_REG_INTROUTE 0;
     jz_writeb M USB_REG_INTRUSBE 0;
     jz_writeb M USB_REG_FADDR 0;
     jz_writeb M USB_REG_POWER 0x60;
     jz_writeb M USB_REG_INDEX 0;
     jz_writeb M USB_REG_CSR0 0xc0;
     jz_writeb M USB_REG_INDEX 1;
     jz_writew M USB_REG_INMAXP 512;
     jz_writew M USB_REG_INCSR 0x2048;
     jz_writeb M USB_REG_INDEX 1;
     jz_writew M USB_REG_OUTMAXP 512;
     jz_writew M USB_REG_OUTCSR 0x0090;
     jz_writew M USB_REG_INTRINE 0x3;
     jz_writew M USB_REG_INTROUTE 0x2;
     jz_writeb M USB_REG_INTRUSBE 0x4;
     power \<leftarrow> jz_readb M USB_REG_POWER;
     set_speed M (power AND 0x10 = 0) }"

section \<open>Endpoint 0\<close>

definition usbHandleStandDevReq :: "'h mmio \<Rightarrow> dev_request \<Rightarrow> ('h, unit) fw" where
  "usbHandleStandDevReq M dreq =
     (if bRequest dreq = 6 then do {
        (if bmRequestType dreq = 0x80 then
           (let kind = drop_bit 8 (wValue dreq); len = unat (wLength dreq) in
            if kind = 1 then sendDevDesc M len
            else if kind = 2 then sendConfDesc M len
            else if kind = 3 then
              (if len = 2 then HW_SendPKT_bytes M 0 [4, 3] else sendDevDescString M len)
            else State_Monad.return ())
         else State_Monad.return ());
        State_Monad.update (\<lambda>s. s\<lparr>ep0state := USB_EP0_TX\<rparr>) }
      else if bRequest dreq = 5 then jz_writeb M USB_REG_FADDR (ucast (wValue dreq))
      else if bRequest dreq = 0 then do {
        (if bmRequestType dreq = 80 then HW_SendPKT_bytes M 0 [1, 0]
         else if bmRequestType dreq = 81 \<or> bmRequestType dreq = 82 then HW_SendPKT_bytes M 0 [0, 0]
         else State_Monad.return ());
        State_Monad.update (\<lambda>s. s\<lparr>ep0state := USB_EP0_TX\<rparr>) }
      else State_Monad.return ())"

definition clear_out_size :: "('h, unit) fw" where
  "clear_out_size = State_Monad.update (\<lambda>s. s\<lparr>Bulk_out_size := 0\<rparr>)"

definition usbHandleVendorReq :: "'h mmio \<Rightarrow> 'h drivers \<Rightarrow> dev_request \<Rightarrow> ('h, unit) fw" where
  "usbHandleVendorReq M D dreq =
     (if bRequest dreq = 0x00 then do { GET_CPU_INFO_Handle M; State_Monad.return () }
      else if bRequest dreq = 0x01 then do { SET_DATA_ADDERSS_Handle dreq; State_Monad.return () }
      else if bRequest dreq = 0x02 then do { SET_DATA_LENGTH_Handle dreq; State_Monad.return () }
      else if bRequest dreq = 0x03 then do { FLUSH_CACHES_Handle; State_Monad.return () }
      else if bRequest dreq = 0x04 then do { PROGRAM_START1_Handle dreq; State_Monad.return () }
      else if bRequest dreq = 0x05 then do { PROGRAM_START2_Handle M dreq; State_Monad.return () }
      else if bRequest dreq = 0x06 then do { NOR_OPS_Handle; clear_out_size }
      else if bRequest dreq = 0x07 then do { NAND_OPS_Handle M D dreq; clear_out_size }
      else if bRequest dreq = 0x09 then do {
        ret_state \<leftarrow> CONFIGRATION_Handle D dreq;
        State_Monad.update (\<lambda>s. s\<lparr>handshake_PKT := (handshake_PKT s)[3 := ret_state]\<rparr>);
        send_handshake M;
        clear_out_size }
      else if bRequest dreq = 0x08 then do { SDRAM_OPS_Handle M dreq; clear_out_size }
      else if bRequest dreq = 0x0a then RESET_Handle M
      else State_Monad.return ())"

definition Handshake_PKT :: "'h mmio \<Rightarrow> ('h, unit) fw" where
  "Handshake_PKT M = do {
     p \<leftarrow> fw_gets udc_state;
     if p \<noteq> IDLE then do { send_handshake M; set_phase IDLE }
     else State_Monad.return () }"

definition usbHandleDevReq :: "'h mmio \<Rightarrow> 'h drivers \<Rightarrow> dev_request \<Rightarrow> ('h, unit) fw" where
  "usbHandleDevReq M D dreq = (let kind = drop_bit 5 (bmRequestType dreq AND 0x60) in
     if kind = 0 then usbHandleStandDevReq M dreq
     else if kind = 1 then State_Monad.return ()
     else if kind = 2 then usbHandleVendorReq M D dreq
     else State_Monad.return ())"

definition ep0_setup :: "'h mmio \<Rightarrow> 'h drivers \<Rightarrow> u8 \<Rightarrow> ('h, unit) fw" where
  "ep0_setup M D byCSR0 = do {
     (if byCSR0 AND 0x01 \<noteq> 0 then do {
        State_Monad.update (\<lambda>s. s\<lparr>fifo := fifoaddr 0\<rparr>);
        bs \<leftarrow> udcReadFifo M 8;
        State_Monad.update (\<lambda>s. s\<lparr>rx_buf := buf_put 0 bs (rx_buf s)\<rparr>);
        usb_setb M USB_REG_CSR0 0x48;
        buf \<leftarrow> fw_gets rx_buf;
        usbHandleDevReq M D (dec_request (buf_bytes buf 0 8)) }
      else State_Monad.return ());
     State_Monad.update (\<lambda>s. s\<lparr>rx_size := 0\<rparr>) }"

definition ep0_transmit :: "'h mmio \<Rightarrow> ('h, unit) fw" where
  "ep0_transmit M = do {
     State_Monad.update (\<lambda>s. s\<lparr>fifo := fifoaddr 0\<rparr>);
     s \<leftarrow> State_Monad.get;
     if tx_size s - finished s \<le> 64 then do {
       udcWriteFifo M (tx_buf s) (unat (finished s)) (unat (tx_size s - finished s));
       State_Monad.update (\<lambda>s. s\<lparr>finished := tx_size s\<rparr>);
       usb_setb M USB_REG_CSR0 0x02;
       usb_setb M USB_REG_CSR0 0x08;
       State_Monad.update (\<lambda>s. s\<lparr>ep0state := USB_EP0_IDLE\<rparr>) }
     else do {
       udcWriteFifo M (tx_buf s) (unat (finished s)) 64;
       usb_setb M USB_REG_CSR0 0x02;
       State_Monad.update (\<lambda>s. s\<lparr>finished := finished s + 64\<rparr>) } }"

definition EP0_Handler :: "'h mmio \<Rightarrow> 'h drivers \<Rightarrow> ('h, unit) fw" where
  "EP0_Handler M D = do {
     jz_writeb M USB_REG_INDEX 0;
     byCSR0 \<leftarrow> jz_readb M USB_REG_CSR0;
     if byCSR0 AND 0x04 \<noteq> 0 then do {
       jz_writeb M USB_REG_CSR0 (byCSR0 AND NOT 0x20);
       State_Monad.update (\<lambda>s. s\<lparr>ep0state := USB_EP0_IDLE\<rparr>) }
     else if byCSR0 AND 0x10 \<noteq> 0 then do {
       jz_writeb M USB_REG_CSR0 (byCSR0 OR 0x80);
       State_Monad.update (\<lambda>s. s\<lparr>ep0state := USB_EP0_IDLE\<rparr>) }
     else do {
       p \<leftarrow> fw_gets ep0state;
       (if p = USB_EP0_IDLE then ep0_setup M D byCSR0 else State_Monad.return ());
       q \<leftarrow> fw_gets ep0state;
       (if q = USB_EP0_TX then ep0_transmit M else State_Monad.return ()) } }"

section \<open>Bulk endpoints\<close>

definition EPIN_Handler :: "'h mmio \<Rightarrow> nat \<Rightarrow> ('h, unit) fw" where
  "EPIN_Handler M ep = do {
     jz_writeb M USB_REG_INDEX (of_nat ep);
     State_Monad.update (\<lambda>s. s\<lparr>fifo := fifoaddr ep\<rparr>);
     s \<leftarrow> State_Monad.get;
     if Bulk_in_size s - Bulk_in_finish s = 0 then Handshake_PKT M
     else next_in_packet M True ep (bulk_in_buf s) }"

definition EPOUT_Handler :: "'h mmio \<Rightarrow> nat \<Rightarrow> ('h, unit) fw" where
  "EPOUT_Handler M ep = do {
     jz_writeb M USB_REG_INDEX (of_nat ep);
     len \<leftarrow> jz_readw M USB_REG_OUTCOUNT;
     State_Monad.update (\<lambda>s. s\<lparr>fifo := fifoaddr ep\<rparr>);
     off \<leftarrow> fw_gets (\<lambda>s. unat (Bulk_out_size s));
     bs \<leftarrow> udcReadFifo M (unat len);
     fw_mark (off + length bs > BULK_BUF_BYTES \<or> (bs \<noteq> [] \<and> off mod 4 \<noteq> 0));
     State_Monad.update (\<lambda>s. s\<lparr>bulk_out_buf := buf_put off bs (bulk_out_buf s)\<rparr>);
     usb_clearb M USB_REG_OUTCSR 0x01;
     State_Monad.update (\<lambda>s. s\<lparr>Bulk_out_size := Bulk_out_size s + ucast len\<rparr>) }"

section \<open>The poll and the main loop\<close>

definition on_bit :: "bool \<Rightarrow> ('h, unit) fw \<Rightarrow> ('h, unit) fw" where
  "on_bit b m = (if b then m else State_Monad.return ())"

definition udc4740Proc :: "'h mmio \<Rightarrow> 'h drivers \<Rightarrow> ('h, unit) fw" where
  "udc4740Proc M D = do {
     IntrUSB \<leftarrow> jz_readb M USB_REG_INTRUSB;
     IntrIn \<leftarrow> jz_readw M USB_REG_INTRIN;
     IntrOut \<leftarrow> jz_readw M USB_REG_INTROUT;
     if IntrUSB = 0 \<and> IntrIn = 0 \<and> IntrOut = 0 then State_Monad.return ()
     else do {
       on_bit (IntrIn AND 2 \<noteq> 0) (EPIN_Handler M 1);
       on_bit (IntrOut AND 2 \<noteq> 0) (EPOUT_Handler M 1);
       on_bit (IntrUSB AND 0x04 \<noteq> 0) (udc_reset M);
       on_bit (IntrIn AND 1 \<noteq> 0) (EP0_Handler M D);
       v \<leftarrow> fw_gets USB_Version;
       on_bit (v = USB_FS) (do { _ \<leftarrow> jz_readw M USB_REG_INTRIN; State_Monad.return () }) } }"

definition usb_main_init :: "'h mmio \<Rightarrow> ('h, unit) fw" where
  "usb_main_init M = do {
     udc_clear;
     power \<leftarrow> jz_readb M USB_REG_POWER;
     (if power AND 0x10 = 0 then do {
        State_Monad.update (\<lambda>s. s\<lparr>USB_Version := USB_FS, fifosize1 := 64\<rparr>);
        EP0_init 1 64 1 64 }
      else do {
        State_Monad.update (\<lambda>s. s\<lparr>USB_Version := USB_HS, fifosize1 := 512\<rparr>);
        EP0_init 1 512 1 512 });
     State_Monad.update (\<lambda>s. s\<lparr>USB_Version := USB_HS\<rparr>) }"

text \<open>\<^verbatim>\<open>usb_main\<close> after its initialisation and \<^verbatim>\<open>n\<close> turns of its endless loop; a request that
  hands control to another program or hangs ends the firmware's own execution.\<close>

fun usb_main :: "'h mmio \<Rightarrow> 'h drivers \<Rightarrow> nat \<Rightarrow> ('h, unit) fw" where
  "usb_main M D 0 = usb_main_init M"
| "usb_main M D (Suc n) = do {
     usb_main M D n;
     s \<leftarrow> State_Monad.get;
     on_bit (jumped s = None \<and> \<not> hung s) (udc4740Proc M D) }"

end
