(* ===== verification/Usb_Link.thy ===== *)
theory Usb_Link
  imports Udc Sdram_Target
begin

unbundle bit_operations_syntax

text \<open>
  Host and firmware joined: \<^verbatim>\<open>ctl\<close> is the part of the JZ47xx USB controller that the firmware
  drives (index register, FIFOs, packet-ready bits, interrupt registers cleared by reading),
  an instance of the firmware's \<^verbatim>\<open>mmio\<close> parameter, and \<^verbatim>\<open>link\<close> is the bus, an instance of
  the host's \<^verbatim>\<open>libusb\<close> parameter: a control transfer is a setup packet and an endpoint 0
  interrupt, a bulk transfer moves packets of at most 512 bytes with an interrupt each.  The
  firmware itself runs unchanged, one \<^verbatim>\<open>udc4740Proc\<close> per interrupt.  The locale
  \<^verbatim>\<open>sdram_target\<close> is interpreted here on the firmware.
\<close>

section \<open>The controller\<close>

record ctl =
  c_index :: u8
  c_csr0 :: u8
  c_ep0_out :: bytes
  c_ep0_in :: bytes
  c_out_pkt :: bytes
  c_in_fifo :: bytes
  c_in_pkts :: "bytes list"
  c_intr_usb :: u8
  c_intr_in :: u16
  c_intr_out :: u16
  c_power :: u8

definition first_word :: "bytes \<Rightarrow> u32" where
  "first_word bs = dec_u32 (take 4 (bs @ replicate 4 0))"

definition commit :: "ctl \<Rightarrow> ctl" where
  "commit c = c\<lparr>c_in_pkts := c_in_pkts c @ [c_in_fifo c], c_in_fifo := []\<rparr>"

definition ctl_r8 :: "u32 \<Rightarrow> ctl \<Rightarrow> u8 \<times> ctl" where
  "ctl_r8 port c =
     (if port = 0xB304000A then (c_intr_usb c, c\<lparr>c_intr_usb := 0\<rparr>)
      else if port = 0xB3040001 then (c_power c, c)
      else if port = 0xB3040012 then (if c_index c = 0 then c_csr0 c else 0, c)
      else (0, c))"

definition ctl_w8 :: "u32 \<Rightarrow> u8 \<Rightarrow> ctl \<Rightarrow> ctl" where
  "ctl_w8 port v c =
     (if port = 0xB304000E then c\<lparr>c_index := v\<rparr>
      else if port = 0xB3040012 then
        (if c_index c = 0 then (if v AND 0x40 \<noteq> 0 then c\<lparr>c_csr0 := 0\<rparr> else c)
         else if v AND 1 \<noteq> 0 then commit c else c)
      else if port = 0xB3040020 then c\<lparr>c_ep0_in := c_ep0_in c @ [v]\<rparr>
      else if port = 0xB3040024 then c\<lparr>c_in_fifo := c_in_fifo c @ [v]\<rparr>
      else c)"

definition ctl_r16 :: "u32 \<Rightarrow> ctl \<Rightarrow> u16 \<times> ctl" where
  "ctl_r16 port c =
     (if port = 0xB3040002 then (c_intr_in c, c\<lparr>c_intr_in := 0\<rparr>)
      else if port = 0xB3040004 then (c_intr_out c, c\<lparr>c_intr_out := 0\<rparr>)
      else if port = 0xB3040018 then (of_nat (length (c_out_pkt c)), c)
      else (0, c))"

definition ctl_w16 :: "u32 \<Rightarrow> u16 \<Rightarrow> ctl \<Rightarrow> ctl" where
  "ctl_w16 port v c = (if port = 0xB3040012 \<and> c_index c \<noteq> 0 \<and> v AND 1 \<noteq> 0 then commit c else c)"

definition ctl_r32 :: "u32 \<Rightarrow> ctl \<Rightarrow> u32 \<times> ctl" where
  "ctl_r32 port c =
     (if port = 0xB3040020 then (first_word (c_ep0_out c), c\<lparr>c_ep0_out := drop 4 (c_ep0_out c)\<rparr>)
      else if port = 0xB3040024 then (first_word (c_out_pkt c), c\<lparr>c_out_pkt := drop 4 (c_out_pkt c)\<rparr>)
      else (0, c))"

definition ctl_w32 :: "u32 \<Rightarrow> u32 \<Rightarrow> ctl \<Rightarrow> ctl" where
  "ctl_w32 port v c =
     (if port = 0xB3040020 then c\<lparr>c_ep0_in := c_ep0_in c @ enc_u32 v\<rparr>
      else if port = 0xB3040024 then c\<lparr>c_in_fifo := c_in_fifo c @ enc_u32 v\<rparr>
      else c)"

definition ctl_mmio :: "ctl mmio" where
  "ctl_mmio = \<lparr>io_r8 = ctl_r8, io_w8 = ctl_w8, io_r16 = ctl_r16, io_w16 = ctl_w16, io_r32 = ctl_r32, io_w32 = ctl_w32\<rparr>"

lemmas ctl_io = ctl_r8_def ctl_w8_def ctl_r16_def ctl_w16_def ctl_r32_def ctl_w32_def

lemma ctl_mmio_sel [simp]: "io_r8 ctl_mmio = ctl_r8" "io_w8 ctl_mmio = ctl_w8" "io_r16 ctl_mmio = ctl_r16"
  "io_w16 ctl_mmio = ctl_w16" "io_r32 ctl_mmio = ctl_r32" "io_w32 ctl_mmio = ctl_w32"
  by (simp_all add: ctl_mmio_def)

section \<open>FIFO transfers on the controller\<close>

lemma length_first_word: "enc_u32 (first_word bs) = take 4 (bs @ replicate 4 0)"
  unfolding first_word_def by (rule u32c.enc_dec) simp

lemma read_ep1:
  assumes "fifo s = 0xB3040024"
  shows "run_state (read_fifo_words ctl_mmio n) s =
    (take (4 * n) (c_out_pkt (hw s) @ replicate (4 * n) 0),
     s\<lparr>hw := (hw s)\<lparr>c_out_pkt := drop (4 * n) (c_out_pkt (hw s))\<rparr>\<rparr>)"
  using assms
proof (induction n arbitrary: s)
  case (Suc n)
  have 1: "run_state (read_fifo_words ctl_mmio (Suc n)) s
      = (take 4 (c_out_pkt (hw s) @ replicate 4 0) @ take (4 * n) (drop 4 (c_out_pkt (hw s)) @ replicate (4 * n) 0),
         s\<lparr>hw := (hw s)\<lparr>c_out_pkt := drop (4 * n) (drop 4 (c_out_pkt (hw s)))\<rparr>\<rparr>)"
    using Suc by (simp add: host_simps reg_defs ctl_io length_first_word)
  have 2: "take 4 (xs @ replicate 4 0) @ take (4 * n) (drop 4 xs @ replicate (4 * n) 0)
      = take (4 * Suc n) (xs @ replicate (4 * Suc n) (0 :: u8))" for xs
    by (rule nth_equalityI) (auto simp: nth_append min_def)
  have 3: "drop (4 * n) (drop 4 xs) = drop (4 * Suc n) xs" for xs :: bytes
    by (simp add: drop_drop) (simp add: add.commute)
  show ?case unfolding 1 2 3 ..
qed simp

text \<open>Writing a stretch of a buffer to the FIFO of endpoint 1 appends its bytes.\<close>

lemma enc_buf_word: "enc_u32 (buf_word buf off) = buf_bytes buf off 4"
  unfolding buf_word_def by (rule u32c.enc_dec) (simp add: buf_bytes_def)

lemma buf_bytes_add: "buf_bytes buf off (m + n) = buf_bytes buf off m @ buf_bytes buf (off + m) n"
proof -
  have "[0..<m + n] = [0..<m] @ List.map (\<lambda>i. i + m) [0..<n]"
    by (metis add.commute add.left_neutral le_add1 map_add_upt upt_add_eq_append zero_le)
  then show ?thesis by (simp add: buf_bytes_def o_def add.assoc add.commute [of m])
qed

lemma length_buf_bytes [simp]: "length (buf_bytes buf off n) = n"
  by (simp add: buf_bytes_def)

lemma write_words_ep1:
  assumes "fifo s = 0xB3040024"
  shows "run_state (write_fifo_words ctl_mmio buf off n) s =
    ((), s\<lparr>hw := (hw s)\<lparr>c_in_fifo := c_in_fifo (hw s) @ buf_bytes buf off (4 * n)\<rparr>\<rparr>)"
  using assms
proof (induction n arbitrary: s off)
  case (Suc n)
  have "buf_bytes buf off (4 * Suc n) = buf_bytes buf off 4 @ buf_bytes buf (off + 4) (4 * n)"
    by (simp add: buf_bytes_add)
  with Suc show ?case by (simp add: host_simps reg_defs ctl_io enc_buf_word)
qed (simp add: buf_bytes_def)

lemma write_bytes_ep1:
  assumes "fifo s = 0xB3040024"
  shows "run_state (write_fifo_bytes ctl_mmio buf off n) s =
    ((), s\<lparr>hw := (hw s)\<lparr>c_in_fifo := c_in_fifo (hw s) @ buf_bytes buf off n\<rparr>\<rparr>)"
  using assms
proof (induction n arbitrary: s off)
  case (Suc n)
  have "buf_bytes buf off (Suc n) = buf off # buf_bytes buf (off + 1) n"
    using buf_bytes_add [of buf off 1 n] by (simp add: buf_bytes_def)
  with Suc show ?case by (simp add: host_simps reg_defs ctl_io)
qed (simp add: buf_bytes_def)

lemma udcWriteFifo_ep1:
  assumes "fifo s = 0xB3040024"
  shows "run_state (udcWriteFifo ctl_mmio buf off len) s =
    ((), s\<lparr>hw := (hw s)\<lparr>c_in_fifo := c_in_fifo (hw s) @ buf_bytes buf off len\<rparr>\<rparr>)"
proof -
  have "buf_bytes buf off len = buf_bytes buf off (4 * (len div 4)) @ buf_bytes buf (off + 4 * (len div 4)) (len mod 4)"
    using buf_bytes_add [of buf off "4 * (len div 4)" "len mod 4"] by simp
  then show ?thesis
    using assms by (simp add: udcWriteFifo_def host_simps write_words_ep1 write_bytes_ep1)
qed

section \<open>One interrupt\<close>

type_synonym device = "ctl fw_state"

definition poll :: "ctl drivers \<Rightarrow> device \<Rightarrow> device" where
  "poll D d = snd (run_state (udc4740Proc ctl_mmio D) d)"

text \<open>The device between two requests: no packet, no interrupt and no transfer is pending.\<close>

definition quiet :: "device \<Rightarrow> bool" where
  "quiet d = (c_in_pkts (hw d) = [] \<and> c_in_fifo (hw d) = [] \<and> c_intr_usb (hw d) = 0 \<and> c_intr_in (hw d) = 0
     \<and> c_intr_out (hw d) = 0 \<and> udc_state d = IDLE \<and> ep0state d = USB_EP0_IDLE
     \<and> Bulk_in_size d = Bulk_in_finish d \<and> fifosize1 d = 512 \<and> length (handshake_PKT d) = 4
     \<and> USB_Version d = USB_HS \<and> \<not> fw_ub d)"

definition out_packet :: "ctl drivers \<Rightarrow> bytes \<Rightarrow> device \<Rightarrow> device" where
  "out_packet D p d = poll D (d\<lparr>hw := (hw d)\<lparr>c_out_pkt := p, c_intr_out := 2\<rparr>\<rparr>)"

text \<open>A packet is read in whole words: up to three bytes of the last word are zero here.\<close>

definition padded :: "bytes \<Rightarrow> bytes" where
  "padded p = take (4 * ((length p + 3) div 4)) (p @ replicate (4 * ((length p + 3) div 4)) 0)"

lemma padded_alt: "padded p = p @ replicate (4 * ((length p + 3) div 4) - length p) 0"
proof -
  have "length p \<le> 4 * ((length p + 3) div 4)" by presburger
  then show ?thesis by (simp add: padded_def min_def)
qed

definition after_out :: "bytes \<Rightarrow> device \<Rightarrow> device" where
  "after_out p d = d\<lparr>fifo := 0xB3040024,
     hw := (hw d)\<lparr>c_intr_usb := 0, c_intr_in := 0, c_intr_out := 0, c_index := 1, c_out_pkt := []\<rparr>,
     fw_ub := False,
     bulk_out_buf := buf_put (unat (Bulk_out_size d)) (padded p) (bulk_out_buf d),
     Bulk_out_size := Bulk_out_size d + of_nat (length p)\<rparr>"

lemma out_packet_step:
  assumes "quiet d" "length p \<le> 512" "unat (Bulk_out_size d) + 512 \<le> BULK_BUF_BYTES" "unat (Bulk_out_size d) mod 4 = 0"
  shows "out_packet D p d = after_out p d"
proof -
  have len: "unat (of_nat (length p) :: u16) = length p" "ucast (of_nat (length p) :: u16) = (of_nat (length p) :: u32)"
    using assms(2) by (simp_all add: unsigned_of_nat take_bit_nat_eq_self)
  have "4 * ((length p + 3) div 4) \<le> 512" using assms(2) by presburger
  then have "\<not> BULK_BUF_BYTES < unat (Bulk_out_size d) + 4 * ((length p + 3) div 4)" using assms(3) by simp
  then show ?thesis
    using assms len
    by (simp add: out_packet_def after_out_def poll_def udc4740Proc_def EPOUT_Handler_def on_bit_def udcReadFifo_def
      host_simps reg_defs usb_reg_defs fifoaddr_def ctl_io quiet_def read_ep1 padded_alt)
qed

lemma quiet_after_out: "quiet d \<Longrightarrow> quiet (after_out p d)"
  by (simp add: quiet_def after_out_def)

section \<open>A bulk-out transfer\<close>

fun chunks :: "nat \<Rightarrow> 'a list \<Rightarrow> 'a list list" where
  "chunks n xs = (if xs = [] \<or> n = 0 then [] else take n xs # chunks n (drop n xs))"

declare chunks.simps [simp del]

lemma buf_bytes_put: "buf_bytes (buf_put off bs buf) off (length bs) = bs"
  by (rule nth_equalityI) (simp_all add: buf_bytes_def buf_put_def)

lemma buf_bytes_put_before: "m \<le> off \<Longrightarrow> buf_bytes (buf_put off bs buf) 0 m = buf_bytes buf 0 m"
  by (simp add: buf_bytes_def buf_put_def)

lemma buf_bytes_take: "m \<le> n \<Longrightarrow> buf_bytes buf off m = take m (buf_bytes buf off n)"
  by (simp add: buf_bytes_def take_map min_def)

lemma buf_bytes_padded: "buf_bytes (buf_put off (padded p) buf) 0 (off + length p) = buf_bytes buf 0 off @ p"
proof -
  have le: "length p \<le> length (padded p)" by (simp add: padded_alt)
  have "buf_bytes (buf_put off (padded p) buf) off (length p) = take (length p) (padded p)"
    using buf_bytes_take [OF le] buf_bytes_put by metis
  then show ?thesis by (simp add: buf_bytes_add buf_bytes_put_before padded_alt)
qed

definition out_data :: "ctl drivers \<Rightarrow> bytes \<Rightarrow> device \<Rightarrow> device" where
  "out_data D data d = fold (out_packet D) (chunks 512 data) d"

text \<open>The firmware gathers the packets of a transfer in its buffer, whatever the length of the
  last one, and changes nothing else that a request reads.\<close>

lemma out_data_gathers:
  assumes "quiet d" "unat (Bulk_out_size d) mod 4 = 0"
    and "unat (Bulk_out_size d) + length data + 512 \<le> BULK_BUF_BYTES"
  shows "\<exists>c f b. out_data D data d = d\<lparr>fifo := f, hw := c, bulk_out_buf := b,
       Bulk_out_size := Bulk_out_size d + of_nat (length data), fw_ub := False\<rparr> \<and> quiet (out_data D data d)
     \<and> buf_bytes b 0 (unat (Bulk_out_size d) + length data)
        = buf_bytes (bulk_out_buf d) 0 (unat (Bulk_out_size d)) @ data"
  using assms
proof (induction "length data" arbitrary: data d rule: less_induct)
  case less
  show ?case
  proof (cases "data = []")
    case True
    have "d\<lparr>fifo := fifo d, hw := hw d, bulk_out_buf := bulk_out_buf d, Bulk_out_size := Bulk_out_size d, fw_ub := False\<rparr> = d"
      using less.prems(1) by (cases d) (simp add: quiet_def)
    with True less.prems show ?thesis
      by (intro exI [of _ "hw d"] exI [of _ "fifo d"] exI [of _ "bulk_out_buf d"])
        (simp add: out_data_def chunks.simps [of 512 "[]"])
  next
    case False
    let ?p = "take 512 data" and ?rest = "drop 512 data"
    define d1 where "d1 = after_out ?p d"
    have step: "out_data D data d = out_data D ?rest d1"
      using False less.prems out_packet_step [of d ?p D] by (simp add: out_data_def chunks.simps [of 512 data] d1_def)
    have q1: "quiet d1" using less.prems(1) by (simp add: d1_def quiet_after_out)
    have small: "unat (Bulk_out_size d) + length data < 2 ^ 32"
      using less.prems(3) by (simp add: BULK_BUF_BYTES_def)
    have size1: "unat (Bulk_out_size d1) = unat (Bulk_out_size d) + length ?p"
      using small by (simp add: d1_def after_out_def unat_word_ariths unat_of_nat)
    have buf1: "buf_bytes (bulk_out_buf d1) 0 (unat (Bulk_out_size d1)) = buf_bytes (bulk_out_buf d) 0 (unat (Bulk_out_size d)) @ ?p"
      unfolding size1 by (simp add: d1_def after_out_def buf_bytes_padded del: length_take)
    show ?thesis
    proof (cases "length data \<le> 512")
      case True
      then have "out_data D data d = d1"
        unfolding step by (simp add: out_data_def chunks.simps [of 512 "[]"])
      with True q1 buf1 size1 show ?thesis
        by (intro exI [of _ "hw d1"] exI [of _ "fifo d1"] exI [of _ "bulk_out_buf d1"]) (simp add: d1_def after_out_def)
    next
      case False
      then have m: "unat (Bulk_out_size d1) mod 4 = 0" using less.prems(2) size1 by simp presburger
      have lt: "length ?rest < length data" using False by simp
      have room: "unat (Bulk_out_size d1) + length ?rest + 512 \<le> BULK_BUF_BYTES"
        using less.prems(3) False size1 by simp
      obtain c f b where *: "out_data D ?rest d1 = d1\<lparr>fifo := f, hw := c, bulk_out_buf := b,
             Bulk_out_size := Bulk_out_size d1 + of_nat (length ?rest), fw_ub := False\<rparr>" "quiet (out_data D ?rest d1)"
          "buf_bytes b 0 (unat (Bulk_out_size d1) + length ?rest)
             = buf_bytes (bulk_out_buf d1) 0 (unat (Bulk_out_size d1)) @ ?rest"
        using less.hyps [OF lt q1 m room] by blast
      have "unat (Bulk_out_size d1) + length ?rest = unat (Bulk_out_size d) + length data"
        using False size1 by simp
      moreover have "Bulk_out_size d1 + of_nat (length ?rest) = Bulk_out_size d + of_nat (length data)"
        using False by (simp add: d1_def after_out_def flip: of_nat_add)
      moreover have "?p @ ?rest = data" by simp
      ultimately show ?thesis using * step buf1
        by (intro exI [of _ c] exI [of _ f] exI [of _ b]) (auto simp: d1_def after_out_def)
    qed
  qed
qed

section \<open>A vendor request without data\<close>

definition control :: "ctl drivers \<Rightarrow> dev_request \<Rightarrow> device \<Rightarrow> device" where
  "control D r d = poll D (d\<lparr>hw := (hw d)\<lparr>c_ep0_out := enc_request r, c_csr0 := 1, c_intr_in := 1, c_ep0_in := []\<rparr>\<rparr>)"

lemma take_drop_4: "length bs = 8 \<Longrightarrow> take 4 bs @ take 4 (drop 4 bs) = bs"
  by (metis append_take_drop_id length_drop take_all_iff numeral_Bit0 add_diff_cancel_left' order_refl)

lemma read_setup:
  assumes "fifo s = 0xB3040020" "c_ep0_out (hw s) = enc_request r"
  shows "run_state (udcReadFifo ctl_mmio 8) s = (enc_request r, s\<lparr>hw := (hw s)\<lparr>c_ep0_out := []\<rparr>\<rparr>)"
proof -
  have two: "udcReadFifo ctl_mmio 8 = read_fifo_words ctl_mmio (Suc (Suc 0))"
    by (simp add: udcReadFifo_def numeral_2_eq_2)
  show ?thesis
    unfolding two using assms take_drop_4 [of "enc_request r"]
    by (simp add: host_simps reg_defs ctl_io length_first_word req.length_enc)
qed

text \<open>The state in which the handler of a request runs, on a quiet device.\<close>

definition before_req :: "dev_request \<Rightarrow> device \<Rightarrow> device" where
  "before_req r d = d\<lparr>fifo := 0xB3040020, rx_buf := buf_put 0 (enc_request r) (rx_buf d),
     hw := (hw d)\<lparr>c_ep0_in := [], c_intr_usb := 0, c_intr_in := 0, c_intr_out := 0, c_index := 0,
       c_ep0_out := [], c_csr0 := 0\<rparr>\<rparr>"

lemma control_vendor:
  assumes "quiet d" "bmRequestType r = 0x40"
    and "run_state (usbHandleVendorReq ctl_mmio D r) (before_req r d) = ((), d')"
    and "ep0state d' = USB_EP0_IDLE" "USB_Version d' \<noteq> USB_FS"
  shows "control D r d = d'\<lparr>rx_size := 0\<rparr>"
proof -
  have "buf_bytes (buf_put 0 (enc_request r) (rx_buf d)) 0 8 = enc_request r"
    using buf_bytes_put [of 0 "enc_request r"] by (simp add: req.length_enc)
  with assms show ?thesis
    by (simp add: control_def poll_def udc4740Proc_def EP0_Handler_def ep0_setup_def usbHandleDevReq_def on_bit_def
      host_simps reg_defs usb_reg_defs fifoaddr_def ctl_io quiet_def read_setup before_req_def req.dec_enc Let_def)
qed

section \<open>The requests of the load protocol\<close>

text \<open>The setup packet of \<^verbatim>\<open>ingenic_wordop\<close>.\<close>

definition word_req :: "u8 \<Rightarrow> u32 \<Rightarrow> dev_request" where
  "word_req op base = \<lparr>bmRequestType = 0x40, bRequest = op, wValue = ucast (drop_bit 16 base),
     wIndex = ucast (base AND 0xFFFF), wLength = 0\<rparr>"

lemma req_word_word_req: "req_word (word_req op base) = base"
  by (simp add: req_word_def word_req_def split_word)

lemma control_set_address:
  assumes "quiet d"
  shows "control D (word_req 1 base) d
    = (before_req (word_req 1 base) d)\<lparr>start_addr := base, rx_size := 0\<rparr>"
proof -
  have q: "ep0state d = USB_EP0_IDLE" "USB_Version d = USB_HS" using assms by (auto simp: quiet_def)
  show ?thesis
    by (subst control_vendor [OF assms, where d' = "(before_req (word_req 1 base) d)\<lparr>start_addr := base\<rparr>"])
      (use q req_word_word_req [of 1 base] in \<open>simp_all add: usbHandleVendorReq_def SET_DATA_ADDERSS_Handle_def
        host_simps before_req_def word_req_def\<close>)
qed

lemma control_set_length:
  assumes "quiet d"
  shows "control D (word_req 2 len) d
    = (before_req (word_req 2 len) d)\<lparr>ops_length := len, rx_size := 0\<rparr>"
proof -
  have q: "ep0state d = USB_EP0_IDLE" "USB_Version d = USB_HS" using assms by (auto simp: quiet_def)
  show ?thesis
    by (subst control_vendor [OF assms, where d' = "(before_req (word_req 2 len) d)\<lparr>ops_length := len\<rparr>"])
      (use q req_word_word_req [of 2 len] in \<open>simp_all add: usbHandleVendorReq_def SET_DATA_LENGTH_Handle_def
        host_simps before_req_def word_req_def\<close>)
qed

lemma quiet_before_req: "quiet d \<Longrightarrow> quiet (before_req r d)"
  by (simp add: quiet_def before_req_def)

lemma memcpy_ram_put: "memcpy_ram dst buf off n m = mem_put dst (buf_bytes buf off n) m"
proof (induction n arbitrary: dst off m)
  case (Suc n)
  have "buf_bytes buf off (Suc n) = buf off # buf_bytes buf (off + 1) n"
    using buf_bytes_add [of buf off 1 n] by (simp add: buf_bytes_def)
  then show ?case by (simp add: Suc del: fun_upd_apply)
qed (simp add: buf_bytes_def)

definition load_req :: dev_request where
  "load_req = \<lparr>bmRequestType = 0x40, bRequest = 8, wValue = 0, wIndex = 0, wLength = 0\<rparr>"

definition answer :: "device \<Rightarrow> u16 list" where
  "answer d = (handshake_PKT d)[0 := ucast (start_addr d), 1 := ucast (drop_bit 16 (start_addr d))]"

text \<open>Sending the handshake when no bulk-in transfer is pending: one packet of eight bytes.\<close>

lemma handshake_step:
  assumes "length (handshake_PKT s) = 4" "fifosize1 s = 512" "c_in_fifo (hw s) = []" "c_in_pkts (hw s) = []"
  shows "run_state (send_handshake ctl_mmio) s = ((), s\<lparr>fifo := 0xB3040024, Bulk_in_size := 8,
    hw := (hw s)\<lparr>c_index := 1, c_in_pkts := [handshake_bytes s]\<rparr>, Bulk_in_finish := 8\<rparr>)"
proof -
  have len: "length (handshake_bytes s) = 8"
    using assms(1) by (simp add: handshake_bytes_def u16c.length_encs)
  have "buf_bytes (\<lambda>i. if i < 8 then handshake_bytes s ! i else 0) 0 8 = handshake_bytes s"
    by (rule nth_equalityI) (simp_all add: len buf_bytes_def)
  moreover have "(hw s)\<lparr>c_index := 1, c_in_fifo := [], c_in_pkts := P\<rparr> = (hw s)\<lparr>c_index := 1, c_in_pkts := P\<rparr>" for P
    using assms(3) by (cases "hw s") simp
  ultimately show ?thesis
    using assms len
    by (simp add: send_handshake_def HW_SendPKT_bytes_def HW_SendPKT_def next_in_packet_def host_simps
      udcWriteFifo_ep1 reg_defs usb_reg_defs fifoaddr_def fifosize_def ctl_io Let_def commit_def INCSR_INPKTRDY_def)
qed

text \<open>The device after the load request: the block is in memory and the answer is pending.\<close>

definition loaded :: "device \<Rightarrow> device" where
  "loaded d = (let d0 = before_req load_req d in
     d0\<lparr>fw_ub := False, ram := mem_put (start_addr d) (buf_bytes (bulk_out_buf d) 0 (unat (ops_length d))) (ram d),
       ret_dat := start_addr d, handshake_PKT := answer d, fifo := 0xB3040024, Bulk_in_size := 8,
       hw := (hw d0)\<lparr>c_index := 1, c_in_pkts := [concat (List.map enc_u16 (answer d))]\<rparr>,
       Bulk_in_finish := 8, udc_state := IDLE, Bulk_out_size := 0, rx_size := 0\<rparr>)"

lemma control_load:
  assumes "quiet d" "unat (ops_length d) \<le> BULK_BUF_BYTES"
  shows "control D load_req d = loaded d"
proof -
  have q: "ep0state d = USB_EP0_IDLE" "USB_Version d = USB_HS" using assms by (auto simp: quiet_def)
  have run: "run_state (usbHandleVendorReq ctl_mmio D load_req) (before_req load_req d)
      = ((), (loaded d)\<lparr>rx_size := rx_size d\<rparr>)"
    using assms
    by (simp add: usbHandleVendorReq_def load_req_def SDRAM_OPS_Handle_def host_simps before_req_def quiet_def
      put_ret_dat_def set_phase_def clear_out_size_def handshake_step handshake_bytes_def memcpy_ram_put
      loaded_def answer_def Let_def)
  show ?thesis
    by (subst control_vendor [OF assms(1) _ run]) (use q in \<open>simp_all add: load_req_def loaded_def before_req_def Let_def\<close>)
qed

section \<open>A bulk-in transfer\<close>

text \<open>The packet that waits is taken, an interrupt follows, and the transfer goes on until a
  short packet or the end of the buffer.\<close>

function in_data :: "ctl drivers \<Rightarrow> nat \<Rightarrow> device \<Rightarrow> bytes \<times> device" where
  "in_data D n d = (case c_in_pkts (hw d) of
     [] \<Rightarrow> ([], d)
   | p # ps \<Rightarrow>
       (let d' = poll D (d\<lparr>hw := (hw d)\<lparr>c_in_pkts := ps, c_intr_in := 2\<rparr>\<rparr>) in
        if length p < 512 \<or> n \<le> 512 then (p, d')
        else (case in_data D (n - 512) d' of (rest, d'') \<Rightarrow> (p @ rest, d''))))"
  by pat_completeness auto

termination
  by (relation "measure (\<lambda>(D, n, d). n)") auto

declare in_data.simps [simp del]

text \<open>The state after the answer was read.\<close>

definition answered :: "device \<Rightarrow> device" where
  "answered d = d\<lparr>hw := (hw d)\<lparr>c_in_pkts := [], c_intr_usb := 0, c_intr_in := 0, c_intr_out := 0, c_index := 1\<rparr>,
     fifo := 0xB3040024\<rparr>"

lemma in_data_answer:
  assumes "c_in_pkts (hw d) = [p]" "length p < 512" "c_intr_usb (hw d) = 0" "c_intr_out (hw d) = 0"
    "Bulk_in_size d = Bulk_in_finish d" "udc_state d = IDLE" "USB_Version d = USB_HS"
  shows "in_data D n d = (p, answered d)"
  using assms
  by (simp add: in_data.simps [of D n d] poll_def udc4740Proc_def EPIN_Handler_def Handshake_PKT_def on_bit_def
    host_simps reg_defs usb_reg_defs fifoaddr_def ctl_io Let_def answered_def)

section \<open>The bus as the host's libusb\<close>

definition setup_packet :: "u8 \<Rightarrow> u8 \<Rightarrow> u16 \<Rightarrow> u16 \<Rightarrow> nat \<Rightarrow> dev_request" where
  "setup_packet type req val idx len =
     \<lparr>bmRequestType = type, bRequest = req, wValue = val, wIndex = idx, wLength = of_nat len\<rparr>"

definition link :: "ctl drivers \<Rightarrow> device libusb" where
  "link D = \<lparr>
     lu_init = (\<lambda>d. (0, d)), lu_exit = (\<lambda>d. d),
     lu_device_list = (\<lambda>d. (1, [1])), lu_descriptor = (\<lambda>dev d. (0, 0x601a, 0x4740)),
     lu_open = (\<lambda>dev d. (0, 1, d)), lu_close = (\<lambda>h d. d), lu_kernel_driver_active = (\<lambda>h i d. 0),
     lu_detach_kernel_driver = (\<lambda>h i d. (0, d)), lu_claim_interface = (\<lambda>h i d. (0, d)),
     lu_release_interface = (\<lambda>h i d. d),
     lu_control = (\<lambda>h type req val idx data d.
       let d' = control D (setup_packet type req val idx (length data)) d in
       if type AND 0x80 \<noteq> 0 then
         (let reply = take (length data) (c_ep0_in (hw d'))
          in (int (length reply), reply @ drop (length reply) data, d'))
       else (int (length data), data, d')),
     lu_bulk = (\<lambda>h ep buf d.
       if ep = 0x01 then (0, buf, int (length buf), out_data D buf d)
       else (case in_data D (length buf) d of (bs, d') \<Rightarrow>
         if c_in_pkts (hw d) = [] then (-7, buf, 0, d')
         else if length bs > length buf then (-8, buf, 0, d')
         else (0, bs @ drop (length bs) buf, int (length bs), d')))\<rparr>"

lemma link_sel [simp]:
  "lu_bulk (link D) h 1 buf d = (0, buf, int (length buf), out_data D buf d)"
  "lu_bulk (link D) h 0x81 buf d = (case in_data D (length buf) d of (bs, d') \<Rightarrow>
         if c_in_pkts (hw d) = [] then (-7, buf, 0, d')
         else if length bs > length buf then (-8, buf, 0, d')
         else (0, bs @ drop (length bs) buf, int (length bs), d'))"
  "lu_control (link D) h 0x40 req val idx [] d = (0, [], control D (setup_packet 0x40 req val idx 0) d)"
  by (simp_all add: link_def)

definition ready :: "device \<Rightarrow> bool" where
  "ready d = (quiet d \<and> Bulk_out_size d = 0)"

text \<open>One block of the protocol, run by the firmware.\<close>

lemma link_block:
  fixes w :: "(device, 'c) world"
  assumes "ready (usb w)" "0 < unat len" "unat len \<le> 262144" "unat len \<le> length data"
  shows "\<exists>d. run_state (load_block (link D) h data base len) w = (0, w\<lparr>usb := d\<rparr>) \<and> ready d
     \<and> ram d = mem_put base (take (unat len) data) (ram (usb w))"
proof -
  let ?d0 = "usb w" and ?data = "take (unat len) data"
  have q0: "quiet ?d0" "Bulk_out_size ?d0 = 0" using assms(1) by (auto simp: ready_def)
  have len: "length ?data = unat len" using assms(4) by simp
  obtain c f b where o: "out_data D ?data ?d0 = ?d0\<lparr>fifo := f, hw := c, bulk_out_buf := b,
       Bulk_out_size := Bulk_out_size ?d0 + of_nat (length ?data), fw_ub := False\<rparr>"
      "quiet (out_data D ?data ?d0)" "buf_bytes b 0 (unat len) = ?data"
    using out_data_gathers [OF q0(1), of ?data D] q0(2) assms(3) len by (auto simp: BULK_BUF_BYTES_def buf_bytes_def)
  define d1 where "d1 = out_data D ?data ?d0"
  have q1: "quiet d1" using o(2) by (simp add: d1_def)
  define d2 where "d2 = control D (word_req 1 base) d1"
  have d2: "d2 = (before_req (word_req 1 base) d1)\<lparr>start_addr := base, rx_size := 0\<rparr>"
    unfolding d2_def by (rule control_set_address [OF q1])
  have q2: "quiet d2" using quiet_before_req [OF q1, of "word_req 1 base"] by (simp add: d2 quiet_def)
  define d3 where "d3 = control D (word_req 2 len) d2"
  have d3: "d3 = (before_req (word_req 2 len) d2)\<lparr>ops_length := len, rx_size := 0\<rparr>"
    unfolding d3_def by (rule control_set_length [OF q2])
  have q3: "quiet d3" using quiet_before_req [OF q2, of "word_req 2 len"] by (simp add: d3 quiet_def)
  define d4 where "d4 = control D load_req d3"
  have d4: "d4 = loaded d3"
    unfolding d4_def by (rule control_load [OF q3]) (use assms(3) in \<open>simp add: d3 BULK_BUF_BYTES_def\<close>)
  have in4: "in_data D n d4 = (concat (List.map enc_u16 (answer d3)), answered d4)" for n
    by (rule in_data_answer) (use q3 in \<open>simp_all add: d4 loaded_def Let_def quiet_def before_req_def u16c.length_encs answer_def\<close>)
  have pkts: "c_in_pkts (hw d4) = [concat (List.map enc_u16 (answer d3))]"
    by (simp add: d4 loaded_def Let_def)
  have eight: "length (concat (List.map enc_u16 (answer d3))) = 8"
    using q3 by (simp add: u16c.length_encs answer_def quiet_def)
  have "run_state (load_block (link D) h data base len) w = (0, w\<lparr>usb := answered d4\<rparr>)"
    using in4 pkts eight len
    by (simp add: load_block_def ingenic_wordop_def host_simps run_sendbulk run_recvbulk run_vendor vr_defs SDRAM_LOAD_def
      d1_def [symmetric] setup_packet_def word_req_def [symmetric] load_req_def [symmetric]
      d2_def [symmetric] d3_def [symmetric] d4_def [symmetric])
  moreover have "ready (answered d4)"
    using q3 by (simp add: ready_def quiet_def answered_def d4 loaded_def Let_def before_req_def answer_def)
  moreover have "ram (answered d4) = mem_put base ?data (ram ?d0)"
    using o(3) by (simp add: answered_def d4 loaded_def Let_def d3 d2 before_req_def d1_def o(1))
  ultimately show ?thesis by blast
qed

interpretation fw: sdram_target "link D" h ram ready
  by unfold_locales (rule link_block)

end
