(* ===== verification/Link_Probe.thy ===== *)
theory Link_Probe
  imports Usb_Link
begin

unbundle bit_operations_syntax

text \<open>
  Identification and configuration over the bus: the answer of the firmware to
  \<^verbatim>\<open>VR_GET_CPU_INFO\<close> on endpoint 0, and the configuration block that
  \<^verbatim>\<open>ingenic_configure_stage2\<close> sends and the firmware decodes.
\<close>

section \<open>Endpoint 0 in the direction of the host\<close>

lemma write_words_ep0:
  assumes "fifo s = 0xB3040020"
  shows "run_state (write_fifo_words ctl_mmio buf off n) s =
    ((), s\<lparr>hw := (hw s)\<lparr>c_ep0_in := c_ep0_in (hw s) @ buf_bytes buf off (4 * n)\<rparr>\<rparr>)"
  using assms
proof (induction n arbitrary: s off)
  case (Suc n)
  have "buf_bytes buf off (4 * Suc n) = buf_bytes buf off 4 @ buf_bytes buf (off + 4) (4 * n)"
    by (simp add: buf_bytes_add)
  with Suc show ?case by (simp add: host_simps reg_defs ctl_io enc_buf_word)
qed (simp add: buf_bytes_def)

text \<open>The state in which a device-to-host request is handled; as \<^verbatim>\<open>before_req\<close>.\<close>

lemma control_vendor_reply:
  assumes "quiet d" "bmRequestType r = 0xC0" "length msg = 8"
    and "run_state (usbHandleVendorReq ctl_mmio D r) (before_req r d)
       = ((), (before_req r d)\<lparr>tx_size := 8, finished := 0, tx_buf := buf_put 0 msg (tx_buf d), ep0state := USB_EP0_TX,
           udc_state := IDLE\<rparr>)"
  shows "\<exists>d'. control D r d = d' \<and> quiet d' \<and> c_ep0_in (hw d') = msg \<and> Hand d' = Hand d \<and> ram d' = ram d
     \<and> Bulk_out_size d' = Bulk_out_size d \<and> nand_drv d' = nand_drv d"
proof -
  have req: "buf_bytes (buf_put 0 (enc_request r) (rx_buf d)) 0 8 = enc_request r"
    using buf_bytes_put [of 0 "enc_request r"] by (simp add: req.length_enc)
  have "buf_bytes (buf_put 0 msg (tx_buf d)) 0 8 = msg"
    using buf_bytes_put [of 0 msg "tx_buf d"] assms(3) by simp
  with req assms show ?thesis
    by (simp add: control_def poll_def udc4740Proc_def EP0_Handler_def ep0_setup_def ep0_transmit_def usbHandleDevReq_def
      on_bit_def udcWriteFifo_def write_words_ep0
      host_simps reg_defs usb_reg_defs fifoaddr_def ctl_io quiet_def read_setup before_req_def req.dec_enc Let_def)
qed

text \<open>\<^verbatim>\<open>HW_SendPKT\<close> on endpoint 0 only stores the reply.\<close>

lemma send_ep0:
  assumes "length bs \<le> 128"
  shows "run_state (HW_SendPKT_bytes ctl_mmio 0 bs) s = ((), s\<lparr>fifo := 0xB3040020, tx_size := of_nat (length bs),
     finished := 0, tx_buf := buf_put 0 bs (tx_buf s), ep0state := USB_EP0_TX\<rparr>)"
proof -
  have len: "unat (of_nat (length bs) :: u32) = length bs" using assms by (simp add: unat_of_nat)
  have "buf_bytes (\<lambda>i. if i < length bs then bs ! i else 0) 0 (length bs) = bs"
    by (rule nth_equalityI) (simp_all add: buf_bytes_def)
  with assms len show ?thesis
    by (cases s) (simp add: HW_SendPKT_bytes_def HW_SendPKT_def host_simps fifoaddr_def usb_reg_defs)
qed

lemma length_ascii [simp]: "length (ascii s) = length s"
  by (simp add: ascii_def)

definition cpu_text :: "u32 \<Rightarrow> string" where
  "cpu_text cpu = (if cpu = 0x4760 then ''Boot4760'' else if cpu = 0x4740 then ''Boot4740'' else '' UNKNOW '')"

lemma control_cpu_info:
  assumes "quiet d"
  shows "\<exists>d'. control D (setup_packet 0xC0 0 0 0 8) d = d' \<and> quiet d'
     \<and> c_ep0_in (hw d') = ascii (cpu_text (fa_cpu_id (hd_fw_args (Hand d)))) \<and> Hand d' = Hand d \<and> ram d' = ram d
     \<and> Bulk_out_size d' = Bulk_out_size d \<and> nand_drv d' = nand_drv d"
proof (rule control_vendor_reply [OF assms])
  show "run_state (usbHandleVendorReq ctl_mmio D (setup_packet 0xC0 0 0 0 8)) (before_req (setup_packet 0xC0 0 0 0 8) d)
    = ((), (before_req (setup_packet 0xC0 0 0 0 8) d)\<lparr>tx_size := 8, finished := 0,
         tx_buf := buf_put 0 (ascii (cpu_text (fa_cpu_id (hd_fw_args (Hand d))))) (tx_buf d), ep0state := USB_EP0_TX,
         udc_state := IDLE\<rparr>)"
    by (simp add: usbHandleVendorReq_def setup_packet_def GET_CPU_INFO_Handle_def host_simps before_req_def send_ep0 cpu_text_def)
qed (simp_all add: setup_packet_def cpu_text_def)

lemma unat_ascii: "unat (of_nat (of_char c) :: u8) = of_char c"
  using nat_of_char_less_256 [of c] by (simp add: unat_of_nat)

lemma c_string_ascii: "CHR 0x00 \<notin> set s \<Longrightarrow> c_string (ascii s) = s"
proof (induction s)
  case (Cons c s)
  then have ne: "c \<noteq> CHR 0x00" by auto
  have "(of_char (CHR 0x00) :: nat) = 0" by simp
  then have "(of_char c :: nat) \<noteq> 0" using ne by (metis of_char_eq_iff)
  then have "(of_nat (of_char c) :: u8) \<noteq> 0" by (metis unat_ascii unsigned_0)
  with Cons show ?case by (simp add: c_string_def ascii_def unat_ascii del: of_nat_of_char)
qed (simp add: c_string_def ascii_def)

lemma c_string_cpu: "c_string (take 8 (ascii (cpu_text cpu))) = cpu_text cpu"
  using c_string_ascii [of "cpu_text cpu"] by (auto simp: cpu_text_def)

text \<open>The probe of the host against the firmware.\<close>

lemma link_probe:
  fixes w :: "(device, 'c) world"
  assumes "quiet (usb w)"
  defines "cpu \<equiv> fa_cpu_id (hd_fw_args (Hand (usb w)))"
  shows "\<exists>d. run_state (ingenic_probe (link D) h) w
      = (if cpu = 0x4740 \<or> cpu = 0x4760 then (BUILDTYPE CMDSET_USBBOOT cpu, w\<lparr>usb := d\<rparr>)
         else (0, w\<lparr>usb := d, errno := EINVAL\<rparr>))
    \<and> quiet d \<and> Hand d = Hand (usb w) \<and> ram d = ram (usb w) \<and> Bulk_out_size d = Bulk_out_size (usb w)"
proof -
  obtain d where d: "control D (setup_packet 0xC0 0 0 0 8) (usb w) = d" "quiet d"
      "c_ep0_in (hw d) = ascii (cpu_text cpu)" "Hand d = Hand (usb w)" "ram d = ram (usb w)"
      "Bulk_out_size d = Bulk_out_size (usb w)"
    using control_cpu_info [OF assms(1), of D] unfolding cpu_def by blast
  have ctl: "lu_control (link D) h 0xC0 0 0 0 (uninit_buf 8 w) (usb w) = (8, ascii (cpu_text cpu), d)"
    using d by (simp add: link_def Let_def cpu_text_def)
  have "run_state (ingenic_probe (link D) h) w
      = (if cpu = 0x4740 \<or> cpu = 0x4760 then (BUILDTYPE CMDSET_USBBOOT cpu, w\<lparr>usb := d\<rparr>)
         else (0, w\<lparr>usb := d, errno := EINVAL\<rparr>))"
    by (simp add: ingenic_probe_def host_simps run_vendor vr_defs ctl c_string_cpu split del: if_split)
      (simp add: cpu_text_def magic_list_def host_simps)
  with d show ?thesis by blast
qed

section \<open>The configuration block\<close>

text \<open>The correspondence of the host's structures and the firmware's.\<close>

definition to_fw_args :: "firmware_config \<Rightarrow> fw_args" where
  "to_fw_args c = \<lparr>fa_cpu_id = cpu_id c, fa_ext_clk = ext_clk c, fa_cpu_speed = cpu_speed c, fa_phm_div = phm_div c,
     fa_use_uart = use_uart c, fa_boudrate = baudrate c, fa_bus_width = bus_width c, fa_bank_num = bank_num c,
     fa_row_addr = row_addr c, fa_col_addr = col_addr c, fa_is_mobile = is_mobile c, fa_is_busshare = is_busshare c,
     fa_debug_ops = debug_ops (fw_debug c), fa_pin_num = pin_num (fw_debug c), fa_start = dbg_start (fw_debug c),
     fa_size = dbg_size (fw_debug c)\<rparr>"

definition to_hand :: "nand_config \<Rightarrow> firmware_config \<Rightarrow> hand" where
  "to_hand n c = \<lparr>hd_pt = nand_cpuid n, hd_nand_bw = nand_bw n, hd_nand_rc = nand_rc n, hd_nand_ps = nand_ps n,
     hd_nand_ppb = nand_ppb n, hd_nand_force_erase = nand_force_erase n, hd_nand_pn = nand_pn n, hd_nand_os = nand_os n,
     hd_nand_eccpos = nand_eccpos n, hd_nand_bbpage = nand_bbpage n, hd_nand_bbpos = nand_bbpos n,
     hd_nand_plane = nand_plane n, hd_nand_bchbit = nand_bchbit n, hd_nand_wppin = nand_wppin n, hd_nand_bpc = nand_bpc n,
     hd_fw_args = to_fw_args c\<rparr>"

lemma dec_fw_args_enc: "dec_fw_args (enc_fw c) = to_fw_args c"
  by (simp add: dec_fw_args_def enc_fw_def enc_debug_def to_fw_args_def slice_simps le_simps del: slice_0)

lemma hand_word_enc: "k < 15 \<Longrightarrow> hand_word k (enc_nand n @ rest) = nand_words n ! k"
proof -
  assume k: "k < 15"
  have len: "length (nand_words n) = 15" by (simp add: nand_words_def)
  have "slice (4 * k) 4 (enc_nand n @ rest) = slice (4 * k) 4 (enc_nand n)"
    using k by (intro slice_append1) (simp add: nand.length_enc)
  then show ?thesis
    using u32c.dec_encs [of k "nand_words n"] k len by (simp add: hand_word_def enc_nand_def)
qed

lemma dec_hand_enc: "dec_hand (enc_nand n @ enc_fw c) = to_hand n c"
proof -
  have "slice 60 28 (enc_nand n @ enc_fw c) = enc_fw c"
    by (simp add: slice_append2 nand.length_enc fw.length_enc)
  then show ?thesis
    by (simp add: dec_hand_def to_hand_def hand_word_enc dec_fw_args_enc nand_words_def eval_nat_numeral)
qed

end
