(* ===== verification/Fw_Instances.thy ===== *)
theory Fw_Instances
  imports Stage2_State
begin

text \<open>
  A state of the firmware on which the hypotheses of the properties hold: at high speed, between
  two requests, with the memory cleared and a configuration for 2048-byte pages.
\<close>

definition zero_args :: fw_args where
  "zero_args = \<lparr>fa_cpu_id = 0x4760, fa_ext_clk = 12, fa_cpu_speed = 0, fa_phm_div = 0, fa_use_uart = 0, fa_boudrate = 0,
     fa_bus_width = 0, fa_bank_num = 0, fa_row_addr = 0, fa_col_addr = 0, fa_is_mobile = 0, fa_is_busshare = 0,
     fa_debug_ops = 0, fa_pin_num = 0, fa_start = 0, fa_size = 0\<rparr>"

definition zero_hand :: hand where
  "zero_hand = \<lparr>hd_pt = 0, hd_nand_bw = 0, hd_nand_rc = 0, hd_nand_ps = 2048, hd_nand_ppb = 64, hd_nand_force_erase = 0,
     hd_nand_pn = 0, hd_nand_os = 64, hd_nand_eccpos = 0, hd_nand_bbpage = 0, hd_nand_bbpos = 0, hd_nand_plane = 1,
     hd_nand_bchbit = 4, hd_nand_wppin = 0, hd_nand_bpc = 0, hd_fw_args = zero_args\<rparr>"

definition boot_nand_vars :: nand_vars where
  "boot_nand_vars = \<lparr>nv_bus = 0, nv_row = 0, nv_pagesize = 0, nv_oobsize = 0, nv_ppb = 0, nv_bb_pos = 0, nv_bb_page = 0,
     nv_force_erase = 0, nv_ecc_pos = 0, nv_wp_pin = 0, nv_oob_buf = (\<lambda>_. 0), nv_addrport = 0xb8010000,
     nv_dataport = 0xb8000000, nv_cmdport = 0xb8008000, nv_proc = No_Proc\<rparr>"

definition boot_nand6_vars :: nand6_vars where
  "boot_nand6_vars = \<lparr>n6_bus = 8, n6_row = 2, n6_pagesize = 512, n6_oobsize = 16, n6_ppb = 32, n6_eccpos = 3, n6_bchbit = 8,
     n6_par_size = 26, n6_par_size1 = 13, n6_forceerase = 1, n6_wp_pin = 0, n6_bb_page = 127, n6_bb_pos = 0,
     n6_oob_buf = (\<lambda>_. 0), n6_proc = No_Proc\<rparr>"

abbreviation blank_fw :: "'h \<Rightarrow> 'h fw_state" where
  "blank_fw h \<equiv> \<lparr>hw = h, bulk_in_buf = (\<lambda>_. 0), bulk_out_buf = (\<lambda>_. 0), Bulk_in_size = 0,
     Bulk_in_finish = 0, Bulk_out_size = 0, handshake_PKT = [0, 0, 0, 0], udc_state = IDLE, rx_buf = (\<lambda>_. 0),
     tx_buf = (\<lambda>_. 0), tx_size = 0, rx_size = 0, finished = 0, fifo = 0, ep0state = USB_EP0_IDLE,
     USB_Version = USB_HS, fifosize1 = 512, confDesc = \<lparr>cd_in_addr = 0x81, cd_in_size = 512, cd_out_addr = 1,
     cd_out_size = 512\<rparr>, Hand = zero_hand, ret_dat = 0, start_addr = 0, ops_length = 0, ram_addr = 0,
     nand_drv = No_Driver, nf = boot_nand_vars, nf6 = boot_nand6_vars, ram = (\<lambda>_. 0), jumped = None, hung = False, fw_ub = False\<rparr>"

end
