(* ===== verification/Instances.thy ===== *)
theory Instances
  imports Link_Probe Fw_Instances
begin

text \<open>
  Instances of the parameters, on which the hypotheses of the properties hold: a device at
  high speed between two requests, with a NAND driver that does nothing, and a process that
  holds it open.
\<close>

section \<open>A concrete device and process\<close>

definition null_driver :: "ctl nand_driver" where
  "null_driver = \<lparr>nd_init = (\<lambda>a. State_Monad.return ()), nd_query = State_Monad.return (),
     nd_program = (\<lambda>a b c. State_Monad.return 0), nd_erase = (\<lambda>a b c. State_Monad.return 0),
     nd_read = (\<lambda>a b c e. State_Monad.return 0), nd_read_oob = (\<lambda>a b. State_Monad.return 0),
     nd_read_raw = (\<lambda>a b c. State_Monad.return 7), nd_mark_bad = (\<lambda>a. State_Monad.return 0),
     nd_enable = (\<lambda>a. State_Monad.return ()), nd_disable = (\<lambda>a. State_Monad.return ())\<rparr>"

definition idle_ctl :: ctl where
  "idle_ctl = \<lparr>c_index = 0, c_csr0 = 0, c_ep0_out = [], c_ep0_in = [], c_out_pkt = [], c_in_fifo = [],
     c_in_pkts = [], c_intr_usb = 0, c_intr_in = 0, c_intr_out = 0, c_power = 0x10\<rparr>"

definition idle_device :: device where
  "idle_device = blank_fw idle_ctl"

definition demo_handle :: "'c ingenic_handle" where
  "demo_handle = \<lparr>h_usb = 1, h_type = BUILDTYPE CMDSET_USBBOOT 0x4760, total_sdram_size = 0x4000000, h_callbacks = None,
     h_cfg = \<lparr>cpu_id = 0x4760, ext_clk = 12, cpu_speed = 0, phm_div = 3, use_uart = 1, baudrate = 57600, bus_width = 1,
       bank_num = 1, row_addr = 13, col_addr = 9, is_mobile = 0, is_busshare = 1, fw_debug = no_debug\<rparr>,
     h_nand = \<lparr>nand_cpuid = 0x4760, nand_bw = 8, nand_rc = 3, nand_ps = 2048, nand_ppb = 64, nand_force_erase = 1,
       nand_pn = 0, nand_os = 64, nand_eccpos = 24, nand_bbpage = 0, nand_bbpos = 0, nand_plane = 1, nand_bchbit = 8,
       nand_wppin = 0, nand_bpc = 2048\<rparr>\<rparr>"

definition demo_world :: "'d \<Rightarrow> (string \<Rightarrow> c_file option) \<Rightarrow> ('d, unit) world" where
  "demo_world d fs = \<lparr>usb = d, errno = E_OK, environ = None, devlist = [], files = fs, fopen_errno = (\<lambda>_. ENOENT),
     writable = (\<lambda>_. True), hnd = demo_handle, cb_data = (), uninit = (\<lambda>_. 0), ub = False\<rparr>"

lemma ready_idle: "ready idle_device"
  by (simp add: ready_def quiet_def idle_device_def idle_ctl_def)

lemma demo_world_sel [simp]: "usb (demo_world d fs) = d" "hnd (demo_world d fs) = demo_handle"
  "files (demo_world d fs) = fs" "h_usb demo_handle = 1"
  by (simp_all add: demo_world_def demo_handle_def)

end
