(* ===== verification/Boot.thy ===== *)
theory Boot
  imports Elf_Facts Instances
begin

unbundle bit_operations_syntax

text \<open>
  Booting a kernel: the locale \<^verbatim>\<open>boot_target\<close> extends the contract of the SDRAM loader by the
  jump request; under it \<^verbatim>\<open>load_elf\<close> leaves the segments, the arguments and the trampoline in
  memory and starts the trampoline.  It is interpreted on the firmware behind the bus.
\<close>

section \<open>What an image consists of\<close>

text \<open>The segments that the program headers describe: the address and the bytes, with the zeros
  up to the size in memory.  \<^verbatim>\<open>None\<close>: the file is too short, or a segment is larger in the
  file than in memory.\<close>

fun segments :: "c_file \<Rightarrow> nat \<Rightarrow> nat \<Rightarrow> (u32 \<times> bytes) list option" where
  "segments elf pos 0 = Some []"
| "segments elf pos (Suc n) =
     (if length (fread_at elf pos 32) \<noteq> 32 then None
      else let p = dec_phdr (fread_at elf pos 32); data = fread_at elf (unat (p_offset p)) (unat (p_filesz p)) in
        if p_type p \<noteq> 1 then segments elf (pos + 32) n
        else if length data \<noteq> unat (p_filesz p) \<or> p_memsz p < p_filesz p then None
        else (case segments elf (pos + 32) n of None \<Rightarrow> None
          | Some segs \<Rightarrow> Some ((p_paddr p, data @ replicate (unat (p_memsz p - p_filesz p)) 0) # segs)))"

definition header_ok :: "c_file \<Rightarrow> bool" where
  "header_ok elf = (length (fread_at elf 0 52) = 52 \<and> (let h = dec_ehdr (fread_at elf 0 52) in
     take 7 (e_ident h) = valid_ident \<and> e_type h = 2 \<and> e_machine h = 8 \<and> e_version h = 1
     \<and> e_phoff h \<noteq> 0 \<and> e_phentsize h = 32))"

definition elf_segments :: "c_file \<Rightarrow> (u32 \<times> bytes) list option" where
  "elf_segments elf = (let h = dec_ehdr (fread_at elf 0 52) in segments elf (unat (e_phoff h)) (unat (e_phnum h)))"

definition seg_end :: "u32 \<times> bytes \<Rightarrow> u32" where
  "seg_end s = fst s + of_nat (length (snd s))"

definition image_end :: "(u32 \<times> bytes) list \<Rightarrow> u32 \<Rightarrow> u32" where
  "image_end segs e = fold (\<lambda>s e. max (seg_end s) e) segs e"

definition store :: "(u32 \<times> bytes) list \<Rightarrow> (u32 \<Rightarrow> u8) \<Rightarrow> (u32 \<Rightarrow> u8)" where
  "store segs m = fold (\<lambda>(a, bs). mem_put a bs) segs m"

text \<open>A block of bytes lies below the limit of the loader, without wrapping.\<close>

definition below :: "u32 \<Rightarrow> u32 \<times> bytes \<Rightarrow> bool" where
  "below limit s = (unat (fst s) + length (snd s) \<le> unat limit)"

lemma below_limit: "below limit (a, bs) \<Longrightarrow> a + of_nat (length bs) \<le> limit \<and> unat (of_nat (length bs) :: u32) = length bs
    \<and> unat (a + of_nat (length bs)) = unat a + length bs"
proof -
  assume b: "below limit (a, bs)"
  have "unat limit < 2 ^ 32" using unsigned_less [of limit] by simp
  with b have l: "length bs < 2 ^ 32" "unat a + length bs < 2 ^ 32" by (auto simp: below_def)
  then have "unat (of_nat (length bs) :: u32) = length bs" by (simp add: unat_of_nat)
  moreover from this l have "unat (a + of_nat (length bs)) = unat a + length bs" by (simp add: unat_word_ariths)
  ultimately show ?thesis using b by (simp add: below_def word_le_nat_alt)
qed

section \<open>The contract\<close>

locale boot_target = sdram_target +
  fixes jumped_to :: "'b \<Rightarrow> u32 option"
  assumes go: "ready (usb (w :: ('b, 'c) world)) \<Longrightarrow> h_usb (hnd w) = h \<Longrightarrow>
    \<exists>d. run_state (ingenic_go L addr) w = (0, w\<lparr>usb := d\<rparr>) \<and> jumped_to d = Some addr \<and> mem d = mem (usb w)"
begin

lemma load_phdrs:
  fixes w :: "('b, 'c) world"
  assumes "ready (usb w)" "h_usb (hnd w) = h" "segments elf pos n = Some segs"
    and "\<forall>s \<in> set segs. below (load_limit (hnd w)) s"
  shows "\<exists>d c. run_state (load_phdrs L elf pos n e) w = ((0, image_end segs e), w\<lparr>usb := d, cb_data := c\<rparr>)
     \<and> ready d \<and> mem d = store segs (mem (usb w))"
  using assms
proof (induction n arbitrary: pos segs e w)
  case 0
  then show ?case
    by (intro exI [of _ "usb w"] exI [of _ "cb_data w"]) (simp add: image_end_def store_def host_simps)
next
  case (Suc n)
  let ?raw = "fread_at elf pos 32"
  define p where "p = dec_phdr ?raw"
  define data where "data = fread_at elf (unat (p_offset p)) (unat (p_filesz p))"
  have raw: "length ?raw = 32" using Suc.prems(3) by (auto split: if_splits)
  show ?case
  proof (cases "p_type p = 1")
    case False
    with Suc.prems(3) raw have "segments elf (pos + 32) n = Some segs" by (simp add: Let_def p_def)
    with Suc.IH [OF Suc.prems(1,2) this Suc.prems(4)] raw False show ?thesis by (simp add: Let_def p_def host_simps)
  next
    case True
    with Suc.prems(3) raw obtain rest where seg: "length data = unat (p_filesz p)" "p_filesz p \<le> p_memsz p"
        "segments elf (pos + 32) n = Some rest"
        "segs = (p_paddr p, data @ replicate (unat (p_memsz p - p_filesz p)) 0) # rest"
      by (auto simp: Let_def p_def data_def split: if_splits option.splits)
    let ?s = "(p_paddr p, data @ replicate (unat (p_memsz p - p_filesz p)) 0)"
    have len: "length (snd ?s) = unat (p_memsz p)"
      using seg(1,2) by (simp add: unat_sub word_le_nat_alt)
    have lw: "of_nat (length (snd ?s)) = p_memsz p" unfolding len by simp
    have "below (load_limit (hnd w)) (fst ?s, snd ?s)" using Suc.prems(4) seg(4) by simp
    from below_limit [OF this, unfolded lw] have fits: "p_paddr p + p_memsz p \<le> load_limit (hnd w)" by simp
    obtain d c where one: "run_state (Elfldr.load_segment L data (p_paddr p) (p_filesz p) (p_memsz p)) w = (0, w\<lparr>usb := d, cb_data := c\<rparr>)"
        "ready d" "mem d = mem_put (p_paddr p) (snd ?s) (mem (usb w))"
      using load_segment [OF Suc.prems(1,2) seg(1) [symmetric] seg(2) fits] by auto
    let ?w = "w\<lparr>usb := d, cb_data := c\<rparr>"
    have "\<exists>d' c'. run_state (Elfldr.load_phdrs L elf (pos + 32) n (max (p_paddr p + p_memsz p) e)) ?w
        = ((0, image_end rest (max (p_paddr p + p_memsz p) e)), ?w\<lparr>usb := d', cb_data := c'\<rparr>)
      \<and> ready d' \<and> mem d' = store rest (mem (usb ?w))"
      by (rule Suc.IH) (use one(2) Suc.prems(2,4) seg(3,4) in auto)
    then obtain d' c' where two: "run_state (Elfldr.load_phdrs L elf (pos + 32) n (max (p_paddr p + p_memsz p) e)) ?w
        = ((0, image_end rest (max (p_paddr p + p_memsz p) e)), w\<lparr>usb := d', cb_data := c'\<rparr>)"
        "ready d'" "mem d' = store rest (mem d)" by auto
    have "seg_end ?s = p_paddr p + p_memsz p" unfolding seg_end_def lw by simp
    then show ?thesis
      using one two raw True seg(1,4)
      by (auto simp: Let_def host_simps image_end_def store_def p_def [symmetric] data_def [symmetric])
  qed
qed

lemma load_elf_image:
  fixes w :: "('b, 'c) world"
  assumes "ready (usb w)" "h_usb (hnd w) = h" "header_ok elf" "elf_segments elf = Some segs"
    and "\<forall>s \<in> set segs. below (load_limit (hnd w)) s"
  shows "\<exists>d c. run_state (load_elf_image L elf) w
       = ((0, e_entry (dec_ehdr (fread_at elf 0 52)), image_end segs 0), w\<lparr>usb := d, cb_data := c\<rparr>)
     \<and> ready d \<and> mem d = store segs (mem (usb w))"
proof -
  let ?h = "dec_ehdr (fread_at elf 0 52)"
  have "segments elf (unat (e_phoff ?h)) (unat (e_phnum ?h)) = Some segs"
    using assms(4) by (simp add: elf_segments_def Let_def)
  from load_phdrs [OF assms(1,2) this assms(5), of 0] obtain d c where
    "run_state (Elfldr.load_phdrs L elf (unat (e_phoff ?h)) (unat (e_phnum ?h)) 0) w
       = ((0, image_end segs 0), w\<lparr>usb := d, cb_data := c\<rparr>)" "ready d" "mem d = store segs (mem (usb w))" by blast
  with assms(3) show ?thesis
    by (intro exI [of _ d] exI [of _ c]) (simp add: load_elf_image_def header_ok_def Let_def host_simps)
qed

end

text \<open>The addresses and the blocks of the part after the image; \<^verbatim>\<open>e\<close> is the end of the image.\<close>

definition args_len :: "string list \<Rightarrow> nat" where
  "args_len args = 4 * count_args args + sum_list (List.map (\<lambda>a. length a + 1) args)"

definition tramp_base :: "u32 \<Rightarrow> string list \<Rightarrow> u32" where
  "tramp_base e args = ALIGN_addr (ALIGN_addr e + of_nat (args_len args))"

definition tramp_bytes :: "u32 \<Rightarrow> u32 \<Rightarrow> string list \<Rightarrow> bytes" where
  "tramp_bytes entry e args = concat (List.map enc_u32 (make_trampoline (of_nat (count_args args)) (ALIGN_addr e) entry))"

text \<open>The blocks of a load, in the order in which they are sent.\<close>

definition boot_blocks :: "(nat \<Rightarrow> u8) \<Rightarrow> u32 \<Rightarrow> u32 \<Rightarrow> string list \<Rightarrow> (u32 \<times> bytes) list" where
  "boot_blocks g entry e args = [(ALIGN_addr e, args_block g (ALIGN_addr e) args),
     (tramp_base e args, tramp_bytes entry e args)]"

lemma length_args_block:
  "args \<noteq> [] \<Longrightarrow> \<forall>a \<in> set args. CHR 0x00 \<notin> set a \<Longrightarrow> length (args_block g base args) = args_len args"
  unfolding args_block_layout length_append u32c.length_encs
  using length_with_spaces [of args] count_args_words [of args] by (simp add: args_len_def length_zero_ended_words)

lemma length_tramp_bytes: "length (tramp_bytes entry e args) = 48"
  unfolding tramp_bytes_def u32c.length_encs
  by (simp add: make_trampoline_def trampoline_set_def trampoline_template_def Let_def)

context boot_target
begin

lemma load_block_at:
  fixes w :: "('b, 'c) world"
  assumes "ready (usb w)" "h_usb (hnd w) = h" "below (load_limit (hnd w)) (a, bs)" "n = of_nat (length bs)"
  shows "\<exists>d c. run_state (Elfldr.load_segment L bs a n n) w = (0, w\<lparr>usb := d, cb_data := c\<rparr>)
     \<and> ready d \<and> mem d = mem_put a bs (mem (usb w))"
  using load_segment [OF assms(1,2), of n bs n a] below_limit [OF assms(3)] assms(4) by simp

lemma load_tail:
  fixes w :: "('b, 'c) world"
  assumes "ready (usb w)" "h_usb (hnd w) = h" "args \<noteq> []" "\<forall>a \<in> set args. CHR 0x00 \<notin> set a"
    and "\<forall>s \<in> set (boot_blocks (uninit w) entry e args). below (load_limit (hnd w)) s"
  shows "\<exists>d c. run_state (load_tail L entry e args) w = (0, w\<lparr>usb := d, cb_data := c\<rparr>)
     \<and> jumped_to d = Some (tramp_base e args) \<and> mem d = store (boot_blocks (uninit w) entry e args) (mem (usb w))"
proof -
  let ?ab = "ALIGN_addr e" and ?tb = "tramp_base e args"
  let ?block = "args_block (uninit w) ?ab args" and ?n = "of_nat (args_len args) :: u32"
  have n: "?n = of_nat (length ?block)" using length_args_block [OF assms(3,4)] by simp
  have "below (load_limit (hnd w)) (?ab, ?block)" using assms(5) by (simp add: boot_blocks_def)
  from load_block_at [OF assms(1,2) this n] obtain d c where
    1: "run_state (Elfldr.load_segment L ?block ?ab ?n ?n) w = (0, w\<lparr>usb := d, cb_data := c\<rparr>)" "ready d"
      "mem d = mem_put ?ab ?block (mem (usb w))" by blast
  let ?w = "w\<lparr>usb := d, cb_data := c\<rparr>"
  have "below (load_limit (hnd ?w)) (?tb, tramp_bytes entry e args)" using assms(5) by (simp add: boot_blocks_def)
  with load_block_at [of ?w ?tb "tramp_bytes entry e args" 48] 1(2) assms(2) obtain d' c' where
    2: "run_state (Elfldr.load_segment L (tramp_bytes entry e args) ?tb 48 48) ?w = (0, w\<lparr>usb := d', cb_data := c'\<rparr>)" "ready d'"
      "mem d' = mem_put ?tb (tramp_bytes entry e args) (mem d)" by (auto simp: length_tramp_bytes)
  let ?v = "w\<lparr>usb := d', cb_data := c'\<rparr>"
  from go [of ?v ?tb] 2(2) assms(2) obtain d'' where
    "run_state (ingenic_go L ?tb) ?v = (0, ?v\<lparr>usb := d''\<rparr>)" "jumped_to d'' = Some ?tb" "mem d'' = mem d'" by auto
  moreover have "?v\<lparr>usb := d''\<rparr> = w\<lparr>usb := d'', cb_data := c'\<rparr>" by simp
  ultimately have 3: "run_state (ingenic_go L ?tb) ?v = (0, w\<lparr>usb := d'', cb_data := c'\<rparr>)"
      "jumped_to d'' = Some ?tb" "mem d'' = mem d'" by simp_all
  have len: "of_nat (4 * count_args args + sum_list (List.map (\<lambda>a. length a + 1) args)) = ?n"
    by (simp add: args_len_def)
  have tb: "ALIGN_addr (?ab + of_nat (sum_list (List.map (\<lambda>a. length a + 1) args)) + 4 * of_nat (count_args args)) = ?tb"
    by (simp add: tramp_base_def args_len_def algebra_simps)
  have "run_state (Elfldr.load_tail L entry e args) w = (0, w\<lparr>usb := d'', cb_data := c'\<rparr>)"
    using 1(1) 2(1) 3(1)
    unfolding load_tail_def load_args_def Let_def
    by (simp only: run_state_basic run_gets prod.case len tb fst_conv snd_conv run_state_or_fail run_state_if tramp_bytes_def) simp
  with 1(3) 2(3) 3 show ?thesis by (auto simp: boot_blocks_def store_def)
qed

text \<open>The whole load without an initial ramdisk.\<close>

lemma load_elf:
  fixes w :: "('b, 'c) world"
  defines "lim \<equiv> load_limit (hnd w)"
  assumes "ready (usb w)" "h_usb (hnd w) = h" "files w name = Some elf" "header_ok elf" "elf_segments elf = Some segs"
    and "CHR 0x00 \<notin> set name" "CHR 0x00 \<notin> set args"
  defines "blocks \<equiv> segs @ boot_blocks (uninit w) (e_entry (dec_ehdr (fread_at elf 0 52))) (image_end segs 0) [name, args]"
  assumes "\<forall>s \<in> set blocks. below lim s"
  shows "\<exists>d c. run_state (load_elf L name args None) w = (0, w\<lparr>usb := d, cb_data := c\<rparr>)
     \<and> jumped_to d = Some (tramp_base (image_end segs 0) [name, args]) \<and> mem d = store blocks (mem (usb w))"
proof -
  let ?entry = "e_entry (dec_ehdr (fread_at elf 0 52))" and ?e = "image_end segs 0"
  obtain d c where 1: "run_state (Elfldr.load_elf_image L elf) w = ((0, ?entry, ?e), w\<lparr>usb := d, cb_data := c\<rparr>)"
      "ready d" "mem d = store segs (mem (usb w))"
    using load_elf_image [OF assms(2,3,5,6)] assms(10) by (auto simp: lim_def blocks_def)
  let ?w = "w\<lparr>usb := d, cb_data := c\<rparr>"
  obtain d' c' where 2: "run_state (Elfldr.load_tail L ?entry ?e [name, args]) ?w = (0, ?w\<lparr>usb := d', cb_data := c'\<rparr>)"
      "jumped_to d' = Some (tramp_base ?e [name, args])"
      "mem d' = store (boot_blocks (uninit ?w) ?entry ?e [name, args]) (mem (usb ?w))"
    using load_tail [of ?w "[name, args]" ?entry ?e] 1(2) assms(3,7,8,10) by (auto simp: lim_def blocks_def)
  with 1 assms(4) show ?thesis
    by (intro exI [of _ d'] exI [of _ c']) (simp add: load_elf_def host_simps store_def blocks_def)
qed

end

section \<open>The firmware behind the bus\<close>

lemma control_start:
  assumes "quiet d"
  shows "control D (word_req 5 addr) d = (before_req (word_req 5 addr) d)\<lparr>jumped := Some addr, rx_size := 0\<rparr>"
proof -
  have q: "ep0state d = USB_EP0_IDLE" "USB_Version d = USB_HS" using assms by (auto simp: quiet_def)
  have hw: "s\<lparr>hw := hw s, jumped := j\<rparr> = s\<lparr>jumped := j\<rparr>" for s :: device and j by (cases s) simp
  show ?thesis
    by (subst control_vendor [OF assms, where d' = "(before_req (word_req 5 addr) d)\<lparr>jumped := Some addr\<rparr>"])
      (use q req_word_word_req [of 5 addr] in \<open>simp_all add: usbHandleVendorReq_def PROGRAM_START2_Handle_def
        host_simps before_req_def word_req_def reg_defs usb_reg_defs ctl_io\<close>)
qed

lemma link_go:
  fixes w :: "(device, 'c) world"
  assumes "ready (usb w)" "h_usb (hnd w) = h"
  shows "\<exists>d. run_state (ingenic_go (link D) addr) w = (0, w\<lparr>usb := d\<rparr>) \<and> jumped d = Some addr \<and> ram d = ram (usb w)"
proof -
  have "quiet (usb w)" using assms(1) by (simp add: ready_def)
  from control_start [OF this, of D addr] show ?thesis
    by (intro exI [of _ "control D (word_req 5 addr) (usb w)"]) (simp add: ingenic_go_def ingenic_wordop_def host_simps run_vendor vr_defs setup_packet_def word_req_def [symmetric]
      before_req_def)
qed

interpretation fw_boot: boot_target "link D" h ram ready jumped
  by unfold_locales (rule link_go)

section \<open>What the kernel finds\<close>

definition ram_bytes :: "(u32 \<Rightarrow> u8) \<Rightarrow> u32 \<Rightarrow> nat \<Rightarrow> bytes" where
  "ram_bytes m a n = List.map (\<lambda>i. m (a + of_nat i)) [0..<n]"

definition ram_words :: "(u32 \<Rightarrow> u8) \<Rightarrow> u32 \<Rightarrow> nat \<Rightarrow> u32 list" where
  "ram_words m a n = List.map (\<lambda>k. word_at k (ram_bytes m a (4 * n))) [0..<n]"

lemma ram_bytes_put: "length bs \<le> 2 ^ 32 \<Longrightarrow> ram_bytes (mem_put a bs m) a (length bs) = bs"
  by (rule nth_equalityI) (simp_all add: ram_bytes_def mem_put_inside)

lemma ram_words_put:
  "length ws < 2 ^ 30 \<Longrightarrow> ram_words (mem_put a (concat (List.map enc_u32 ws)) m) a (length ws) = ws"
  using ram_bytes_put [of "concat (List.map enc_u32 ws)" a m]
  by (intro nth_equalityI) (simp_all add: ram_words_def u32c.length_encs word_at_nth)

lemma mem_put_below:
  assumes "unat a + length bs < 2 ^ 32" "unat x < unat a \<or> unat a + length bs \<le> unat x"
  shows "mem_put a bs m x = m x"
proof (rule mem_put_outside)
  show "x \<notin> (\<lambda>i. a + of_nat i) ` {..<length bs}"
  proof
    assume "x \<in> (\<lambda>i. a + of_nat i) ` {..<length bs}"
    then obtain i where i: "i < length bs" "x = a + of_nat i" by auto
    with assms(1) have "unat x = unat a + i" by (simp add: unat_word_ariths unat_of_nat)
    with i assms show False by linarith
  qed
qed

lemma ram_bytes_put_other:
  assumes "unat a + length bs < 2 ^ 32" "unat b + n \<le> unat a"
  shows "ram_bytes (mem_put a bs m) b n = ram_bytes m b n"
proof -
  have "mem_put a bs m (b + of_nat i) = m (b + of_nat i)" if "i < n" for i
  proof (rule mem_put_below [OF assms(1)])
    have "unat (b + of_nat i) = unat b + i"
      using that assms by (simp add: unat_word_ariths unat_of_nat)
    then show "unat (b + of_nat i) < unat a \<or> unat a + length bs \<le> unat (b + of_nat i)" using that assms(2) by simp
  qed
  then show ?thesis by (simp add: ram_bytes_def)
qed

lemma unat_ALIGN:
  assumes "unat x \<le> 2 ^ 32 - 4096"
  shows "unat (ALIGN_addr x) = (unat x + 4095) div 4096 * 4096" "unat x \<le> unat (ALIGN_addr x)"
proof -
  have m: "(4095 :: u32) = mask 12" by (simp add: mask_eq_exp_minus_1)
  have "ALIGN_addr x = push_bit 12 (drop_bit 12 (x + 4095))"
    unfolding ALIGN_addr_def m by (rule bit_word_eqI) (auto simp: bit_simps)
  moreover have "unat (x + 4095) = unat x + 4095" using assms by (simp add: unat_word_ariths)
  moreover have "(unat x + 4095) div 4096 * 4096 < 2 ^ 32" using assms by simp
  ultimately show u: "unat (ALIGN_addr x) = (unat x + 4095) div 4096 * 4096"
    by (simp add: unat_word_ariths(2) unat_div push_bit_eq_mult drop_bit_eq_div)
  have "(unat x + 4095) mod 4096 < 4096" by simp
  with div_mult_mod_eq [of "unat x + 4095" 4096] show "unat x \<le> unat (ALIGN_addr x)" unfolding u by linarith
qed

lemma image_end_le: "\<forall>s \<in> set segs. below lim s \<Longrightarrow> e \<le> lim \<Longrightarrow> image_end segs e \<le> lim"
proof (induction segs arbitrary: e)
  case (Cons s segs)
  have "seg_end s \<le> lim" using below_limit [of lim "fst s" "snd s"] Cons.prems(1) by (simp add: seg_end_def)
  with Cons show ?case by (simp add: image_end_def max_def)
qed (simp add: image_end_def)

text \<open>C1.  \<^verbatim>\<open>load_elf\<close> without an initial ramdisk, run against the firmware of the second stage over
  the bus, for an ELF executable whose segments, arguments and trampoline lie below the limit
  of the loader: it returns 0, the device has jumped to the trampoline, and the code found
  there, run on any registers, enters the kernel at its entry point with the number of words of
  the command line in \<^verbatim>\<open>a0\<close> and the address of the argument block in \<^verbatim>\<open>a1\<close>; the argument block is
  there, and below it the memory is what storing the segments in order gives.\<close>

theorem kernel_boots:
  fixes w :: "(device, 'c) world" and r :: "nat \<Rightarrow> u32"
  defines "lim \<equiv> load_limit (hnd w)"
  assumes "ready (usb w)" "files w name = Some elf" "header_ok elf" "elf_segments elf = Some segs"
    and "CHR 0x00 \<notin> set name" "CHR 0x00 \<notin> set args" "unat lim \<le> 2 ^ 32 - 4096"
  defines "entry \<equiv> e_entry (dec_ehdr (fread_at elf 0 52))" and "e \<equiv> image_end segs 0" and "all_args \<equiv> [name, args]"
  assumes "\<forall>s \<in> set (segs @ boot_blocks (uninit w) entry e all_args). below lim s"
  shows "\<exists>d c r'. run_state (load_elf (link D) name args None) w = (0, w\<lparr>usb := d, cb_data := c\<rparr>)
     \<and> jumped d = Some (tramp_base e all_args)
     \<and> mips_run (ram_words (ram d) (tramp_base e all_args) 12) r = Some (entry, r')
     \<and> r' 4 = of_nat (count_args all_args) \<and> r' 5 = ALIGN_addr e \<and> r' 6 = 0 \<and> r' 7 = 0
     \<and> ram_bytes (ram d) (ALIGN_addr e) (args_len all_args) = args_block (uninit w) (ALIGN_addr e) all_args
     \<and> (\<forall>x. unat x < unat (ALIGN_addr e) \<longrightarrow> ram d x = store segs (ram (usb w)) x)"
proof -
  let ?ab = "ALIGN_addr e" and ?tb = "tramp_base e all_args"
  let ?A = "args_block (uninit w) ?ab all_args" and ?T = "tramp_bytes entry e all_args"
  obtain d c where run: "run_state (load_elf (link D) name args None) w = (0, w\<lparr>usb := d, cb_data := c\<rparr>)"
      "jumped d = Some ?tb" "ram d = store (segs @ boot_blocks (uninit w) entry e all_args) (ram (usb w))"
    using fw_boot.load_elf [of w "h_usb (hnd w)" name elf segs args D] assms
    by (auto simp: lim_def entry_def e_def all_args_def)
  have ram: "ram d = mem_put ?tb ?T (mem_put ?ab ?A (store segs (ram (usb w))))"
    by (simp add: run(3) store_def boot_blocks_def)
  have lA: "length ?A = args_len all_args" using assms(6,7) by (simp add: length_args_block all_args_def)
  have bA: "below lim (?ab, ?A)" and bT: "below lim (?tb, ?T)" using assms(12) by (auto simp: boot_blocks_def)
  have small: "unat ?ab + length ?A < 2 ^ 32" "unat ?tb + length ?T < 2 ^ 32" "unat ?ab + length ?A \<le> 2 ^ 32 - 4096"
    using bA bT assms(8) by (auto simp: below_def)
  have "unat (?ab + of_nat (length ?A)) = unat ?ab + length ?A" using below_limit [OF bA] by simp
  then have sep: "unat ?ab + length ?A \<le> unat ?tb"
    using unat_ALIGN(2) [of "?ab + of_nat (args_len all_args)"] small(3) lA by (simp add: tramp_base_def)
  have words: "ram_words (ram d) ?tb 12 = make_trampoline (of_nat (count_args all_args)) ?ab entry"
  proof -
    have "length (make_trampoline (of_nat (count_args all_args)) ?ab entry) = 12" by (simp add: make_trampoline_code)
    then show ?thesis
      using ram_words_put [of "make_trampoline (of_nat (count_args all_args)) ?ab entry" ?tb] by (simp add: ram tramp_bytes_def)
  qed
  have block: "ram_bytes (ram d) ?ab (args_len all_args) = ?A"
    using ram_bytes_put_other [OF small(2) sep] ram_bytes_put [of ?A ?ab] small(1) by (simp add: ram lA)
  have rest: "ram d x = store segs (ram (usb w)) x" if "unat x < unat ?ab" for x
    using that sep small by (simp add: ram mem_put_below)
  obtain r' where "mips_run (ram_words (ram d) ?tb 12) r = Some (entry, r')" "r' 4 = of_nat (count_args all_args)"
      "r' 5 = ?ab" "r' 6 = 0" "r' 7 = 0"
    using trampoline_code [of "of_nat (count_args all_args)" ?ab entry r] unfolding words by blast
  with run(1,2) block rest show ?thesis by blast
qed

text \<open>A minimal kernel: one segment of four bytes in the file and eight in memory.\<close>

definition demo_elf :: bytes where
  "demo_elf = [0x7F, 0x45, 0x4C, 0x46, 1, 1, 1, 0, 0, 0, 0, 0, 0, 0, 0, 0,
     2, 0, 8, 0, 1, 0, 0, 0, 0x00, 0x40, 0x00, 0x80, 52, 0, 0, 0, 0, 0, 0, 0, 0, 0, 0, 0, 52, 0, 32, 0, 1, 0, 0, 0, 0, 0, 0, 0,
     1, 0, 0, 0, 84, 0, 0, 0, 0x00, 0x40, 0x00, 0x80, 0x00, 0x40, 0x00, 0x80, 4, 0, 0, 0, 8, 0, 0, 0, 7, 0, 0, 0, 0, 16, 0, 0,
     0xDE, 0xAD, 0xBE, 0xEF]"

definition demo_kernel :: "string \<Rightarrow> c_file option" where
  "demo_kernel name = (if name = ''vmlinux'' then Some \<lparr>f_data = demo_elf, f_readable = 88\<rparr> else None)"

lemma demo_elf_header: "header_ok \<lparr>f_data = demo_elf, f_readable = 88\<rparr>"
    "e_entry (dec_ehdr (fread_at \<lparr>f_data = demo_elf, f_readable = 88\<rparr> 0 52)) = 0x80004000"
  by (simp_all add: header_ok_def fread_at_def demo_elf_def dec_ehdr_def slice_def valid_ident_def dec_u16_def dec_u32_def Let_def)

lemma demo_elf_segments:
  "elf_segments \<lparr>f_data = demo_elf, f_readable = 88\<rparr> = Some [(0x80004000, [0xDE, 0xAD, 0xBE, 0xEF, 0, 0, 0, 0])]"
  by (simp add: elf_segments_def fread_at_def demo_elf_def dec_ehdr_def dec_phdr_def slice_def dec_u16_def dec_u32_def
    Let_def) (simp add: numeral_eq_Suc)

lemma kernel_boots_witness:
  "\<exists>d c r'. run_state (load_elf (link (\<lambda>_. null_driver)) ''vmlinux'' ''a=1 b'' None) (demo_world idle_device demo_kernel)
       = (0, (demo_world idle_device demo_kernel)\<lparr>usb := d, cb_data := c\<rparr>)
     \<and> jumped d = Some 0x80006000
     \<and> mips_run (ram_words (ram d) 0x80006000 12) (\<lambda>_. 0) = Some (0x80004000, r') \<and> r' 4 = 3 \<and> r' 5 = 0x80005000
     \<and> ram d 0x80004003 = 0xEF"
proof -
  let ?w = "demo_world idle_device demo_kernel"
  let ?segs = "[(0x80004000 :: u32, [0xDE, 0xAD, 0xBE, 0xEF, 0, 0, 0, 0 :: u8])]" and ?args = "[''vmlinux'', ''a=1 b'']"
  have lim: "load_limit demo_handle = 0x83C00000"
    by (simp add: load_limit_def ingenic_sdram_size_def demo_handle_def SDRAM_BASE_def STAGE2_CODESIZE_def)
  have e: "image_end ?segs 0 = 0x80004008" by (simp add: image_end_def seg_end_def)
  have ab: "ALIGN_addr 0x80004008 = 0x80005000" by (simp add: ALIGN_addr_def)
  have n: "count_args ?args = 3" "args_len ?args = 26" by (simp_all add: count_args_def args_len_def)
  have tb: "tramp_base 0x80004008 ?args = 0x80006000" by (simp add: tramp_base_def ab n ALIGN_addr_def)
  have elf: "files ?w ''vmlinux'' = Some \<lparr>f_data = demo_elf, f_readable = 88\<rparr>" by (simp add: demo_kernel_def)
  have fits: "\<forall>s \<in> set (?segs @ boot_blocks (uninit ?w) 0x80004000 0x80004008 ?args). below 0x83C00000 s"
    using length_args_block [of ?args "uninit ?w" "0x80005000"]
    by (simp add: boot_blocks_def below_def length_tramp_bytes ab tb n)
  have st: "store ?segs m 0x80004003 = 0xEF" for m by (simp add: store_def)
  show ?thesis
    using kernel_boots [of ?w "''vmlinux''" _ ?segs "''a=1 b''" "\<lambda>_. null_driver" "\<lambda>_. 0", OF _ elf demo_elf_header(1) demo_elf_segments]
      fits ready_idle st
    by (simp add: lim e ab tb n demo_elf_header(2)) (fastforce dest: spec [of _ "0x80004003 :: u32"])
qed

end
