(* ===== verification/Nandflash_4740.thy ===== *)
theory Nandflash_4740
  imports Boothandler "HOL-Library.Signed_Division"
begin

unbundle bit_operations_syntax

text \<open>
  The NAND driver of the JZ4740, \<^verbatim>\<open>usbboot/xburst_stage2/nandflash_4740.c\<close>, over the registers of
  the parameter \<^verbatim>\<open>mmio\<close>.  The driver's statics are the record \<^verbatim>\<open>nand_vars\<close> of the firmware state.
  A wait for the hardware and a loop over pages take the number \<^verbatim>\<open>P\<close> of turns they may make; one
  that would need more marks the firmware as hung.  An index outside \<^verbatim>\<open>oob_buf\<close>, \<^verbatim>\<open>badbuf\<close> or a bulk
  buffer, a division by zero and a call of \<^verbatim>\<open>read_proc\<close> or \<^verbatim>\<open>write_proc\<close> before the
  initialisation set \<^verbatim>\<open>fw_ub\<close>.  Messages to the serial port are left out.
\<close>

section \<open>Registers and ports\<close>

definition GPIO_BASE :: u32 where "GPIO_BASE = 0xB0010000"
definition EMC_BASE :: u32 where "EMC_BASE = 0xB3010000"
definition EMC_SMCR1 :: u32 where "EMC_SMCR1 = EMC_BASE + 0x14"
definition EMC_NFCSR :: u32 where "EMC_NFCSR = EMC_BASE + 0x050"
definition EMC_NFECR :: u32 where "EMC_NFECR = EMC_BASE + 0x100"
definition EMC_NFPAR0 :: u32 where "EMC_NFPAR0 = EMC_BASE + 0x108"
definition EMC_NFINTS :: u32 where "EMC_NFINTS = EMC_BASE + 0x114"
definition EMC_NFERR :: "nat \<Rightarrow> u32" where "EMC_NFERR k = EMC_BASE + 0x11c + 4 * of_nat k"

lemmas nand_reg_defs = GPIO_BASE_def EMC_BASE_def EMC_SMCR1_def EMC_NFCSR_def EMC_NFECR_def EMC_NFPAR0_def
  EMC_NFINTS_def EMC_NFERR_def

definition CMD_READA :: u8 where "CMD_READA = 0x00"
definition CMD_READC :: u8 where "CMD_READC = 0x50"
definition CMD_ERASE_SETUP :: u8 where "CMD_ERASE_SETUP = 0x60"
definition CMD_ERASE :: u8 where "CMD_ERASE = 0xD0"
definition CMD_READ_STATUS :: u8 where "CMD_READ_STATUS = 0x70"
definition CMD_CONFIRM :: u8 where "CMD_CONFIRM = 0x30"
definition CMD_SEQIN :: u8 where "CMD_SEQIN = 0x80"
definition CMD_PGPROG :: u8 where "CMD_PGPROG = 0x10"
definition CMD_READID :: u8 where "CMD_READID = 0x90"

lemmas nand_cmd_defs = CMD_READA_def CMD_READC_def CMD_ERASE_SETUP_def CMD_ERASE_def CMD_READ_STATUS_def
  CMD_CONFIRM_def CMD_SEQIN_def CMD_PGPROG_def CMD_READID_def

definition PAR_SIZE :: nat where "PAR_SIZE = 9"
definition ECC_BLOCK :: nat where "ECC_BLOCK = 512"

definition nf_gets :: "(nand_vars \<Rightarrow> 'a) \<Rightarrow> ('h, 'a) fw" where
  "nf_gets f = fw_gets (\<lambda>s. f (nf s))"

definition nf_modify :: "(nand_vars \<Rightarrow> nand_vars) \<Rightarrow> ('h, unit) fw" where
  "nf_modify f = State_Monad.update (\<lambda>s. s\<lparr>nf := f (nf s)\<rparr>)"

definition hang :: "('h, unit) fw" where
  "hang = State_Monad.update (\<lambda>s. s\<lparr>hung := True\<rparr>)"

lemma run_nf_gets [host_simps]: "run_state (nf_gets f) s = (f (nf s), s)"
  by (simp add: nf_gets_def host_simps)

lemma run_nf_modify [host_simps]: "run_state (nf_modify f) s = ((), s\<lparr>nf := f (nf s)\<rparr>)"
  by (simp add: nf_modify_def host_simps)

lemma run_hang [host_simps]: "run_state hang s = ((), s\<lparr>hung := True\<rparr>)"
  by (simp add: hang_def host_simps)

definition nand_cmd :: "'h mmio \<Rightarrow> u8 \<Rightarrow> ('h, unit) fw" where
  "nand_cmd M n = do { port \<leftarrow> nf_gets nv_cmdport; jz_writeb M port n }"

definition nand_addr :: "'h mmio \<Rightarrow> u8 \<Rightarrow> ('h, unit) fw" where
  "nand_addr M n = do { port \<leftarrow> nf_gets nv_addrport; jz_writeb M port n }"

definition nand_data8 :: "'h mmio \<Rightarrow> ('h, u8) fw" where
  "nand_data8 M = do { port \<leftarrow> nf_gets nv_dataport; jz_readb M port }"

text \<open>\<^verbatim>\<open>while (!cond) ;\<close>\<close>

fun wait_for :: "nat \<Rightarrow> ('h, bool) fw \<Rightarrow> ('h, unit) fw" where
  "wait_for 0 ready = hang"
| "wait_for (Suc n) ready = do { r \<leftarrow> ready; if r then State_Monad.return () else wait_for n ready }"

text \<open>\<^verbatim>\<open>__nand_sync\<close>: wait up to 100000 turns for the pin to fall, then for it to rise.\<close>

definition ready_pin :: "'h mmio \<Rightarrow> ('h, bool) fw" where
  "ready_pin M = do { v \<leftarrow> jz_readl M (GPIO_BASE + 0x200); State_Monad.return (v AND 0x40000000 \<noteq> 0) }"

fun wait_busy :: "'h mmio \<Rightarrow> nat \<Rightarrow> ('h, unit) fw" where
  "wait_busy M 0 = do { r \<leftarrow> ready_pin M; State_Monad.return () }"
| "wait_busy M (Suc n) = do { r \<leftarrow> ready_pin M; if r then wait_busy M n else State_Monad.return () }"

definition nand_sync :: "'h mmio \<Rightarrow> nat \<Rightarrow> ('h, unit) fw" where
  "nand_sync M P = do { wait_busy M 100000; wait_for P (ready_pin M) }"

definition EMC_CSN :: "u32 \<Rightarrow> u32" where
  "EMC_CSN t = (if t = 0 then 0xb8000000 else if t = 1 then 0xb4000000 else if t = 2 then 0xa8000000 else 0xa4000000)"

definition select_chip :: "u32 \<Rightarrow> ('h, unit) fw" where
  "select_chip block = do {
     h \<leftarrow> fw_gets Hand;
     if hd_nand_bpc h = 0 then State_Monad.return ()
     else let base = EMC_CSN ((block div hd_nand_bpc h) mod 4)
       in nf_modify (\<lambda>v. v\<lparr>nv_addrport := base + 0x10000, nv_dataport := base, nv_cmdport := base + 0x8000\<rparr>) }"

text \<open>\<^verbatim>\<open>page / ppb\<close>\<close>

definition block_nr :: "u32 \<Rightarrow> ('h, u32) fw" where
  "block_nr page = do { p \<leftarrow> nf_gets nv_ppb; fw_mark (p = 0); State_Monad.return (page div p) }"

definition first_of_block :: "u32 \<Rightarrow> ('h, bool) fw" where
  "first_of_block page = do { p \<leftarrow> nf_gets nv_ppb; fw_mark (p = 0); State_Monad.return (page mod p = 0) }"

section \<open>Pins\<close>

definition GPIO_PX :: "u32 \<Rightarrow> u32 \<Rightarrow> u32" where
  "GPIO_PX reg p = GPIO_BASE + (reg + p * 0x100)"

definition pin_port :: "u32 \<Rightarrow> u32" where "pin_port n = word_of_int (sint n sdiv 32)"
definition pin_mask :: "u32 \<Rightarrow> u32" where "pin_mask n = push_bit (unat (word_of_int (sint n smod 32) :: u32)) 1"

definition gpio_set_pin :: "'h mmio \<Rightarrow> u32 \<Rightarrow> ('h, unit) fw" where
  "gpio_set_pin M n = jz_writel M (GPIO_PX 0x14 (pin_port n)) (pin_mask n)"

definition gpio_clear_pin :: "'h mmio \<Rightarrow> u32 \<Rightarrow> ('h, unit) fw" where
  "gpio_clear_pin M n = jz_writel M (GPIO_PX 0x18 (pin_port n)) (pin_mask n)"

definition gpio_as_output :: "'h mmio \<Rightarrow> u32 \<Rightarrow> ('h, unit) fw" where
  "gpio_as_output M n = do {
     jz_writel M (GPIO_PX 0x48 (pin_port n)) (pin_mask n);
     jz_writel M (GPIO_PX 0x58 (pin_port n)) (pin_mask n);
     jz_writel M (GPIO_PX 0x64 (pin_port n)) (pin_mask n) }"

definition gpio_disable_pull :: "'h mmio \<Rightarrow> u32 \<Rightarrow> ('h, unit) fw" where
  "gpio_disable_pull M n = jz_writel M (GPIO_PX 0x34 (pin_port n)) (pin_mask n)"

text \<open>\<^verbatim>\<open>__gpio_as_nand\<close>\<close>

definition nand_init_gpio :: "'h mmio \<Rightarrow> ('h, unit) fw" where
  "nand_init_gpio M = do {
     jz_writel M (GPIO_PX 0x44 1) 0x02018000;
     jz_writel M (GPIO_PX 0x58 1) 0x02018000;
     jz_writel M (GPIO_PX 0x34 1) 0x02018000;
     jz_writel M (GPIO_PX 0x44 2) 0x30000000;
     jz_writel M (GPIO_PX 0x58 2) 0x30000000;
     jz_writel M (GPIO_PX 0x34 2) 0x30000000;
     jz_writel M (GPIO_PX 0x48 2) 0x40000000;
     jz_writel M (GPIO_PX 0x58 2) 0x40000000;
     jz_writel M (GPIO_PX 0x68 2) 0x40000000;
     jz_writel M (GPIO_PX 0x34 2) 0x40000000;
     jz_writel M (GPIO_PX 0x44 1) 0x00400000;
     jz_writel M (GPIO_PX 0x58 1) 0x00400000 }"

text \<open>\<^verbatim>\<open>if (wp_pin) __gpio_set_pin(wp_pin)\<close> and its counterpart.\<close>

definition wp_set :: "'h mmio \<Rightarrow> ('h, unit) fw" where
  "wp_set M = do { n \<leftarrow> nf_gets nv_wp_pin; if n \<noteq> 0 then gpio_set_pin M n else State_Monad.return () }"

definition wp_clear :: "'h mmio \<Rightarrow> ('h, unit) fw" where
  "wp_clear M = do { n \<leftarrow> nf_gets nv_wp_pin; if n \<noteq> 0 then gpio_clear_pin M n else State_Monad.return () }"

section \<open>Moving data\<close>

text \<open>Where read data go: the static \<^verbatim>\<open>oob_buf\<close>, or the buffer the caller passed.\<close>

datatype dest = To_Oob | To_Buf buf_ptr

definition store_byte :: "dest \<Rightarrow> int \<Rightarrow> u8 \<Rightarrow> ('h, unit) fw" where
  "store_byte dst k v = (case dst of
     To_Oob \<Rightarrow> do { fw_mark (k < 0 \<or> k \<ge> 256); nf_modify (\<lambda>n. n\<lparr>nv_oob_buf := (nv_oob_buf n)(nat k := v)\<rparr>) }
   | To_Buf In_Buf \<Rightarrow> do {
       fw_mark (k < 0 \<or> k \<ge> int BULK_BUF_BYTES);
       State_Monad.update (\<lambda>s. s\<lparr>bulk_in_buf := (bulk_in_buf s)(nat k := v)\<rparr>) }
   | To_Buf (Ram_At a) \<Rightarrow> State_Monad.update (\<lambda>s. s\<lparr>ram := (ram s)(a + word_of_int k := v)\<rparr>))"

definition load_byte :: "buf_ptr \<Rightarrow> int \<Rightarrow> ('h, u8) fw" where
  "load_byte buf k = (case buf of
     In_Buf \<Rightarrow> do { fw_mark (k < 0 \<or> k \<ge> int BULK_BUF_BYTES); fw_gets (\<lambda>s. bulk_in_buf s (nat k)) }
   | Ram_At a \<Rightarrow> fw_gets (\<lambda>s. ram s (a + word_of_int k)))"

definition oob_byte :: "u32 \<Rightarrow> ('h, u8) fw" where
  "oob_byte k = do { fw_mark (unat k \<ge> 256); nf_gets (\<lambda>n. nv_oob_buf n (unat k)) }"

fun nand_data_read8 :: "'h mmio \<Rightarrow> dest \<Rightarrow> int \<Rightarrow> nat \<Rightarrow> ('h, unit) fw" where
  "nand_data_read8 M dst off 0 = State_Monad.return ()"
| "nand_data_read8 M dst off (Suc n) = do {
     b \<leftarrow> nand_data8 M;
     store_byte dst off b;
     nand_data_read8 M dst (off + 1) n }"

fun nand_data_read16 :: "'h mmio \<Rightarrow> dest \<Rightarrow> int \<Rightarrow> nat \<Rightarrow> ('h, unit) fw" where
  "nand_data_read16 M dst off 0 = State_Monad.return ()"
| "nand_data_read16 M dst off (Suc n) = do {
     port \<leftarrow> nf_gets nv_dataport;
     w \<leftarrow> jz_readw M port;
     store_byte dst off (ucast w);
     store_byte dst (off + 1) (ucast (drop_bit 8 w));
     nand_data_read16 M dst (off + 2) n }"

definition read_proc :: "'h mmio \<Rightarrow> dest \<Rightarrow> int \<Rightarrow> u32 \<Rightarrow> ('h, unit) fw" where
  "read_proc M dst off count = do {
     p \<leftarrow> nf_gets nv_proc;
     case p of No_Proc \<Rightarrow> fw_mark True
     | Proc8 \<Rightarrow> nand_data_read8 M dst off (nat (sint count))
     | Proc16 \<Rightarrow> nand_data_read16 M dst off (nat (sint count div 2)) }"

fun nand_data_write8 :: "'h mmio \<Rightarrow> (nat \<Rightarrow> u8) \<Rightarrow> nat \<Rightarrow> nat \<Rightarrow> ('h, unit) fw" where
  "nand_data_write8 M buf off 0 = State_Monad.return ()"
| "nand_data_write8 M buf off (Suc n) = do {
     port \<leftarrow> nf_gets nv_dataport;
     jz_writeb M port (buf off);
     nand_data_write8 M buf (off + 1) n }"

fun nand_data_write16 :: "'h mmio \<Rightarrow> (nat \<Rightarrow> u8) \<Rightarrow> nat \<Rightarrow> nat \<Rightarrow> ('h, unit) fw" where
  "nand_data_write16 M buf off 0 = State_Monad.return ()"
| "nand_data_write16 M buf off (Suc n) = do {
     port \<leftarrow> nf_gets nv_dataport;
     jz_writew M port (ucast (buf off) OR push_bit 8 (ucast (buf (off + 1))));
     nand_data_write16 M buf (off + 2) n }"

text \<open>\<^verbatim>\<open>write_proc\<close> from a buffer of \<^verbatim>\<open>bound\<close> bytes.\<close>

definition write_proc :: "'h mmio \<Rightarrow> (nat \<Rightarrow> u8) \<Rightarrow> nat \<Rightarrow> nat \<Rightarrow> u32 \<Rightarrow> ('h, unit) fw" where
  "write_proc M buf bound off count = do {
     fw_mark (0 < sint count \<and> int off + sint count > int bound);
     p \<leftarrow> nf_gets nv_proc;
     case p of No_Proc \<Rightarrow> fw_mark True
     | Proc8 \<Rightarrow> nand_data_write8 M buf off (nat (sint count))
     | Proc16 \<Rightarrow> nand_data_write16 M buf off (nat (sint count div 2)) }"

text \<open>The bytes of a row address, lowest first: \<^verbatim>\<open>for (j = 0; j < row; j++)\<close>.\<close>

fun send_row :: "'h mmio \<Rightarrow> u32 \<Rightarrow> nat \<Rightarrow> ('h, unit) fw" where
  "send_row M rowaddr 0 = State_Monad.return ()"
| "send_row M rowaddr (Suc n) = do {
     nand_addr M (ucast (rowaddr AND 0xff));
     send_row M (drop_bit 8 rowaddr) n }"

definition send_page :: "'h mmio \<Rightarrow> u32 \<Rightarrow> ('h, unit) fw" where
  "send_page M page = do { n \<leftarrow> nf_gets nv_row; send_row M page (unat n) }"

definition unless_small :: "('h, unit) fw \<Rightarrow> ('h, unit) fw" where
  "unless_small f = do { ps \<leftarrow> nf_gets nv_pagesize; if ps \<noteq> 512 then f else State_Monad.return () }"

section \<open>Initialisation and identification\<close>

definition nand_enable_4740 :: "'h mmio \<Rightarrow> u32 \<Rightarrow> ('h, unit) fw" where
  "nand_enable_4740 M csn = do { v \<leftarrow> jz_readl M EMC_NFCSR; jz_writel M EMC_NFCSR (v OR 3) }"

definition nand_disable_4740 :: "'h mmio \<Rightarrow> u32 \<Rightarrow> ('h, unit) fw" where
  "nand_disable_4740 M csn = do { v \<leftarrow> jz_readl M EMC_NFCSR; jz_writel M EMC_NFCSR (v AND NOT 2) }"

definition nand_query_4740 :: "'h mmio \<Rightarrow> nat \<Rightarrow> ('h, unit) fw" where
  "nand_query_4740 M P = do {
     nand_sync M P;
     nand_cmd M CMD_READID;
     nand_addr M 0;
     nand_data_read8 M (To_Buf In_Buf) 0 5 }"

definition nand_init_4740 :: "'h mmio \<Rightarrow> u32 \<Rightarrow> u32 \<Rightarrow> u32 \<Rightarrow> u32 \<Rightarrow> u32 \<Rightarrow> u32 \<Rightarrow> u32 \<Rightarrow> u32 \<Rightarrow> ('h, unit) fw" where
  "nand_init_4740 M bus_width row_cycle page_size page_per_block bbpage bbpos force ep = do {
     h \<leftarrow> fw_gets Hand;
     nf_modify (\<lambda>v. v\<lparr>nv_bus := bus_width, nv_row := row_cycle, nv_pagesize := page_size,
       nv_oobsize := word_of_int (sint page_size sdiv 32), nv_ppb := page_per_block, nv_bb_pos := bbpos,
       nv_bb_page := bbpage, nv_force_erase := force, nv_ecc_pos := ep, nv_wp_pin := hd_nand_wppin h\<rparr>);
     (if hd_nand_wppin h \<noteq> 0 then do {
        gpio_as_output M (hd_nand_wppin h);
        gpio_disable_pull M (hd_nand_wppin h) }
      else State_Monad.return ());
     nand_init_gpio M;
     select_chip 0;
     jz_writel M EMC_SMCR1 0x0fff7700;
     nf_modify (\<lambda>v. v\<lparr>nv_proc := (if bus_width = 8 then Proc8 else Proc16)\<rparr>) }"

section \<open>Spare bytes and bad blocks\<close>

definition read_oob :: "'h mmio \<Rightarrow> nat \<Rightarrow> dest \<Rightarrow> int \<Rightarrow> u32 \<Rightarrow> u32 \<Rightarrow> ('h, unit) fw" where
  "read_oob M P dst off len pg = do {
     b \<leftarrow> block_nr pg;
     select_chip b;
     ps \<leftarrow> nf_gets nv_pagesize;
     let coladdr = (if ps = 512 then 0 else ps);
     nand_cmd M (if ps = 512 then CMD_READC else CMD_READA);
     nand_addr M (ucast (coladdr AND 0xff));
     unless_small (nand_addr M (ucast (drop_bit 8 coladdr)));
     send_page M pg;
     unless_small (nand_cmd M CMD_CONFIRM);
     nand_sync M P;
     read_proc M dst off len;
     (if ps = 512 then nand_sync M P else State_Monad.return ()) }"

fun oob_loop :: "'h mmio \<Rightarrow> nat \<Rightarrow> int \<Rightarrow> u32 \<Rightarrow> nat \<Rightarrow> ('h, u32) fw" where
  "oob_loop M P off cur_page 0 = State_Monad.return cur_page"
| "oob_loop M P off cur_page (Suc n) = do {
     len \<leftarrow> nf_gets nv_oobsize;
     read_oob M P (To_Buf In_Buf) off len cur_page;
     oob_loop M P (off + sint len) (cur_page + 1) n }"

definition nand_read_oob_4740 :: "'h mmio \<Rightarrow> nat \<Rightarrow> u32 \<Rightarrow> u32 \<Rightarrow> ('h, u32) fw" where
  "nand_read_oob_4740 M P startpage pagenum = oob_loop M P 0 startpage (unat pagenum)"

text \<open>\<^verbatim>\<open>read_oob(oob_buf, oobsize, pg)\<close>\<close>

definition fetch_oob :: "'h mmio \<Rightarrow> nat \<Rightarrow> u32 \<Rightarrow> ('h, unit) fw" where
  "fetch_oob M P pg = do { len \<leftarrow> nf_gets nv_oobsize; read_oob M P To_Oob 0 len pg }"

text \<open>The four tests of the absolute detection, in order, up to the first page that is marked.\<close>

fun any_marked :: "'h mmio \<Rightarrow> nat \<Rightarrow> u32 list \<Rightarrow> ('h, bool) fw" where
  "any_marked M P [] = State_Monad.return False"
| "any_marked M P (pg # pgs) = do {
     fetch_oob M P pg;
     b0 \<leftarrow> oob_byte 0;
     b1 \<leftarrow> oob_byte 1;
     if b0 \<noteq> 0xff \<or> b1 \<noteq> 0xff then State_Monad.return True else any_marked M P pgs }"

definition edge_pages :: "u32 \<Rightarrow> u32 \<Rightarrow> u32 list" where
  "edge_pages ppb block = [block * ppb, block * ppb + 1, block * ppb + ppb - 2, block * ppb + ppb - 1]"

definition nand_check_block :: "'h mmio \<Rightarrow> nat \<Rightarrow> u32 \<Rightarrow> ('h, bool) fw" where
  "nand_check_block M P block = do {
     v \<leftarrow> nf_gets (\<lambda>v. v);
     if nv_ppb v <=s nv_bb_page v then any_marked M P (edge_pages (nv_ppb v) block)
     else do {
       fetch_oob M P (block * nv_ppb v + nv_bb_page v);
       b \<leftarrow> oob_byte (nv_bb_pos v);
       State_Monad.return (b \<noteq> 0xff) } }"

definition nand_mark_bad_page :: "'h mmio \<Rightarrow> nat \<Rightarrow> u32 \<Rightarrow> ('h, unit) fw" where
  "nand_mark_bad_page M P page = do {
     wp_set M;
     v \<leftarrow> nf_gets (\<lambda>v. v);
     let total = nv_pagesize v + nv_oobsize v;
     fw_mark (unat total > 4096 + 128);
     nand_cmd M CMD_READA;
     nand_cmd M CMD_SEQIN;
     nand_addr M 0;
     unless_small (nand_addr M 0);
     send_page M page;
     write_proc M (\<lambda>_. 0) (4096 + 128) 0 total;
     nand_cmd M CMD_PGPROG;
     nand_sync M P;
     wp_clear M }"

fun mark_pages :: "'h mmio \<Rightarrow> nat \<Rightarrow> u32 list \<Rightarrow> ('h, unit) fw" where
  "mark_pages M P [] = State_Monad.return ()"
| "mark_pages M P (pg # pgs) = do { nand_mark_bad_page M P pg; mark_pages M P pgs }"

definition nand_mark_bad_4740 :: "'h mmio \<Rightarrow> nat \<Rightarrow> u32 \<Rightarrow> ('h, u32) fw" where
  "nand_mark_bad_4740 M P block = do {
     v \<leftarrow> nf_gets (\<lambda>v. v);
     let pages = (if nv_ppb v <=s nv_bb_page v then edge_pages (nv_ppb v) block
                  else [block * nv_ppb v + nv_bb_page v]);
     mark_pages M P pages;
     State_Monad.return (last pages) }"

section \<open>Erasing\<close>

text \<open>One block: the commands, and the mark if the chip reports a failure.\<close>

definition erase_block :: "'h mmio \<Rightarrow> nat \<Rightarrow> u32 \<Rightarrow> ('h, unit) fw" where
  "erase_block M P cur = do {
     nand_cmd M CMD_ERASE_SETUP;
     send_page M cur;
     nand_cmd M CMD_ERASE;
     nand_sync M P;
     nand_cmd M CMD_READ_STATUS;
     st \<leftarrow> nand_data8 M;
     if st AND 0x01 \<noteq> 0 then do {
       b \<leftarrow> block_nr cur;
       r \<leftarrow> nand_mark_bad_4740 M P b;
       State_Monad.return () }
     else State_Monad.return () }"

fun erase_loop :: "'h mmio \<Rightarrow> nat \<Rightarrow> nat \<Rightarrow> bool \<Rightarrow> u32 \<Rightarrow> u32 \<Rightarrow> u32 \<Rightarrow> ('h, u32) fw" where
  "erase_loop M P 0 force sblk blk_num cur = do { hang; State_Monad.return cur }"
| "erase_loop M P (Suc n) force sblk blk_num cur = do {
     ppb \<leftarrow> nf_gets nv_ppb;
     if cur < (sblk + blk_num) * ppb then do {
       b \<leftarrow> block_nr cur;
       select_chip b;
       bad \<leftarrow> (if force then State_Monad.return False else nand_check_block M P b);
       if bad then do {
         h \<leftarrow> fw_gets Hand;
         erase_loop M P n force sblk (blk_num + hd_nand_plane h) (cur + ppb) }
       else do {
         erase_block M P cur;
         erase_loop M P n force sblk blk_num (cur + ppb) } }
     else State_Monad.return cur }"

definition nand_erase_4740 :: "'h mmio \<Rightarrow> nat \<Rightarrow> u32 \<Rightarrow> u32 \<Rightarrow> u32 \<Rightarrow> ('h, u32) fw" where
  "nand_erase_4740 M P blk_num sblk force = do {
     wp_set M;
     ppb \<leftarrow> nf_gets nv_ppb;
     cur \<leftarrow> erase_loop M P P (force \<noteq> 0) sblk blk_num (sblk * ppb);
     wp_clear M;
     State_Monad.return cur }"

section \<open>Reading\<close>

text \<open>The commands that make the chip deliver a page from its first column.\<close>

definition start_read :: "'h mmio \<Rightarrow> nat \<Rightarrow> u32 \<Rightarrow> ('h, unit) fw" where
  "start_read M P page = do {
     nand_cmd M CMD_READA;
     nand_addr M 0;
     unless_small (nand_addr M 0);
     send_page M page;
     unless_small (nand_cmd M CMD_CONFIRM);
     nand_sync M P }"

text \<open>The test before a page: only the first page of a block is tested.\<close>

definition bad_here :: "'h mmio \<Rightarrow> nat \<Rightarrow> u32 \<Rightarrow> ('h, bool) fw" where
  "bad_here M P cur_page = do {
     first \<leftarrow> first_of_block cur_page;
     if first then do { b \<leftarrow> block_nr cur_page; nand_check_block M P b } else State_Monad.return False }"

fun raw_loop :: "'h mmio \<Rightarrow> nat \<Rightarrow> nat \<Rightarrow> u32 \<Rightarrow> nat \<Rightarrow> int \<Rightarrow> u32 \<Rightarrow> u32 \<Rightarrow> ('h, u32) fw" where
  "raw_loop M P 0 pagecount option off cnt cur_page = do { hang; State_Monad.return cur_page }"
| "raw_loop M P (Suc n) pagecount option off cnt cur_page =
     (if cnt < pagecount then do {
        c \<leftarrow> block_nr cnt;
        select_chip c;
        bad \<leftarrow> bad_here M P cur_page;
        if bad then do {
          ppb \<leftarrow> nf_gets nv_ppb;
          raw_loop M P n pagecount option off cnt (cur_page + ppb) }
        else do {
          start_read M P cur_page;
          v \<leftarrow> nf_gets (\<lambda>v. v);
          read_proc M (To_Buf In_Buf) off (nv_pagesize v);
          let off = off + sint (nv_pagesize v);
          off \<leftarrow> (if option \<noteq> 2 then do {
                     read_oob M P (To_Buf In_Buf) off (nv_oobsize v) cur_page;
                     State_Monad.return (off + sint (nv_oobsize v)) }
                   else State_Monad.return off);
          raw_loop M P n pagecount option off (cnt + 1) (cur_page + 1) } }
      else State_Monad.return cur_page)"

definition nand_read_raw_4740 :: "'h mmio \<Rightarrow> nat \<Rightarrow> u32 \<Rightarrow> u32 \<Rightarrow> nat \<Rightarrow> ('h, u32) fw" where
  "nand_read_raw_4740 M P startpage pagecount option = raw_loop M P P pagecount option 0 0 startpage"

text \<open>\<^verbatim>\<open>rs_correct\<close>: the error mask applies to a 9-bit symbol that lies across two bytes.  \<^verbatim>\<open>fix_symbol\<close>
  is its arithmetic on the two bytes, in \<^verbatim>\<open>unsigned short\<close>.\<close>

definition symbol_at :: "int \<Rightarrow> int \<times> nat" where
  "symbol_at idx = (let i = idx * 9 div 8; j = nat (idx * 9 mod 8) in
     (if j = 0 then i - 1 else i, if j = 0 then 7 else j - 1))"

definition fix_symbol :: "nat \<Rightarrow> u16 \<Rightarrow> u8 \<Rightarrow> u8 \<Rightarrow> u8 \<times> u8" where
  "fix_symbol j err low high = (let
       d = push_bit 8 (ucast high) OR (ucast low :: u16);
       d1 = (drop_bit j d AND 0x1ff) XOR err;
       dm = NOT (push_bit j 0x1ff);
       d' = (d AND dm) OR push_bit j d1
     in (ucast (d' AND 0xff), ucast (drop_bit 8 d' AND 0xff)))"

definition rs_correct :: "buf_ptr \<Rightarrow> int \<Rightarrow> int \<Rightarrow> u16 \<Rightarrow> ('h, unit) fw" where
  "rs_correct buf off idx err = (case symbol_at idx of (i, j) \<Rightarrow> do {
     high \<leftarrow> load_byte buf (off + i);
     low \<leftarrow> load_byte buf (off + i - 1);
     let (low', high') = fix_symbol j err low high;
     store_byte (To_Buf buf) (off + i - 1) low';
     store_byte (To_Buf buf) (off + i) high' })"

text \<open>The fall-through \<^verbatim>\<open>switch\<close> over the error count: reports \<^verbatim>\<open>errcnt - 1\<close> down to 0.\<close>

fun correct_reports :: "'h mmio \<Rightarrow> buf_ptr \<Rightarrow> int \<Rightarrow> nat \<Rightarrow> ('h, unit) fw" where
  "correct_reports M buf off 0 = State_Monad.return ()"
| "correct_reports M buf off (Suc k) = do {
     e \<leftarrow> jz_readl M (EMC_NFERR k);
     m \<leftarrow> jz_readl M (EMC_NFERR k);
     rs_correct buf off (uint (drop_bit 16 (e AND 0x1ff0000))) (ucast (m AND 0x1ff));
     correct_reports M buf off k }"

fun put_parity :: "'h mmio \<Rightarrow> u32 \<Rightarrow> nat \<Rightarrow> nat \<Rightarrow> bool \<Rightarrow> ('h, bool) fw" where
  "put_parity M pos k 0 flag = State_Monad.return flag"
| "put_parity M pos k (Suc n) flag = do {
     b \<leftarrow> oob_byte (pos + of_nat k);
     jz_writeb M (EMC_NFPAR0 + of_nat k) b;
     put_parity M pos (k + 1) n (flag \<or> b \<noteq> 0xff) }"

definition set_status :: "u16 \<Rightarrow> ('h, unit) fw" where
  "set_status v = State_Monad.update (\<lambda>s. s\<lparr>handshake_PKT := (handshake_PKT s)[3 := v]\<rparr>)"

definition ecc_disable :: "'h mmio \<Rightarrow> ('h, unit) fw" where
  "ecc_disable M = do { c \<leftarrow> jz_readl M EMC_NFECR; jz_writel M EMC_NFECR (c AND NOT 1) }"

definition ints_flag :: "'h mmio \<Rightarrow> u32 \<Rightarrow> ('h, bool) fw" where
  "ints_flag M f = do { v \<leftarrow> jz_readl M EMC_NFINTS; State_Monad.return (v AND f \<noteq> 0) }"

text \<open>What follows the decoding of one step.\<close>

definition check_decoding :: "'h mmio \<Rightarrow> buf_ptr \<Rightarrow> int \<Rightarrow> bool \<Rightarrow> ('h, unit) fw" where
  "check_decoding M buf off flag = do {
     stat \<leftarrow> jz_readl M EMC_NFINTS;
     if stat AND 1 = 0 then State_Monad.return ()
     else if stat AND 2 \<noteq> 0 then (if flag then set_status 1 else State_Monad.return ())
     else do {
       set_status 0;
       let errcnt = unat (drop_bit 29 (stat AND 0xE0000000));
       (if errcnt \<le> 4 then correct_reports M buf off errcnt else State_Monad.return ()) } }"

definition decode_step :: "'h mmio \<Rightarrow> nat \<Rightarrow> buf_ptr \<Rightarrow> int \<Rightarrow> nat \<Rightarrow> ('h, unit) fw" where
  "decode_step M P buf off j = do {
     jz_writel M EMC_NFINTS 0;
     jz_writel M EMC_NFECR 7;
     read_proc M (To_Buf buf) off (of_nat ECC_BLOCK);
     pos \<leftarrow> nf_gets nv_ecc_pos;
     flag \<leftarrow> put_parity M (pos + of_nat (j * PAR_SIZE)) 0 PAR_SIZE False;
     c \<leftarrow> jz_readl M EMC_NFECR;
     jz_writel M EMC_NFECR (c OR 0x10);
     wait_for P (ints_flag M 8);
     ecc_disable M;
     check_decoding M buf off flag }"

fun decode_steps :: "'h mmio \<Rightarrow> nat \<Rightarrow> buf_ptr \<Rightarrow> int \<Rightarrow> nat \<Rightarrow> nat \<Rightarrow> ('h, int) fw" where
  "decode_steps M P buf off j 0 = State_Monad.return off"
| "decode_steps M P buf off j (Suc n) = do {
     decode_step M P buf off j;
     decode_steps M P buf (off + int ECC_BLOCK) (j + 1) n }"

text \<open>\<^verbatim>\<open>tmpbuf[j] = oob_buf[j]\<close> and \<^verbatim>\<open>oob_buf[pos + j] = bs[j]\<close>.\<close>

fun copy_oob :: "buf_ptr \<Rightarrow> int \<Rightarrow> nat \<Rightarrow> nat \<Rightarrow> ('h, unit) fw" where
  "copy_oob buf off j 0 = State_Monad.return ()"
| "copy_oob buf off j (Suc n) = do {
     b \<leftarrow> oob_byte (of_nat j);
     store_byte (To_Buf buf) (off + int j) b;
     copy_oob buf off (j + 1) n }"

fun fill_oob :: "u32 \<Rightarrow> bytes \<Rightarrow> ('h, unit) fw" where
  "fill_oob pos [] = State_Monad.return ()"
| "fill_oob pos (b # bs) = do { store_byte To_Oob (uint pos) b; fill_oob (pos + 1) bs }"

definition copy_spare :: "buf_ptr \<Rightarrow> int \<Rightarrow> ('h, int) fw" where
  "copy_spare buf off = do {
     n \<leftarrow> nf_gets nv_oobsize;
     copy_oob buf off 0 (unat n);
     State_Monad.return (off + sint n) }"

definition ecc_count :: "u32 \<Rightarrow> nat" where
  "ecc_count pagesize = unat (word_of_int (sint pagesize sdiv int ECC_BLOCK) :: u32)"

fun read_loop :: "'h mmio \<Rightarrow> nat \<Rightarrow> nat \<Rightarrow> buf_ptr \<Rightarrow> u32 \<Rightarrow> nat \<Rightarrow> nat \<Rightarrow> int \<Rightarrow> u32 \<Rightarrow> u32 \<Rightarrow> ('h, u32) fw" where
  "read_loop M P 0 buf pagecount option ecccnt off cnt cur_page = do { hang; State_Monad.return cur_page }"
| "read_loop M P (Suc n) buf pagecount option ecccnt off cnt cur_page =
     (if cnt < pagecount then do {
        c \<leftarrow> block_nr cnt;
        select_chip c;
        bad \<leftarrow> bad_here M P cur_page;
        if bad then do {
          ppb \<leftarrow> nf_gets nv_ppb;
          read_loop M P n buf pagecount option ecccnt off cnt (cur_page + ppb) }
        else do {
          fetch_oob M P cur_page;
          start_read M P cur_page;
          off \<leftarrow> decode_steps M P buf off 0 ecccnt;
          off \<leftarrow> (if option = 0 then copy_spare buf off
                 else if option = 1 then do {
                   pos \<leftarrow> nf_gets nv_ecc_pos;
                   fill_oob pos (replicate (ecccnt * PAR_SIZE) 0xff);
                   copy_spare buf off }
                 else State_Monad.return off);
          read_loop M P n buf pagecount option ecccnt off (cnt + 1) (cur_page + 1) } }
      else State_Monad.return cur_page)"

definition nand_read_4740 :: "'h mmio \<Rightarrow> nat \<Rightarrow> buf_ptr \<Rightarrow> u32 \<Rightarrow> u32 \<Rightarrow> nat \<Rightarrow> ('h, u32) fw" where
  "nand_read_4740 M P buf startpage pagecount option = do {
     ps \<leftarrow> nf_gets nv_pagesize;
     set_status 0;
     read_loop M P P buf pagecount option (ecc_count ps) 0 0 startpage }"

section \<open>Programming\<close>

text \<open>The parity bytes of one step: \<^verbatim>\<open>ecc_buf[j * PAR_SIZE + k] = *paraddr++\<close>.\<close>

fun get_parity :: "'h mmio \<Rightarrow> nat \<Rightarrow> nat \<Rightarrow> ('h, bytes) fw" where
  "get_parity M k 0 = State_Monad.return []"
| "get_parity M k (Suc n) = do {
     b \<leftarrow> jz_readb M (EMC_NFPAR0 + of_nat k);
     bs \<leftarrow> get_parity M (k + 1) n;
     State_Monad.return (b # bs) }"

definition encode_step :: "'h mmio \<Rightarrow> nat \<Rightarrow> (nat \<Rightarrow> u8) \<Rightarrow> nat \<Rightarrow> ('h, bytes) fw" where
  "encode_step M P buf off = do {
     jz_writel M EMC_NFINTS 0;
     jz_writel M EMC_NFECR 15;
     write_proc M buf BULK_BUF_BYTES off (of_nat ECC_BLOCK);
     wait_for P (ints_flag M 4);
     ecc_disable M;
     get_parity M 0 PAR_SIZE }"

fun encode_steps :: "'h mmio \<Rightarrow> nat \<Rightarrow> (nat \<Rightarrow> u8) \<Rightarrow> nat \<Rightarrow> nat \<Rightarrow> ('h, bytes) fw" where
  "encode_steps M P buf off 0 = State_Monad.return []"
| "encode_steps M P buf off (Suc n) = do {
     bs \<leftarrow> encode_step M P buf off;
     rest \<leftarrow> encode_steps M P buf (off + ECC_BLOCK) n;
     State_Monad.return (bs @ rest) }"

text \<open>\<^verbatim>\<open>oob_buf[ecc_pos + j] = ecc_buf[j]\<close> for the parity bytes (\<^verbatim>\<open>ecc_buf\<close> has 256), and the write of
  \<^verbatim>\<open>oob_buf\<close>.\<close>

definition write_spare :: "'h mmio \<Rightarrow> bytes \<Rightarrow> ('h, unit) fw" where
  "write_spare M ecc = do {
     fw_mark (length ecc > 256);
     pos \<leftarrow> nf_gets nv_ecc_pos;
     fill_oob pos ecc;
     v \<leftarrow> nf_gets (\<lambda>v. v);
     write_proc M (nv_oob_buf v) 256 0 (nv_oobsize v) }"

text \<open>The data and spare bytes of one page from the offset \<^verbatim>\<open>off\<close> of the buffer; the result is the
  offset that the code's \<^verbatim>\<open>tmpbuf\<close> has afterwards.\<close>

definition program_data :: "'h mmio \<Rightarrow> nat \<Rightarrow> nat \<Rightarrow> nat \<Rightarrow> nat \<Rightarrow> ('h, nat) fw" where
  "program_data M P option ecccnt off = do {
     buf \<leftarrow> fw_gets bulk_out_buf;
     v \<leftarrow> nf_gets (\<lambda>v. v);
     let ps = unat (nv_pagesize v);
     let os = unat (nv_oobsize v);
     if option = 0 then do {
       write_proc M buf BULK_BUF_BYTES off (nv_pagesize v);
       write_proc M buf BULK_BUF_BYTES (off + ps) (nv_oobsize v);
       State_Monad.return (off + ps + os) }
     else if option = 1 then do {
       ecc \<leftarrow> encode_steps M P buf off ecccnt;
       let off = off + ecccnt * ECC_BLOCK;
       fw_mark (off + os > BULK_BUF_BYTES);
       fill_oob 0 (List.map (\<lambda>j. buf (off + j)) [0..<os]);
       write_spare M ecc;
       State_Monad.return (off + os) }
     else if option = 2 then do {
       ecc \<leftarrow> encode_steps M P buf off ecccnt;
       fill_oob 0 (replicate os 0xff);
       fill_oob 2 [0, 0, 0];
       write_spare M ecc;
       State_Monad.return (off + ecccnt * ECC_BLOCK) }
     else State_Monad.return off }"

definition program_page :: "'h mmio \<Rightarrow> nat \<Rightarrow> nat \<Rightarrow> nat \<Rightarrow> nat \<Rightarrow> u32 \<Rightarrow> ('h, bool \<times> nat) fw" where
  "program_page M P option ecccnt off cur = do {
     ps \<leftarrow> nf_gets nv_pagesize;
     (if ps = 512 then nand_cmd M CMD_READA else State_Monad.return ());
     nand_cmd M CMD_SEQIN;
     nand_addr M 0;
     unless_small (nand_addr M 0);
     send_page M cur;
     off \<leftarrow> program_data M P option ecccnt off;
     nand_cmd M CMD_PGPROG;
     nand_sync M P;
     nand_cmd M CMD_READ_STATUS;
     st \<leftarrow> nand_data8 M;
     State_Monad.return (st AND 0x01 \<noteq> 0, off) }"

text \<open>\<^verbatim>\<open>ecccnt_sav\<close>, \<^verbatim>\<open>oobsize_sav\<close> and \<^verbatim>\<open>eccpos_sav\<close>, taken at every (re)start, from the values that the first
  eight pages may have changed.\<close>

record saved =
  sv_ecccnt :: nat
  sv_oobsize :: u32
  sv_ecc_pos :: u32

definition save_vars :: "('h, saved) fw" where
  "save_vars = nf_gets (\<lambda>v. \<lparr>sv_ecccnt = ecc_count (nv_pagesize v), sv_oobsize = nv_oobsize v, sv_ecc_pos = nv_ecc_pos v\<rparr>)"

definition set_layout :: "saved \<Rightarrow> u32 \<Rightarrow> ('h, nat) fw" where
  "set_layout sv cur = (if cur < 8
     then do { nf_modify (\<lambda>v. v\<lparr>nv_oobsize := 64, nv_ecc_pos := 6\<rparr>); State_Monad.return 4 }
     else do { nf_modify (\<lambda>v. v\<lparr>nv_oobsize := sv_oobsize sv, nv_ecc_pos := sv_ecc_pos sv\<rparr>);
               State_Monad.return (sv_ecccnt sv) })"

fun nprog_loop :: "'h mmio \<Rightarrow> nat \<Rightarrow> nat \<Rightarrow> nat \<Rightarrow> nat \<Rightarrow> u32 \<Rightarrow> u32 \<Rightarrow> saved \<Rightarrow> u32 \<Rightarrow> u32 \<Rightarrow> nat
    \<Rightarrow> ('h, u32 \<times> saved) fw" where
  "nprog_loop M P 0 option datasize pages spage sv i cur off = do { hang; State_Monad.return (cur, sv) }"
| "nprog_loop M P (Suc n) option datasize pages spage sv i cur off =
     (if i < pages then do {
        b \<leftarrow> block_nr cur;
        select_chip b;
        ecccnt \<leftarrow> set_layout sv cur;
        v \<leftarrow> nf_gets (\<lambda>v. v);
        let off = (if nv_pagesize v = 4096 \<and> cur = 8 then off + 16 * 1024 else off);
        bad \<leftarrow> bad_here M P cur;
        if bad then nprog_loop M P n option datasize pages spage sv i (cur + nv_ppb v) off
        else do {
          buf \<leftarrow> fw_gets bulk_out_buf;
          let blank = list_all (\<lambda>j. buf (off + j) = 0xff) [0..<datasize];
          fw_mark (off + datasize > BULK_BUF_BYTES
            \<and> list_all (\<lambda>j. off + j < BULK_BUF_BYTES \<longrightarrow> buf (off + j) = 0xff) [0..<datasize]);
          if blank then nprog_loop M P n option datasize pages spage sv (i + 1) (cur + 1) (off + datasize)
          else do {
            (failed, off) \<leftarrow> program_page M P option ecccnt off cur;
            if failed then do {
              b \<leftarrow> block_nr cur;
              r \<leftarrow> nand_erase_4740 M P 1 b 1;
              r \<leftarrow> nand_mark_bad_4740 M P b;
              sv \<leftarrow> save_vars;
              let spage = spage + nv_ppb v;
              nprog_loop M P n option datasize pages spage sv 0 spage 0 }
            else nprog_loop M P n option datasize pages spage sv (i + 1) (cur + 1) off } } }
      else State_Monad.return (cur, sv))"

definition nand_program_4740 :: "'h mmio \<Rightarrow> nat \<Rightarrow> u32 \<Rightarrow> u32 \<Rightarrow> nat \<Rightarrow> ('h, u32) fw" where
  "nand_program_4740 M P spage pages option = do {
     v \<leftarrow> nf_gets (\<lambda>v. v);
     let datasize = unat (nv_pagesize v) + (if option \<noteq> 2 then unat (nv_oobsize v) else 0);
     wp_set M;
     sv \<leftarrow> save_vars;
     (cur, sv) \<leftarrow> nprog_loop M P P option datasize pages spage sv 0 spage 0;
     wp_clear M;
     nf_modify (\<lambda>v. v\<lparr>nv_oobsize := sv_oobsize sv, nv_ecc_pos := sv_ecc_pos sv\<rparr>);
     State_Monad.return cur }"

section \<open>The driver of the request handlers\<close>

definition driver_4740 :: "'h mmio \<Rightarrow> nat \<Rightarrow> 'h nand_driver" where
  "driver_4740 M P = \<lparr>
     nd_init = (\<lambda>ps. nand_init_4740 M (ps ! 0) (ps ! 1) (ps ! 2) (ps ! 3) (ps ! 4) (ps ! 5) (ps ! 6) (ps ! 7)),
     nd_query = nand_query_4740 M P, nd_program = nand_program_4740 M P, nd_erase = nand_erase_4740 M P,
     nd_read = nand_read_4740 M P, nd_read_oob = nand_read_oob_4740 M P, nd_read_raw = nand_read_raw_4740 M P,
     nd_mark_bad = nand_mark_bad_4740 M P, nd_enable = nand_enable_4740 M, nd_disable = nand_disable_4740 M\<rparr>"

end
