(* ===== verification/Nandflash_4760.thy ===== *)
theory Nandflash_4760
  imports Nandflash_4740
begin

unbundle bit_operations_syntax

text \<open>
  The NAND driver of the JZ4760, \<^verbatim>\<open>usbboot/xburst_stage2/nandflash_4760.c\<close>, with the macros it takes from
  \<^verbatim>\<open>jz4760.h\<close>.  Its statics are the record \<^verbatim>\<open>nand6_vars\<close> of the firmware state.  The conventions are those of the
  driver of the JZ4740: waits and page loops take the number \<^verbatim>\<open>P\<close> of turns they may make and mark a firmware that needs more as hung;
  accesses outside an array, divisions by zero and calls through a null pointer set \<^verbatim>\<open>fw_ub\<close>.  The messages
  and the delay of \<^verbatim>\<open>nand_query_4760\<close> are left out.  What comes after a name of the other driver is \<^verbatim>\<open>_6\<close>.
\<close>

section \<open>Registers and ports\<close>

definition NEMC_BASE :: u32 where "NEMC_BASE = 0xB3410000"
definition NEMC_SMCR1 :: u32 where "NEMC_SMCR1 = NEMC_BASE + 0x14"
definition NEMC_NFCSR :: u32 where "NEMC_NFCSR = NEMC_BASE + 0x050"
definition NEMC_PNCR :: u32 where "NEMC_PNCR = NEMC_BASE + 0x100"
definition BCH_BASE :: u32 where "BCH_BASE = 0xB34D0000"
definition BCH_CRS :: u32 where "BCH_CRS = BCH_BASE + 0x04"
definition BCH_CRC :: u32 where "BCH_CRC = BCH_BASE + 0x08"
definition BCH_CNT :: u32 where "BCH_CNT = BCH_BASE + 0x0C"
definition BCH_DR :: u32 where "BCH_DR = BCH_BASE + 0x10"
definition BCH_PAR0 :: u32 where "BCH_PAR0 = BCH_BASE + 0x14"
definition BCH_ERR :: "nat \<Rightarrow> u32" where "BCH_ERR k = BCH_BASE + 0x3C + 4 * of_nat k"
definition BCH_INTS :: u32 where "BCH_INTS = BCH_BASE + 0x6C"
definition NAND_DATAPORT :: u32 where "NAND_DATAPORT = 0xBA000000"
definition NAND_ADDRPORT :: u32 where "NAND_ADDRPORT = 0xBA800000"
definition NAND_COMMPORT :: u32 where "NAND_COMMPORT = 0xBA400000"

lemmas nand6_reg_defs = NEMC_BASE_def NEMC_SMCR1_def NEMC_NFCSR_def NEMC_PNCR_def BCH_BASE_def BCH_CRS_def BCH_CRC_def
  BCH_CNT_def BCH_DR_def BCH_PAR0_def BCH_ERR_def BCH_INTS_def NAND_DATAPORT_def NAND_ADDRPORT_def NAND_COMMPORT_def

definition ECC_BLOCK0 :: nat where "ECC_BLOCK0 = 256"
definition PAR_SIZE_SPL :: nat where "PAR_SIZE_SPL = 78"
definition PAR_SIZE_SPL1 :: nat where "PAR_SIZE_SPL1 = (PAR_SIZE_SPL + 1) div 2"

definition nf6_gets :: "(nand6_vars \<Rightarrow> 'a) \<Rightarrow> ('h, 'a) fw" where
  "nf6_gets f = fw_gets (\<lambda>s. f (nf6 s))"

definition nf6_modify :: "(nand6_vars \<Rightarrow> nand6_vars) \<Rightarrow> ('h, unit) fw" where
  "nf6_modify f = State_Monad.update (\<lambda>s. s\<lparr>nf6 := f (nf6 s)\<rparr>)"

lemma run_nf6_gets [host_simps]: "run_state (nf6_gets f) s = (f (nf6 s), s)"
  by (simp add: nf6_gets_def host_simps)

lemma run_nf6_modify [host_simps]: "run_state (nf6_modify f) s = ((), s\<lparr>nf6 := f (nf6 s)\<rparr>)"
  by (simp add: nf6_modify_def host_simps)

definition pn_enable :: "'h mmio \<Rightarrow> ('h, unit) fw" where "pn_enable M = jz_writel M NEMC_PNCR 3"
definition pn_disable :: "'h mmio \<Rightarrow> ('h, unit) fw" where "pn_disable M = jz_writel M NEMC_PNCR 0"

definition nand_cmd_6 :: "'h mmio \<Rightarrow> u8 \<Rightarrow> ('h, unit) fw" where "nand_cmd_6 M n = jz_writeb M NAND_COMMPORT n"
definition nand_addr_6 :: "'h mmio \<Rightarrow> u8 \<Rightarrow> ('h, unit) fw" where "nand_addr_6 M n = jz_writeb M NAND_ADDRPORT n"
definition nand_data8_6 :: "'h mmio \<Rightarrow> ('h, u8) fw" where "nand_data8_6 M = jz_readb M NAND_DATAPORT"

definition nand_enable_6 :: "'h mmio \<Rightarrow> ('h, unit) fw" where
  "nand_enable_6 M = do { v \<leftarrow> jz_readl M NEMC_NFCSR; jz_writel M NEMC_NFCSR (v OR 3) }"

definition nand_disable_6 :: "'h mmio \<Rightarrow> ('h, unit) fw" where
  "nand_disable_6 M = do { v \<leftarrow> jz_readl M NEMC_NFCSR; jz_writel M NEMC_NFCSR (v AND NOT 2) }"

text \<open>\<^verbatim>\<open>__nand_sync\<close>: wait up to 1000 turns for the pin to fall, then for it to rise.\<close>

definition ready_pin_6 :: "'h mmio \<Rightarrow> ('h, bool) fw" where
  "ready_pin_6 M = do { v \<leftarrow> jz_readl M (GPIO_PX 0 0); State_Monad.return (v AND 0x00100000 \<noteq> 0) }"

fun wait_busy_6 :: "'h mmio \<Rightarrow> nat \<Rightarrow> ('h, unit) fw" where
  "wait_busy_6 M 0 = do { r \<leftarrow> ready_pin_6 M; State_Monad.return () }"
| "wait_busy_6 M (Suc n) = do { r \<leftarrow> ready_pin_6 M; if r then wait_busy_6 M n else State_Monad.return () }"

definition nand_sync_6 :: "'h mmio \<Rightarrow> nat \<Rightarrow> ('h, unit) fw" where
  "nand_sync_6 M P = do { wait_busy_6 M 1000; wait_for P (ready_pin_6 M) }"

text \<open>\<^verbatim>\<open>page / ppb\<close> and the like, in 32-bit words.\<close>

definition block_nr_6 :: "u32 \<Rightarrow> ('h, u32) fw" where
  "block_nr_6 page = do { p \<leftarrow> nf6_gets n6_ppb; fw_mark (p = 0); State_Monad.return (page div p) }"

definition sdiv32 :: "int \<Rightarrow> u32 \<Rightarrow> u32" where "sdiv32 n w = word_of_int (n sdiv sint w)"

definition ecc_count_6 :: "u32 \<Rightarrow> nat \<Rightarrow> u32" where "ecc_count_6 pagesize len = word_of_int (sint pagesize sdiv int len)"

section \<open>Pins\<close>

fun write_regs :: "'h mmio \<Rightarrow> (u32 \<times> u32) list \<Rightarrow> ('h, unit) fw" where
  "write_regs M [] = State_Monad.return ()"
| "write_regs M ((reg, v) # rs) = do { jz_writel M reg v; write_regs M rs }"

text \<open>\<^verbatim>\<open>__gpio_as_nand_8bit(n)\<close> and \<^verbatim>\<open>__gpio_as_nand_16bit(n)\<close> differ in the pins of the data bus.\<close>

definition pins_nand_4760 :: "u32 \<Rightarrow> nat \<Rightarrow> (u32 \<times> u32) list" where
  "pins_nand_4760 data n = (let cs = push_bit (n - 1) 0x00200000 in
     [(GPIO_PX 0x44 0, data), (GPIO_PX 0x58 0, data), (GPIO_PX 0x34 0, data),
      (GPIO_PX 0x44 1, 3), (GPIO_PX 0x58 1, 3), (GPIO_PX 0x34 1, 3),
      (GPIO_PX 0x44 0, cs), (GPIO_PX 0x58 0, cs), (GPIO_PX 0x34 0, cs),
      (GPIO_PX 0x48 0, 0x00100000), (GPIO_PX 0x58 0, 0x00100000), (GPIO_PX 0x68 0, 0x00100000), (GPIO_PX 0x34 0, 0x00100000)])"

definition gpio_as_nand_8bit :: "'h mmio \<Rightarrow> ('h, unit) fw" where "gpio_as_nand_8bit M = write_regs M (pins_nand_4760 0x002c00ff 1)"
definition gpio_as_nand_16bit :: "'h mmio \<Rightarrow> ('h, unit) fw" where "gpio_as_nand_16bit M = write_regs M (pins_nand_4760 0x002cffff 1)"

definition wp_set_6 :: "'h mmio \<Rightarrow> ('h, unit) fw" where
  "wp_set_6 M = do { n \<leftarrow> nf6_gets n6_wp_pin; if n \<noteq> 0 then gpio_set_pin M n else State_Monad.return () }"

definition wp_clear_6 :: "'h mmio \<Rightarrow> ('h, unit) fw" where
  "wp_clear_6 M = do { n \<leftarrow> nf6_gets n6_wp_pin; if n \<noteq> 0 then gpio_clear_pin M n else State_Monad.return () }"

section \<open>Moving data\<close>

fun read_bytes8 :: "'h mmio \<Rightarrow> nat \<Rightarrow> ('h, bytes) fw" where
  "read_bytes8 M 0 = State_Monad.return []"
| "read_bytes8 M (Suc n) = do { b \<leftarrow> nand_data8_6 M; bs \<leftarrow> read_bytes8 M n; State_Monad.return (b # bs) }"

fun read_bytes16 :: "'h mmio \<Rightarrow> nat \<Rightarrow> ('h, bytes) fw" where
  "read_bytes16 M 0 = State_Monad.return []"
| "read_bytes16 M (Suc n) = do {
     w \<leftarrow> jz_readw M NAND_DATAPORT;
     bs \<leftarrow> read_bytes16 M n;
     State_Monad.return (ucast w # ucast (drop_bit 8 w) # bs) }"

text \<open>The bytes that \<^verbatim>\<open>read_proc\<close> stores at its destination.\<close>

definition read_proc_6 :: "'h mmio \<Rightarrow> u32 \<Rightarrow> ('h, bytes) fw" where
  "read_proc_6 M count = do {
     p \<leftarrow> nf6_gets n6_proc;
     case p of No_Proc \<Rightarrow> do { fw_mark True; State_Monad.return [] }
     | Proc8 \<Rightarrow> read_bytes8 M (nat (sint count))
     | Proc16 \<Rightarrow> read_bytes16 M (nat (sint count div 2)) }"

fun write_bytes8 :: "'h mmio \<Rightarrow> bytes \<Rightarrow> ('h, unit) fw" where
  "write_bytes8 M [] = State_Monad.return ()"
| "write_bytes8 M (b # bs) = do { jz_writeb M NAND_DATAPORT b; write_bytes8 M bs }"

fun write_bytes16 :: "'h mmio \<Rightarrow> bytes \<Rightarrow> ('h, unit) fw" where
  "write_bytes16 M (a # b # bs) = do { jz_writew M NAND_DATAPORT (ucast a OR push_bit 8 (ucast b)); write_bytes16 M bs }"
| "write_bytes16 M bs = State_Monad.return ()"

text \<open>\<^verbatim>\<open>write_proc\<close> on the bytes of its buffer.\<close>

definition write_proc_6 :: "'h mmio \<Rightarrow> bytes \<Rightarrow> ('h, unit) fw" where
  "write_proc_6 M bs = do {
     p \<leftarrow> nf6_gets n6_proc;
     case p of No_Proc \<Rightarrow> fw_mark True | Proc8 \<Rightarrow> write_bytes8 M bs | Proc16 \<Rightarrow> write_bytes16 M bs }"

definition put_oob_6 :: "nat \<Rightarrow> bytes \<Rightarrow> ('h, unit) fw" where
  "put_oob_6 off bs = do {
     fw_mark (bs \<noteq> [] \<and> off + length bs > 256);
     nf6_modify (\<lambda>v. v\<lparr>n6_oob_buf := buf_put off bs (n6_oob_buf v)\<rparr>) }"

definition get_oob_6 :: "nat \<Rightarrow> nat \<Rightarrow> ('h, bytes) fw" where
  "get_oob_6 off n = do { fw_mark (0 < n \<and> off + n > 256); nf6_gets (\<lambda>v. buf_bytes (n6_oob_buf v) off n) }"

definition out_bytes :: "nat \<Rightarrow> nat \<Rightarrow> ('h, bytes) fw" where
  "out_bytes off n = do { fw_mark (0 < n \<and> off + n > BULK_BUF_BYTES); fw_gets (\<lambda>s. buf_bytes (bulk_out_buf s) off n) }"

fun store_all :: "buf_ptr \<Rightarrow> int \<Rightarrow> bytes \<Rightarrow> ('h, unit) fw" where
  "store_all buf off [] = State_Monad.return ()"
| "store_all buf off (b # bs) = do { store_byte (To_Buf buf) off b; store_all buf (off + 1) bs }"

fun load_all :: "buf_ptr \<Rightarrow> int \<Rightarrow> nat \<Rightarrow> ('h, bytes) fw" where
  "load_all buf off 0 = State_Monad.return []"
| "load_all buf off (Suc n) = do { b \<leftarrow> load_byte buf off; bs \<leftarrow> load_all buf (off + 1) n; State_Monad.return (b # bs) }"

text \<open>The bytes of a row address.  The loop compares with the number of row cycles unsigned in most places; \<^verbatim>\<open>send_page_int\<close> is the
  signed comparison.\<close>

fun send_row_6 :: "'h mmio \<Rightarrow> u32 \<Rightarrow> nat \<Rightarrow> ('h, unit) fw" where
  "send_row_6 M rowaddr 0 = State_Monad.return ()"
| "send_row_6 M rowaddr (Suc n) = do {
     nand_addr_6 M (ucast (rowaddr AND 0xff));
     send_row_6 M (drop_bit 8 rowaddr) n }"

definition send_page_6 :: "'h mmio \<Rightarrow> u32 \<Rightarrow> ('h, unit) fw" where
  "send_page_6 M page = do { n \<leftarrow> nf6_gets n6_row; send_row_6 M page (unat n) }"

definition send_page_int :: "'h mmio \<Rightarrow> u32 \<Rightarrow> ('h, unit) fw" where
  "send_page_int M page = do { n \<leftarrow> nf6_gets n6_row; send_row_6 M page (nat (sint n)) }"

definition unless_small_6 :: "('h, unit) fw \<Rightarrow> ('h, unit) fw" where
  "unless_small_6 f = do { ps \<leftarrow> nf6_gets n6_pagesize; if ps \<noteq> 512 then f else State_Monad.return () }"

definition if_small_6 :: "('h, unit) fw \<Rightarrow> ('h, unit) fw" where
  "if_small_6 f = do { ps \<leftarrow> nf6_gets n6_pagesize; if ps = 512 then f else State_Monad.return () }"

section \<open>Initialisation and identification\<close>

definition nand_enable_4760 :: "'h mmio \<Rightarrow> u32 \<Rightarrow> ('h, unit) fw" where
  "nand_enable_4760 M csn = do { gpio_as_nand_8bit M; nand_enable_6 M }"

definition nand_disable_4760 :: "'h mmio \<Rightarrow> u32 \<Rightarrow> ('h, unit) fw" where
  "nand_disable_4760 M csn = nand_disable_6 M"

definition nand_query_4760 :: "'h mmio \<Rightarrow> nat \<Rightarrow> ('h, unit) fw" where
  "nand_query_4760 M P = do {
     nand_disable_6 M;
     nand_enable_6 M;
     nand_cmd_6 M 0xff;
     nand_sync_6 M P;
     nand_cmd_6 M CMD_READID;
     nand_addr_6 M 0;
     ids \<leftarrow> read_bytes8 M 5;
     store_all In_Buf 0 ids;
     nand_disable_6 M }"

text \<open>The size of the parity in nibbles.  The last branch of the code compares instead of assigning.\<close>

definition parity_nibbles :: "u32 \<Rightarrow> u32 \<Rightarrow> u32" where
  "parity_nibbles bch old = (if bch = 4 then 13 else if bch = 8 then 26 else if bch = 12 then 39
     else if bch = 16 then 52 else if bch = 20 then 65 else old)"

definition nand_init_4760 :: "'h mmio \<Rightarrow> u32 \<Rightarrow> u32 \<Rightarrow> u32 \<Rightarrow> u32 \<Rightarrow> u32 \<Rightarrow> u32 \<Rightarrow> u32 \<Rightarrow> u32 \<Rightarrow> u32 \<Rightarrow> ('h, unit) fw" where
  "nand_init_4760 M bus_width row_cycle page_size page_per_block bch_bit ecc_pos bad_pos bad_page force = do {
     h \<leftarrow> fw_gets Hand;
     nf6_modify (\<lambda>v. let p = parity_nibbles bch_bit (n6_par_size v) in
       v\<lparr>n6_bus := bus_width, n6_row := row_cycle, n6_pagesize := page_size, n6_oobsize := word_of_int (sint page_size sdiv 32),
         n6_ppb := page_per_block, n6_bchbit := bch_bit, n6_forceerase := force, n6_eccpos := ecc_pos, n6_bb_pos := bad_pos,
         n6_bb_page := bad_page, n6_wp_pin := hd_nand_wppin h, n6_par_size := p, n6_par_size1 := word_of_int (sint (p + 1) sdiv 2)\<rparr>);
     (if bus_width = 8 then do {
        jz_writel M NEMC_SMCR1 0x0d444400;
        gpio_as_nand_8bit M;
        nf6_modify (\<lambda>v. v\<lparr>n6_proc := Proc8\<rparr>) }
      else do {
        jz_writel M NEMC_SMCR1 (0x0d444400 OR 0x40);
        gpio_as_nand_16bit M;
        nf6_modify (\<lambda>v. v\<lparr>n6_proc := Proc16\<rparr>) });
     (if hd_nand_wppin h \<noteq> 0 then do {
        gpio_as_output M (hd_nand_wppin h);
        gpio_disable_pull M (hd_nand_wppin h) }
      else State_Monad.return ());
     nand_enable_6 M;
     (if ecc_pos = 0 then nf6_modify (\<lambda>v. v\<lparr>n6_eccpos := 3\<rparr>) else State_Monad.return ()) }"

section \<open>Spare bytes and bad blocks\<close>

definition read_oob_6 :: "'h mmio \<Rightarrow> nat \<Rightarrow> u32 \<Rightarrow> u32 \<Rightarrow> ('h, bytes) fw" where
  "read_oob_6 M P len pg = do {
     nand_enable_6 M;
     v \<leftarrow> nf6_gets (\<lambda>v. v);
     let ps = n6_pagesize v;
     let coladdr = (if ps = 512 then 0 else if n6_bus v = 8 then ps else word_of_int (sint ps sdiv 2));
     nand_cmd_6 M (if ps = 512 then CMD_READC else CMD_READA);
     nand_addr_6 M (ucast (coladdr AND 0xff));
     unless_small_6 (nand_addr_6 M (ucast (drop_bit 8 coladdr)));
     send_page_6 M pg;
     unless_small_6 (nand_cmd_6 M CMD_CONFIRM);
     nand_sync_6 M P;
     bs \<leftarrow> read_proc_6 M len;
     if_small_6 (nand_sync_6 M P);
     nand_disable_6 M;
     State_Monad.return bs }"

fun oob_loop_6 :: "'h mmio \<Rightarrow> nat \<Rightarrow> int \<Rightarrow> u32 \<Rightarrow> nat \<Rightarrow> ('h, u32) fw" where
  "oob_loop_6 M P off cur_page 0 = State_Monad.return cur_page"
| "oob_loop_6 M P off cur_page (Suc n) = do {
     len \<leftarrow> nf6_gets n6_oobsize;
     bs \<leftarrow> read_oob_6 M P len cur_page;
     store_all In_Buf off bs;
     oob_loop_6 M P (off + sint len) (cur_page + 1) n }"

definition nand_read_oob_4760 :: "'h mmio \<Rightarrow> nat \<Rightarrow> u32 \<Rightarrow> u32 \<Rightarrow> ('h, u32) fw" where
  "nand_read_oob_4760 M P startpage pagenum = oob_loop_6 M P 0 startpage (unat pagenum)"

text \<open>\<^verbatim>\<open>read_oob(oob_buf, oobsize, pg)\<close>\<close>

definition fetch_oob_6 :: "'h mmio \<Rightarrow> nat \<Rightarrow> u32 \<Rightarrow> ('h, unit) fw" where
  "fetch_oob_6 M P pg = do { len \<leftarrow> nf6_gets n6_oobsize; bs \<leftarrow> read_oob_6 M P len pg; put_oob_6 0 bs }"

text \<open>The four tests of the absolute detection, in order, up to the first page that is marked.\<close>

fun any_marked_6 :: "'h mmio \<Rightarrow> nat \<Rightarrow> u32 list \<Rightarrow> ('h, bool) fw" where
  "any_marked_6 M P [] = State_Monad.return False"
| "any_marked_6 M P (pg # pgs) = do {
     fetch_oob_6 M P pg;
     bs \<leftarrow> get_oob_6 0 2;
     if bs \<noteq> [0xff, 0xff] then State_Monad.return True else any_marked_6 M P pgs }"

definition nand_check_block_6 :: "'h mmio \<Rightarrow> nat \<Rightarrow> u32 \<Rightarrow> ('h, bool) fw" where
  "nand_check_block_6 M P block = do {
     v \<leftarrow> nf6_gets (\<lambda>v. v);
     if n6_ppb v <=s n6_bb_page v then any_marked_6 M P (edge_pages (n6_ppb v) block)
     else do {
       fetch_oob_6 M P (block * n6_ppb v + n6_bb_page v);
       bs \<leftarrow> get_oob_6 (unat (n6_bb_pos v)) 1;
       State_Monad.return (bs \<noteq> [0xff]) } }"

definition nand_mark_bad_page_6 :: "'h mmio \<Rightarrow> nat \<Rightarrow> u32 \<Rightarrow> ('h, unit) fw" where
  "nand_mark_bad_page_6 M P page = do {
     wp_set_6 M;
     v \<leftarrow> nf6_gets (\<lambda>v. v);
     let total = n6_pagesize v + n6_oobsize v;
     fw_mark (unat total > 4096 + 128);
     nand_cmd_6 M CMD_READA;
     nand_cmd_6 M CMD_SEQIN;
     nand_addr_6 M 0;
     unless_small_6 (nand_addr_6 M 0);
     send_page_6 M page;
     write_proc_6 M (replicate (nat (sint total)) 0);
     nand_cmd_6 M CMD_PGPROG;
     nand_sync_6 M P;
     wp_clear_6 M }"

fun mark_pages_6 :: "'h mmio \<Rightarrow> nat \<Rightarrow> u32 list \<Rightarrow> ('h, unit) fw" where
  "mark_pages_6 M P [] = State_Monad.return ()"
| "mark_pages_6 M P (pg # pgs) = do { nand_mark_bad_page_6 M P pg; mark_pages_6 M P pgs }"

definition nand_mark_bad_4760 :: "'h mmio \<Rightarrow> nat \<Rightarrow> u32 \<Rightarrow> ('h, u32) fw" where
  "nand_mark_bad_4760 M P block = do {
     v \<leftarrow> nf6_gets (\<lambda>v. v);
     let pages = (if n6_ppb v <=s n6_bb_page v then edge_pages (n6_ppb v) block
                  else [block * n6_ppb v + n6_bb_page v]);
     mark_pages_6 M P pages;
     State_Monad.return (last pages) }"

section \<open>Erasing\<close>

text \<open>The commands for one block; the result is whether the chip reports a failure.\<close>

definition erase_block_6 :: "'h mmio \<Rightarrow> nat \<Rightarrow> u32 \<Rightarrow> ('h, bool) fw" where
  "erase_block_6 M P cur = do {
     nand_cmd_6 M CMD_ERASE_SETUP;
     send_page_int M cur;
     nand_cmd_6 M CMD_ERASE;
     nand_sync_6 M P;
     nand_cmd_6 M CMD_READ_STATUS;
     st \<leftarrow> nand_data8_6 M;
     State_Monad.return (st AND 0x01 \<noteq> 0) }"

text \<open>Skipping a block and failing on one make up for it with the planes of the chip, and count as a turn of the loop themselves.\<close>

fun erase_loop_6 :: "'h mmio \<Rightarrow> nat \<Rightarrow> nat \<Rightarrow> bool \<Rightarrow> u32 \<Rightarrow> u32 \<Rightarrow> u32 \<Rightarrow> ('h, u32) fw" where
  "erase_loop_6 M P 0 force i blk_num cur = do { hang; State_Monad.return cur }"
| "erase_loop_6 M P (Suc n) force i blk_num cur =
     (if i <s blk_num then do {
        h \<leftarrow> fw_gets Hand;
        ppb \<leftarrow> nf6_gets n6_ppb;
        bad \<leftarrow> (if force then State_Monad.return False
                 else do { b \<leftarrow> block_nr_6 cur; nand_check_block_6 M P b });
        if bad then erase_loop_6 M P n force (i + 1) (blk_num + hd_nand_plane h) (cur + ppb)
        else do {
          failed \<leftarrow> erase_block_6 M P cur;
          if failed then do {
            b \<leftarrow> block_nr_6 cur;
            r \<leftarrow> nand_mark_bad_4760 M P b;
            erase_loop_6 M P n force (i + 1) (blk_num + hd_nand_plane h) (cur + ppb) }
          else erase_loop_6 M P n force (i + 1) blk_num (cur + ppb) } }
      else State_Monad.return cur)"

definition nand_erase_4760 :: "'h mmio \<Rightarrow> nat \<Rightarrow> u32 \<Rightarrow> u32 \<Rightarrow> u32 \<Rightarrow> ('h, u32) fw" where
  "nand_erase_4760 M P blk_num sblk force = do {
     nand_enable_6 M;
     wp_set_6 M;
     ppb \<leftarrow> nf6_gets n6_ppb;
     cur \<leftarrow> erase_loop_6 M P P (force \<noteq> 0) 0 blk_num (sblk * ppb);
     wp_clear_6 M;
     nand_disable_6 M;
     State_Monad.return cur }"

section \<open>Reading without correction\<close>

definition start_read_6 :: "'h mmio \<Rightarrow> nat \<Rightarrow> u32 \<Rightarrow> ('h, unit) fw" where
  "start_read_6 M P page = do {
     nand_cmd_6 M CMD_READA;
     nand_addr_6 M 0;
     unless_small_6 (nand_addr_6 M 0);
     send_page_6 M page;
     unless_small_6 (nand_cmd_6 M CMD_CONFIRM);
     nand_sync_6 M P }"

definition bad_here_6 :: "'h mmio \<Rightarrow> nat \<Rightarrow> u32 \<Rightarrow> ('h, bool) fw" where
  "bad_here_6 M P cur_page = do {
     p \<leftarrow> nf6_gets n6_ppb;
     fw_mark (p = 0);
     if cur_page mod p = 0 then do { b \<leftarrow> block_nr_6 cur_page; nand_check_block_6 M P b } else State_Monad.return False }"

fun raw_loop_6 :: "'h mmio \<Rightarrow> nat \<Rightarrow> nat \<Rightarrow> u32 \<Rightarrow> nat \<Rightarrow> int \<Rightarrow> u32 \<Rightarrow> u32 \<Rightarrow> ('h, u32) fw" where
  "raw_loop_6 M P 0 pagenum option off cnt cur_page = do { hang; State_Monad.return cur_page }"
| "raw_loop_6 M P (Suc n) pagenum option off cnt cur_page =
     (if cnt < pagenum then do {
        v \<leftarrow> nf6_gets (\<lambda>v. v);
        bad \<leftarrow> bad_here_6 M P cur_page;
        if bad then raw_loop_6 M P n pagenum option off cnt (cur_page + n6_ppb v)
        else do {
          start_read_6 M P cur_page;
          pn_enable M;
          bs \<leftarrow> read_proc_6 M (n6_pagesize v);
          store_all In_Buf off bs;
          let off = off + sint (n6_pagesize v);
          off \<leftarrow> (if option \<noteq> 2 then do {
                     bs \<leftarrow> read_oob_6 M P (n6_oobsize v) cur_page;
                     store_all In_Buf off bs;
                     State_Monad.return (off + sint (n6_oobsize v)) }
                   else State_Monad.return off);
          pn_disable M;
          raw_loop_6 M P n pagenum option off (cnt + 1) (cur_page + 1) } }
      else State_Monad.return cur_page)"

definition nand_read_raw_4760 :: "'h mmio \<Rightarrow> nat \<Rightarrow> u32 \<Rightarrow> u32 \<Rightarrow> nat \<Rightarrow> ('h, u32) fw" where
  "nand_read_raw_4760 M P startpage pagenum option = raw_loop_6 M P P pagenum option 0 0 startpage"

section \<open>The error correction unit\<close>

text \<open>\<^verbatim>\<open>__ecc_encoding_4bit\<close> to \<^verbatim>\<open>__ecc_decoding_24bit\<close>: set the chosen bits of the control register, then clear all others.\<close>

definition ecc_coding :: "'h mmio \<Rightarrow> u32 \<Rightarrow> bool \<Rightarrow> ('h, unit) fw" where
  "ecc_coding M sel enc = (let cr = push_bit 3 sel OR (if enc then 4 else 0) OR 2 OR 1 in
     do { jz_writel M BCH_CRS cr; jz_writel M BCH_CRC (NOT cr) })"

definition bch_select :: "u32 \<Rightarrow> u32" where
  "bch_select bch = (if bch = 4 then 0 else if bch = 8 then 1 else if bch = 12 then 2
     else if bch = 16 then 3 else if bch = 20 then 4 else 5)"

text \<open>\<^verbatim>\<open>__ecc_cnt_dec\<close> and \<^verbatim>\<open>__ecc_cnt_enc\<close>, with the position of the field.\<close>

definition ecc_cnt :: "'h mmio \<Rightarrow> nat \<Rightarrow> u32 \<Rightarrow> ('h, unit) fw" where
  "ecc_cnt M pos n = do {
     a \<leftarrow> jz_readl M BCH_CNT;
     jz_writel M BCH_CNT (a AND NOT (push_bit pos 0x7ff));
     b \<leftarrow> jz_readl M BCH_CNT;
     jz_writel M BCH_CNT (b OR push_bit pos n) }"

definition ecc_disable_6 :: "'h mmio \<Rightarrow> ('h, unit) fw" where "ecc_disable_6 M = jz_writel M BCH_CRC 1"

definition ints_flag_6 :: "'h mmio \<Rightarrow> u32 \<Rightarrow> ('h, bool) fw" where
  "ints_flag_6 M f = do { v \<leftarrow> jz_readl M BCH_INTS; State_Monad.return (v AND f \<noteq> 0) }"

fun feed :: "'h mmio \<Rightarrow> bytes \<Rightarrow> ('h, unit) fw" where
  "feed M [] = State_Monad.return ()"
| "feed M (b # bs) = do { jz_writeb M BCH_DR b; feed M bs }"

definition bch_correct :: "buf_ptr \<Rightarrow> int \<Rightarrow> int \<Rightarrow> ('h, unit) fw" where
  "bch_correct buf off idx = (let i = (idx - 1) div 8; bit_nr = nat ((idx - 1) mod 8) in
     if i < int ECC_BLOCK then do {
       v \<leftarrow> load_byte buf (off + i);
       store_byte (To_Buf buf) (off + i) (v XOR push_bit bit_nr 1) }
     else State_Monad.return ())"

text \<open>The \<^verbatim>\<open>k\<close>-th report, from 1: two in a register, the first in its upper half.\<close>

definition error_report :: "'h mmio \<Rightarrow> nat \<Rightarrow> ('h, int) fw" where
  "error_report M k = do {
     v \<leftarrow> jz_readl M (BCH_ERR ((k - 1) div 2));
     State_Monad.return (uint (if even k then v AND 0x1fff else drop_bit 16 (v AND 0x1fff0000))) }"

text \<open>The fall-through \<^verbatim>\<open>switch\<close> over the number of errors.\<close>

fun correct_errors :: "'h mmio \<Rightarrow> buf_ptr \<Rightarrow> int \<Rightarrow> nat \<Rightarrow> ('h, unit) fw" where
  "correct_errors M buf off 0 = State_Monad.return ()"
| "correct_errors M buf off (Suc k) = do {
     idx \<leftarrow> error_report M (Suc k);
     bch_correct buf off idx;
     correct_errors M buf off k }"

definition correct_all :: "'h mmio \<Rightarrow> buf_ptr \<Rightarrow> int \<Rightarrow> u32 \<Rightarrow> ('h, unit) fw" where
  "correct_all M buf off stat = (let errcnt = unat (drop_bit 27 (stat AND 0xF8000000)) in
     if errcnt \<le> 24 then correct_errors M buf off errcnt else State_Monad.return ())"

text \<open>One decoding: the data, the spare bytes and the parity go through the data register; the result is the status.\<close>

definition decode_block :: "'h mmio \<Rightarrow> nat \<Rightarrow> u32 \<Rightarrow> u32 \<Rightarrow> bytes \<Rightarrow> bytes \<Rightarrow> bytes \<Rightarrow> ('h, u32) fw" where
  "decode_block M P sel count dat spare parity = do {
     jz_writel M BCH_INTS 0xffffffff;
     ecc_coding M sel False;
     ecc_cnt M 16 count;
     feed M dat;
     feed M spare;
     feed M parity;
     wait_for P (ints_flag_6 M 8);
     ecc_disable_6 M;
     jz_readl M BCH_INTS }"

text \<open>One encoding; the result is the parity.\<close>

fun get_parity_6 :: "'h mmio \<Rightarrow> nat \<Rightarrow> nat \<Rightarrow> ('h, bytes) fw" where
  "get_parity_6 M k 0 = State_Monad.return []"
| "get_parity_6 M k (Suc n) = do {
     b \<leftarrow> jz_readb M (BCH_PAR0 + of_nat k);
     bs \<leftarrow> get_parity_6 M (k + 1) n;
     State_Monad.return (b # bs) }"

definition encode_block :: "'h mmio \<Rightarrow> nat \<Rightarrow> u32 \<Rightarrow> u32 \<Rightarrow> bytes \<Rightarrow> bytes \<Rightarrow> nat \<Rightarrow> ('h, bytes) fw" where
  "encode_block M P sel count dat spare n = do {
     jz_writel M BCH_INTS 0xffffffff;
     ecc_coding M sel True;
     ecc_cnt M 0 count;
     feed M dat;
     feed M spare;
     wait_for P (ints_flag_6 M 4);
     ecc_disable_6 M;
     get_parity_6 M 0 n }"

section \<open>The first pages, for the loader\<close>

text \<open>Without pseudo-noise coding for the first block of every 64th page.\<close>

definition pn_enable_spl :: "'h mmio \<Rightarrow> u32 \<Rightarrow> nat \<Rightarrow> ('h, unit) fw" where
  "pn_enable_spl M pageaddr i = (if \<not> (pageaddr mod 64 = 0 \<and> i = 0) then pn_enable M else State_Monad.return ())"

fun read_spl_blocks :: "'h mmio \<Rightarrow> nat \<Rightarrow> buf_ptr \<Rightarrow> u32 \<Rightarrow> bytes \<Rightarrow> int \<Rightarrow> nat \<Rightarrow> nat \<Rightarrow> ('h, unit) fw" where
  "read_spl_blocks M P buf pageaddr ecc off i 0 = State_Monad.return ()"
| "read_spl_blocks M P buf pageaddr ecc off i (Suc n) = do {
     pn_enable_spl M pageaddr i;
     bs \<leftarrow> read_proc_6 M (of_nat ECC_BLOCK0);
     store_all buf off bs;
     pn_disable M;
     dat \<leftarrow> load_all buf off ECC_BLOCK0;
     stat \<leftarrow> decode_block M P 5 (of_nat (2 * ECC_BLOCK0 + PAR_SIZE_SPL)) dat [] (slice (i * PAR_SIZE_SPL1) PAR_SIZE_SPL1 ecc);
     (if stat AND 1 \<noteq> 0 \<and> stat AND 2 = 0 then correct_all M buf off stat else State_Monad.return ());
     read_spl_blocks M P buf pageaddr ecc (off + int ECC_BLOCK0) (i + 1) n }"

text \<open>The parity of page \<^verbatim>\<open>k\<close> lies in page \<^verbatim>\<open>k + 1\<close>; \<^verbatim>\<open>eccbuf\<close> has 1024 bytes, which are all ones before the read.\<close>

definition read_nand_spl_page :: "'h mmio \<Rightarrow> nat \<Rightarrow> buf_ptr \<Rightarrow> int \<Rightarrow> u32 \<Rightarrow> ('h, unit) fw" where
  "read_nand_spl_page M P buf off pageaddr = do {
     nand_enable_6 M;
     v \<leftarrow> nf6_gets (\<lambda>v. v);
     let ecccnt = ecc_count_6 (n6_pagesize v) ECC_BLOCK0;
     start_read_6 M P (pageaddr + 1);
     pn_enable M;
     bs \<leftarrow> read_proc_6 M (ecccnt * of_nat PAR_SIZE_SPL1);
     fw_mark (length bs > 1024);
     pn_disable M;
     nand_disable_6 M;
     nand_enable_6 M;
     start_read_6 M P pageaddr;
     store_all buf off (replicate (unat (n6_pagesize v)) 0xff);
     read_spl_blocks M P buf pageaddr (bs @ replicate (1024 - length bs) 0xff) off 0 (unat ecccnt);
     nand_disable_6 M }"

fun read_spl_pages :: "'h mmio \<Rightarrow> nat \<Rightarrow> buf_ptr \<Rightarrow> u32 \<Rightarrow> nat \<Rightarrow> ('h, unit) fw" where
  "read_spl_pages M P buf m 0 = State_Monad.return ()"
| "read_spl_pages M P buf m (Suc n) = do {
     ps \<leftarrow> nf6_gets n6_pagesize;
     read_nand_spl_page M P buf (uint (ps * m)) (m * 2);
     read_spl_pages M P buf (m + 1) n }"

section \<open>Reading\<close>

text \<open>What follows the decoding of one block of 512 bytes.\<close>

definition check_decoding_6 :: "'h mmio \<Rightarrow> buf_ptr \<Rightarrow> int \<Rightarrow> bool \<Rightarrow> u32 \<Rightarrow> ('h, unit) fw" where
  "check_decoding_6 M buf off flag stat =
     (if stat AND 1 = 0 then State_Monad.return ()
      else if stat AND 2 \<noteq> 0 then (if flag then set_status 1 else State_Monad.return ())
      else do { set_status 0; correct_all M buf off stat })"

text \<open>\<^verbatim>\<open>per\<close> is \<^verbatim>\<open>oob_per_eccsize\<close>, the number of spare bytes that belong to a block.\<close>

definition decode_count :: "nand6_vars \<Rightarrow> nat \<Rightarrow> u32 \<Rightarrow> u32" where
  "decode_count v option per = of_nat ECC_BLOCK * 2 + (if option \<noteq> 2 then per * 2 else 0) + n6_par_size v"

definition decode_select :: "nand6_vars \<Rightarrow> u32 \<Rightarrow> u32" where
  "decode_select v cur_page = (if cur_page \<ge> sdiv32 16384 (n6_pagesize v) then bch_select (n6_bchbit v) else 5)"

definition decode_spare :: "nat \<Rightarrow> u32 \<Rightarrow> nat \<Rightarrow> ('h, bytes) fw" where
  "decode_spare option per j =
     (if option \<noteq> 2 then get_oob_6 (unat (per * of_nat j)) (unat per) else State_Monad.return [])"

definition decode_step_6 :: "'h mmio \<Rightarrow> nat \<Rightarrow> buf_ptr \<Rightarrow> int \<Rightarrow> nat \<Rightarrow> u32 \<Rightarrow> u32 \<Rightarrow> nat \<Rightarrow> ('h, unit) fw" where
  "decode_step_6 M P buf off option cur_page per j = do {
     v \<leftarrow> nf6_gets (\<lambda>v. v);
     dat \<leftarrow> load_all buf off ECC_BLOCK;
     spare \<leftarrow> decode_spare option per j;
     parity \<leftarrow> get_oob_6 (unat (n6_eccpos v + of_nat j * n6_par_size1 v)) (unat (n6_par_size1 v));
     stat \<leftarrow> decode_block M P (decode_select v cur_page) (decode_count v option per) dat spare parity;
     check_decoding_6 M buf off (list_ex (\<lambda>b. b \<noteq> 0xff) parity) stat }"

fun decode_steps_6 :: "'h mmio \<Rightarrow> nat \<Rightarrow> buf_ptr \<Rightarrow> int \<Rightarrow> nat \<Rightarrow> u32 \<Rightarrow> u32 \<Rightarrow> nat \<Rightarrow> nat \<Rightarrow> ('h, int) fw" where
  "decode_steps_6 M P buf off option cur_page per j 0 = State_Monad.return off"
| "decode_steps_6 M P buf off option cur_page per j (Suc n) = do {
     decode_step_6 M P buf off option cur_page per j;
     decode_steps_6 M P buf (off + int ECC_BLOCK) option cur_page per (j + 1) n }"

definition copy_spare_6 :: "buf_ptr \<Rightarrow> int \<Rightarrow> ('h, int) fw" where
  "copy_spare_6 buf off = do {
     n \<leftarrow> nf6_gets n6_oobsize;
     bs \<leftarrow> get_oob_6 0 (unat n);
     store_all buf off bs;
     State_Monad.return (off + sint n) }"

definition read_page_6 :: "'h mmio \<Rightarrow> nat \<Rightarrow> buf_ptr \<Rightarrow> int \<Rightarrow> nat \<Rightarrow> u32 \<Rightarrow> u32 \<Rightarrow> u32 \<Rightarrow> ('h, int) fw" where
  "read_page_6 M P buf off option cur_page ecccnt per = do {
     start_read_6 M P cur_page;
     v \<leftarrow> nf6_gets (\<lambda>v. v);
     bs \<leftarrow> read_proc_6 M (n6_pagesize v);
     store_all buf off bs;
     bs \<leftarrow> read_proc_6 M (n6_oobsize v);
     put_oob_6 0 bs;
     off \<leftarrow> decode_steps_6 M P buf off option cur_page per 0 (unat ecccnt);
     if option = 0 then copy_spare_6 buf off
     else if option = 1 then do {
       put_oob_6 (unat (n6_eccpos v)) (replicate (unat (n6_par_size1 v * ecccnt)) 0xff);
       copy_spare_6 buf off }
     else State_Monad.return off }"

fun read_loop_6 :: "'h mmio \<Rightarrow> nat \<Rightarrow> nat \<Rightarrow> buf_ptr \<Rightarrow> u32 \<Rightarrow> nat \<Rightarrow> u32 \<Rightarrow> u32 \<Rightarrow> u32 \<Rightarrow> int \<Rightarrow> u32 \<Rightarrow> u32 \<Rightarrow> ('h, u32) fw" where
  "read_loop_6 M P 0 buf pagenum option spl ecccnt per off cnt cur_page = do { hang; State_Monad.return cur_page }"
| "read_loop_6 M P (Suc n) buf pagenum option spl ecccnt per off cnt cur_page =
     (if cnt < pagenum then do {
        ppb \<leftarrow> nf6_gets n6_ppb;
        if cur_page < spl * 2 then do {
          read_spl_pages M P buf 0 (min (unat pagenum) (unat spl));
          read_loop_6 M P n buf pagenum option spl ecccnt per off spl (ppb * 2) }
        else do {
          bad \<leftarrow> bad_here_6 M P cur_page;
          if bad then read_loop_6 M P n buf pagenum option spl ecccnt per off cnt (cur_page + ppb)
          else do {
            off \<leftarrow> read_page_6 M P buf off option cur_page ecccnt per;
            read_loop_6 M P n buf pagenum option spl ecccnt per off (cnt + 1) (cur_page + 1) } } }
      else State_Monad.return cur_page)"

definition spl_pages :: "u32 \<Rightarrow> u32" where "spl_pages pagesize = sdiv32 (8 * 1024) pagesize"

definition nand_read_4760 :: "'h mmio \<Rightarrow> nat \<Rightarrow> buf_ptr \<Rightarrow> u32 \<Rightarrow> u32 \<Rightarrow> nat \<Rightarrow> ('h, u32) fw" where
  "nand_read_4760 M P buf startpage pagenum option = do {
     v \<leftarrow> nf6_gets (\<lambda>v. v);
     let spl = spl_pages (n6_pagesize v);
     let ecccnt = ecc_count_6 (n6_pagesize v) ECC_BLOCK;
     fw_mark (n6_pagesize v = 0 \<or> ecccnt = 0);
     let per = n6_eccpos v div ecccnt;
     let off = (if startpage < spl * 2 then 8 * 1024 else 0);
     nand_enable_6 M;
     cur \<leftarrow> read_loop_6 M P P buf pagenum option spl ecccnt per off 0 startpage;
     nand_disable_6 M;
     State_Monad.return cur }"

section \<open>Programming\<close>

definition encode_count :: "nat \<Rightarrow> u32 \<Rightarrow> u32" where
  "encode_count option per = (if option \<noteq> 2 then (of_nat ECC_BLOCK + per) * 2 else of_nat ECC_BLOCK * 2)"

text \<open>The spare bytes of block \<^verbatim>\<open>j\<close> as they go to the encoder: the first two of the page are all ones, however few belong to the block.\<close>

definition encode_spare :: "nat \<Rightarrow> nat \<Rightarrow> u32 \<Rightarrow> nat \<Rightarrow> ('h, bytes) fw" where
  "encode_spare option off per j =
     (if option = 2 then State_Monad.return []
      else if j = 0 then do { bs \<leftarrow> out_bytes (off + 2) (unat per - 2); State_Monad.return ([0xff, 0xff] @ bs) }
      else out_bytes (off + unat (per * of_nat j)) (unat per))"

text \<open>\<^verbatim>\<open>off\<close> is the offset of the page's data in \<^verbatim>\<open>bulk_out_buf\<close>.\<close>

definition encode_step_6 :: "'h mmio \<Rightarrow> nat \<Rightarrow> nat \<Rightarrow> nat \<Rightarrow> u32 \<Rightarrow> nat \<Rightarrow> ('h, bytes) fw" where
  "encode_step_6 M P option off per j = do {
     v \<leftarrow> nf6_gets (\<lambda>v. v);
     dat \<leftarrow> out_bytes (off + ECC_BLOCK * j) ECC_BLOCK;
     spare \<leftarrow> encode_spare option (off + unat (n6_pagesize v)) per j;
     par \<leftarrow> encode_block M P (bch_select (n6_bchbit v)) (encode_count option per) dat spare (nat (sint (n6_par_size1 v)));
     write_proc_6 M dat;
     State_Monad.return par }"

fun encode_steps_6 :: "'h mmio \<Rightarrow> nat \<Rightarrow> nat \<Rightarrow> nat \<Rightarrow> u32 \<Rightarrow> nat \<Rightarrow> nat \<Rightarrow> ('h, bytes) fw" where
  "encode_steps_6 M P option off per j 0 = State_Monad.return []"
| "encode_steps_6 M P option off per j (Suc n) = do {
     bs \<leftarrow> encode_step_6 M P option off per j;
     rest \<leftarrow> encode_steps_6 M P option off per (j + 1) n;
     State_Monad.return (bs @ rest) }"

text \<open>The spare bytes that are written, in the array \<^verbatim>\<open>oob_buf\<close> of 512 bytes of this function, and the length of the page in the buffer.\<close>

definition spare_to_write :: "nat \<Rightarrow> nat \<Rightarrow> bytes \<Rightarrow> ('h, (nat \<Rightarrow> u8) \<times> nat) fw" where
  "spare_to_write option off ecc = do {
     v \<leftarrow> nf6_gets (\<lambda>v. v);
     let ps = unat (n6_pagesize v);
     let os = unat (n6_oobsize v);
     let pos = unat (n6_eccpos v);
     fw_mark (os > 512 \<or> length ecc > 1024);
     if option = 0 \<or> option = 1 then do {
       bs \<leftarrow> out_bytes (off + ps + 2) (pos - 2);
       fw_mark (pos + length ecc > 512);
       State_Monad.return (buf_put pos ecc (buf_put 2 bs (\<lambda>_. 0xff)), unat (n6_pagesize v + n6_oobsize v)) }
     else if option = 2 then do {
       fw_mark (pos + length ecc > 512);
       State_Monad.return (buf_put pos ecc (\<lambda>_. 0xff), ps) }
     else State_Monad.return (\<lambda>_. 0xff, 0) }"

definition program_page_6 :: "'h mmio \<Rightarrow> nat \<Rightarrow> nat \<Rightarrow> u32 \<Rightarrow> u32 \<Rightarrow> nat \<Rightarrow> u32 \<Rightarrow> ('h, bool \<times> nat) fw" where
  "program_page_6 M P option ecccnt per off cur = do {
     nand_enable_6 M;
     nand_sync_6 M P;
     if_small_6 (nand_cmd_6 M CMD_READA);
     nand_cmd_6 M CMD_SEQIN;
     nand_addr_6 M 0;
     unless_small_6 (nand_addr_6 M 0);
     send_page_6 M cur;
     ecc \<leftarrow> encode_steps_6 M P option off per 0 (unat ecccnt);
     (oob, len) \<leftarrow> spare_to_write option off ecc;
     v \<leftarrow> nf6_gets (\<lambda>v. v);
     write_proc_6 M (buf_bytes oob 0 (nat (sint (n6_oobsize v))));
     nand_cmd_6 M CMD_PGPROG;
     nand_sync_6 M P;
     nand_cmd_6 M CMD_READ_STATUS;
     nand_sync_6 M P;
     st \<leftarrow> nand_data8_6 M;
     State_Monad.return (st AND 0x01 \<noteq> 0, off + len) }"

fun program_spl_blocks :: "'h mmio \<Rightarrow> nat \<Rightarrow> u32 \<Rightarrow> nat \<Rightarrow> nat \<Rightarrow> nat \<Rightarrow> ('h, bytes) fw" where
  "program_spl_blocks M P pageaddr off i 0 = State_Monad.return []"
| "program_spl_blocks M P pageaddr off i (Suc n) = do {
     dat \<leftarrow> out_bytes off ECC_BLOCK0;
     par \<leftarrow> encode_block M P 5 (of_nat (2 * ECC_BLOCK0)) dat [] PAR_SIZE_SPL1;
     pn_enable_spl M pageaddr i;
     write_proc_6 M dat;
     pn_disable M;
     rest \<leftarrow> program_spl_blocks M P pageaddr (off + ECC_BLOCK0) (i + 1) n;
     State_Monad.return (par @ rest) }"

definition start_program_6 :: "'h mmio \<Rightarrow> u32 \<Rightarrow> ('h, unit) fw" where
  "start_program_6 M page = do {
     if_small_6 (nand_cmd_6 M CMD_READA);
     nand_cmd_6 M CMD_SEQIN;
     nand_addr_6 M 0;
     unless_small_6 (nand_addr_6 M 0);
     send_page_int M page }"

text \<open>The status bit after a program command.\<close>

definition program_failed :: "'h mmio \<Rightarrow> nat \<Rightarrow> ('h, bool) fw" where
  "program_failed M P = do {
     nand_cmd_6 M CMD_PGPROG;
     nand_sync_6 M P;
     nand_cmd_6 M CMD_READ_STATUS;
     st \<leftarrow> nand_data8_6 M;
     nand_disable_6 M;
     State_Monad.return (st AND 0x01 \<noteq> 0) }"

definition program_nand_spl_page :: "'h mmio \<Rightarrow> nat \<Rightarrow> nat \<Rightarrow> u32 \<Rightarrow> ('h, bool) fw" where
  "program_nand_spl_page M P off pageaddr = do {
     nand_enable_6 M;
     v \<leftarrow> nf6_gets (\<lambda>v. v);
     let ecccnt = ecc_count_6 (n6_pagesize v) ECC_BLOCK0;
     start_program_6 M pageaddr;
     ecc \<leftarrow> program_spl_blocks M P pageaddr off 0 (nat (sint ecccnt));
     failed \<leftarrow> program_failed M P;
     fw_mark (length ecc > 1024);
     if failed then State_Monad.return True
     else do {
       nand_enable_6 M;
       start_program_6 M (pageaddr + 1);
       pn_enable M;
       write_proc_6 M ecc;
       pn_disable M;
       program_failed M P } }"

fun program_spl_pages :: "'h mmio \<Rightarrow> nat \<Rightarrow> nat \<Rightarrow> nat \<Rightarrow> ('h, unit) fw" where
  "program_spl_pages M P k 0 = State_Monad.return ()"
| "program_spl_pages M P k (Suc n) = do {
     ps \<leftarrow> nf6_gets n6_pagesize;
     failed \<leftarrow> program_nand_spl_page M P (unat ps * k) (of_nat k * 2);
     program_spl_pages M P (k + 1) n }"

text \<open>A failed page starts the whole data again at the next block.\<close>

fun nprog_loop_6 :: "'h mmio \<Rightarrow> nat \<Rightarrow> nat \<Rightarrow> nat \<Rightarrow> u32 \<Rightarrow> u32 \<Rightarrow> u32 \<Rightarrow> u32 \<Rightarrow> u32 \<Rightarrow> u32 \<Rightarrow> u32 \<Rightarrow> nat \<Rightarrow> ('h, u32) fw" where
  "nprog_loop_6 M P 0 option pages spl ecccnt per spage i cur off = do { hang; State_Monad.return cur }"
| "nprog_loop_6 M P (Suc n) option pages spl ecccnt per spage i cur off =
     (if i < pages then do {
        v \<leftarrow> nf6_gets (\<lambda>v. v);
        if cur = 0 then do {
          program_spl_pages M P 0 (nat (sint spl));
          nprog_loop_6 M P n option pages spl ecccnt per spage (i + spl) (2 * n6_ppb v) (off + unat (n6_pagesize v * spl)) }
        else do {
          bad \<leftarrow> bad_here_6 M P cur;
          if bad then nprog_loop_6 M P n option pages spl ecccnt per spage i (cur + n6_ppb v) off
          else do {
            buf \<leftarrow> fw_gets bulk_out_buf;
            let total = unat (n6_pagesize v + n6_oobsize v);
            let blank = (option \<noteq> 2 \<and> list_all (\<lambda>j. buf (off + j) = 0xff) [0..<total]);
            fw_mark (option \<noteq> 2 \<and> off + total > BULK_BUF_BYTES
              \<and> list_all (\<lambda>j. off + j < BULK_BUF_BYTES \<longrightarrow> buf (off + j) = 0xff) [0..<total]);
            if blank then nprog_loop_6 M P n option pages spl ecccnt per spage (i + 1) (cur + 1) (off + total)
            else do {
              (failed, off) \<leftarrow> program_page_6 M P option ecccnt per off cur;
              if failed then do {
                b \<leftarrow> block_nr_6 cur;
                r \<leftarrow> nand_erase_4760 M P 1 b 1;
                r \<leftarrow> nand_mark_bad_4760 M P b;
                let spage = spage + n6_ppb v;
                nprog_loop_6 M P n option pages spl ecccnt per spage 0 spage 0 }
              else do {
                nand_disable_6 M;
                nprog_loop_6 M P n option pages spl ecccnt per spage (i + 1) (cur + 1) off } } } } }
      else State_Monad.return cur)"

definition nand_program_4760 :: "'h mmio \<Rightarrow> nat \<Rightarrow> u32 \<Rightarrow> u32 \<Rightarrow> nat \<Rightarrow> ('h, u32) fw" where
  "nand_program_4760 M P spage pages option = do {
     v \<leftarrow> nf6_gets (\<lambda>v. v);
     let spl = spl_pages (n6_pagesize v);
     let ecccnt = ecc_count_6 (n6_pagesize v) ECC_BLOCK;
     fw_mark (n6_pagesize v = 0 \<or> ecccnt = 0);
     let per = n6_eccpos v div ecccnt;
     wp_set_6 M;
     cur \<leftarrow> nprog_loop_6 M P P option pages spl ecccnt per spage 0 spage 0;
     wp_clear_6 M;
     State_Monad.return cur }"

section \<open>The driver of the request handlers\<close>

definition driver_4760 :: "'h mmio \<Rightarrow> nat \<Rightarrow> 'h nand_driver" where
  "driver_4760 M P = \<lparr>
     nd_init = (\<lambda>ps. nand_init_4760 M (ps ! 0) (ps ! 1) (ps ! 2) (ps ! 3) (ps ! 4) (ps ! 5) (ps ! 6) (ps ! 7) (ps ! 8)),
     nd_query = nand_query_4760 M P, nd_program = nand_program_4760 M P, nd_erase = nand_erase_4760 M P,
     nd_read = nand_read_4760 M P, nd_read_oob = nand_read_oob_4760 M P, nd_read_raw = nand_read_raw_4760 M P,
     nd_mark_bad = nand_mark_bad_4760 M P, nd_enable = nand_enable_4760 M, nd_disable = nand_disable_4760 M\<rparr>"

end
