(* ===== verification/Link_Configure.thy ===== *)
theory Link_Configure
  imports Link_Probe Nandflash_4760
begin

text \<open>
  The configuration over the bus: \<^verbatim>\<open>ingenic_configure_stage2\<close> of the host against the firmware with its own NAND drivers,
  which \<^verbatim>\<open>Board_Init\<close> initialises from what has arrived.
\<close>

section \<open>The drivers of the firmware\<close>

text \<open>The drivers of \<^verbatim>\<open>nandflash_4740.c\<close> and \<^verbatim>\<open>nandflash_4760.c\<close> on the registers of the device.\<close>

definition stage2_drivers :: "nat \<Rightarrow> ctl drivers" where
  "stage2_drivers P k = (if k = Drv_4760 then driver_4760 ctl_mmio P else driver_4740 ctl_mmio P)"

text \<open>The registers of the pins and of the memory controller lie at other offsets in their page than the FIFOs of the USB controller.\<close>

definition off_fifo :: "u32 \<Rightarrow> bool" where
  "off_fifo port \<longleftrightarrow> take_bit 8 port \<noteq> 0x20 \<and> take_bit 8 port \<noteq> 0x24"

lemma off_fifo_io:
  assumes "off_fifo port"
  shows "run_state (jz_writel ctl_mmio port v) s = ((), s)" "run_state (jz_readl ctl_mmio port) s = (0, s)"
proof -
  have "port \<noteq> 0xB3040020" "port \<noteq> 0xB3040024" using assms by (auto simp: off_fifo_def)
  then show "run_state (jz_writel ctl_mmio port v) s = ((), s)" "run_state (jz_readl ctl_mmio port) s = (0, s)"
    by (simp_all add: reg_defs host_simps ctl_io)
qed

lemma low_byte_shift: "take_bit 8 (reg + 0x100 * q) = take_bit 8 (reg :: u32)"
  by transfer (simp add: take_bit_eq_mod)

lemma off_fifo_gpio: "off_fifo (GPIO_PX reg p) \<longleftrightarrow> take_bit 8 reg \<noteq> 0x20 \<and> take_bit 8 reg \<noteq> 0x24"
proof -
  have "GPIO_PX reg p = reg + 0x100 * (p + 0xB00100)"
    by (simp add: GPIO_PX_def GPIO_BASE_def algebra_simps)
  then show ?thesis by (simp only: low_byte_shift off_fifo_def)
qed

lemma off_fifo_regs: "off_fifo EMC_SMCR1" "off_fifo NEMC_SMCR1" "off_fifo NEMC_NFCSR"
  by (simp_all add: off_fifo_def nand_reg_defs nand6_reg_defs)

lemmas quiet_io = off_fifo_io off_fifo_gpio off_fifo_regs

section \<open>What the initialisations leave\<close>

definition chip_ports :: "hand \<Rightarrow> nand_vars \<Rightarrow> nand_vars" where
  "chip_ports h v = (if hd_nand_bpc h = 0 then v
     else v\<lparr>nv_addrport := 0xb8010000, nv_dataport := 0xb8000000, nv_cmdport := 0xb8008000\<rparr>)"

definition init_nf :: "hand \<Rightarrow> nand_vars \<Rightarrow> nand_vars" where
  "init_nf h v = (chip_ports h (v\<lparr>nv_bus := hd_nand_bw h, nv_row := hd_nand_rc h, nv_pagesize := hd_nand_ps h,
     nv_oobsize := word_of_int (sint (hd_nand_ps h) sdiv 32), nv_ppb := hd_nand_ppb h, nv_bb_pos := hd_nand_bbpos h,
     nv_bb_page := hd_nand_bbpage h, nv_force_erase := hd_nand_force_erase h, nv_ecc_pos := hd_nand_eccpos h,
     nv_wp_pin := hd_nand_wppin h\<rparr>))\<lparr>nv_proc := (if hd_nand_bw h = 8 then Proc8 else Proc16)\<rparr>"

definition init_nf6 :: "hand \<Rightarrow> nand6_vars \<Rightarrow> nand6_vars" where
  "init_nf6 h v = (let p = parity_nibbles (hd_nand_bchbit h) (n6_par_size v) in
     v\<lparr>n6_bus := hd_nand_bw h, n6_row := hd_nand_rc h, n6_pagesize := hd_nand_ps h,
       n6_oobsize := word_of_int (sint (hd_nand_ps h) sdiv 32), n6_ppb := hd_nand_ppb h, n6_bchbit := hd_nand_bchbit h,
       n6_forceerase := hd_nand_force_erase h, n6_eccpos := (if hd_nand_eccpos h = 0 then 3 else hd_nand_eccpos h),
       n6_bb_pos := hd_nand_bbpos h, n6_bb_page := hd_nand_bbpage h, n6_wp_pin := hd_nand_wppin h, n6_par_size := p,
       n6_par_size1 := word_of_int (sint (p + 1) sdiv 2), n6_proc := (if hd_nand_bw h = 8 then Proc8 else Proc16)\<rparr>)"

lemma run_gpio_init: "run_state (nand_init_gpio ctl_mmio) s = ((), s)"
  by (simp add: nand_init_gpio_def host_simps quiet_io)

lemma run_gpio_output:
  "run_state (gpio_as_output ctl_mmio n) s = ((), s)" "run_state (gpio_disable_pull ctl_mmio n) s = ((), s)"
  by (simp_all add: gpio_as_output_def gpio_disable_pull_def host_simps quiet_io)

lemma run_gpio_nand: "run_state (gpio_as_nand_8bit ctl_mmio) s = ((), s)" "run_state (gpio_as_nand_16bit ctl_mmio) s = ((), s)"
  by (simp_all add: gpio_as_nand_8bit_def gpio_as_nand_16bit_def pins_nand_4760_def host_simps quiet_io)

lemma run_select_first: "run_state (select_chip 0) s = ((), s\<lparr>nf := chip_ports (Hand s) (nf s)\<rparr>)"
  by (simp add: select_chip_def host_simps chip_ports_def EMC_CSN_def Let_def)

lemma run_init_4740:
  fixes h :: hand and s :: device
  assumes "Hand s = h"
  shows "run_state (nand_init_4740 ctl_mmio (hd_nand_bw h) (hd_nand_rc h) (hd_nand_ps h) (hd_nand_ppb h) (hd_nand_bbpage h)
      (hd_nand_bbpos h) (hd_nand_force_erase h) (hd_nand_eccpos h)) s = ((), s\<lparr>nf := init_nf h (nf s)\<rparr>)"
  using assms by (simp add: nand_init_4740_def host_simps run_gpio_init run_gpio_output run_select_first quiet_io init_nf_def)

lemma run_init_4760:
  fixes h :: hand and s :: device
  assumes "Hand s = h"
  shows "run_state (nand_init_4760 ctl_mmio (hd_nand_bw h) (hd_nand_rc h) (hd_nand_ps h) (hd_nand_ppb h) (hd_nand_bchbit h)
      (hd_nand_eccpos h) (hd_nand_bbpos h) (hd_nand_bbpage h) (hd_nand_force_erase h)) s = ((), s\<lparr>nf6 := init_nf6 h (nf6 s)\<rparr>)"
  using assms by (simp add: nand_init_4760_def host_simps run_gpio_nand run_gpio_output nand_enable_6_def quiet_io init_nf6_def Let_def)

text \<open>\<^verbatim>\<open>Board_Init\<close> selects the driver of the processor and leaves it the settings of the host.\<close>

definition driver_of :: "u32 \<Rightarrow> driver \<Rightarrow> driver" where
  "driver_of cpu old = (if cpu = 0x4740 then Drv_4740 else if cpu = 0x4760 then Drv_4760 else old)"

definition board_set :: "device \<Rightarrow> device" where
  "board_set s = (let h = Hand s; cpu = fa_cpu_id (hd_fw_args h) in
     s\<lparr>nand_drv := driver_of cpu (nand_drv s), nf := (if cpu = 0x4740 then init_nf h (nf s) else nf s),
       nf6 := (if cpu = 0x4760 then init_nf6 h (nf6 s) else nf6 s)\<rparr>)"

lemma run_Board_Init: "run_state (Board_Init (stage2_drivers P)) s = ((), board_set s)"
proof -
  consider "fa_cpu_id (hd_fw_args (Hand s)) = 0x4740" | "fa_cpu_id (hd_fw_args (Hand s)) = 0x4760"
    | "fa_cpu_id (hd_fw_args (Hand s)) \<noteq> 0x4740 \<and> fa_cpu_id (hd_fw_args (Hand s)) \<noteq> 0x4760" by blast
  then show ?thesis
  proof cases
    case 1
    then show ?thesis
      using run_init_4740 [OF refl, of s] by (simp add: Board_Init_def host_simps stage2_drivers_def driver_4740_def board_set_def driver_of_def)
  next
    case 2
    then show ?thesis
      using run_init_4760 [OF refl, of s] by (simp add: Board_Init_def host_simps stage2_drivers_def driver_4760_def board_set_def driver_of_def)
  next
    case 3
    then show ?thesis by (simp add: Board_Init_def host_simps board_set_def driver_of_def)
  qed
qed

section \<open>Over the bus\<close>

definition hand_req :: dev_request where
  "hand_req = \<lparr>bmRequestType = 0x40, bRequest = 9, wValue = 1, wIndex = 0, wLength = 0\<rparr>"

definition configured :: "device \<Rightarrow> device" where
  "configured d = (let d0 = before_req hand_req d; h = dec_hand (buf_bytes (bulk_out_buf d) 0 88); d1 = board_set (d0\<lparr>Hand := h\<rparr>) in
     d1\<lparr>handshake_PKT := (handshake_PKT d)[3 := 0],
       fifo := 0xB3040024, Bulk_in_size := 8,
       hw := (hw d0)\<lparr>c_index := 1, c_in_pkts := [concat (List.map enc_u16 ((handshake_PKT d)[3 := 0]))]\<rparr>,
       Bulk_in_finish := 8, Bulk_out_size := 0, rx_size := 0\<rparr>)"

lemma board_set_sel [simp]:
  "hw (board_set s) = hw s" "Hand (board_set s) = Hand s" "ram (board_set s) = ram s" "handshake_PKT (board_set s) = handshake_PKT s"
  by (simp_all add: board_set_def Let_def)

lemma control_configure:
  assumes "quiet d"
  shows "control (stage2_drivers P) hand_req d = configured d"
proof -
  have q: "ep0state d = USB_EP0_IDLE" "USB_Version d = USB_HS" using assms by (auto simp: quiet_def)
  have run: "run_state (usbHandleVendorReq ctl_mmio (stage2_drivers P) hand_req) (before_req hand_req d)
      = ((), (configured d)\<lparr>rx_size := rx_size d\<rparr>)"
    using assms
    by (simp add: usbHandleVendorReq_def hand_req_def CONFIGRATION_Handle_def config_hand_def run_Board_Init host_simps
      before_req_def quiet_def clear_out_size_def handshake_step handshake_bytes_def configured_def board_set_def Let_def ERR_OK_def)
  show ?thesis
    by (subst control_vendor [OF assms(1) _ run])
      (use q in \<open>simp_all add: hand_req_def configured_def board_set_def before_req_def Let_def\<close>)
qed

text \<open>What the host's NAND settings become in the statics of each driver.  The number of spare bytes is not among them: both drivers
  take one for every 32 bytes of a page.\<close>

definition settings_4740 :: "nand_config \<Rightarrow> nand_vars \<Rightarrow> bool" where
  "settings_4740 n v \<longleftrightarrow> nv_bus v = nand_bw n \<and> nv_row v = nand_rc n \<and> nv_pagesize v = nand_ps n \<and> nv_ppb v = nand_ppb n
     \<and> nv_oobsize v = word_of_int (sint (nand_ps n) sdiv 32)
     \<and> nv_bb_pos v = nand_bbpos n \<and> nv_bb_page v = nand_bbpage n \<and> nv_force_erase v = nand_force_erase n
     \<and> nv_ecc_pos v = nand_eccpos n \<and> nv_wp_pin v = nand_wppin n \<and> nv_proc v = (if nand_bw n = 8 then Proc8 else Proc16)"

definition settings_4760 :: "nand_config \<Rightarrow> nand6_vars \<Rightarrow> bool" where
  "settings_4760 n v \<longleftrightarrow> n6_bus v = nand_bw n \<and> n6_row v = nand_rc n \<and> n6_pagesize v = nand_ps n \<and> n6_ppb v = nand_ppb n
     \<and> n6_oobsize v = word_of_int (sint (nand_ps n) sdiv 32) \<and> n6_bchbit v = nand_bchbit n
     \<and> n6_bb_pos v = nand_bbpos n \<and> n6_bb_page v = nand_bbpage n \<and> n6_forceerase v = nand_force_erase n
     \<and> n6_eccpos v = (if nand_eccpos n = 0 then 3 else nand_eccpos n) \<and> n6_wp_pin v = nand_wppin n
     \<and> n6_proc v = (if nand_bw n = 8 then Proc8 else Proc16)"

lemma chip_ports_sel [simp]:
  "nv_bus (chip_ports h v) = nv_bus v" "nv_row (chip_ports h v) = nv_row v" "nv_pagesize (chip_ports h v) = nv_pagesize v"
  "nv_oobsize (chip_ports h v) = nv_oobsize v" "nv_ppb (chip_ports h v) = nv_ppb v" "nv_bb_pos (chip_ports h v) = nv_bb_pos v"
  "nv_bb_page (chip_ports h v) = nv_bb_page v" "nv_force_erase (chip_ports h v) = nv_force_erase v"
  "nv_ecc_pos (chip_ports h v) = nv_ecc_pos v" "nv_wp_pin (chip_ports h v) = nv_wp_pin v"
  by (simp_all add: chip_ports_def)

lemma settings_init:
  "settings_4740 n (init_nf (to_hand n c) v)" "settings_4760 n (init_nf6 (to_hand n c) v6)"
  by (simp_all add: settings_4740_def settings_4760_def init_nf_def init_nf6_def to_hand_def Let_def)

lemma link_configure:
  fixes w :: "(device, 'c) world"
  assumes "ready (usb w)"
  shows "\<exists>d. run_state (ingenic_configure_stage2 (link (stage2_drivers P))) w = (0, w\<lparr>usb := d\<rparr>) \<and> ready d
     \<and> Hand d = to_hand (h_nand (hnd w)) (h_cfg (hnd w))
     \<and> nand_drv d = driver_of (cpu_id (h_cfg (hnd w))) (nand_drv (usb w))
     \<and> nf d = (if cpu_id (h_cfg (hnd w)) = 0x4740 then init_nf (Hand d) (nf (usb w)) else nf (usb w))
     \<and> nf6 d = (if cpu_id (h_cfg (hnd w)) = 0x4760 then init_nf6 (Hand d) (nf6 (usb w)) else nf6 (usb w))
     \<and> ram d = ram (usb w)"
proof -
  let ?D = "stage2_drivers P"
  let ?d0 = "usb w" and ?data = "enc_nand (h_nand (hnd w)) @ enc_fw (h_cfg (hnd w))"
  have q0: "quiet ?d0" "Bulk_out_size ?d0 = 0" using assms(1) by (auto simp: ready_def)
  have len: "length ?data = 88" by (simp add: nand.length_enc fw.length_enc)
  obtain c f b where o: "out_data ?D ?data ?d0 = ?d0\<lparr>fifo := f, hw := c, bulk_out_buf := b,
       Bulk_out_size := Bulk_out_size ?d0 + of_nat (length ?data), fw_ub := False\<rparr>"
      "quiet (out_data ?D ?data ?d0)" "buf_bytes b 0 88 = ?data"
    using out_data_gathers [OF q0(1), of ?data ?D] q0(2) len by (auto simp: BULK_BUF_BYTES_def buf_bytes_def)
  define d1 where "d1 = out_data ?D ?data ?d0"
  have q1: "quiet d1" using o(2) by (simp add: d1_def)
  have h1: "dec_hand (buf_bytes (bulk_out_buf d1) 0 88) = to_hand (h_nand (hnd w)) (h_cfg (hnd w))"
    using o(1,3) by (simp add: d1_def dec_hand_enc)
  define d2 where "d2 = control ?D hand_req d1"
  have d2: "d2 = configured d1" unfolding d2_def by (rule control_configure [OF q1])
  let ?ans = "concat (List.map enc_u16 ((handshake_PKT d1)[3 := 0]))"
  have in2: "in_data ?D n d2 = (?ans, answered d2)" for n
    by (rule in_data_answer)
      (use q1 in \<open>simp_all add: d2 configured_def board_set_def Let_def quiet_def before_req_def u16c.length_encs\<close>)
  have run: "run_state (ingenic_configure_stage2 (link ?D)) w = (0, w\<lparr>usb := answered d2\<rparr>)"
  proof -
    have "length ?ans = 8" using q1 by (simp add: u16c.length_encs quiet_def)
    moreover have "c_in_pkts (hw d2) = [?ans]" by (simp add: d2 configured_def Let_def)
    ultimately show ?thesis
      using in2 len
      by (simp add: ingenic_configure_stage2_def host_simps run_sendbulk run_recvbulk run_vendor vr_defs DS_hand_def
        d1_def [symmetric] setup_packet_def hand_req_def [symmetric] d2_def [symmetric])
  qed
  have hand: "Hand (answered d2) = to_hand (h_nand (hnd w)) (h_cfg (hnd w))"
    using h1 by (simp add: answered_def d2 configured_def Let_def)
  have cpu: "fa_cpu_id (hd_fw_args (to_hand (h_nand (hnd w)) (h_cfg (hnd w)))) = cpu_id (h_cfg (hnd w))"
    by (simp add: to_hand_def to_fw_args_def)
  have old: "nand_drv d1 = nand_drv ?d0" "nf d1 = nf ?d0" "nf6 d1 = nf6 ?d0" "ram d1 = ram ?d0" using o(1) by (simp_all add: d1_def)
  have "ready (answered d2)"
    using q1 by (simp add: ready_def quiet_def answered_def d2 configured_def board_set_def Let_def before_req_def)
  with run hand show ?thesis
    using h1 cpu old
    by (intro exI [of _ "answered d2"])
      (simp add: answered_def d2 configured_def board_set_def Let_def before_req_def)
qed

end
