(* ===== verification/Shell_Facts.thy ===== *)
theory Shell_Facts
  imports Shell Ingenic_Facts
begin

text \<open>
  What the command interpreter guarantees: which strings can be quoted, how many arguments
  every command takes, which handler a command line reaches, and the lines on which it
  touches memory it must not.
\<close>

section \<open>Quoting\<close>

fun escape :: "string \<Rightarrow> string" where
  "escape [] = []"
| "escape (c # cs) = (if c = CHR 0x22 then [CHR 0x5C, CHR 0x22] else [c]) @ escape cs"

definition quoted :: "string \<Rightarrow> string" where
  "quoted s = CHR 0x22 # escape s @ [CHR 0x22]"

definition ends_backslash :: "string \<Rightarrow> bool" where
  "ends_backslash s = (s \<noteq> [] \<and> last s = CHR 0x5C)"

text \<open>The value of the scanner as a string: null and empty are the same text.\<close>

definition text_val :: "string option \<Rightarrow> string" where
  "text_val v = (case v of None \<Rightarrow> [] | Some s \<Rightarrow> s)"

lemma text_val_append [simp]: "text_val (str_append acc s) = text_val acc @ s"
  by (cases acc) (simp_all add: text_val_def str_append_def)

lemma str_append_Some [simp]: "str_append acc s = Some (text_val acc @ s)"
  by (cases acc) (simp_all add: text_val_def str_append_def)

lemma text_val_Some [simp]: "text_val (Some s) = s"
  by (simp add: text_val_def)

lemma lex_str_escape:
  "\<not> ends_backslash s \<Longrightarrow> lex_str acc (escape s @ CHR 0x22 # rest)
     = Some (if s = [] then acc else Some (text_val acc @ s), rest)"
proof (induction s arbitrary: acc)
  case (Cons c s)
  have s: "\<not> ends_backslash s" using Cons.prems by (auto simp: ends_backslash_def split: if_splits)
  have ne: "c = CHR 0x5C \<Longrightarrow> s \<noteq> []" using Cons.prems by (auto simp: ends_backslash_def)
  consider "c = CHR 0x22" | "c = CHR 0x5C" | "c \<noteq> CHR 0x22" "c \<noteq> CHR 0x5C" by blast
  then show ?case
  proof cases
    case 2
    obtain d ds where d: "s = d # ds" using ne [OF 2] by (cases s) auto
    have "\<exists>e es. escape s @ CHR 0x22 # rest = e # es \<and> e \<noteq> CHR 0x22" by (auto simp: d)
    then obtain e es where e: "escape s @ CHR 0x22 # rest = e # es" "e \<noteq> CHR 0x22" by blast
    have "lex_str acc (escape (c # s) @ CHR 0x22 # rest) = lex_str acc (CHR 0x5C # e # es)" using 2 e(1) by simp
    also have "\<dots> = lex_str (Some (text_val acc @ [c])) (e # es)" using 2 e(2) by simp
    also have "\<dots> = Some (Some (text_val acc @ c # s), rest)" using Cons.IH [OF s] d unfolding e(1) [symmetric] by simp
    finally show ?thesis by simp
  qed (use Cons.IH [OF s] in auto)
qed simp

lemma lex_str_no_backslash:
  "lex_str acc cs = Some (v, rest) \<Longrightarrow> \<not> ends_backslash (text_val acc) \<or> (cs \<noteq> [] \<and> hd cs \<noteq> CHR 0x22)
     \<Longrightarrow> \<not> ends_backslash (text_val v)"
proof (induction acc cs rule: lex_str.induct)
  case (2 acc c cs)
  consider "c = CHR 0x22" | "c = CHR 0x5C" | "c \<noteq> CHR 0x22" "c \<noteq> CHR 0x5C" by blast
  then show ?case
  proof cases
    case 1
    with 2 show ?thesis by simp
  next
    case b: 2
    then obtain d ds where cs: "cs = d # ds" using 2(4) by (cases cs) auto
    show ?thesis
    proof (cases "d = CHR 0x22")
      case True
      with 2 b cs show ?thesis by (simp add: ends_backslash_def)
    next
      case False
      with 2 b cs show ?thesis by simp
    qed
  next
    case 3
    with 2 show ?thesis by (simp add: ends_backslash_def)
  qed
qed simp

text \<open>C32.  A double-quoted string with its quotes escaped is one token whose value is the string,
  whatever follows, unless the string ends in a backslash; and no quoted token at all has a
  value that ends in a backslash.  The empty string becomes the null pointer.\<close>

theorem quoting_roundtrip:
  "(\<not> ends_backslash s \<longrightarrow> lex_token eof (quoted s @ rest) = Some (TOK_STRING (if s = [] then None else Some s), rest))
   \<and> (\<forall>buf v rest'. lex_token eof (CHR 0x22 # buf) = Some (TOK_STRING (Some v), rest') \<longrightarrow> \<not> ends_backslash v)"
proof (intro conjI impI allI)
  assume "\<not> ends_backslash s"
  from lex_str_escape [OF this, of None rest] show "lex_token eof (quoted s @ rest) = Some (TOK_STRING (if s = [] then None else Some s), rest)"
    by (simp add: lex_token_def quoted_def text_val_def)
next
  fix buf v rest'
  assume "lex_token eof (CHR 0x22 # buf) = Some (TOK_STRING (Some v), rest')"
  then have "lex_str None buf = Some (Some v, rest')"
    by (simp add: lex_token_def split: option.splits if_splits prod.splits)
  from lex_str_no_backslash [OF this] show "\<not> ends_backslash v" by (simp add: ends_backslash_def text_val_def)
qed

lemma quoting_roundtrip_witness:
  "lex_token False ([CHR 0x22, CHR ''a'', CHR '' '', CHR 0x5C, CHR 0x22, CHR 0x22, CHR '';'']) = Some (TOK_STRING (Some [CHR ''a'', CHR '' '', CHR 0x22]), '';'')"
  using quoting_roundtrip [THEN conjunct1, of "[CHR ''a'', CHR '' '', CHR 0x22]" False "'';''"]
  by (simp add: quoted_def ends_backslash_def)

section \<open>Argument counts\<close>

text \<open>The number of words, the command's own name included, that each command accepts.\<close>

definition word_counts :: "string \<Rightarrow> nat set" where
  "word_counts name =
     (if name \<in> {''source'', ''sleep'', ''go'', ''nquery''} then {2}
      else if name \<in> {''echo'', ''safe''} then {2..}
      else if name = ''set'' then {1, 2, 3}
      else if name = ''memtest'' then {1, 3}
      else if name \<in> {''gpio'', ''load''} then {3}
      else if name = ''load_kernel'' then {3, 4}
      else if name \<in> {''nerase'', ''nprogram'', ''nprogram_oob''} then {4}
      else if name \<in> {''ndump'', ''ndump_oob'', ''nload''} then {5}
      else {1})"

lemmas args_eval = args_invalid_def word_counts_def builtin_cmdset_def spl_cmdset_def usbboot_cmdset_def

text \<open>The usage string of every command of the three tables is enforced as this table of word
  counts; \<^verbatim>\<open>memtest\<close>, whose usage string shows an optional base before a mandatory size, takes
  both or neither.\<close>

theorem argument_counts:
  "\<forall>c \<in> set (builtin_cmdset @ spl_cmdset @ usbboot_cmdset). \<forall>argc \<ge> 1.
     args_invalid (sc_args c) argc \<longleftrightarrow> argc \<notin> word_counts (sc_cmd c)"
  by (auto simp: args_eval)

lemma argument_counts_witness:
  "args_invalid (Some ''[BASE] <SIZE>'') 2 \<and> \<not> args_invalid (Some ''[BASE] <SIZE>'') 3"
  using argument_counts [THEN bspec, of "spl_cmdset ! 0"]
  by (auto simp: spl_cmdset_def word_counts_def)

section \<open>Dispatch\<close>

lemma run_arg: "run_state (arg argv n) w =
    (case if n < length argv then argv ! n else None of
       Some s \<Rightarrow> (s, w) | None \<Rightarrow> ([], w\<lparr>ub := True\<rparr>))"
proof -
  have "w\<lparr>ub := ub w\<rparr> = w" by (cases w) simp
  then show ?thesis by (auto simp: arg_def host_simps Let_def split: option.splits)
qed

text \<open>What a line that names the command \<^verbatim>\<open>c\<close> does.\<close>

definition invoke :: "(handler \<Rightarrow> argv \<Rightarrow> ('d, int option) shl) \<Rightarrow> argv \<Rightarrow> shell_command
    \<Rightarrow> ('d, shell_context) world \<Rightarrow> int option \<times> ('d, shell_context) world" where
  "invoke handle argv c w =
     (if args_invalid (sc_args c) (length argv) then (Some (-1), w\<lparr>errno := EINVAL\<rparr>)
      else case run_state (handle (sc_handler c) argv) w of
        (r, w') \<Rightarrow> (if r = Some 0 then Some 1 else r, w'))"

lemma run_enum:
  "run_state (enum_cmds (shell_run_function handle (Some name # as)) cs) w =
    (case find (\<lambda>c. sc_cmd c = name) cs of None \<Rightarrow> (Some 0, w) | Some c \<Rightarrow> invoke handle (Some name # as) c w)"
proof (induction cs)
  case (Cons c cs)
  show ?case
  proof (cases "sc_cmd c = name")
    case True
    then show ?thesis
      by (auto simp: shell_run_function_def run_arg host_simps lift_ret_def invoke_def split: prod.splits)
  next
    case False
    with Cons show ?thesis by (simp add: shell_run_function_def run_arg host_simps ret_def)
  qed
qed (simp add: ret_def host_simps)

definition active_commands :: "('d, shell_context) world \<Rightarrow> shell_command list" where
  "active_commands w = builtin_cmdset @ (case set_cmds (cb_data w) of None \<Rightarrow> [] | Some cs \<Rightarrow> cs)"

lemma invoke_nonzero: "fst (invoke handle argv c w) \<noteq> Some 0"
  by (auto simp: invoke_def split: prod.splits)

lemma run_dispatch:
  "run_state (shell_run_with handle (Some name # as)) w =
    (case find (\<lambda>c. sc_cmd c = name) (active_commands w) of
       None \<Rightarrow> (Some (-1), w\<lparr>errno := EINVAL\<rparr>)
     | Some c \<Rightarrow>
         if args_invalid (sc_args c) (length as + 1) then (Some (-1), w\<lparr>errno := EINVAL\<rparr>)
         else case run_state (handle (sc_handler c) (Some name # as)) w of
           (r, w') \<Rightarrow> (if r = Some 1 then Some 0 else r, w'))"
proof -
  have enum: "run_state (shell_enumerate_commands (shell_run_function handle (Some name # as))) w
      = (case find (\<lambda>c. sc_cmd c = name) (active_commands w) of None \<Rightarrow> (Some 0, w)
         | Some c \<Rightarrow> invoke handle (Some name # as) c w)"
    using invoke_nonzero [of handle "Some name # as" _ w]
    by (auto simp: shell_enumerate_commands_def host_simps run_enum active_commands_def find_append ret_def
      split: option.splits prod.splits) (metis fst_conv)+
  show ?thesis
    unfolding shell_run_with_def run_state_basic enum
    by (auto simp: invoke_def lift_ret_def host_simps split: option.splits prod.splits)
qed

text \<open>C13.  A command line runs the first command of its name, the built-in ones before those of
  the device's command set, and only that one: an unknown name or a wrong number of words is
  \<^verbatim>\<open>EINVAL\<close> and has no other effect, and the handler's return value is passed on, with 1
  turned into 0.\<close>

theorem dispatch_correct:
  "run_state (shell_run_with handle (Some name # as)) w =
    (case find (\<lambda>c. sc_cmd c = name) (active_commands w) of
       None \<Rightarrow> (Some (-1), w\<lparr>errno := EINVAL\<rparr>)
     | Some c \<Rightarrow>
         if args_invalid (sc_args c) (length as + 1) then (Some (-1), w\<lparr>errno := EINVAL\<rparr>)
         else case run_state (handle (sc_handler c) (Some name # as)) w of
           (r, w') \<Rightarrow> (if r = Some 1 then Some 0 else r, w'))"
  by (rule run_dispatch)

section \<open>Lines that touch freed or null memory\<close>

definition tables_ok :: "('d, shell_context) world \<Rightarrow> bool" where
  "tables_ok w = (set_cmds (cb_data w) \<in> {None, Some spl_cmdset, Some usbboot_cmdset})"

lemma run_null_name:
  "sc_cmd c \<noteq> [] \<Longrightarrow> run_state (shell_run_function handle (None # as) c) w = (Some 0, w\<lparr>ub := True\<rparr>)"
  by (simp add: shell_run_function_def run_arg host_simps ret_def)

lemma enum_null_name:
  "\<forall>c \<in> set cs. sc_cmd c \<noteq> [] \<Longrightarrow>
    run_state (enum_cmds (shell_run_function handle (None # as)) cs) w = (Some 0, w\<lparr>ub := ub w \<or> cs \<noteq> []\<rparr>)"
proof (induction cs arbitrary: w)
  case Nil
  have "w\<lparr>ub := ub w\<rparr> = w" by (cases w) simp
  then show ?case by (simp add: ret_def host_simps)
qed (simp add: host_simps run_null_name)

lemma run_null_command:
  assumes "tables_ok w"
  shows "run_state (shell_run_with handle (None # as)) w = (Some (-1), w\<lparr>errno := EINVAL, ub := True\<rparr>)"
proof -
  have "\<forall>c \<in> set (builtin_cmdset @ spl_cmdset @ usbboot_cmdset). sc_cmd c \<noteq> []"
    by (simp add: builtin_cmdset_def spl_cmdset_def usbboot_cmdset_def)
  moreover have "builtin_cmdset \<noteq> []" by (simp add: builtin_cmdset_def)
  ultimately show ?thesis
    using assms
    by (auto simp: tables_ok_def shell_run_with_def shell_enumerate_commands_def host_simps enum_null_name ret_def lift_ret_def)
qed

text \<open>The scanner on a line that is in memory, and after the line was freed.\<close>

lemma yylex_buffered: "lex_token eof buf = Some (tok, rest) \<Longrightarrow> yylex buf eof line = (tok, rest, eof, line, False)"
  by (simp add: yylex.simps [of buf])

lemma yylex_pull:
  "lex_token eof buf = None \<Longrightarrow> l \<noteq> [] \<Longrightarrow> length l < 8192 \<Longrightarrow> yylex buf eof (Some l) = yylex (buf @ l) eof (Some [])"
  by (simp add: yylex.simps [of buf] shell_pull_def YY_READ_BUF_SIZE_def)

lemma yylex_end: "lex_token eof buf = None \<Longrightarrow> yylex buf eof (Some []) = yylex buf True (Some [])"
  by (simp add: yylex.simps [of buf eof] shell_pull_def YY_READ_BUF_SIZE_def)

lemma yylex_freed: "lex_token eof buf = None \<Longrightarrow> yylex buf eof None = (TOK_EOF, [], True, None, True)"
  by (simp add: yylex.simps [of buf])

lemmas lex_eval = lex_token_def c_isspace_def word_char_def str_append_def

text \<open>A line that consists of an empty pair of quotes dereferences a null pointer: the scanner
  gives the token no value, and the comparison with the first command's name reads it.\<close>

theorem empty_quotes_crash:
  assumes "tables_ok w"
  shows "ub (snd (run_state (shell_execute (Suc n) loops L [CHR 0x22, CHR 0x22]) w))"
proof -
  have 1: "yylex [] False (Some [CHR 0x22, CHR 0x22]) = (TOK_STRING None, [], False, Some [], False)"
    by (simp add: yylex_pull yylex_buffered lex_eval)
  have 2: "yylex [] False (Some []) = (TOK_EOF, [], True, Some [], False)"
    by (simp add: yylex_end yylex_buffered lex_eval)
  show ?thesis
    using assms
    by (simp add: shell_execute_def shell_execute_with_def ctx_update_def host_simps 1 2 run_null_command tables_ok_def
      eval_nat_numeral ret_def)
qed

text \<open>A line that runs a script and goes on.  Every execution of a line ends with \<^verbatim>\<open>ctx->line\<close> freed, so a script with at least one line
  leaves it freed.\<close>

lemma execute_frees: "ctx_line (cb_data (snd (run_state (shell_execute_with run cmd) w))) = None"
  by (simp add: shell_execute_with_def ctx_update_def host_simps split: prod.splits)

lemma source_stays_freed:
  "ctx_line (cb_data w) = None \<Longrightarrow> ctx_line (cb_data (snd (run_state (source_loop run lines) w))) = None"
proof (induction lines arbitrary: w)
  case (Cons line lines)
  obtain r w1 where run: "run_state (shell_execute_with run line) w = (r, w1)" by force
  then have "ctx_line (cb_data w1) = None" using execute_frees [of run line w] by simp
  then show ?case using Cons run by (simp add: host_simps ret_def)
qed (simp add: ret_def host_simps)

lemma source_frees:
  assumes "lines \<noteq> []" "shell_exit_flag (cb_data w) = 0"
  shows "ctx_line (cb_data (snd (run_state (source_loop run lines) w))) = None"
proof -
  obtain line rest where l: "lines = line # rest" using assms(1) by (cases lines) auto
  obtain r w1 where run: "run_state (shell_execute_with run line) w = (r, w1)" by force
  then have "ctx_line (cb_data w1) = None" using execute_frees [of run line w] by simp
  then show ?thesis using assms(2) source_stays_freed [of w1 run rest] run by (simp add: l host_simps)
qed

lemma fgets_some: "acc \<noteq> [] \<or> cs \<noteq> [] \<Longrightarrow> fgets_acc acc cs \<noteq> []"
  by (induction acc cs rule: fgets_acc.induct) auto

lemma run_source_frees:
  assumes "files w p = Some f" "take (f_readable f) (f_data f) \<noteq> []"
  shows "ctx_line (cb_data (snd (run_state (shell_run (Suc n) loops L [Some ''source'', Some p]) w))) = None"
proof -
  let ?c = "\<lparr>sc_cmd = ''source'', sc_description = ''Run specified script'', sc_handler = builtin_source_H, sc_args = Some ''<FILENAME>''\<rparr>"
  let ?lines = "fgets_acc [] (text_of (take (f_readable f) (f_data f)))" and ?w = "w\<lparr>cb_data := (cb_data w)\<lparr>shell_exit_flag := 0\<rparr>\<rparr>"
  have find: "find (\<lambda>c. sc_cmd c = ''source'') (active_commands w) = Some ?c"
    by (simp add: active_commands_def builtin_cmdset_def)
  have valid: "\<not> args_invalid (Some ''<FILENAME>'') (Suc (Suc 0))" by (simp add: args_eval)
  have "?lines \<noteq> []" using assms(2) by (intro fgets_some) (simp add: text_of_def)
  then have "ctx_line (cb_data (snd (run_state (source_loop (shell_run n loops L) ?lines) ?w))) = None"
    by (intro source_frees) simp_all
  moreover obtain r w' where "run_state (source_loop (shell_run n loops L) ?lines) ?w = (r, w')" by force
  ultimately show ?thesis
    using assms(1) valid
    by (simp add: run_dispatch find run_handler_def builtin_source_def run_arg host_simps shell_source_with_def shell_exit_def
      ctx_update_def)
qed

text \<open>The tokens of such a line, for a name and a rest without special characters.\<close>

lemma lex_word:
  assumes "p \<noteq> []" "list_all word_char p"
  shows "lex_token False (p @ CHR '';'' # rest) = Some (TOK_STRING (Some p), CHR '';'' # rest)"
    "lex_token True p = Some (TOK_STRING (Some p), [])" "lex_token False p = None"
    "lex_token eof (CHR '' '' # p @ rest) = Some (TOK_SPACE, p @ rest)"
proof -
  obtain c cs where p: "p = c # cs" using assms(1) by (cases p) auto
  have all: "\<forall>x \<in> set p. word_char x" using assms(2) by (simp add: list_all_iff)
  then have c: "c \<noteq> CHR 0x22" "c \<noteq> CHR '';''" "c \<noteq> CHR ''#''" "\<not> c_isspace c" by (auto simp: p word_char_def)
  have "takeWhile word_char (p @ CHR '';'' # rest) = p" "dropWhile word_char (p @ CHR '';'' # rest) = CHR '';'' # rest"
      "takeWhile word_char p = p" "dropWhile word_char p = []"
    using all by (auto simp: takeWhile_append2 dropWhile_append2 word_char_def takeWhile_eq_all_conv)
  then show "lex_token False (p @ CHR '';'' # rest) = Some (TOK_STRING (Some p), CHR '';'' # rest)"
      "lex_token True p = Some (TOK_STRING (Some p), [])" "lex_token False p = None"
      "lex_token eof (CHR '' '' # p @ rest) = Some (TOK_SPACE, p @ rest)"
    using c by (simp_all add: lex_token_def p c_isspace_def del: takeWhile.simps)
qed

lemma lex_open_word: "list_all word_char rest \<Longrightarrow> lex_token False rest = None"
  using lex_word(3) [of rest] by (cases rest) (simp_all add: lex_token_def)

lemma lex_source: "lex_token eof (''source '' @ s) = Some (TOK_STRING (Some ''source''), CHR '' '' # s)"
  by (simp add: lex_eval)

lemma lex_separator: "lex_token eof (CHR '';'' # s) = Some (TOK_SEPARATOR, s)"
  by (simp add: lex_token_def)

lemma lex_end: "lex_token eof [] = (if eof then Some (TOK_EOF, []) else None)"
  by (simp add: lex_token_def)

text \<open>C35.  A line with a \<^verbatim>\<open>source\<close> command, a semicolon and possibly the name of another command after it reads freed memory, whenever the
  script is not empty and the same \<^verbatim>\<open>source\<close> command alone succeeds:
  running the script leaves \<^verbatim>\<open>ctx->line\<close> pointing to the script's last line, which was freed,
  and the scanner pulls from it to see whether the line goes on.\<close>

theorem source_separator_use_after_free:
  assumes "p \<noteq> []" "list_all word_char p" "list_all word_char rest" "length p + length rest < 8000"
    and "files w p = Some f" "take (f_readable f) (f_data f) \<noteq> []"
    and "fst (run_state (shell_execute (Suc n) loops L (''source '' @ p)) w) = Some 0"
  shows "ub (snd (run_state (shell_execute (Suc n) loops L (''source '' @ p @ '';'' @ rest)) w))"
proof -
  let ?w = "w\<lparr>cb_data := (cb_data w)\<lparr>ctx_line := Some []\<rparr>\<rparr>"
  have ubw: "v\<lparr>ub := ub v\<rparr> = v" for v :: "('a, shell_context) world" by (cases v) simp
  obtain r w' where run: "run_state (shell_run (Suc n) loops L [Some ''source'', Some p]) ?w = (r, w')" by force
  have freed: "ctx_line (cb_data w') = None"
    using run_source_frees [of ?w p f n loops L] assms(5,6) run by simp
  note words = lex_word [OF assms(1,2)]
  define l where "l = ''source '' @ p"
  define m where "m = ''source '' @ p @ '';'' @ rest"
  define m1 where "m1 = CHR '' '' # p @ CHR '';'' # rest"
  define m2 where "m2 = p @ CHR '';'' # rest"
  have len: "l \<noteq> []" "length l < 8192" "m \<noteq> []" "length m < 8192" using assms(4) by (simp_all add: l_def m_def)
  have alone: "yylex [] False (Some l) = (TOK_STRING (Some ''source''), CHR '' '' # p, False, Some [], False)"
    "yylex (CHR '' '' # p) False (Some []) = (TOK_SPACE, p, False, Some [], False)"
    "yylex p False (Some []) = (TOK_STRING (Some p), [], True, Some [], False)"
    "yylex [] True (Some []) = (TOK_EOF, [], True, Some [], False)"
  proof -
    show "yylex [] False (Some l) = (TOK_STRING (Some ''source''), CHR '' '' # p, False, Some [], False)"
      using yylex_pull [OF _ len(1,2), of False "[]"] yylex_buffered [OF lex_source [of False p]] by (simp add: l_def lex_end)
    show "yylex (CHR '' '' # p) False (Some []) = (TOK_SPACE, p, False, Some [], False)"
      using yylex_buffered [OF words(4) [of False "[]"]] by simp
    show "yylex p False (Some []) = (TOK_STRING (Some p), [], True, Some [], False)"
      using yylex_end [OF words(3)] yylex_buffered [OF words(2)] by simp
    show "yylex [] True (Some []) = (TOK_EOF, [], True, Some [], False)" by (simp add: yylex_buffered lex_end)
  qed
  have tok: "yylex [] False (Some m) = (TOK_STRING (Some ''source''), m1, False, Some [], False)"
    "yylex m1 False (Some []) = (TOK_SPACE, m2, False, Some [], False)"
    "yylex m2 False (Some []) = (TOK_STRING (Some p), CHR '';'' # rest, False, Some [], False)"
    "yylex (CHR '';'' # rest) False (Some []) = (TOK_SEPARATOR, rest, False, Some [], False)"
    "yylex rest False None = (TOK_EOF, [], True, None, True)"
  proof -
    show "yylex [] False (Some m) = (TOK_STRING (Some ''source''), m1, False, Some [], False)"
      using yylex_pull [OF _ len(3,4), of False "[]"] yylex_buffered [OF lex_source [of False m2]] by (simp add: m_def m1_def m2_def lex_end)
    show "yylex m1 False (Some []) = (TOK_SPACE, m2, False, Some [], False)"
      unfolding m1_def m2_def by (rule yylex_buffered [OF words(4)])
    show "yylex m2 False (Some []) = (TOK_STRING (Some p), CHR '';'' # rest, False, Some [], False)"
      unfolding m2_def by (rule yylex_buffered [OF words(1)])
    show "yylex (CHR '';'' # rest) False (Some []) = (TOK_SEPARATOR, rest, False, Some [], False)"
      by (rule yylex_buffered [OF lex_separator])
    show "yylex rest False None = (TOK_EOF, [], True, None, True)" by (rule yylex_freed [OF lex_open_word [OF assms(3)]])
  qed
  have succeeds: "r \<noteq> None" "r \<noteq> Some (-1)"
  proof -
    obtain k where k: "length l + 2 = Suc (Suc (Suc (Suc (Suc k))))" by (simp add: l_def)
    have "fst (run_state (shell_execute (Suc n) loops L l) w) = (if r = None \<or> r = Some (-1) then r else Some 0)"
      unfolding shell_execute_def shell_execute_with_def k
      by (simp add: ctx_update_def host_simps alone run ret_def ubw del: shell_run.simps)
    then show "r \<noteq> None" "r \<noteq> Some (-1)" using assms(7) by (auto simp: l_def split: if_splits)
  qed
  then obtain v where v: "r = Some v" "v \<noteq> -1" by (cases r) auto
  obtain k where k: "length m + 2 = Suc (Suc (Suc (Suc (Suc k))))" by (simp add: m_def)
  have "ub (snd (run_state (shell_execute (Suc n) loops L m) w))"
    unfolding shell_execute_def shell_execute_with_def k
    by (simp add: v ctx_update_def host_simps tok run ret_def ubw freed del: shell_run.simps)
  then show ?thesis by (simp only: m_def)
qed

definition shell_world :: "(transfer list, shell_context) world" where
  "shell_world = \<lparr>usb = [], errno = E_OK, environ = None, devlist = [],
     files = (\<lambda>n. if n = ''a'' then Some \<lparr>f_data = [0x0A], f_readable = 1\<rparr> else None),
     fopen_errno = (\<lambda>_. ENOENT), writable = (\<lambda>_. True),
     hnd = \<lparr>h_usb = 1, h_type = BUILDTYPE CMDSET_SPL 0x4740, total_sdram_size = 0, h_callbacks = Some shell_callbacks,
       h_cfg = demo_cfg, h_nand = rebuilt_nand demo_env 0x4740 0\<rparr>,
     cb_data = \<lparr>ctx_line = None, set_cmds = Some spl_cmdset, shell_exit_flag = 0, prev_progress = 0, tty_cols = None,
       completion_matches = [], completion_pass = False, completion_matches_offset = 0,
       stdout = [], ctx_ub = False\<rparr>, uninit = (\<lambda>_. 0), ub = False\<rparr>"

lemma empty_quotes_crash_witness:
  "\<not> ub shell_world \<and> ub (snd (run_state (shell_execute 1 0 (recorder silent_device) [CHR 0x22, CHR 0x22]) shell_world))"
  using empty_quotes_crash [of shell_world 0 0 "recorder silent_device"] by (simp add: shell_world_def tables_ok_def)

lemma run_blank_line:
  "run_state (shell_execute_with run [CHR 0x0A]) w = (Some 0, w\<lparr>cb_data := (cb_data w)\<lparr>ctx_line := None\<rparr>\<rparr>)"
proof -
  have 1: "yylex [] False (Some [CHR 0x0A]) = (TOK_SPACE, [], True, Some [], False)"
    by (simp add: yylex_pull yylex_end yylex_buffered lex_eval)
  have 2: "yylex [] True (Some []) = (TOK_EOF, [], True, Some [], False)"
    by (simp add: yylex_buffered lex_eval)
  have "w\<lparr>ub := ub w\<rparr> = w" by (cases w) simp
  then show ?thesis
    by (simp add: shell_execute_with_def ctx_update_def host_simps 1 2 ret_def eval_nat_numeral)
qed

text \<open>A script of one empty line.\<close>

lemma run_blank_script: "fst (run_state (shell_execute 1 0 (recorder silent_device) ''source a'') shell_world) = Some 0"
proof -
  let ?c = "\<lparr>sc_cmd = ''source'', sc_description = ''Run specified script'', sc_handler = builtin_source_H, sc_args = Some ''<FILENAME>''\<rparr>"
  have tok: "yylex [] False (Some ''source a'') = (TOK_STRING (Some ''source''), '' a'', False, Some [], False)"
    "yylex '' a'' False (Some []) = (TOK_SPACE, ''a'', False, Some [], False)"
    "yylex ''a'' False (Some []) = (TOK_STRING (Some ''a''), [], True, Some [], False)"
    "yylex [] True (Some []) = (TOK_EOF, [], True, Some [], False)"
    by (simp_all add: yylex_pull yylex_end yylex_buffered lex_eval)
  have find: "find (\<lambda>c. sc_cmd c = ''source'') (active_commands v) = Some ?c" for v :: "('d, shell_context) world"
    by (simp add: active_commands_def builtin_cmdset_def)
  have valid: "\<not> args_invalid (Some ''<FILENAME>'') (Suc (Suc 0))" by (simp add: args_eval)
  have nl: "char_of (10 :: nat) = CHR 0x0A" by code_simp
  have len: "length ''source a'' + 2 = Suc (Suc (Suc (Suc (Suc (Suc (Suc (Suc (Suc (Suc 0)))))))))" by simp
  have ubw: "v\<lparr>ub := ub v\<rparr> = v" for v :: "('d, shell_context) world" by (cases v) simp
  show ?thesis
    unfolding shell_execute_def shell_execute_with_def len
    using valid
    by (simp add: ctx_update_def host_simps tok ret_def ubw nl run_dispatch find run_handler_def builtin_source_def run_arg shell_source_with_def
      shell_exit_def text_of_def run_blank_line shell_world_def)
qed

lemma source_separator_use_after_free_witness:
  "\<not> ub shell_world \<and> ub (snd (run_state (shell_execute 1 0 (recorder silent_device) ''source a;help'') shell_world))"
  using source_separator_use_after_free [of "''a''" "''help''" shell_world "\<lparr>f_data = [0x0A], f_readable = 1\<rparr>" 0 0 "recorder silent_device"]
    run_blank_script
  by (simp add: shell_world_def word_char_def c_isspace_def)

end
