(* ===== verification/Completion.thy ===== *)
theory Completion
  imports Shell
begin

text \<open>
  The completion of the line editor in \<^verbatim>\<open>jzboot/src/shell.c\<close>: commands for the first word of a line, file names for the others.
  The line, the separators and the completion of file names are those of \<^verbatim>\<open>readline\<close>: parameters.
  The macros \<^verbatim>\<open>HAVE_LIBREADLINE\<close> and \<^verbatim>\<open>WITH_READLINE\<close> select this code; \<^verbatim>\<open>shell_interactive\<close> of \<^verbatim>\<open>Shell\<close> is the loop without them.
\<close>

definition shell_completion_filler :: "string \<Rightarrow> shell_command \<Rightarrow> ('d, int option) shl" where
  "shell_completion_filler part c = do {
     (if length part \<le> length (sc_cmd c) \<and> take (length part) (sc_cmd c) = part
      then ctx_update (\<lambda>x. x\<lparr>completion_matches := completion_matches x @ [Some (sc_cmd c)]\<rparr>)
      else State_Monad.return ());
     ret 0 }"

text \<open>Whether a separator follows the leading white space of the line.\<close>

definition not_first_word :: "string \<Rightarrow> string \<Rightarrow> bool" where
  "not_first_word seps line = list_ex (\<lambda>c. list_ex (\<lambda>d. c = d) seps) (dropWhile c_isspace line)"

text \<open>One call, with the number of the call since the editor asked for completions: the editor passes zero first.\<close>

definition shell_completion ::
  "(string \<Rightarrow> nat \<Rightarrow> string option) \<Rightarrow> string \<Rightarrow> string \<Rightarrow> string \<Rightarrow> nat \<Rightarrow> ('d, string option) shl" where
  "shell_completion rl_files seps line partial st = do {
     (if st = 0 then do {
        ctx_update (\<lambda>x. x\<lparr>completion_matches := [], completion_pass := False\<rparr>);
        if not_first_word seps line then ctx_update (\<lambda>x. x\<lparr>completion_pass := True\<rparr>)
        else do {
          r \<leftarrow> shell_enumerate_commands (shell_completion_filler partial);
          ctx_update (\<lambda>x. x\<lparr>completion_matches_offset := 0\<rparr>) } }
      else State_Monad.return ());
     x \<leftarrow> gets (\<lambda>w. cb_data w);
     if completion_pass x then State_Monad.return (rl_files partial st)
     else if completion_matches_offset x = length (completion_matches x) then State_Monad.return None
     else do {
       ctx_update (\<lambda>x. x\<lparr>completion_matches := (completion_matches x)[completion_matches_offset x := None],
         completion_matches_offset := completion_matches_offset x + 1\<rparr>);
       State_Monad.return (completion_matches x ! completion_matches_offset x) } }"

text \<open>The calls that the editor makes from number \<^verbatim>\<open>st\<close> on.\<close>

fun completions ::
  "(string \<Rightarrow> nat \<Rightarrow> string option) \<Rightarrow> string \<Rightarrow> string \<Rightarrow> string \<Rightarrow> nat \<Rightarrow> nat \<Rightarrow> ('d, string option list) shl" where
  "completions rl_files seps line partial st 0 = State_Monad.return []"
| "completions rl_files seps line partial st (Suc n) = do {
     c \<leftarrow> shell_completion rl_files seps line partial st;
     cs \<leftarrow> completions rl_files seps line partial (Suc st) n;
     State_Monad.return (c # cs) }"

text \<open>What reaches the program from the editor: a demand for the completions of a word in a line, up to a number of calls, and a line.
  The editor writes the prompt; its end of input is the end of the list.\<close>

datatype editor_event = Complete_Word string string nat | Line_Entered string

fun readline_loop ::
  "(string \<Rightarrow> nat \<Rightarrow> string option) \<Rightarrow> string \<Rightarrow> nat \<Rightarrow> nat \<Rightarrow> 'd libusb \<Rightarrow> editor_event list \<Rightarrow> ('d, unit option) shl" where
  "readline_loop rl_files seps n loops L [] = State_Monad.return (Some ())"
| "readline_loop rl_files seps n loops L (Complete_Word line partial k # es) = do {
     cs \<leftarrow> completions rl_files seps line partial 0 k;
     readline_loop rl_files seps n loops L es }"
| "readline_loop rl_files seps n loops L (Line_Entered line # es) = do {
     r \<leftarrow> shell_execute n loops L line;
     ex \<leftarrow> gets (\<lambda>w. shell_exit_flag (cb_data w));
     if r = None then State_Monad.return None
     else if ex \<noteq> 0 then State_Monad.return (Some ())
     else readline_loop rl_files seps n loops L es }"

definition shell_interactive_readline ::
  "(string \<Rightarrow> nat \<Rightarrow> string option) \<Rightarrow> string \<Rightarrow> nat \<Rightarrow> nat \<Rightarrow> 'd libusb \<Rightarrow> editor_event list \<Rightarrow> ('d, unit option) shl" where
  "shell_interactive_readline rl_files seps n loops L es = do { shell_exit 0; readline_loop rl_files seps n loops L es }"

section \<open>What is offered\<close>

definition matching :: "string \<Rightarrow> shell_command list \<Rightarrow> string list" where
  "matching partial cs = filter (\<lambda>n. take (length partial) n = partial) (List.map sc_cmd cs)"

lemma run_fill:
  "run_state (enum_cmds (shell_completion_filler partial) cs) w
    = (Some 0, w\<lparr>cb_data := (cb_data w)\<lparr>completion_matches := completion_matches (cb_data w) @ List.map Some (matching partial cs)\<rparr>\<rparr>)"
proof (induction cs arbitrary: w)
  case Nil
  then show ?case by (cases w; cases "cb_data w") (simp add: ret_def host_simps matching_def)
next
  case (Cons c cs)
  have "take (length partial) n = partial \<Longrightarrow> length partial \<le> length n" for n :: string by (metis length_take min.absorb_iff2 min.commute nle_le)
  then show ?case
    using Cons by (auto simp: shell_completion_filler_def ret_def host_simps ctx_update_def matching_def)
qed

definition all_commands :: "shell_context \<Rightarrow> shell_command list" where
  "all_commands x = builtin_cmdset @ (case set_cmds x of None \<Rightarrow> [] | Some cs \<Rightarrow> cs)"

lemma run_first_completion:
  assumes "\<not> not_first_word seps line"
  shows "run_state (do { x \<leftarrow> shell_enumerate_commands (shell_completion_filler partial); y \<leftarrow> ctx_update (\<lambda>x. x\<lparr>completion_matches_offset := 0\<rparr>); f })
      (w\<lparr>cb_data := (cb_data w)\<lparr>completion_matches := [], completion_pass := False\<rparr>\<rparr>)
    = run_state f (w\<lparr>cb_data := (cb_data w)\<lparr>completion_pass := False,
        completion_matches := List.map Some (matching partial (all_commands (cb_data w))), completion_matches_offset := 0\<rparr>\<rparr>)"
  by (simp add: shell_enumerate_commands_def host_simps run_fill ctx_update_def all_commands_def ret_def matching_def split: option.splits)

text \<open>The answers of a call: the next match that has not been handed over, and the end.\<close>

definition hand_over :: "('d, string option) shl" where
  "hand_over = do {
     x \<leftarrow> gets (\<lambda>w. cb_data w);
     if completion_matches_offset x = length (completion_matches x) then State_Monad.return None
     else do {
       ctx_update (\<lambda>x. x\<lparr>completion_matches := (completion_matches x)[completion_matches_offset x := None],
         completion_matches_offset := completion_matches_offset x + 1\<rparr>);
       State_Monad.return (completion_matches x ! completion_matches_offset x) } }"

lemma run_hand_over:
  assumes "completion_matches (cb_data w) = replicate i None @ List.map Some rest" "completion_matches_offset (cb_data w) = i" "\<not> completion_pass (cb_data w)"
  shows "rest = [] \<Longrightarrow> run_state hand_over w = (None, w)"
    and "rest = c # cs \<Longrightarrow> \<exists>w'. run_state hand_over w = (Some c, w')
      \<and> completion_matches (cb_data w') = replicate (Suc i) None @ List.map Some cs \<and> completion_matches_offset (cb_data w') = Suc i
      \<and> \<not> completion_pass (cb_data w')"
proof -
  show "rest = [] \<Longrightarrow> run_state hand_over w = (None, w)"
    using assms by (simp add: hand_over_def host_simps)
  assume "rest = c # cs"
  moreover have "replicate (Suc i) None @ List.map Some cs = replicate i None @ None # List.map Some cs"
    by (simp add: replicate_app_Cons_same)
  ultimately show "\<exists>w'. run_state hand_over w = (Some c, w')
      \<and> completion_matches (cb_data w') = replicate (Suc i) None @ List.map Some cs \<and> completion_matches_offset (cb_data w') = Suc i
      \<and> \<not> completion_pass (cb_data w')"
    using assms by (simp add: hand_over_def host_simps ctx_update_def list_update_append nth_append)
qed

lemma run_later_completion:
  assumes "\<not> completion_pass (cb_data w)" "0 < st"
  shows "run_state (shell_completion rl_files seps line partial st) w = run_state hand_over w"
  using assms by (simp add: shell_completion_def hand_over_def host_simps)

lemma run_completions:
  assumes "completion_matches (cb_data w) = replicate i None @ List.map Some rest" "completion_matches_offset (cb_data w) = i"
    "\<not> completion_pass (cb_data w)" "0 < st"
  shows "fst (run_state (completions rl_files seps line partial st (Suc (length rest))) w) = List.map Some rest @ [None]"
  using assms
proof (induction rest arbitrary: w i st)
  case Nil
  then show ?case using run_hand_over(1) [OF Nil(1-3)] by (simp add: run_later_completion host_simps)
next
  case (Cons c cs)
  obtain w' where w': "run_state hand_over w = (Some c, w')" "completion_matches (cb_data w') = replicate (Suc i) None @ List.map Some cs"
      "completion_matches_offset (cb_data w') = Suc i" "\<not> completion_pass (cb_data w')"
    using run_hand_over(2) [OF Cons.prems(1-3) refl] by blast
  have "fst (run_state (completions rl_files seps line partial (Suc st) (Suc (length cs))) w') = List.map Some cs @ [None]"
    by (rule Cons.IH [OF w'(2-4)]) simp
  then show ?case
    using w'(1) run_later_completion [OF Cons.prems(3,4), of rl_files seps line partial] by (simp add: host_simps split_def)
qed

lemma run_start:
  assumes "\<not> not_first_word seps line"
  shows "run_state (shell_completion rl_files seps line partial 0) w
    = run_state hand_over (w\<lparr>cb_data := (cb_data w)\<lparr>completion_pass := False,
        completion_matches := List.map Some (matching partial (all_commands (cb_data w))), completion_matches_offset := 0\<rparr>\<rparr>)"
  using assms
  by (simp add: shell_completion_def hand_over_def shell_enumerate_commands_def host_simps run_fill ctx_update_def all_commands_def ret_def
      matching_def split: option.splits)

lemma completion_pass_stays:
  "completion_pass (cb_data w) \<Longrightarrow> 0 < st \<Longrightarrow> run_state (shell_completion rl_files seps line partial st) w = (rl_files partial st, w)"
  by (simp add: shell_completion_def host_simps)

lemma file_completions:
  assumes "completion_pass (cb_data w)" "0 < st"
  shows "fst (run_state (completions rl_files seps line partial st n) w) = List.map (rl_files partial) [st..<st + n]"
  using assms
proof (induction n arbitrary: st)
  case (Suc n)
  then show ?case by (simp add: completion_pass_stays host_simps split_def upt_conv_Cons del: upt_Suc)
qed (simp add: host_simps)

lemma command_completions:
  assumes "\<not> not_first_word seps line"
  shows "fst (run_state (completions rl_files seps line partial 0 (Suc (length (matching partial (all_commands (cb_data w)))))) w)
    = List.map Some (matching partial (all_commands (cb_data w))) @ [None]"
proof -
  let ?ms = "matching partial (all_commands (cb_data w))"
  let ?w = "w\<lparr>cb_data := (cb_data w)\<lparr>completion_pass := False, completion_matches := List.map Some ?ms, completion_matches_offset := 0\<rparr>\<rparr>"
  have w: "completion_matches (cb_data ?w) = replicate 0 None @ List.map Some ?ms" "completion_matches_offset (cb_data ?w) = 0"
      "\<not> completion_pass (cb_data ?w)" by simp_all
  show ?thesis
  proof (cases ?ms)
    case Nil
    then show ?thesis using run_hand_over(1) [OF w Nil] by (simp add: run_start [OF assms] host_simps)
  next
    case (Cons c cs)
    obtain w' where w': "run_state hand_over ?w = (Some c, w')" "completion_matches (cb_data w') = replicate (Suc 0) None @ List.map Some cs"
        "completion_matches_offset (cb_data w') = Suc 0" "\<not> completion_pass (cb_data w')"
      using run_hand_over(2) [OF w Cons] by blast
    have "fst (run_state (completions rl_files seps line partial (Suc 0) (Suc (length cs))) w') = List.map Some cs @ [None]"
      by (rule run_completions [OF w'(2-4)]) simp
    then show ?thesis
      using w'(1) Cons by (simp add: run_start [OF assms] host_simps split_def)
  qed
qed

text \<open>C33.  When the editor asks for completions of the first word of a line, it gets exactly the names of the commands that start with what has been
  typed, the built-in ones first and in the order of the tables, and then the end, whatever an earlier completion has left behind; for a later word
  it gets what the completion of file names gives.\<close>

theorem completion_lists_commands:
  "fst (run_state (completions rl_files seps line partial 0 (Suc (length (matching partial (all_commands (cb_data w)))))) w)
    = (if not_first_word seps line then List.map (rl_files partial) [0..<Suc (length (matching partial (all_commands (cb_data w))))]
       else List.map Some (matching partial (all_commands (cb_data w))) @ [None])"
proof (cases "not_first_word seps line")
  case True
  let ?w = "w\<lparr>cb_data := (cb_data w)\<lparr>completion_matches := [], completion_pass := True\<rparr>\<rparr>"
  have "run_state (shell_completion rl_files seps line partial 0) w = (rl_files partial 0, ?w)"
    using True by (simp add: shell_completion_def host_simps ctx_update_def)
  then show ?thesis
    using True file_completions [of ?w 1 rl_files seps line partial] by (simp add: host_simps split_def upt_conv_Cons del: upt_Suc)
qed (simp add: command_completions del: completions.simps)

end
