(* ===== verification/Nand_Chip.thy ===== *)
theory Nand_Chip
  imports Nandflash_4740 Fw_Instances
begin

unbundle bit_operations_syntax

text \<open>
  The documented behaviour of a large-page NAND chip, and what it makes of the command sequences
  of the JZ4740 driver.  A chip takes commands, address bytes (two for the column, the rest for
  the row, lowest first) and data through three ports; a read, program or erase command makes it
  busy for some polls of its ready pin.  \<^verbatim>\<open>chip_bus\<close> says that the hardware the driver
  runs on shows such a chip at the ports of the first chip select; it is a hypothesis of the
  lemmas, and \<^verbatim>\<open>chip_mmio\<close> is the hardware that consists of the chip alone.
\<close>

section \<open>The chip\<close>

datatype chip_mode = M_Idle | M_Read | M_Data nat nat | M_Erase | M_Program | M_Status

record chip =
  cells :: "nat \<Rightarrow> nat \<Rightarrow> u8"
  ch_mode :: chip_mode
  ch_addr :: bytes
  ch_in :: bytes
  ch_busy :: nat
  ch_failed :: bool
  ch_ppb :: nat
  ch_delay :: nat
  ch_worn :: "nat \<Rightarrow> bool"

definition erase_cells :: "nat \<Rightarrow> nat \<Rightarrow> (nat \<Rightarrow> nat \<Rightarrow> u8) \<Rightarrow> (nat \<Rightarrow> nat \<Rightarrow> u8)" where
  "erase_cells n b m = (\<lambda>pg. if pg div n = b then (\<lambda>_. 0xff) else m pg)"

definition program_cells :: "nat \<Rightarrow> nat \<Rightarrow> bytes \<Rightarrow> (nat \<Rightarrow> nat \<Rightarrow> u8) \<Rightarrow> (nat \<Rightarrow> nat \<Rightarrow> u8)" where
  "program_cells pg col bs m = m(pg := (\<lambda>k. if col \<le> k \<and> k < col + length bs then m pg k AND bs ! (k - col) else m pg k))"

definition chip_cmd :: "u8 \<Rightarrow> chip \<Rightarrow> chip" where
  "chip_cmd v c =
    (if v = 0x00 then c\<lparr>ch_mode := M_Read, ch_addr := []\<rparr>
     else if v = 0x30 then
       (if ch_mode c = M_Read
        then c\<lparr>ch_mode := M_Data (le_nat (drop 2 (ch_addr c))) (le_nat (take 2 (ch_addr c))), ch_busy := ch_delay c\<rparr> else c)
     else if v = 0x60 then c\<lparr>ch_mode := M_Erase, ch_addr := []\<rparr>
     else if v = 0xD0 then
       (if ch_mode c = M_Erase then let b = le_nat (ch_addr c) div ch_ppb c in
          c\<lparr>cells := (if ch_worn c b then cells c else erase_cells (ch_ppb c) b (cells c)),
            ch_failed := ch_worn c b, ch_mode := M_Idle, ch_busy := ch_delay c\<rparr> else c)
     else if v = 0x80 then c\<lparr>ch_mode := M_Program, ch_addr := [], ch_in := []\<rparr>
     else if v = 0x10 then
       (if ch_mode c = M_Program then let pg = le_nat (drop 2 (ch_addr c)); b = pg div ch_ppb c in
          c\<lparr>cells := program_cells pg (le_nat (take 2 (ch_addr c))) (ch_in c) (cells c),
            ch_failed := ch_worn c b, ch_mode := M_Idle, ch_busy := ch_delay c\<rparr> else c)
     else if v = 0x70 then c\<lparr>ch_mode := M_Status\<rparr>
     else c)"

definition chip_addr :: "u8 \<Rightarrow> chip \<Rightarrow> chip" where
  "chip_addr v c = c\<lparr>ch_addr := ch_addr c @ [v]\<rparr>"

definition chip_put :: "u8 \<Rightarrow> chip \<Rightarrow> chip" where
  "chip_put v c = c\<lparr>ch_in := ch_in c @ [v]\<rparr>"

definition chip_get :: "chip \<Rightarrow> u8 \<times> chip" where
  "chip_get c = (case ch_mode c of
     M_Data pg col \<Rightarrow> (cells c pg col, c\<lparr>ch_mode := M_Data pg (col + 1)\<rparr>)
   | M_Status \<Rightarrow> (if ch_failed c then 0x41 else 0x40, c)
   | _ \<Rightarrow> (0xff, c))"

definition chip_poll :: "chip \<Rightarrow> chip" where
  "chip_poll c = c\<lparr>ch_busy := ch_busy c - 1\<rparr>"

text \<open>The hardware \<^verbatim>\<open>M\<close> shows at its ports the chip \<^verbatim>\<open>\<phi> h\<close>; 32-bit writes go to registers of the
  processor and leave it alone.\<close>

definition chip_bus :: "'h mmio \<Rightarrow> ('h \<Rightarrow> chip) \<Rightarrow> bool" where
  "chip_bus M \<phi> \<longleftrightarrow>
     (\<forall>h v. \<phi> (io_w8 M 0xb8008000 v h) = chip_cmd v (\<phi> h)) \<and>
     (\<forall>h v. \<phi> (io_w8 M 0xb8010000 v h) = chip_addr v (\<phi> h)) \<and>
     (\<forall>h v. \<phi> (io_w8 M 0xb8000000 v h) = chip_put v (\<phi> h)) \<and>
     (\<forall>h. fst (io_r8 M 0xb8000000 h) = fst (chip_get (\<phi> h)) \<and> \<phi> (snd (io_r8 M 0xb8000000 h)) = snd (chip_get (\<phi> h))) \<and>
     (\<forall>h. (fst (io_r32 M (GPIO_BASE + 0x200) h) AND 0x40000000 \<noteq> 0) = (ch_busy (\<phi> h) = 0)
        \<and> \<phi> (snd (io_r32 M (GPIO_BASE + 0x200) h)) = chip_poll (\<phi> h)) \<and>
     (\<forall>h port v. \<phi> (io_w32 M port v h) = \<phi> h)"

definition chip_mmio :: "chip mmio" where
  "chip_mmio = \<lparr>io_r8 = (\<lambda>port c. if port = 0xb8000000 then chip_get c else (0, c)),
     io_w8 = (\<lambda>port v c. if port = 0xb8008000 then chip_cmd v c else if port = 0xb8010000 then chip_addr v c
       else if port = 0xb8000000 then chip_put v c else c),
     io_r16 = (\<lambda>port c. (0, c)), io_w16 = (\<lambda>port v c. c),
     io_r32 = (\<lambda>port c. if port = GPIO_BASE + 0x200 then (if ch_busy c = 0 then 0x40000000 else 0, chip_poll c) else (0, c)),
     io_w32 = (\<lambda>port v c. c)\<rparr>"

lemma chip_mmio_bus: "chip_bus chip_mmio (\<lambda>c. c)"
  by (simp add: chip_bus_def chip_mmio_def)

text \<open>The driver has the ports of the first chip select and reads bytes.\<close>

definition ports_ok :: "'h fw_state \<Rightarrow> bool" where
  "ports_ok s \<longleftrightarrow> nv_cmdport (nf s) = 0xb8008000 \<and> nv_addrport (nf s) = 0xb8010000 \<and> nv_dataport (nf s) = 0xb8000000
     \<and> nv_proc (nf s) = Proc8 \<and> hd_nand_bpc (Hand s) = 0"

lemma ports_ok_hw [simp]: "ports_ok (s\<lparr>hw := h\<rparr>) = ports_ok s" "ports_ok (s\<lparr>bulk_in_buf := b\<rparr>) = ports_ok s"
  "ports_ok (s\<lparr>nf := (nf s)\<lparr>nv_oob_buf := ob\<rparr>\<rparr>) = ports_ok s"
  by (simp_all add: ports_ok_def)

section \<open>Single accesses\<close>

lemma bus_simps:
  assumes "chip_bus M \<phi>"
  shows "\<phi> (io_w8 M 0xb8008000 v h) = chip_cmd v (\<phi> h)" "\<phi> (io_w8 M 0xb8010000 v h) = chip_addr v (\<phi> h)"
    and "\<phi> (io_w8 M 0xb8000000 v h) = chip_put v (\<phi> h)" "fst (io_r8 M 0xb8000000 h) = fst (chip_get (\<phi> h))"
    and "\<phi> (snd (io_r8 M 0xb8000000 h)) = snd (chip_get (\<phi> h))" "\<phi> (io_w32 M port u h) = \<phi> h"
    and "(fst (io_r32 M (GPIO_BASE + 0x200) h) AND 0x40000000 \<noteq> 0) = (ch_busy (\<phi> h) = 0)"
    and "\<phi> (snd (io_r32 M (GPIO_BASE + 0x200) h)) = chip_poll (\<phi> h)"
  using assms unfolding chip_bus_def by blast+

lemma run_ready_pin:
  assumes "chip_bus M \<phi>"
  shows "\<exists>h. run_state (ready_pin M) s = (ch_busy (\<phi> (hw s)) = 0, s\<lparr>hw := h\<rparr>) \<and> \<phi> h = chip_poll (\<phi> (hw s))"
  using bus_simps [OF assms] by (auto simp: ready_pin_def jz_readl_def host_simps)

lemma run_wait_busy:
  assumes "chip_bus M \<phi>"
  shows "\<exists>h k. run_state (wait_busy M n) s = ((), s\<lparr>hw := h\<rparr>) \<and> \<phi> h = (\<phi> (hw s))\<lparr>ch_busy := k\<rparr> \<and> k \<le> ch_busy (\<phi> (hw s))"
proof (induction n arbitrary: s)
  case 0
  obtain h where "run_state (ready_pin M) s = (ch_busy (\<phi> (hw s)) = 0, s\<lparr>hw := h\<rparr>)" "\<phi> h = chip_poll (\<phi> (hw s))"
    using run_ready_pin [OF assms] by blast
  then show ?case by (auto simp: host_simps chip_poll_def intro!: exI [of _ h])
next
  case (Suc n)
  obtain h where h: "run_state (ready_pin M) s = (ch_busy (\<phi> (hw s)) = 0, s\<lparr>hw := h\<rparr>)" "\<phi> h = chip_poll (\<phi> (hw s))"
    using run_ready_pin [OF assms] by blast
  show ?case
  proof (cases "ch_busy (\<phi> (hw s)) = 0")
    case True
    then show ?thesis using Suc [of "s\<lparr>hw := h\<rparr>"] h by (auto simp: host_simps chip_poll_def)
  next
    case False
    then show ?thesis using h by (auto simp: host_simps chip_poll_def intro!: exI [of _ h])
  qed
qed

lemma run_wait_ready:
  assumes "chip_bus M \<phi>"
  shows "ch_busy (\<phi> (hw s)) < n \<Longrightarrow>
    \<exists>h. run_state (wait_for n (ready_pin M)) s = ((), s\<lparr>hw := h\<rparr>) \<and> \<phi> h = (\<phi> (hw s))\<lparr>ch_busy := 0\<rparr>"
proof (induction n arbitrary: s)
  case (Suc n)
  obtain h where h: "run_state (ready_pin M) s = (ch_busy (\<phi> (hw s)) = 0, s\<lparr>hw := h\<rparr>)" "\<phi> h = chip_poll (\<phi> (hw s))"
    using run_ready_pin [OF assms] by blast
  show ?case
  proof (cases "ch_busy (\<phi> (hw s)) = 0")
    case True
    then show ?thesis using h by (auto simp: host_simps chip_poll_def)
  next
    case False
    then show ?thesis using Suc.IH [of "s\<lparr>hw := h\<rparr>"] Suc.prems h by (auto simp: host_simps chip_poll_def)
  qed
qed simp

text \<open>\<^verbatim>\<open>__nand_sync\<close> ends, with the chip ready, if the polls allowed exceed those it is busy for.\<close>

lemma run_nand_sync:
  assumes "chip_bus M \<phi>" "ch_busy (\<phi> (hw s)) < P"
  shows "\<exists>h. run_state (nand_sync M P) s = ((), s\<lparr>hw := h\<rparr>) \<and> \<phi> h = (\<phi> (hw s))\<lparr>ch_busy := 0\<rparr>"
proof -
  obtain h k where 1: "run_state (wait_busy M 100000) s = ((), s\<lparr>hw := h\<rparr>)"
      "\<phi> h = (\<phi> (hw s))\<lparr>ch_busy := k\<rparr>" "k \<le> ch_busy (\<phi> (hw s))"
    using run_wait_busy [OF assms(1)] by blast
  then obtain h' where "run_state (wait_for P (ready_pin M)) (s\<lparr>hw := h\<rparr>) = ((), s\<lparr>hw := h'\<rparr>)"
      "\<phi> h' = (\<phi> (hw s))\<lparr>ch_busy := 0\<rparr>"
    using run_wait_ready [OF assms(1), of "s\<lparr>hw := h\<rparr>" P] assms(2) by auto
  with 1 show ?thesis by (auto simp: nand_sync_def host_simps)
qed

lemma run_nand_cmd:
  assumes "chip_bus M \<phi>" "ports_ok s"
  shows "\<exists>h. run_state (nand_cmd M v) s = ((), s\<lparr>hw := h\<rparr>) \<and> \<phi> h = chip_cmd v (\<phi> (hw s))"
  using assms bus_simps [OF assms(1)] by (auto simp: nand_cmd_def jz_writeb_def host_simps ports_ok_def)

lemma run_nand_addr:
  assumes "chip_bus M \<phi>" "ports_ok s"
  shows "\<exists>h. run_state (nand_addr M v) s = ((), s\<lparr>hw := h\<rparr>) \<and> \<phi> h = chip_addr v (\<phi> (hw s))"
  using assms bus_simps [OF assms(1)] by (auto simp: nand_addr_def jz_writeb_def host_simps ports_ok_def)

lemma run_nand_data8:
  assumes "chip_bus M \<phi>" "ports_ok s"
  shows "\<exists>h. run_state (nand_data8 M) s = (fst (chip_get (\<phi> (hw s))), s\<lparr>hw := h\<rparr>) \<and> \<phi> h = snd (chip_get (\<phi> (hw s)))"
  using assms bus_simps [OF assms(1)] by (auto simp: nand_data8_def jz_readb_def host_simps ports_ok_def)

lemma run_select_chip: "ports_ok s \<Longrightarrow> run_state (select_chip b) s = ((), s)"
  by (simp add: select_chip_def ports_ok_def host_simps)

lemma run_block_nr: "nv_ppb (nf s) \<noteq> 0 \<Longrightarrow> run_state (block_nr pg) s = (pg div nv_ppb (nf s), s)"
proof -
  have "s\<lparr>fw_ub := fw_ub s\<rparr> = s" by (cases s) simp
  then show "nv_ppb (nf s) \<noteq> 0 \<Longrightarrow> ?thesis" by (simp add: block_nr_def host_simps)
qed

section \<open>Row addresses\<close>

lemma le_nat_append: "le_nat (xs @ ys) = le_nat xs + 256 ^ length xs * le_nat ys"
  by (induction xs) (simp_all add: algebra_simps)

fun row_bytes :: "u32 \<Rightarrow> nat \<Rightarrow> bytes" where
  "row_bytes w 0 = []"
| "row_bytes w (Suc n) = ucast (w AND 0xff) # row_bytes (drop_bit 8 w) n"

lemma length_row_bytes [simp]: "length (row_bytes w n) = n"
  by (induction n arbitrary: w) simp_all

lemma low_byte: "unat (ucast (w AND 0xff) :: u8) = unat w mod 256" for w :: u32
proof -
  have "(0xff :: u32) = mask 8" by (simp add: mask_eq_exp_minus_1)
  then have "w AND 0xff = take_bit 8 w" by (simp add: take_bit_eq_mask)
  then show ?thesis by (simp add: unsigned_ucast_eq take_bit_eq_mod unat_mod)
qed

lemma le_nat_row_bytes: "le_nat (row_bytes w n) = unat w mod 256 ^ n"
proof (induction n arbitrary: w)
  case (Suc n)
  have "unat (drop_bit 8 w) = unat w div 256" by (simp add: drop_bit_eq_div unat_div)
  then show ?case by (simp add: Suc low_byte mod_mult2_eq)
qed simp

lemma run_send_row:
  assumes "chip_bus M \<phi>"
  shows "ports_ok s \<Longrightarrow> \<exists>h. run_state (send_row M w n) s = ((), s\<lparr>hw := h\<rparr>)
    \<and> \<phi> h = (\<phi> (hw s))\<lparr>ch_addr := ch_addr (\<phi> (hw s)) @ row_bytes w n\<rparr>"
proof (induction n arbitrary: s w)
  case 0
  have "s\<lparr>hw := hw s\<rparr> = s" "(\<phi> (hw s))\<lparr>ch_addr := ch_addr (\<phi> (hw s))\<rparr> = \<phi> (hw s)" by simp_all
  then show ?case by (auto simp: host_simps intro: exI [of _ "hw s"])
next
  case (Suc n)
  obtain h where "run_state (nand_addr M (ucast (w AND 0xff))) s = ((), s\<lparr>hw := h\<rparr>)" "\<phi> h = chip_addr (ucast (w AND 0xff)) (\<phi> (hw s))"
    using run_nand_addr [OF assms Suc.prems] by blast
  then show ?case using Suc.IH [of "s\<lparr>hw := h\<rparr>" "drop_bit 8 w"] Suc.prems by (auto simp: host_simps chip_addr_def)
qed

section \<open>Sequences of accesses\<close>

text \<open>\<^verbatim>\<open>acts \<phi> f s r c\<close>: the operation returns \<^verbatim>\<open>r\<close>, changes the hardware only, and leaves the chip as \<^verbatim>\<open>c\<close>.\<close>

definition acts :: "('h \<Rightarrow> chip) \<Rightarrow> ('h, 'a) fw \<Rightarrow> 'h fw_state \<Rightarrow> 'a \<Rightarrow> chip \<Rightarrow> bool" where
  "acts \<phi> f s r c \<longleftrightarrow> (\<exists>h. run_state f s = (r, s\<lparr>hw := h\<rparr>) \<and> \<phi> h = c)"

lemma acts_bind:
  assumes "acts \<phi> f s r c" "\<And>h. \<phi> h = c \<Longrightarrow> acts \<phi> (g r) (s\<lparr>hw := h\<rparr>) r' c'"
  shows "acts \<phi> (f \<bind> g) s r' c'"
  using assms by (fastforce simp: acts_def host_simps)

lemma acts_eq: "acts \<phi> f s r c \<Longrightarrow> c = c' \<Longrightarrow> acts \<phi> f s r c'"
  by simp

lemma acts_return: "acts \<phi> (State_Monad.return r) s r (\<phi> (hw s))"
  by (auto simp: acts_def host_simps intro!: exI [of _ "hw s"])

lemma acts_gets: "acts \<phi> (nf_gets f) s (f (nf s)) (\<phi> (hw s))"
  by (auto simp: acts_def host_simps intro!: exI [of _ "hw s"])

lemma acts_same: "run_state f s = (r, s) \<Longrightarrow> acts \<phi> f s r (\<phi> (hw s))"
  by (auto simp: acts_def intro!: exI [of _ "hw s"])

lemma acts_run: "acts \<phi> f s r c \<Longrightarrow> \<exists>h. run_state f s = (r, s\<lparr>hw := h\<rparr>) \<and> \<phi> h = c"
  by (simp add: acts_def)

lemma acts_cmd: "chip_bus M \<phi> \<Longrightarrow> ports_ok s \<Longrightarrow> acts \<phi> (nand_cmd M v) s () (chip_cmd v (\<phi> (hw s)))"
  unfolding acts_def by (rule run_nand_cmd)

lemma acts_addr: "chip_bus M \<phi> \<Longrightarrow> ports_ok s \<Longrightarrow> acts \<phi> (nand_addr M v) s () (chip_addr v (\<phi> (hw s)))"
  unfolding acts_def by (rule run_nand_addr)

lemma acts_data8: "chip_bus M \<phi> \<Longrightarrow> ports_ok s \<Longrightarrow>
    acts \<phi> (nand_data8 M) s (fst (chip_get (\<phi> (hw s)))) (snd (chip_get (\<phi> (hw s))))"
  unfolding acts_def by (rule run_nand_data8)

lemma acts_sync: "chip_bus M \<phi> \<Longrightarrow> ch_busy (\<phi> (hw s)) < P \<Longrightarrow> acts \<phi> (nand_sync M P) s () ((\<phi> (hw s))\<lparr>ch_busy := 0\<rparr>)"
  unfolding acts_def by (rule run_nand_sync)

lemma acts_row: "chip_bus M \<phi> \<Longrightarrow> ports_ok s \<Longrightarrow> nv_row (nf s) = of_nat n \<Longrightarrow> n < 2 ^ 32 \<Longrightarrow>
    acts \<phi> (send_page M w) s () ((\<phi> (hw s))\<lparr>ch_addr := ch_addr (\<phi> (hw s)) @ row_bytes w n\<rparr>)"
  using run_send_row [of M \<phi> s w n] by (simp add: acts_def send_page_def host_simps unat_of_nat)

lemma acts_large: "nv_pagesize (nf s) \<noteq> 512 \<Longrightarrow> acts \<phi> f s () c \<Longrightarrow> acts \<phi> (unless_small f) s () c"
  by (simp add: acts_def unless_small_def host_simps)

text \<open>The driver's parameters for a chip: large pages, and a row address that holds every page.\<close>

definition chip_ok :: "nat \<Rightarrow> chip \<Rightarrow> bool" where
  "chip_ok P c \<longleftrightarrow> ch_busy c < P \<and> ch_delay c < P"

definition geometry :: "nat \<Rightarrow> nat \<Rightarrow> nat \<Rightarrow> nat \<Rightarrow> 'h fw_state \<Rightarrow> bool" where
  "geometry rows ps os n s \<longleftrightarrow> ports_ok s \<and> nv_row (nf s) = of_nat rows \<and> rows < 2 ^ 32
     \<and> nv_pagesize (nf s) = of_nat ps \<and> ps \<noteq> 512 \<and> ps < 2 ^ 16
     \<and> nv_oobsize (nf s) = of_nat os \<and> 2 \<le> os \<and> os \<le> 256 \<and> nv_ppb (nf s) = of_nat n \<and> 0 < n \<and> n < 2 ^ 31"

lemma geometry_hw [simp]: "geometry rows ps os n (s\<lparr>hw := h\<rparr>) = geometry rows ps os n s"
  "geometry rows ps os n (s\<lparr>bulk_in_buf := b\<rparr>) = geometry rows ps os n s"
  "geometry rows ps os n (s\<lparr>nf := (nf s)\<lparr>nv_oob_buf := ob\<rparr>\<rparr>) = geometry rows ps os n s"
  by (simp_all add: geometry_def)

lemma geometry_facts:
  assumes "geometry rows ps os n s"
  shows "ports_ok s" "nv_row (nf s) = of_nat rows" "rows < 2 ^ 32" "nv_pagesize (nf s) = of_nat ps"
    "nv_pagesize (nf s) \<noteq> 512" "ps < 2 ^ 16" "nv_ppb (nf s) = of_nat n" "nv_ppb (nf s) \<noteq> 0" "unat (nv_ppb (nf s)) = n"
    "nv_oobsize (nf s) = of_nat os" "2 \<le> os" "os \<le> 256" "0 < n" "n < 2 ^ 31"
proof -
  show "ports_ok s" "nv_row (nf s) = of_nat rows" "rows < 2 ^ 32" "nv_pagesize (nf s) = of_nat ps" "ps < 2 ^ 16"
    "nv_ppb (nf s) = of_nat n" "nv_oobsize (nf s) = of_nat os" "2 \<le> os" "os \<le> 256" "0 < n" "n < 2 ^ 31"
    using assms by (simp_all add: geometry_def)
  have u: "unat (of_nat ps :: u32) = ps" "unat (of_nat n :: u32) = n"
    using assms by (simp_all add: geometry_def unat_of_nat)
  then show "nv_ppb (nf s) \<noteq> 0" "unat (nv_ppb (nf s)) = n" using assms by (auto simp: geometry_def)
  show "nv_pagesize (nf s) \<noteq> 512"
  proof
    assume "nv_pagesize (nf s) = 512"
    then have "ps = unat (512 :: u32)" using u assms by (simp add: geometry_def)
    then show False using assms by (simp add: geometry_def)
  qed
qed

section \<open>The spare bytes of a page\<close>

lemma column_bytes:
  fixes ps :: nat
  defines "w \<equiv> of_nat ps :: u32"
  assumes "ps < 2 ^ 16"
  shows "le_nat [ucast (w AND 0xff), ucast (drop_bit 8 w)] = ps"
proof -
  have "unat w = ps" using assms by (simp add: w_def unat_of_nat)
  moreover have "unat (ucast (drop_bit 8 w) :: u8) = ps div 256"
    using assms(2) \<open>unat w = ps\<close> by (simp add: unsigned_ucast_eq drop_bit_eq_div unat_div take_bit_nat_eq_self_iff)
  ultimately show ?thesis by (simp add: low_byte)
qed

text \<open>The commands of \<^verbatim>\<open>read_oob\<close> up to the data: the chip is ready to deliver the spare bytes.\<close>

definition oob_commands :: "'h mmio \<Rightarrow> nat \<Rightarrow> u32 \<Rightarrow> u32 \<Rightarrow> ('h, unit) fw" where
  "oob_commands M P coladdr pg = do {
     nand_cmd M CMD_READA;
     nand_addr M (ucast (coladdr AND 0xff));
     unless_small (nand_addr M (ucast (drop_bit 8 coladdr)));
     send_page M pg;
     unless_small (nand_cmd M CMD_CONFIRM);
     nand_sync M P }"

lemma acts_oob_commands:
  assumes "chip_bus M \<phi>" "geometry rows ps os n s" "chip_ok P (\<phi> (hw s))" "unat pg < 256 ^ rows"
  shows "\<exists>c. acts \<phi> (oob_commands M P (nv_pagesize (nf s)) pg) s () c
     \<and> c = (\<phi> (hw s))\<lparr>ch_mode := M_Data (unat pg) ps, ch_addr := ch_addr c, ch_busy := 0\<rparr>"
proof -
  note g = geometry_facts [OF assms(2)]
  let ?c = "\<phi> (hw s)" and ?w = "of_nat ps :: u32"
  let ?a = "[ucast (?w AND 0xff), ucast (drop_bit 8 ?w)] @ row_bytes pg rows :: bytes"
  have page: "le_nat (drop 2 ?a) = unat pg" "le_nat (take 2 ?a) = ps"
    using assms(4) column_bytes [OF g(6)] by (simp_all add: le_nat_row_bytes)
  have "acts \<phi> (oob_commands M P (nv_pagesize (nf s)) pg) s () (?c\<lparr>ch_mode := M_Data (unat pg) ps, ch_addr := ?a, ch_busy := 0\<rparr>)"
    unfolding oob_commands_def
    apply (rule acts_bind, rule acts_cmd [OF assms(1) g(1)])
    apply (rule acts_bind, rule acts_addr [OF assms(1)], simp add: g(1))
    apply (rule acts_bind, rule acts_large, simp add: g(5), rule acts_addr [OF assms(1)], simp add: g(1))
    apply (rule acts_bind, rule acts_row [OF assms(1), of _ rows], simp add: g(1), simp add: g(2), rule g(3))
    apply (rule acts_bind, rule acts_large, simp add: g(5), rule acts_cmd [OF assms(1)], simp add: g(1))
    apply (rule acts_eq, rule acts_sync [OF assms(1)])
    using assms(3,4) column_bytes [OF g(6)]
    by (simp_all add: g(4) chip_cmd_def chip_addr_def nand_cmd_defs chip_ok_def le_nat_row_bytes)
  then show ?thesis by (intro exI conjI, assumption) simp
qed

text \<open>What a read leaves: the same contents, and a chip that is ready.\<close>

definition same_chip :: "chip \<Rightarrow> chip \<Rightarrow> bool" where
  "same_chip c c' \<longleftrightarrow> cells c' = cells c \<and> ch_ppb c' = ch_ppb c \<and> ch_delay c' = ch_delay c
     \<and> ch_worn c' = ch_worn c \<and> ch_busy c' \<le> ch_busy c"

lemma same_chip_ok: "same_chip c c' \<Longrightarrow> chip_ok P c \<Longrightarrow> chip_ok P c'"
  by (simp add: same_chip_def chip_ok_def)

lemma same_chip_trans: "same_chip c c' \<Longrightarrow> same_chip c' c'' \<Longrightarrow> same_chip c c''"
  by (simp add: same_chip_def)

lemma run_read8_oob:
  assumes "chip_bus M \<phi>"
  shows "ports_ok s \<Longrightarrow> ch_mode (\<phi> (hw s)) = M_Data pg col \<Longrightarrow> off + n \<le> 256 \<Longrightarrow>
    \<exists>h. run_state (nand_data_read8 M To_Oob (int off) n) s
        = ((), s\<lparr>hw := h, nf := (nf s)\<lparr>nv_oob_buf := (\<lambda>k. if off \<le> k \<and> k < off + n
             then cells (\<phi> (hw s)) pg (col + (k - off)) else nv_oob_buf (nf s) k)\<rparr>\<rparr>)
      \<and> \<phi> h = (\<phi> (hw s))\<lparr>ch_mode := M_Data pg (col + n)\<rparr>"
proof (induction n arbitrary: s col off)
  case 0
  have "(\<lambda>k. if off \<le> k \<and> k < off + 0 then cells (\<phi> (hw s)) pg (col + (k - off)) else nv_oob_buf (nf s) k) = nv_oob_buf (nf s)"
    by (auto simp: fun_eq_iff)
  moreover have "s\<lparr>hw := hw s, nf := (nf s)\<lparr>nv_oob_buf := nv_oob_buf (nf s)\<rparr>\<rparr> = s" by (cases s) simp
  ultimately show ?case using 0 by (intro exI [of _ "hw s"]) (simp only: nand_data_read8.simps host_simps, simp)
next
  case (Suc n)
  let ?b = "cells (\<phi> (hw s)) pg col"
  obtain h where h: "run_state (nand_data8 M) s = (?b, s\<lparr>hw := h\<rparr>)" "\<phi> h = (\<phi> (hw s))\<lparr>ch_mode := M_Data pg (col + 1)\<rparr>"
    using run_nand_data8 [OF assms Suc.prems(1)] Suc.prems(2) by (auto simp: chip_get_def)
  define t where "t = s\<lparr>hw := h, nf := (nf s)\<lparr>nv_oob_buf := (nv_oob_buf (nf s))(off := ?b)\<rparr>\<rparr>"
  have st: "run_state (store_byte To_Oob (int off) ?b) (s\<lparr>hw := h\<rparr>) = ((), t)"
    using Suc.prems(3) by (cases s) (simp add: store_byte_def host_simps t_def)
  have "ports_ok t" "ch_mode (\<phi> (hw t)) = M_Data pg (col + 1)" "Suc off + n \<le> 256"
    using Suc.prems h(2) by (simp_all add: t_def ports_ok_def)
  from Suc.IH [OF this] obtain h' where
    h': "run_state (nand_data_read8 M To_Oob (int (Suc off)) n) t
        = ((), t\<lparr>hw := h', nf := (nf t)\<lparr>nv_oob_buf := (\<lambda>k. if Suc off \<le> k \<and> k < Suc off + n
             then cells (\<phi> (hw t)) pg (col + 1 + (k - Suc off)) else nv_oob_buf (nf t) k)\<rparr>\<rparr>)"
      "\<phi> h' = (\<phi> (hw t))\<lparr>ch_mode := M_Data pg (col + 1 + n)\<rparr>" by blast
  have "(\<lambda>k. if Suc off \<le> k \<and> k < Suc off + n then cells (\<phi> (hw t)) pg (col + 1 + (k - Suc off)) else nv_oob_buf (nf t) k)
      = (\<lambda>k. if off \<le> k \<and> k < off + Suc n then cells (\<phi> (hw s)) pg (col + (k - off)) else nv_oob_buf (nf s) k)"
    using h(2) by (auto simp: t_def fun_eq_iff le_Suc_eq Suc_diff_Suc)
  then have "run_state (nand_data_read8 M To_Oob (int off) (Suc n)) s
      = ((), s\<lparr>hw := h', nf := (nf s)\<lparr>nv_oob_buf := (\<lambda>k. if off \<le> k \<and> k < off + Suc n
             then cells (\<phi> (hw s)) pg (col + (k - off)) else nv_oob_buf (nf s) k)\<rparr>\<rparr>)"
    using h(1) st h'(1) by (simp add: host_simps add.commute) (simp add: t_def)
  moreover have "\<phi> h' = (\<phi> (hw s))\<lparr>ch_mode := M_Data pg (col + Suc n)\<rparr>" using h'(2) h(2) by (simp add: t_def)
  ultimately show ?case by blast
qed

lemma run_read_oob:
  assumes "geometry rows ps os n s"
  shows "run_state (read_oob M P dst off len pg) s
    = run_state (oob_commands M P (nv_pagesize (nf s)) pg \<bind> (\<lambda>_. read_proc M dst off len)) s"
proof -
  note g = geometry_facts [OF assms]
  have sel: "run_state (select_chip b) s = ((), s)" for b by (rule run_select_chip [OF g(1)])
  show ?thesis
    using g(5) by (simp add: read_oob_def oob_commands_def host_simps run_block_nr [OF g(8)] sel Let_def)
qed

lemma sint_small: "k < 2 ^ 31 \<Longrightarrow> sint (of_nat k :: u32) = int k"
  by (simp add: sint_uint signed_take_bit_int_eq_self take_bit_nat_eq_self unsigned_of_nat)

lemma run_fetch_oob:
  assumes "chip_bus M \<phi>" "geometry rows ps os n s" "chip_ok P (\<phi> (hw s))" "unat pg < 256 ^ rows"
  shows "\<exists>h ob. run_state (fetch_oob M P pg) s = ((), s\<lparr>hw := h, nf := (nf s)\<lparr>nv_oob_buf := ob\<rparr>\<rparr>)
    \<and> same_chip (\<phi> (hw s)) (\<phi> h) \<and> (\<forall>k < os. ob k = cells (\<phi> (hw s)) (unat pg) (ps + k))"
proof -
  note g = geometry_facts [OF assms(2)]
  obtain c where "acts \<phi> (oob_commands M P (nv_pagesize (nf s)) pg) s () c"
      "c = (\<phi> (hw s))\<lparr>ch_mode := M_Data (unat pg) ps, ch_addr := ch_addr c, ch_busy := 0\<rparr>"
    using acts_oob_commands [OF assms] by blast
  then obtain h a where h: "run_state (oob_commands M P (nv_pagesize (nf s)) pg) s = ((), s\<lparr>hw := h\<rparr>)"
      "\<phi> h = (\<phi> (hw s))\<lparr>ch_mode := M_Data (unat pg) ps, ch_addr := a, ch_busy := 0\<rparr>"
    unfolding acts_def by metis
  have "ports_ok (s\<lparr>hw := h\<rparr>)" "ch_mode (\<phi> (hw (s\<lparr>hw := h\<rparr>))) = M_Data (unat pg) ps" "0 + os \<le> 256"
    using g by (simp_all add: h(2))
  from run_read8_oob [OF assms(1) this] obtain h' where
    r: "run_state (nand_data_read8 M To_Oob 0 os) (s\<lparr>hw := h\<rparr>) = ((), s\<lparr>hw := h', nf := (nf s)\<lparr>nv_oob_buf :=
         (\<lambda>k. if k < os then cells (\<phi> h) (unat pg) (ps + k) else nv_oob_buf (nf s) k)\<rparr>\<rparr>)"
    and h': "\<phi> h' = (\<phi> h)\<lparr>ch_mode := M_Data (unat pg) (ps + os)\<rparr>" by (auto cong: if_cong)
  have "nat (sint (nv_oobsize (nf s))) = os" using g(10,12) by (simp add: sint_small)
  then have "run_state (fetch_oob M P pg) s = ((), s\<lparr>hw := h', nf := (nf s)\<lparr>nv_oob_buf :=
         (\<lambda>k. if k < os then cells (\<phi> h) (unat pg) (ps + k) else nv_oob_buf (nf s) k)\<rparr>\<rparr>)"
    using r h(1) g(1) by (simp add: fetch_oob_def host_simps run_read_oob [OF assms(2)] read_proc_def ports_ok_def)
  moreover have "same_chip (\<phi> (hw s)) (\<phi> h')" by (simp add: h' h(2) same_chip_def)
  ultimately show ?thesis by (intro exI conjI; assumption?) (auto simp: h(2))
qed

section \<open>Bad blocks\<close>

text \<open>Which blocks are marked bad, by the driver's settings: any of four pages if the page of the mark lies
  outside the block, otherwise the byte \<^verbatim>\<open>bo\<close> of the spare bytes of page \<^verbatim>\<open>bp\<close>.\<close>

definition bad_block :: "nat \<Rightarrow> nat \<Rightarrow> nat \<Rightarrow> nat \<Rightarrow> (nat \<Rightarrow> nat \<Rightarrow> u8) \<Rightarrow> nat \<Rightarrow> bool" where
  "bad_block n ps bp bo m b =
    (if n \<le> bp then \<exists>k \<in> {0, 1, n - 2, n - 1}. m (b * n + k) ps \<noteq> 0xff \<or> m (b * n + k) (ps + 1) \<noteq> 0xff
     else m (b * n + bp) (ps + bo) \<noteq> 0xff)"

definition bb_vars :: "nat \<Rightarrow> nat \<Rightarrow> nat \<Rightarrow> 'h fw_state \<Rightarrow> bool" where
  "bb_vars os bp bo s \<longleftrightarrow> nv_bb_page (nf s) = of_nat bp \<and> bp < 2 ^ 31 \<and> nv_bb_pos (nf s) = of_nat bo \<and> bo < os"

lemma bb_vars_hw [simp]: "bb_vars os bp bo (s\<lparr>hw := h\<rparr>) = bb_vars os bp bo s"
  "bb_vars os bp bo (s\<lparr>nf := (nf s)\<lparr>nv_oob_buf := ob\<rparr>\<rparr>) = bb_vars os bp bo s"
  by (simp_all add: bb_vars_def)

text \<open>\<^verbatim>\<open>peeks \<phi> f s r\<close>: the operation returns \<^verbatim>\<open>r\<close> and changes nothing but \<^verbatim>\<open>oob_buf\<close> and the chip's mode.\<close>

definition peeks :: "('h \<Rightarrow> chip) \<Rightarrow> ('h, 'a) fw \<Rightarrow> 'h fw_state \<Rightarrow> 'a \<Rightarrow> bool" where
  "peeks \<phi> f s r \<longleftrightarrow> (\<exists>h ob. run_state f s = (r, s\<lparr>hw := h, nf := (nf s)\<lparr>nv_oob_buf := ob\<rparr>\<rparr>)
     \<and> same_chip (\<phi> (hw s)) (\<phi> h))"

lemma run_oob_byte: "unat k < 256 \<Longrightarrow> run_state (oob_byte k) s = (nv_oob_buf (nf s) (unat k), s)"
proof -
  have "s\<lparr>fw_ub := fw_ub s\<rparr> = s" by (cases s) simp
  then show "unat k < 256 \<Longrightarrow> ?thesis" by (simp add: oob_byte_def host_simps)
qed

lemma peeks_any_marked:
  assumes "chip_bus M \<phi>" "geometry rows ps os n s" "chip_ok P (\<phi> (hw s))" "\<forall>pg \<in> set pgs. unat pg < 256 ^ rows"
  shows "peeks \<phi> (any_marked M P pgs) s
     (\<exists>pg \<in> set pgs. cells (\<phi> (hw s)) (unat pg) ps \<noteq> 0xff \<or> cells (\<phi> (hw s)) (unat pg) (ps + 1) \<noteq> 0xff)"
  using assms(2-)
proof (induction pgs arbitrary: s)
  case Nil
  have "s\<lparr>hw := hw s, nf := (nf s)\<lparr>nv_oob_buf := nv_oob_buf (nf s)\<rparr>\<rparr> = s" by (cases s) simp
  then show ?case by (auto simp: peeks_def host_simps same_chip_def intro!: exI [of _ "hw s"] exI [of _ "nv_oob_buf (nf s)"])
next
  case (Cons pg pgs)
  let ?m = "cells (\<phi> (hw s))"
  have "unat pg < 256 ^ rows" using Cons.prems(3) by simp
  from run_fetch_oob [OF assms(1) Cons.prems(1,2) this] obtain h ob where
    f: "run_state (fetch_oob M P pg) s = ((), s\<lparr>hw := h, nf := (nf s)\<lparr>nv_oob_buf := ob\<rparr>\<rparr>)"
      "same_chip (\<phi> (hw s)) (\<phi> h)" "\<forall>k < os. ob k = ?m (unat pg) (ps + k)" by blast
  define t where "t = s\<lparr>hw := h, nf := (nf s)\<lparr>nv_oob_buf := ob\<rparr>\<rparr>"
  have ob: "ob 0 = ?m (unat pg) ps" "ob 1 = ?m (unat pg) (ps + 1)"
    using f(3) geometry_facts(11) [OF Cons.prems(1)] by simp_all
  have m: "cells (\<phi> h) = ?m" using f(2) by (simp add: same_chip_def)
  show ?case
  proof (cases "ob 0 \<noteq> 0xff \<or> ob 1 \<noteq> 0xff")
    case True
    then show ?thesis using f ob by (auto simp: peeks_def host_simps run_oob_byte)
  next
    case False
    have gt: "geometry rows ps os n t" using Cons.prems(1) by (simp add: t_def geometry_def ports_ok_def)
    have "chip_ok P (\<phi> (hw t))" using same_chip_ok [OF f(2) Cons.prems(2)] by (simp add: t_def)
    then have "peeks \<phi> (any_marked M P pgs) t (\<exists>pg \<in> set pgs. ?m (unat pg) ps \<noteq> 0xff \<or> ?m (unat pg) (ps + 1) \<noteq> 0xff)"
      using Cons.IH [OF gt] Cons.prems(3) by (simp add: t_def m)
    then obtain h' ob' where "run_state (any_marked M P pgs) t = (\<exists>pg \<in> set pgs. ?m (unat pg) ps \<noteq> 0xff \<or> ?m (unat pg) (ps + 1) \<noteq> 0xff,
        t\<lparr>hw := h', nf := (nf t)\<lparr>nv_oob_buf := ob'\<rparr>\<rparr>)" "same_chip (\<phi> (hw t)) (\<phi> h')"
      by (auto simp: peeks_def)
    then show ?thesis
      using f(1,2) ob False by (auto simp: peeks_def host_simps run_oob_byte t_def same_chip_def)
  qed
qed

lemma word_page: "b * n + k < 2 ^ 32 \<Longrightarrow> unat (of_nat b * of_nat n + of_nat k :: u32) = b * n + k"
proof -
  assume "b * n + k < 2 ^ 32"
  moreover have "of_nat b * of_nat n + of_nat k = (of_nat (b * n + k) :: u32)" by simp
  ultimately show ?thesis by (simp only: unat_of_nat) (simp add: take_bit_nat_eq_self_iff)
qed

lemma edge_pages_eq:
  assumes "2 \<le> n"
  shows "edge_pages (of_nat n) (of_nat b) = List.map (\<lambda>k. of_nat b * of_nat n + of_nat k) [0, 1, n - 2, n - 1]"
  using assms by (simp add: edge_pages_def of_nat_diff algebra_simps)

lemma peeks_check_block:
  assumes "chip_bus M \<phi>" "geometry rows ps os n s" "chip_ok P (\<phi> (hw s))" "bb_vars os bp bo s"
    and "2 \<le> n" "(b + 1) * n \<le> 256 ^ rows" "(b + 1) * n \<le> 2 ^ 32"
  shows "peeks \<phi> (nand_check_block M P (of_nat b)) s (bad_block n ps bp bo (cells (\<phi> (hw s))) b)"
proof -
  note g = geometry_facts [OF assms(2)]
  have bv: "nv_bb_page (nf s) = of_nat bp" "bp < 2 ^ 31" "nv_bb_pos (nf s) = of_nat bo" "bo < os"
    using assms(4) by (simp_all add: bb_vars_def)
  define pw where "pw k = (of_nat b * of_nat n + of_nat k :: u32)" for k
  have page: "unat (pw k) = b * n + k" "b * n + k < 256 ^ rows" if "k < n" for k
    using word_page [of b n k] that assms(6,7) by (simp_all add: pw_def)
  have fits: "unat (pw k) < 256 ^ rows" if "k < n" for k using page that by simp
  have edges: "edge_pages (of_nat n) (of_nat b) = List.map pw [0, 1, n - 2, n - 1]"
    unfolding edge_pages_eq [OF assms(5)] pw_def ..
  have le: "nv_ppb (nf s) <=s nv_bb_page (nf s) \<longleftrightarrow> n \<le> bp"
    using g(7,14) bv(1,2) by (simp add: word_sle_eq sint_small)
  show ?thesis
  proof (cases "n \<le> bp")
    case True
    have "\<forall>pg \<in> set (edge_pages (of_nat n) (of_nat b)). unat pg < 256 ^ rows"
      unfolding edges using assms(5) by (auto intro!: fits)
    from peeks_any_marked [OF assms(1-3) this]
    have "peeks \<phi> (any_marked M P (edge_pages (of_nat n) (of_nat b))) s (bad_block n ps bp bo (cells (\<phi> (hw s))) b)"
      unfolding edges using True page assms(5) by (simp add: bad_block_def)
    then show ?thesis using True le g(7) by (simp add: peeks_def nand_check_block_def host_simps)
  next
    case False
    then have "bp < n" by simp
    with page have "unat (pw bp) < 256 ^ rows" by simp
    from run_fetch_oob [OF assms(1-3) this] obtain h ob where
      f: "run_state (fetch_oob M P (pw bp)) s = ((), s\<lparr>hw := h, nf := (nf s)\<lparr>nv_oob_buf := ob\<rparr>\<rparr>)"
        "same_chip (\<phi> (hw s)) (\<phi> h)" "\<forall>k < os. ob k = cells (\<phi> (hw s)) (b * n + bp) (ps + k)"
      using page \<open>bp < n\<close> by auto
    have "unat (of_nat bo :: u32) = bo" using bv(4) g(12) by (simp add: unat_of_nat take_bit_nat_eq_self_iff)
    then show ?thesis
      using f bv False le g(7,12) unfolding pw_def by (auto simp: peeks_def nand_check_block_def host_simps run_oob_byte bad_block_def)
  qed
qed

section \<open>Erasing\<close>

lemma acts_erase_block:
  assumes "chip_bus M \<phi>" "geometry rows ps os n s" "chip_ok P (\<phi> (hw s))" "unat cur < 256 ^ rows"
    and "ch_ppb (\<phi> (hw s)) = n" "\<not> ch_worn (\<phi> (hw s)) (unat cur div n)"
  shows "\<exists>h. run_state (erase_block M P cur) s = ((), s\<lparr>hw := h\<rparr>)
    \<and> \<phi> h = (\<phi> (hw s))\<lparr>cells := erase_cells n (unat cur div n) (cells (\<phi> (hw s))), ch_failed := False,
         ch_mode := M_Status, ch_addr := row_bytes cur rows, ch_busy := 0\<rparr>"
proof -
  note g = geometry_facts [OF assms(2)]
  have "acts \<phi> (erase_block M P cur) s () ((\<phi> (hw s))\<lparr>cells := erase_cells n (unat cur div n) (cells (\<phi> (hw s))),
      ch_failed := False, ch_mode := M_Status, ch_addr := row_bytes cur rows, ch_busy := 0\<rparr>)"
    unfolding erase_block_def
    apply (rule acts_bind, rule acts_cmd [OF assms(1) g(1)])
    apply (rule acts_bind, rule acts_row [OF assms(1), of _ rows], simp add: g(1), simp add: g(2), rule g(3))
    apply (rule acts_bind, rule acts_cmd [OF assms(1)], simp add: g(1))
    apply (rule acts_bind, rule acts_sync [OF assms(1)])
    using assms(3-) apply (simp add: chip_cmd_def nand_cmd_defs chip_ok_def Let_def)
    apply (rule acts_bind, rule acts_cmd [OF assms(1)], simp add: g(1))
    apply (rule acts_bind, rule acts_data8 [OF assms(1)], simp add: g(1))
    using assms(4-)
    by (simp add: chip_cmd_def nand_cmd_defs chip_get_def le_nat_row_bytes Let_def)
      (rule acts_eq, rule acts_return, simp)
  then show ?thesis unfolding acts_def .
qed

lemma bad_block_cong:
  assumes "2 \<le> n" "\<And>k. k < n \<Longrightarrow> m (x * n + k) = m' (x * n + k)"
  shows "bad_block n ps bp bo m x = bad_block n ps bp bo m' x"
proof (cases "n \<le> bp")
  case True
  have "m (x * n + k) = m' (x * n + k)" if "k \<in> {0, 1, n - 2, n - 1}" for k
    by (rule assms(2)) (use that assms(1) in auto)
  then show ?thesis unfolding bad_block_def using True by (simp only: if_True cong: bex_cong)
next
  case False
  then show ?thesis using assms(2) [of bp] by (simp add: bad_block_def)
qed

text \<open>The cells after the good blocks from \<^verbatim>\<open>b\<close> up to \<^verbatim>\<open>e\<close> have been erased.\<close>

definition erased :: "nat \<Rightarrow> (nat \<Rightarrow> bool) \<Rightarrow> nat \<Rightarrow> nat \<Rightarrow> (nat \<Rightarrow> nat \<Rightarrow> u8) \<Rightarrow> (nat \<Rightarrow> nat \<Rightarrow> u8)" where
  "erased n good b e m = (\<lambda>pg. if b \<le> pg div n \<and> pg div n < e \<and> good (pg div n) then (\<lambda>_. 0xff) else m pg)"

lemma erased_step:
  "b < e \<Longrightarrow> erased n good (Suc b) e (if good b then erase_cells n b m else m) = erased n good b e m"
  by (auto simp: erased_def erase_cells_def fun_eq_iff not_less_eq_eq le_Suc_eq)

lemma count_step:
  "b < e \<Longrightarrow> card {x \<in> {b..<e}. good x} = (if good b then 1 else 0) + card {x \<in> {Suc b..<e}. good x}"
proof -
  assume "b < e"
  then have "{x \<in> {b..<e}. good x} = (if good b then {b} else {}) \<union> {x \<in> {Suc b..<e}. good x}"
    by (auto simp: Suc_le_eq order.order_iff_strict)
  moreover have "b \<notin> {x \<in> {Suc b..<e}. good x}" by simp
  ultimately show ?thesis by (simp add: card_insert_if)
qed

lemma count_bounds: "card {x \<in> {b..<e}. good x} \<le> e - b" for b e :: nat
proof -
  have "card {x \<in> {b..<e}. good x} \<le> card {b..<e}" by (rule card_mono) auto
  then show ?thesis by simp
qed

lemma run_erase_loop:
  assumes "chip_bus M \<phi>" "2 \<le> n" "e * n \<le> 256 ^ rows" "e * n < 2 ^ 32" "b \<le> e" "e - b < fuel"
    and "b < e \<longrightarrow> good (e - 1)"
    and "geometry rows ps os n s" "chip_ok P (\<phi> (hw s))" "bb_vars os bp bo s" "hd_nand_plane (Hand s) = 1"
    and "ch_ppb (\<phi> (hw s)) = n" "\<forall>x \<in> {b..<e}. \<not> ch_worn (\<phi> (hw s)) x"
    and "\<forall>x \<in> {b..<e}. good x = (force \<or> \<not> bad_block n ps bp bo (cells (\<phi> (hw s))) x)"
    and "sblk + blk_num = of_nat (b + card {x \<in> {b..<e}. good x})"
  shows "\<exists>h ob. run_state (erase_loop M P fuel force sblk blk_num (of_nat b * of_nat n)) s
      = (of_nat e * of_nat n, s\<lparr>hw := h, nf := (nf s)\<lparr>nv_oob_buf := ob\<rparr>\<rparr>)
    \<and> cells (\<phi> h) = erased n good b e (cells (\<phi> (hw s)))"
  using assms(5-)
proof (induction fuel arbitrary: b blk_num s)
  case (Suc fuel)
  note pre = Suc.prems
  note g = geometry_facts [OF pre(4)]
  have uw: "unat (of_nat x * of_nat n :: u32) = x * n" if "x \<le> e" for x
  proof -
    have "x * n \<le> e * n" using that by (rule mult_le_mono1)
    then have "x * n + 0 < 2 ^ 32" using assms(4) by linarith
    from word_page [OF this] show ?thesis by simp
  qed
  let ?g = "card {x \<in> {b..<e}. good x}"
  have bg: "b + ?g \<le> e" using count_bounds [of b e good] pre(1) by simp
  have lim: "unat ((sblk + blk_num) * of_nat n) = (b + ?g) * n" using uw [OF bg] pre(11) by simp
  have same: "s\<lparr>hw := hw s, nf := (nf s)\<lparr>nv_oob_buf := nv_oob_buf (nf s)\<rparr>\<rparr> = s" by (cases s) simp
  show ?case
  proof (cases "b = e")
    case True
    then have "\<not> of_nat b * of_nat n < (sblk + blk_num) * (of_nat n :: u32)"
      using lim uw [of e] by (simp add: word_less_nat_alt)
    moreover have "cells (\<phi> (hw s)) = erased n good b e (cells (\<phi> (hw s)))" using True by (auto simp: erased_def fun_eq_iff)
    ultimately show ?thesis
      using same True g(7) by (intro exI [of _ "hw s"] exI [of _ "nv_oob_buf (nf s)"]) (simp add: host_simps)
  next
    case False
    then have be: "b < e" using pre(1) by simp
    then have "e - 1 \<in> {x \<in> {b..<e}. good x}" using pre(3) by auto
    then have "0 < ?g" by (auto simp: card_gt_0_iff)
    then have less: "of_nat b * of_nat n < (sblk + blk_num) * (of_nat n :: u32)"
      using lim uw [of b] be g(13) by (simp add: word_less_nat_alt)
    have blk: "of_nat b * of_nat n div of_nat n = (of_nat b :: u32)"
      unfolding word_arith_nat_div using uw [of b] be g(7,9,13) by simp
    have next_cur: "of_nat b * of_nat n + of_nat n = (of_nat (Suc b) * of_nat n :: u32)" by (simp add: algebra_simps)
    have fit: "(b + 1) * n \<le> 256 ^ rows" "(b + 1) * n \<le> 2 ^ 32"
    proof -
      have "(b + 1) * n \<le> e * n" using be by (intro mult_le_mono1) simp
      then show "(b + 1) * n \<le> 256 ^ rows" "(b + 1) * n \<le> 2 ^ 32" using assms(3,4) by simp_all
    qed
    have good_b: "good b = (force \<or> \<not> bad_block n ps bp bo (cells (\<phi> (hw s))) b)" using pre(10) be by simp
    have "peeks \<phi> (if force then State_Monad.return False else nand_check_block M P (of_nat b)) s (\<not> good b)"
    proof (cases force)
      case True
      then show ?thesis using same good_b
        by (auto simp: peeks_def host_simps same_chip_def intro!: exI [of _ "hw s"] exI [of _ "nv_oob_buf (nf s)"])
    next
      case False
      then show ?thesis using peeks_check_block [OF assms(1) pre(4-6) assms(2) fit] good_b by simp
    qed
    then obtain h1 ob1 where
      chk: "run_state (if force then State_Monad.return False else nand_check_block M P (of_nat b)) s
         = (\<not> good b, s\<lparr>hw := h1, nf := (nf s)\<lparr>nv_oob_buf := ob1\<rparr>\<rparr>)" and same1: "same_chip (\<phi> (hw s)) (\<phi> h1)"
      unfolding peeks_def by blast
    define s1 where "s1 = s\<lparr>hw := h1, nf := (nf s)\<lparr>nv_oob_buf := ob1\<rparr>\<rparr>"
    have s1: "geometry rows ps os n s1" "bb_vars os bp bo s1" "hd_nand_plane (Hand s1) = 1" "chip_ok P (\<phi> (hw s1))"
      "ch_ppb (\<phi> (hw s1)) = n" "ch_worn (\<phi> (hw s1)) = ch_worn (\<phi> (hw s))" "cells (\<phi> (hw s1)) = cells (\<phi> (hw s))"
      using pre(4,6-8) same1 same_chip_ok [OF same1 pre(5)]
      by (simp_all add: s1_def geometry_def ports_ok_def bb_vars_def same_chip_def)
    obtain s2 h2 blk2 where s2: "s2 = s1\<lparr>hw := h2\<rparr>" "cells (\<phi> h2) = (if good b then erase_cells n b (cells (\<phi> (hw s))) else cells (\<phi> (hw s)))"
        "chip_ok P (\<phi> h2)" "ch_ppb (\<phi> h2) = n" "ch_worn (\<phi> h2) = ch_worn (\<phi> (hw s))"
        "sblk + blk2 = of_nat (Suc b + card {x \<in> {Suc b..<e}. good x})"
      and go: "run_state (erase_loop M P (Suc fuel) force sblk blk_num (of_nat b * of_nat n)) s
          = run_state (erase_loop M P fuel force sblk blk2 (of_nat (Suc b) * of_nat n)) s2"
    proof (cases "good b")
      case True
      have cur: "unat (of_nat b * of_nat n :: u32) = b * n" by (rule uw) (use be in simp)
      have "unat (of_nat b * of_nat n :: u32) < 256 ^ rows" using cur fit g(13) by simp
      moreover have "\<not> ch_worn (\<phi> (hw s1)) (unat (of_nat b * of_nat n :: u32) div n)"
        using cur g(13) pre(9) be s1(6) by simp
      ultimately obtain h2 where h2: "run_state (erase_block M P (of_nat b * of_nat n)) s1 = ((), s1\<lparr>hw := h2\<rparr>)"
          "\<phi> h2 = (\<phi> (hw s1))\<lparr>cells := erase_cells n b (cells (\<phi> (hw s1))), ch_failed := False,
             ch_mode := M_Status, ch_addr := row_bytes (of_nat b * of_nat n) rows, ch_busy := 0\<rparr>"
        using acts_erase_block [OF assms(1) s1(1,4) _ s1(5), of "of_nat b * of_nat n"] cur g(13) by auto
      show ?thesis
      proof (rule that [of "s1\<lparr>hw := h2\<rparr>" h2 blk_num])
        show "sblk + blk_num = of_nat (Suc b + card {x \<in> {Suc b..<e}. good x})"
          using pre(11) True count_step [OF be, of good] by simp
        show "run_state (erase_loop M P (Suc fuel) force sblk blk_num (of_nat b * of_nat n)) s
            = run_state (erase_loop M P fuel force sblk blk_num (of_nat (Suc b) * of_nat n)) (s1\<lparr>hw := h2\<rparr>)"
          using less blk next_cur True g(7,8) chk h2(1)
          by (simp add: host_simps run_block_nr run_select_chip [OF g(1)] flip: s1_def)
      qed (use h2(2) s1 True in \<open>simp_all add: chip_ok_def\<close>)
    next
      case False
      show ?thesis
      proof (rule that [of s1 "hw s1" "blk_num + 1"])
        show "sblk + (blk_num + 1) = of_nat (Suc b + card {x \<in> {Suc b..<e}. good x})"
          using pre(11) False count_step [OF be, of good] by (simp add: algebra_simps)
        show "run_state (erase_loop M P (Suc fuel) force sblk blk_num (of_nat b * of_nat n)) s
            = run_state (erase_loop M P fuel force sblk (blk_num + 1) (of_nat (Suc b) * of_nat n)) s1"
          using less blk next_cur False g(7,8) chk s1(3)
          by (simp add: host_simps run_block_nr run_select_chip [OF g(1)] flip: s1_def)
      qed (use s1 False in simp_all)
    qed
    have "geometry rows ps os n s2" "bb_vars os bp bo s2" "hd_nand_plane (Hand s2) = 1"
      using s1(1-3) by (simp_all add: s2(1))
    moreover have "\<forall>x \<in> {Suc b..<e}. good x = (force \<or> \<not> bad_block n ps bp bo (cells (\<phi> (hw s2))) x)"
    proof
      fix x assume x: "x \<in> {Suc b..<e}"
      have "(x * n + k) div n = x" if "k < n" for k using that by simp
      then have "bad_block n ps bp bo (cells (\<phi> (hw s2))) x = bad_block n ps bp bo (cells (\<phi> (hw s))) x"
        using x by (intro bad_block_cong [OF assms(2)]) (auto simp: s2(1,2) erase_cells_def)
      then show "good x = (force \<or> \<not> bad_block n ps bp bo (cells (\<phi> (hw s2))) x)" using pre(10) x by simp
    qed
    moreover have "Suc b < e \<longrightarrow> good (e - 1)" "Suc b \<le> e" "e - Suc b < fuel" using pre(2,3) be by auto
    ultimately obtain h ob where fin: "run_state (erase_loop M P fuel force sblk blk2 (of_nat (Suc b) * of_nat n)) s2
          = (of_nat e * of_nat n, s2\<lparr>hw := h, nf := (nf s2)\<lparr>nv_oob_buf := ob\<rparr>\<rparr>)"
        "cells (\<phi> h) = erased n good (Suc b) e (cells (\<phi> (hw s2)))"
      using Suc.IH [of "Suc b" s2 blk2] s2 pre(9) by auto
    have "cells (\<phi> h) = erased n good b e (cells (\<phi> (hw s)))"
      using fin(2) erased_step [OF be] by (simp add: s2(1,2))
    moreover have "s2\<lparr>hw := h, nf := (nf s2)\<lparr>nv_oob_buf := ob\<rparr>\<rparr> = s\<lparr>hw := h, nf := (nf s)\<lparr>nv_oob_buf := ob\<rparr>\<rparr>"
      by (simp add: s2(1) s1_def)
    ultimately show ?thesis using go fin(1) by auto
  qed
qed simp

end
