(* ===== verification/Nand4740_Facts.thy ===== *)
theory Nand4740_Facts
  imports Nand_Chip
begin

unbundle bit_operations_syntax

text \<open>
  What the NAND driver of the JZ4740 guarantees: the correction of a symbol of the error code,
  and the blocks that an erase reaches on a chip that behaves as documented.
\<close>

section \<open>The correction of a symbol\<close>

text \<open>Bit \<^verbatim>\<open>n\<close> of a buffer, the lowest bit of the first byte first.\<close>

definition buf_bit :: "(nat \<Rightarrow> u8) \<Rightarrow> nat \<Rightarrow> bool" where
  "buf_bit buf n = bit (buf (n div 8)) (n mod 8)"

lemma fix_symbol_bits:
  assumes "j < 8" "take_bit 9 err = err" "fix_symbol j err low high = (low', high')"
  shows "k < 8 \<Longrightarrow> bit low' k = (bit low k \<noteq> (j \<le> k \<and> bit err (k - j)))"
    and "k < 8 \<Longrightarrow> bit high' k = (bit high k \<noteq> bit err (8 + k - j))"
proof -
  have m: "(0x1ff :: u16) = mask 9" "(0xff :: u16) = mask 8" by (simp_all add: mask_eq_exp_minus_1)
  have e: "bit err n \<longleftrightarrow> n < 9 \<and> bit err n" for n using assms(2) by (metis bit_take_bit_iff)
  have l: "\<not> bit low (8 + n)" for n by (simp add: impossible_bit)
  have *: "low' = ucast ((((push_bit 8 (ucast high) OR ucast low) AND NOT (push_bit j 0x1ff)) OR
       push_bit j ((drop_bit j (push_bit 8 (ucast high) OR ucast low) AND 0x1ff) XOR err)) AND 0xff :: u16)"
    "high' = ucast (drop_bit 8 (((push_bit 8 (ucast high) OR ucast low) AND NOT (push_bit j 0x1ff)) OR
       push_bit j ((drop_bit j (push_bit 8 (ucast high) OR ucast low) AND 0x1ff) XOR err)) AND 0xff :: u16)"
    using assms(3) by (auto simp: fix_symbol_def Let_def)
  show "bit low' k = (bit low k \<noteq> (j \<le> k \<and> bit err (k - j)))" if "k < 8"
    unfolding * m using that assms(1) by (auto simp: bit_simps l; use e in blast)
  show "bit high' k = (bit high k \<noteq> bit err (8 + k - j))" if "k < 8"
    unfolding * m using that assms(1) by (auto simp: bit_simps l; use e in blast)
qed

lemma symbol_at_nat: "1 \<le> idx \<Longrightarrow> symbol_at (int idx) = (int ((9 * idx - 1) div 8), (9 * idx - 1) mod 8)"
proof -
  assume "1 \<le> idx"
  define q r where "q = 9 * idx div 8" and "r = 9 * idx mod 8"
  have qr: "9 * idx = 8 * q + r" "r < 8" by (simp_all add: q_def r_def)
  have i: "int idx * 9 div 8 = int q" "int idx * 9 mod 8 = int r"
    unfolding q_def r_def zdiv_int zmod_int by (simp_all add: mult.commute)
  show ?thesis
  proof (cases "r = 0")
    case True
    then have "q \<noteq> 0" using qr \<open>1 \<le> idx\<close> by linarith
    then obtain k where "q = Suc k" by (cases q) auto
    then have "9 * idx - 1 = 8 * k + 7" using qr True by linarith
    then have "(9 * idx - 1) div 8 = k" "(9 * idx - 1) mod 8 = 7" by simp_all
    then show ?thesis using i True \<open>q = Suc k\<close> by (simp add: symbol_at_def)
  next
    case False
    then have "9 * idx - 1 = 8 * q + (r - 1)" "r - 1 < 8" using qr by linarith+
    then have "(9 * idx - 1) div 8 = q" "(9 * idx - 1) mod 8 = r - 1" by simp_all
    then show ?thesis using i False by (simp add: symbol_at_def)
  qed
qed

lemma run_rs_correct:
  assumes "1 \<le> idx" "off + (9 * idx - 1) div 8 < BULK_BUF_BYTES" "take_bit 9 err = err"
  defines "start \<equiv> 8 * off + 9 * (idx - 1)"
  shows "\<exists>buf'. run_state (rs_correct In_Buf (int off) (int idx) err) s = ((), s\<lparr>bulk_in_buf := buf'\<rparr>)
    \<and> (\<forall>n. buf_bit buf' n = (buf_bit (bulk_in_buf s) n \<noteq> (start \<le> n \<and> bit err (n - start))))"
proof -
  define i j where "i = (9 * idx - 1) div 8" and "j = (9 * idx - 1) mod 8"
  have ij: "9 * idx - 1 = 8 * i + j" "j < 8" by (simp_all add: i_def j_def)
  then have i1: "1 \<le> i" using assms(1) by linarith
  define a where "a = off + i - 1"
  have a: "int off + int i = int (Suc a)" "int (Suc a) - 1 = int a" "Suc a = off + i" using i1 by (auto simp: a_def)
  have st: "start = 8 * a + j" using ij i1 assms(1) a(3) unfolding start_def by linarith
  obtain lo hi where fx: "fix_symbol j err (bulk_in_buf s a) (bulk_in_buf s (Suc a)) = (lo, hi)" by fastforce
  let ?buf = "(bulk_in_buf s)(a := lo, Suc a := hi)"
  have "Suc a < BULK_BUF_BYTES" using assms(2) a(3) by (simp add: i_def)
  moreover have "s\<lparr>fw_ub := fw_ub s\<rparr> = s" by (cases s) simp
  ultimately have run: "run_state (rs_correct In_Buf (int off) (int idx) err) s = ((), s\<lparr>bulk_in_buf := ?buf\<rparr>)"
    unfolding rs_correct_def symbol_at_nat [OF assms(1), folded i_def j_def] prod.case a(1,2)
    by (simp add: load_byte_def store_byte_def host_simps fx Let_def del: of_nat_Suc)
  have "buf_bit ?buf n = (buf_bit (bulk_in_buf s) n \<noteq> (start \<le> n \<and> bit err (n - start)))" for n
  proof -
    define q k where "q = n div 8" and "k = n mod 8"
    have n: "n = 8 * q + k" "k < 8" by (simp_all add: q_def k_def)
    have e: "bit err m \<Longrightarrow> m < 9" for m using assms(3) by (metis bit_take_bit_iff)
    consider "q = a" | "q = Suc a" | "q < a" | "Suc a < q" by linarith
    then show ?thesis
    proof cases
      case 1
      then have "start \<le> n \<longleftrightarrow> j \<le> k" "n - start = k - j" using n st by auto
      then show ?thesis
        using 1 fix_symbol_bits(1) [OF ij(2) assms(3) fx n(2)] by (simp add: buf_bit_def flip: q_def k_def)
    next
      case 2
      then have "start \<le> n" "n - start = 8 + k - j" using n st ij(2) by auto
      then show ?thesis
        using 2 fix_symbol_bits(2) [OF ij(2) assms(3) fx n(2)] by (simp add: buf_bit_def flip: q_def k_def)
    next
      case 3
      then have "\<not> start \<le> n" using n st by linarith
      then show ?thesis using 3 by (simp add: buf_bit_def flip: q_def k_def)
    next
      case 4
      then have "9 \<le> n - start" using n st ij(2) by linarith
      then have "\<not> bit err (n - start)" using e by fastforce
      then show ?thesis using 4 by (simp add: buf_bit_def flip: q_def k_def)
    qed
  qed
  with run show ?thesis by blast
qed

text \<open>C15.  \<^verbatim>\<open>rs_correct\<close> applies an error report of the controller to the buffer: seen as a row of
  bits, lowest first, it inverts in the symbol \<^verbatim>\<open>idx\<close> (9 bits, counted from 1) exactly the bits
  of the mask, and no other bit of the buffer or of the firmware's state changes.\<close>

theorem rs_correct_flips_symbol:
  assumes "1 \<le> idx" "off + (9 * idx - 1) div 8 < BULK_BUF_BYTES" "take_bit 9 err = err"
  shows "\<exists>buf'. run_state (rs_correct In_Buf (int off) (int idx) err) s = ((), s\<lparr>bulk_in_buf := buf'\<rparr>)
    \<and> (\<forall>n. buf_bit buf' n = (buf_bit (bulk_in_buf s) n
          \<noteq> (8 * off + 9 * (idx - 1) \<le> n \<and> bit err (n - (8 * off + 9 * (idx - 1))))))"
  by (rule run_rs_correct [OF assms])

lemma rs_correct_flips_symbol_witness:
  "\<exists>buf'. run_state (rs_correct In_Buf (int 512) (int 3) 0x101) (blank_fw ()) = ((), (blank_fw ())\<lparr>bulk_in_buf := buf'\<rparr>)
    \<and> buf_bit buf' 4114"
proof -
  have "512 + (9 * 3 - 1) div 8 < BULK_BUF_BYTES" "take_bit 9 (0x101 :: u16) = 0x101" by (simp_all add: BULK_BUF_BYTES_def)
  from rs_correct_flips_symbol [OF _ this, of "blank_fw ()"] obtain buf' where
    run: "run_state (rs_correct In_Buf (int 512) (int 3) 0x101) (blank_fw ()) = ((), (blank_fw ())\<lparr>bulk_in_buf := buf'\<rparr>)"
    and bits: "\<forall>n. buf_bit buf' n = (buf_bit (\<lambda>_. 0) n \<noteq> (4114 \<le> n \<and> bit (0x101 :: u16) (n - 4114)))" by auto
  have "buf_bit buf' 4114" unfolding bits [rule_format] by (simp add: buf_bit_def)
  with run show ?thesis by blast
qed

section \<open>Erasing\<close>

lemma run_wp:
  assumes "chip_bus M \<phi>"
  shows "\<exists>h. run_state (wp_set M) s = ((), s\<lparr>hw := h\<rparr>) \<and> \<phi> h = \<phi> (hw s)"
    and "\<exists>h. run_state (wp_clear M) s = ((), s\<lparr>hw := h\<rparr>) \<and> \<phi> h = \<phi> (hw s)"
proof -
  have w: "\<phi> (io_w32 M port v h) = \<phi> h" for port v h using bus_simps [OF assms] by blast
  show "\<exists>h. run_state (wp_set M) s = ((), s\<lparr>hw := h\<rparr>) \<and> \<phi> h = \<phi> (hw s)"
    by (cases "nv_wp_pin (nf s) = 0") (auto simp: wp_set_def gpio_set_pin_def jz_writel_def host_simps w intro: exI [of _ "hw s"])
  show "\<exists>h. run_state (wp_clear M) s = ((), s\<lparr>hw := h\<rparr>) \<and> \<phi> h = \<phi> (hw s)"
    by (cases "nv_wp_pin (nf s) = 0") (auto simp: wp_clear_def gpio_clear_pin_def jz_writel_def host_simps w intro: exI [of _ "hw s"])
qed

text \<open>C14.  An erase of \<^verbatim>\<open>k\<close> blocks from the block \<^verbatim>\<open>b\<close>, on a chip that behaves as documented and does not wear
  out: unless it is forced, it skips the blocks that carry the mark of a bad block and goes on
  until \<^verbatim>\<open>k\<close> good ones are erased; these read as 0xff afterwards, every other page of the chip
  keeps its contents, the firmware meets no undefined behaviour and does not hang, and the
  result is the first page behind the last block.\<close>

theorem erase_skips_bad_blocks:
  fixes s :: "'h fw_state" and \<phi> :: "'h \<Rightarrow> chip" and force :: u32
  assumes "chip_bus M \<phi>" "geometry rows ps os n s" "bb_vars os bp bo s" "hd_nand_plane (Hand s) = 1"
    and "chip_ok P (\<phi> (hw s))" "ch_ppb (\<phi> (hw s)) = n" "2 \<le> n" "e * n \<le> 256 ^ rows" "e * n < 2 ^ 32" "b < e" "e - b < P"
  defines "good \<equiv> \<lambda>x. force \<noteq> 0 \<or> \<not> bad_block n ps bp bo (cells (\<phi> (hw s))) x"
  assumes "\<forall>x \<in> {b..<e}. \<not> ch_worn (\<phi> (hw s)) x" "good (e - 1)" "k = card {x \<in> {b..<e}. good x}"
  shows "\<exists>h ob. run_state (nand_erase_4740 M P (of_nat k) (of_nat b) force) s
      = (of_nat (e * n), s\<lparr>hw := h, nf := (nf s)\<lparr>nv_oob_buf := ob\<rparr>\<rparr>)
    \<and> cells (\<phi> h) = (\<lambda>pg. if pg div n \<in> {x \<in> {b..<e}. good x} then (\<lambda>_. 0xff) else cells (\<phi> (hw s)) pg)"
proof -
  obtain h0 where 0: "run_state (wp_set M) s = ((), s\<lparr>hw := h0\<rparr>)" "\<phi> h0 = \<phi> (hw s)"
    using run_wp(1) [OF assms(1)] by blast
  have "\<exists>h ob. run_state (erase_loop M P P (force \<noteq> 0) (of_nat b) (of_nat k) (of_nat b * of_nat n)) (s\<lparr>hw := h0\<rparr>)
      = (of_nat e * of_nat n, (s\<lparr>hw := h0\<rparr>)\<lparr>hw := h, nf := (nf (s\<lparr>hw := h0\<rparr>))\<lparr>nv_oob_buf := ob\<rparr>\<rparr>)
    \<and> cells (\<phi> h) = erased n good b e (cells (\<phi> (hw (s\<lparr>hw := h0\<rparr>))))"
    using assms 0(2) by (intro run_erase_loop [OF assms(1,7-9)]) auto
  then obtain h1 ob where 1: "run_state (erase_loop M P P (force \<noteq> 0) (of_nat b) (of_nat k) (of_nat b * of_nat n)) (s\<lparr>hw := h0\<rparr>)
      = (of_nat e * of_nat n, s\<lparr>hw := h1, nf := (nf s)\<lparr>nv_oob_buf := ob\<rparr>\<rparr>)"
      "cells (\<phi> h1) = erased n good b e (cells (\<phi> (hw s)))" using 0(2) by auto
  obtain h2 where 2: "run_state (wp_clear M) (s\<lparr>hw := h1, nf := (nf s)\<lparr>nv_oob_buf := ob\<rparr>\<rparr>)
      = ((), s\<lparr>hw := h2, nf := (nf s)\<lparr>nv_oob_buf := ob\<rparr>\<rparr>)" "\<phi> h2 = \<phi> h1"
    using run_wp(2) [OF assms(1), of "s\<lparr>hw := h1, nf := (nf s)\<lparr>nv_oob_buf := ob\<rparr>\<rparr>"] by (cases s) auto
  have "run_state (nand_erase_4740 M P (of_nat k) (of_nat b) force) s
      = (of_nat (e * n), s\<lparr>hw := h2, nf := (nf s)\<lparr>nv_oob_buf := ob\<rparr>\<rparr>)"
    using 0(1) 1(1) 2(1) geometry_facts(7) [OF assms(2)] by (simp add: nand_erase_4740_def host_simps)
  moreover have "cells (\<phi> h2) = (\<lambda>pg. if pg div n \<in> {x \<in> {b..<e}. good x} then (\<lambda>_. 0xff) else cells (\<phi> (hw s)) pg)"
    using 1(2) 2(2) by (auto simp: erased_def fun_eq_iff)
  ultimately show ?thesis by blast
qed

text \<open>A chip of blocks of 64 pages whose second block is marked, and the driver set up for it.\<close>

definition demo_chip :: chip where
  "demo_chip = \<lparr>cells = (\<lambda>pg k. if pg = 64 then 0 else if k < 2048 then 0x5a else 0xff), ch_mode = M_Idle, ch_addr = [], ch_in = [],
     ch_busy = 0, ch_failed = False, ch_ppb = 64, ch_delay = 5, ch_worn = (\<lambda>_. False)\<rparr>"

definition demo_nand :: "chip fw_state" where
  "demo_nand = (blank_fw demo_chip)\<lparr>nf := boot_nand_vars\<lparr>nv_row := 3, nv_pagesize := 2048, nv_oobsize := 64, nv_ppb := 64,
     nv_proc := Proc8\<rparr>\<rparr>"

lemma erase_skips_bad_blocks_witness:
  "\<exists>h ob. run_state (nand_erase_4740 chip_mmio 20 2 1 0) demo_nand
      = (256, demo_nand\<lparr>hw := h, nf := (nf demo_nand)\<lparr>nv_oob_buf := ob\<rparr>\<rparr>) \<and> cells h 192 = (\<lambda>_. 0xff)"
proof -
  have bad: "bad_block 64 2048 0 0 (cells demo_chip) x \<longleftrightarrow> x = 1" for x
    by (auto simp: bad_block_def demo_chip_def)
  have "{x \<in> {1..<4}. x \<noteq> (1 :: nat)} = {2, 3}" by auto
  then have count: "2 = card {x \<in> {1..<4}. x \<noteq> (1 :: nat)}" by simp
  have "geometry 3 2048 64 64 demo_nand" "bb_vars 64 0 0 demo_nand" "hd_nand_plane (Hand demo_nand) = 1" "hw demo_nand = demo_chip"
    by (simp_all add: demo_nand_def geometry_def bb_vars_def ports_ok_def boot_nand_vars_def zero_hand_def)
  moreover have "chip_ok 20 demo_chip" "ch_ppb demo_chip = 64" "\<forall>x \<in> {1..<4}. \<not> ch_worn demo_chip x"
    by (simp_all add: demo_chip_def chip_ok_def)
  ultimately show ?thesis
    using erase_skips_bad_blocks [OF chip_mmio_bus, of 3 2048 64 64 demo_nand 0 0 20 4 1 0 2] count
    by (fastforce simp: bad)
qed

end
