(* ===== verification/Frame.thy ===== *)
theory Frame
  imports Host_World
begin

text \<open>
  Frame conditions of stateful programs: \<^verbatim>\<open>keeps view f\<close> says that the program \<^verbatim>\<open>f\<close> does not change
  what \<^verbatim>\<open>view\<close> shows of the state.  The collection \<^verbatim>\<open>keeps\<close> has one rule per way of combining
  programs, and the components add one per operation.
\<close>

definition keeps :: "('s \<Rightarrow> 'v) \<Rightarrow> ('s, 'a) state \<Rightarrow> bool" where
  "keeps view f \<longleftrightarrow> (\<forall>s. view (snd (run_state f s)) = view s)"

named_theorems keeps

lemma keepsD: "keeps view f \<Longrightarrow> run_state f s = (x, s') \<Longrightarrow> view s' = view s"
  unfolding keeps_def by (metis snd_conv)

lemma keeps_bind [keeps]: "keeps view f \<Longrightarrow> (\<And>x. keeps view (g x)) \<Longrightarrow> keeps view (f \<bind> g)"
  by (simp add: keeps_def host_simps split: prod.splits) (metis snd_conv)

lemma keeps_return [keeps]: "keeps view (State_Monad.return x)" by (simp add: keeps_def host_simps)
lemma keeps_gets [keeps]: "keeps view (gets f)" by (simp add: keeps_def host_simps)
lemma keeps_get [keeps]: "keeps view State_Monad.get" by (simp add: keeps_def host_simps)

lemma keeps_update: "(\<And>s. view (f s) = view s) \<Longrightarrow> keeps view (State_Monad.update f)"
  by (simp add: keeps_def host_simps)

lemma keeps_if [keeps]: "(c \<Longrightarrow> keeps view f) \<Longrightarrow> (\<not> c \<Longrightarrow> keeps view g) \<Longrightarrow> keeps view (if c then f else g)"
  by simp

lemma keeps_let [keeps]: "keeps view (f x) \<Longrightarrow> keeps view (Let x f)"
  by simp

lemma keeps_prod [keeps]: "(\<And>a b. keeps view (f a b)) \<Longrightarrow> keeps view (case p of (a, b) \<Rightarrow> f a b)"
  by (cases p) simp

lemma keeps_option [keeps]: "keeps view f \<Longrightarrow> (\<And>x. keeps view (g x)) \<Longrightarrow> keeps view (case p of None \<Rightarrow> f | Some x \<Rightarrow> g x)"
  by (cases p) simp_all

lemma keeps_list [keeps]: "keeps view f \<Longrightarrow> (\<And>x xs. keeps view (g x xs)) \<Longrightarrow> keeps view (case p of [] \<Rightarrow> f | x # xs \<Rightarrow> g x xs)"
  by (cases p) simp_all

end
