(* ===== verification/Nand4740_Settings.thy ===== *)
theory Nand4740_Settings
  imports Nand4740_Facts Frame
begin

unbundle bit_operations_syntax

text \<open>
  What the operations of the JZ4740 driver leave alone, on any hardware: the settings that its
  initialisation made, and the firmware's own variables.  Programming is the exception: it changes
  two settings for the first eight pages, and an aborted page makes the change permanent.
\<close>

section \<open>Settings\<close>

definition settings :: "nand_vars \<Rightarrow> nand_vars" where
  "settings v = v\<lparr>nv_oob_buf := (\<lambda>_. 0), nv_addrport := 0, nv_dataport := 0, nv_cmdport := 0\<rparr>"

definition fixed_part :: "'h fw_state \<Rightarrow> nand_vars \<times> hand \<times> (nat \<Rightarrow> u8) \<times> udc_phase \<times> u32 \<times> u32 \<times> u32 \<times> driver \<times> u32 option" where
  "fixed_part s = (settings (nf s), Hand s, bulk_out_buf s, udc_state s, start_addr s, ops_length s, ram_addr s, nand_drv s, jumped s)"

lemma keeps_fw_gets [keeps]: "keeps fixed_part (fw_gets f)" by (simp add: keeps_def host_simps)
lemma keeps_nf_gets [keeps]: "keeps fixed_part (nf_gets f)" by (simp add: keeps_def host_simps)
lemma keeps_mark [keeps]: "keeps fixed_part (fw_mark b)" by (simp add: keeps_def host_simps fixed_part_def)
lemma keeps_hang [keeps]: "keeps fixed_part hang" by (simp add: keeps_def host_simps fixed_part_def)
lemma keeps_reg [keeps]: "keeps fixed_part (reg_read f)" "keeps fixed_part (reg_write g)" by (simp_all add: keeps_def host_simps fixed_part_def)
lemma keeps_status [keeps]: "keeps fixed_part (set_status v)" by (simp add: keeps_def set_status_def host_simps fixed_part_def)

lemma keeps_regs [keeps]: "keeps fixed_part (jz_readb M p)" "keeps fixed_part (jz_writeb M p b)" "keeps fixed_part (jz_readw M p)" "keeps fixed_part (jz_writew M p w)"
  "keeps fixed_part (jz_readl M p)" "keeps fixed_part (jz_writel M p l)"
  unfolding reg_defs by (intro keeps)+

lemma keeps_ports [keeps]: "keeps fixed_part (nand_cmd M n)" "keeps fixed_part (nand_addr M n)" "keeps fixed_part (nand_data8 M)" "keeps fixed_part (ready_pin M)"
  unfolding nand_cmd_def nand_addr_def nand_data8_def ready_pin_def by (intro keeps)+

lemma keeps_wait_for [keeps]: "keeps fixed_part r \<Longrightarrow> keeps fixed_part (wait_for n r)"
  by (induction n) (simp_all, (intro keeps | simp)+)

lemma keeps_wait_busy [keeps]: "keeps fixed_part (wait_busy M n)"
  by (induction n) (simp_all, (intro keeps | simp)+)

lemma keeps_sync [keeps]: "keeps fixed_part (nand_sync M P)"
  unfolding nand_sync_def by (intro keeps)

lemma keeps_select [keeps]: "keeps fixed_part (select_chip b)"
  by (simp add: keeps_def select_chip_def host_simps fixed_part_def settings_def Let_def)

lemma keeps_store [keeps]: "keeps fixed_part (store_byte dst k v)"
  by (cases dst) (auto simp: keeps_def store_byte_def host_simps fixed_part_def settings_def split: buf_ptr.splits)

lemma keeps_load [keeps]: "keeps fixed_part (load_byte buf k)"
  by (cases buf) (auto simp: load_byte_def intro!: keeps)

lemma keeps_small [keeps]: "keeps fixed_part f \<Longrightarrow> keeps fixed_part (unless_small f)"
  unfolding unless_small_def by (intro keeps)

lemma keeps_blocks [keeps]: "keeps fixed_part (block_nr p)" "keeps fixed_part (first_of_block p)" "keeps fixed_part (oob_byte k)"
  unfolding block_nr_def first_of_block_def oob_byte_def by (intro keeps)+

lemma keeps_wp [keeps]: "keeps fixed_part (wp_set M)" "keeps fixed_part (wp_clear M)"
  unfolding wp_set_def wp_clear_def gpio_set_pin_def gpio_clear_pin_def by (intro keeps)+

section \<open>Transfers\<close>

lemma keeps_read8 [keeps]: "keeps fixed_part (nand_data_read8 M dst off n)"
  by (induction n arbitrary: off) (simp_all, (intro keeps | simp)+)

lemma keeps_read16 [keeps]: "keeps fixed_part (nand_data_read16 M dst off n)"
  by (induction n arbitrary: off) (simp_all, (intro keeps | simp)+)

lemma keeps_write8 [keeps]: "keeps fixed_part (nand_data_write8 M buf off n)"
  by (induction n arbitrary: off) (simp_all, (intro keeps | simp)+)

lemma keeps_write16 [keeps]: "keeps fixed_part (nand_data_write16 M buf off n)"
  by (induction n arbitrary: off) (simp_all, (intro keeps | simp)+)

lemma keeps_row [keeps]: "keeps fixed_part (send_row M w n)"
  by (induction n arbitrary: w) (simp_all, (intro keeps | simp)+)

lemma keeps_proc [keeps]: "(\<And>p. keeps fixed_part (f p)) \<Longrightarrow> keeps fixed_part (case p of No_Proc \<Rightarrow> f No_Proc | Proc8 \<Rightarrow> f Proc8 | Proc16 \<Rightarrow> f Proc16)"
  by (cases p) simp_all

lemma keeps_procs [keeps]: "keeps fixed_part (read_proc M dst off len)" "keeps fixed_part (write_proc M buf bound k len)" "keeps fixed_part (send_page M pg)"
  unfolding read_proc_def write_proc_def send_page_def
  by (intro keeps | simp split: nand_proc.split | intro conjI impI)+

lemma keeps_oob [keeps]: "keeps fixed_part (read_oob M P dst off len pg)" "keeps fixed_part (fetch_oob M P pg)"
proof -
  show *: "keeps fixed_part (read_oob M P dst off len pg)" for dst off len unfolding read_oob_def by (intro keeps)
  show "keeps fixed_part (fetch_oob M P pg)" unfolding fetch_oob_def by (intro keeps *)
qed

lemma keeps_any [keeps]: "keeps fixed_part (any_marked M P pgs)"
  by (induction pgs) (simp_all, (intro keeps | simp)+)

lemma keeps_check [keeps]: "keeps fixed_part (nand_check_block M P b)"
  unfolding nand_check_block_def by (intro keeps)

lemma keeps_mark_pages [keeps]: "keeps fixed_part (mark_pages M P pgs)"
  by (induction pgs) (simp_all add: nand_mark_bad_page_def, (intro keeps | simp)+)

lemma keeps_mark_bad [keeps]: "keeps fixed_part (nand_mark_bad_4740 M P b)"
  unfolding nand_mark_bad_4740_def by (intro keeps)

lemma keeps_oob_loop [keeps]: "keeps fixed_part (oob_loop M P off pg n)"
  by (induction n arbitrary: off pg) (simp_all, (intro keeps | simp)+)

lemma keeps_erase_block [keeps]: "keeps fixed_part (erase_block M P cur)"
  unfolding erase_block_def by (intro keeps)

lemma keeps_erase_loop [keeps]: "keeps fixed_part (erase_loop M P n force sblk num cur)"
  by (induction n arbitrary: num cur) (simp_all, (intro keeps | simp)+)

lemma keeps_bad_here [keeps]: "keeps fixed_part (bad_here M P pg)"
  unfolding bad_here_def by (intro keeps)

lemma keeps_start [keeps]: "keeps fixed_part (start_read M P pg)"
  unfolding start_read_def by (intro keeps)

lemma keeps_raw_loop [keeps]: "keeps fixed_part (raw_loop M P n pages option off cnt cur)"
  by (induction n arbitrary: off cnt cur) (simp_all, (intro keeps conjI impI | simp)+)

lemma keeps_rs [keeps]: "keeps fixed_part (rs_correct buf off idx err)"
  unfolding rs_correct_def by (intro keeps)

lemma keeps_reports [keeps]: "keeps fixed_part (correct_reports M buf off k)"
  by (induction k) (simp_all, (intro keeps | simp)+)

lemma keeps_put_parity [keeps]: "keeps fixed_part (put_parity M pos k n flag)"
  by (induction n arbitrary: k flag) (simp_all, (intro keeps | simp)+)

lemma keeps_decode [keeps]: "keeps fixed_part (decode_step M P buf off j)"
  unfolding decode_step_def check_decoding_def ints_flag_def ecc_disable_def by (intro keeps)

lemma keeps_decode_steps [keeps]: "keeps fixed_part (decode_steps M P buf off j n)"
  by (induction n arbitrary: off j) (simp_all, (intro keeps | simp)+)

lemma keeps_copy_oob [keeps]: "keeps fixed_part (copy_oob buf off j n)"
  by (induction n arbitrary: j) (simp_all, (intro keeps | simp)+)

lemma keeps_fill_oob [keeps]: "keeps fixed_part (fill_oob pos bs)"
  by (induction bs arbitrary: pos) (simp_all, (intro keeps | simp)+)

lemma keeps_spare [keeps]: "keeps fixed_part (copy_spare buf off)"
  unfolding copy_spare_def by (intro keeps)

lemma keeps_read_loop [keeps]: "keeps fixed_part (read_loop M P n buf pages option ecc off cnt cur)"
  by (induction n arbitrary: off cnt cur) (simp_all, (intro keeps conjI impI | simp)+)

text \<open>C17.  On any hardware, whatever it answers and whether or not it keeps the driver waiting too long, every
  operation of the JZ4740 driver but the initialisation and the programming leaves the settings
  of the driver, the configuration, the data received from the host and the variables of the
  pending request as they were.\<close>

theorem driver_keeps_settings:
  "fixed_part (snd (run_state (nd_query (driver_4740 M P)) s)) = fixed_part s
   \<and> fixed_part (snd (run_state (nd_erase (driver_4740 M P) num blk force) s)) = fixed_part s
   \<and> fixed_part (snd (run_state (nd_read (driver_4740 M P) buf pg pages option) s)) = fixed_part s
   \<and> fixed_part (snd (run_state (nd_read_oob (driver_4740 M P) pg pages) s)) = fixed_part s
   \<and> fixed_part (snd (run_state (nd_read_raw (driver_4740 M P) pg pages option) s)) = fixed_part s
   \<and> fixed_part (snd (run_state (nd_mark_bad (driver_4740 M P) blk) s)) = fixed_part s
   \<and> fixed_part (snd (run_state (nd_enable (driver_4740 M P) csn) s)) = fixed_part s
   \<and> fixed_part (snd (run_state (nd_disable (driver_4740 M P) csn) s)) = fixed_part s"
proof -
  have "keeps fixed_part (nand_query_4740 M P)" "keeps fixed_part (nand_erase_4740 M P num blk force)" "keeps fixed_part (nand_read_4740 M P buf pg pages option)"
    "keeps fixed_part (nand_read_oob_4740 M P pg pages)" "keeps fixed_part (nand_read_raw_4740 M P pg pages option)"
    "keeps fixed_part (nand_enable_4740 M csn)" "keeps fixed_part (nand_disable_4740 M csn)"
    unfolding nand_query_4740_def nand_erase_4740_def nand_read_4740_def nand_read_oob_4740_def nand_read_raw_4740_def
      nand_enable_4740_def nand_disable_4740_def by (intro keeps)+
  then show ?thesis using keeps_mark_bad [of M P blk] by (simp add: driver_4740_def keeps_def)
qed

end
