(* ===== verification/Usbboot_Usb.thy ===== *)
theory Usbboot_Usb
  imports Boothandler Ingenic
begin

unbundle bit_operations_syntax

text \<open>
  The older host program: its state (the globals of \<^verbatim>\<open>usbboot/src/cmd.h\<close> and
  \<^verbatim>\<open>command_line.h\<close>) and its access to the device, \<^verbatim>\<open>usbboot/src/ingenic_usb.c\<close>.  \<^verbatim>\<open>libusb\<close> 0.1 is
  a parameter, the record \<^verbatim>\<open>usb01\<close>.  The pauses and the messages are left out; what a command
  shows as its result goes to \<^verbatim>\<open>ub_log\<close>.
\<close>

section \<open>The parameter libusb 0.1\<close>

text \<open>An interface is its list of alternate settings (class, subclass, number), a configuration its
  list of interfaces.\<close>

record usb01_device =
  ud_vendor :: u16
  ud_product :: u16
  ud_configs :: "(u8 \<times> u8 \<times> u8) list list list"

record 'd usb01 =
  ul_buses :: "'d \<Rightarrow> usb01_device list list"
  ul_open :: "nat \<times> nat \<Rightarrow> 'd \<Rightarrow> bool \<times> 'd"
  ul_claim :: "u8 \<Rightarrow> 'd \<Rightarrow> int \<times> 'd"
  ul_release :: "u8 \<Rightarrow> 'd \<Rightarrow> 'd"
  ul_close :: "'d \<Rightarrow> 'd"
  ul_control :: "u8 \<Rightarrow> u8 \<Rightarrow> u16 \<Rightarrow> u16 \<Rightarrow> nat \<Rightarrow> 'd \<Rightarrow> int \<times> bytes \<times> 'd"
  ul_bulk_write :: "u8 \<Rightarrow> bytes \<Rightarrow> 'd \<Rightarrow> int \<times> 'd"
  ul_bulk_read :: "u8 \<Rightarrow> nat \<Rightarrow> 'd \<Rightarrow> int \<times> bytes \<times> 'd"

section \<open>State\<close>

text \<open>\<^verbatim>\<open>file_buff\<close> points to the global \<^verbatim>\<open>code_buf\<close> or to the copy of \<^verbatim>\<open>hand\<close>.\<close>

datatype file_ptr = P_Code | P_Copy bytes

record nand_in =
  ni_dev :: u8
  ni_start :: u32
  ni_length :: u32
  ni_option :: u32

record sdram_in =
  si_dev :: u8
  si_start :: u32
  si_length :: u32

datatype report = R_Bad_Block u32 | R_Page u32 | R_Erased u32 u32 | R_Query bytes | R_Data bytes
  | R_Memtest "u32 option" | R_Loaded u32 | R_Mismatch

record 'd ub_world =
  ub_dev :: 'd
  ub_usb_dev :: "(nat \<times> nat) option"
  ub_handle :: bool
  ub_interface :: u8
  cpu_info_buff :: bytes
  file_buff :: file_ptr
  file_len :: u32
  code_buf :: "nat \<Rightarrow> u8"
  check_buf :: "nat \<Rightarrow> u8"
  ub_ret :: bytes
  ub_cs :: "nat \<Rightarrow> bool"
  ub_hand :: hand
  ub_total_size :: u32
  ub_nand_in :: nand_in
  ub_sdram_in :: sdram_in
  com_argv :: "string list"
  ub_stage1 :: string
  ub_stage2 :: string
  ub_files :: "string \<Rightarrow> c_file option"
  ub_openable :: "string \<Rightarrow> bool"
  ub_log :: "report list"
  ub_hung :: bool
  ub_crash :: bool

type_synonym ('d, 'a) ubt = "('d ub_world, 'a) state"

text \<open>\<^verbatim>\<open>code_buf\<close> and \<^verbatim>\<open>check_buf\<close> have 2 MB.\<close>

definition CODE_BUF_BYTES :: nat where "CODE_BUF_BYTES = 4 * 512 * 1024"

definition crash_if :: "bool \<Rightarrow> ('d, unit) ubt" where
  "crash_if b = State_Monad.update (\<lambda>w. w\<lparr>ub_crash := ub_crash w \<or> b\<rparr>)"

definition report :: "report \<Rightarrow> ('d, unit) ubt" where
  "report r = State_Monad.update (\<lambda>w. w\<lparr>ub_log := ub_log w @ [r]\<rparr>)"

lemma run_crash_if [host_simps]: "run_state (crash_if b) w = ((), w\<lparr>ub_crash := ub_crash w \<or> b\<rparr>)"
  by (simp add: crash_if_def host_simps)

lemma run_report [host_simps]: "run_state (report r) w = ((), w\<lparr>ub_log := ub_log w @ [r]\<rparr>)"
  by (simp add: report_def host_simps)

section \<open>Finding the device\<close>

definition is_xburst :: "usb01_device \<Rightarrow> bool" where
  "is_xburst d = (ud_vendor d = 0x601a \<and> (ud_product d = 0x4740 \<or> ud_product d = 0x4760))"

definition get_ingenic_device :: "'d usb01 \<Rightarrow> ('d, nat) ubt" where
  "get_ingenic_device L = do {
     d \<leftarrow> gets ub_dev;
     let found = concat (List.map (\<lambda>(i, bus). List.map (\<lambda>(k, dv). (i, k)) (filter (\<lambda>(k, dv). is_xburst dv) (enumerate 0 bus)))
       (enumerate 0 (ul_buses L d)));
     State_Monad.update (\<lambda>w. w\<lparr>ub_usb_dev := (if found = [] then ub_usb_dev w else Some (last found))\<rparr>);
     State_Monad.return (length found) }"

definition get_ingenic_interface :: "'d usb01 \<Rightarrow> ('d, int) ubt" where
  "get_ingenic_interface L = do {
     w \<leftarrow> State_Monad.get;
     case ub_usb_dev w of
       None \<Rightarrow> do { crash_if True; State_Monad.return 0 }
     | Some (i, k) \<Rightarrow>
         (case find (\<lambda>(c, sc, n). c = 0xff \<and> sc = 0) (concat (concat (ud_configs (ul_buses L (ub_dev w) ! i ! k)))) of
            None \<Rightarrow> State_Monad.return 0
          | Some (c, sc, n) \<Rightarrow> do {
              State_Monad.update (\<lambda>w. w\<lparr>ub_interface := n\<rparr>);
              State_Monad.return 1 }) }"

definition usb_ingenic_init :: "'d usb01 \<Rightarrow> ('d, int) ubt" where
  "usb_ingenic_init L = do {
     State_Monad.update (\<lambda>w. w\<lparr>ub_usb_dev := None, ub_handle := False, ub_interface := 0,
       cpu_info_buff := replicate 9 0, file_len := 0\<rparr>);
     num \<leftarrow> get_ingenic_device L;
     w \<leftarrow> State_Monad.get;
     if num \<noteq> 1 then State_Monad.return (-1)
     else do {
       let res = ul_open L (the (ub_usb_dev w)) (ub_dev w);
       State_Monad.update (\<lambda>w. w\<lparr>ub_dev := snd res, ub_handle := fst res\<rparr>);
       if \<not> fst res then State_Monad.return (-1)
       else do {
         r \<leftarrow> get_ingenic_interface L;
         if r < 1 then State_Monad.return (-1)
         else do {
           w \<leftarrow> State_Monad.get;
           let (r, d) = ul_claim L (ub_interface w) (ub_dev w);
           State_Monad.update (\<lambda>w. w\<lparr>ub_dev := d\<rparr>);
           State_Monad.return (if r < 0 then -1 else 1) } } } }"

definition usb_ingenic_cleanup :: "'d usb01 \<Rightarrow> ('d, unit) ubt" where
  "usb_ingenic_cleanup L = State_Monad.update (\<lambda>w.
     let d = (if ub_handle w \<and> ub_interface w \<noteq> 0 then ul_release L (ub_interface w) (ub_dev w) else ub_dev w)
     in w\<lparr>ub_dev := (if ub_handle w then ul_close L d else d)\<rparr>)"

section \<open>Requests\<close>

definition VR_RESET :: u8 where "VR_RESET = 0x0a"

definition STAGE_ADDR_MSB :: "u32 \<Rightarrow> u16" where "STAGE_ADDR_MSB a = ucast (drop_bit 16 a)"
definition STAGE_ADDR_LSB :: "u32 \<Rightarrow> u16" where "STAGE_ADDR_LSB a = ucast (a AND 0xffff)"

text \<open>\<^verbatim>\<open>usb_control_msg\<close> without data: the type is \<^verbatim>\<open>USB_ENDPOINT_OUT | USB_TYPE_VENDOR | USB_RECIP_DEVICE\<close>.\<close>

definition vendor_out :: "'d usb01 \<Rightarrow> u8 \<Rightarrow> u16 \<Rightarrow> u16 \<Rightarrow> ('d, int) ubt" where
  "vendor_out L req value index = do {
     w \<leftarrow> State_Monad.get;
     let (st, bs, d) = ul_control L 0x40 req value index 0 (ub_dev w);
     State_Monad.update (\<lambda>w. w\<lparr>ub_dev := d\<rparr>);
     State_Monad.return st }"

definition ok_or_fail :: "int \<Rightarrow> int" where
  "ok_or_fail st = (if st \<noteq> 0 then -1 else 1)"

definition cpu_names :: "(string \<times> int) list" where
  "cpu_names = [(''JZ4740V1'', 1), (''JZ4750V1'', 2), (''JZ4760V1'', 3), (''Boot4740'', 4), (''Boot4750'', 5), (''Boot4760'', 6)]"

text \<open>The buffer is compared as a C string; \<^verbatim>\<open>cpu_info_buff[8]\<close> ends it.\<close>

definition usb_get_ingenic_cpu :: "'d usb01 \<Rightarrow> ('d, int) ubt" where
  "usb_get_ingenic_cpu L = do {
     w \<leftarrow> State_Monad.get;
     let (st, bs, d) = ul_control L 0xC0 VR_GET_CPU_INFO 0 0 8 (ub_dev w);
     State_Monad.update (\<lambda>w. w\<lparr>ub_dev := d, cpu_info_buff := put_at 0 (take 8 bs) (replicate 9 0)\<rparr>);
     if st \<noteq> 8 then State_Monad.return st
     else do {
       buf \<leftarrow> gets cpu_info_buff;
       State_Monad.return (case map_of cpu_names (c_string (take 8 buf @ [0])) of Some v \<Rightarrow> v | None \<Rightarrow> -1) } }"

definition usb_ingenic_flush_cache :: "'d usb01 \<Rightarrow> ('d, int) ubt" where
  "usb_ingenic_flush_cache L = do {
     st \<leftarrow> vendor_out L VR_FLUSH_CACHES 0 0;
     State_Monad.return (if st \<noteq> 0 then st else 1) }"

definition usb_send_data_length_to_ingenic :: "'d usb01 \<Rightarrow> u32 \<Rightarrow> ('d, int) ubt" where
  "usb_send_data_length_to_ingenic L len = do {
     st \<leftarrow> vendor_out L VR_SET_DATA_LENGTH (STAGE_ADDR_MSB len) (STAGE_ADDR_LSB len);
     State_Monad.return (ok_or_fail st) }"

definition usb_send_data_address_to_ingenic :: "'d usb01 \<Rightarrow> u32 \<Rightarrow> ('d, int) ubt" where
  "usb_send_data_address_to_ingenic L stage_addr = do {
     st \<leftarrow> vendor_out L VR_SET_DATA_ADDRESS (STAGE_ADDR_MSB stage_addr) (STAGE_ADDR_LSB stage_addr);
     State_Monad.return (ok_or_fail st) }"

text \<open>The bytes that \<^verbatim>\<open>file_buff\<close> and \<^verbatim>\<open>file_len\<close> describe.\<close>

definition file_bytes :: "'d ub_world \<Rightarrow> bytes" where
  "file_bytes w = (case file_buff w of
     P_Code \<Rightarrow> buf_bytes (code_buf w) 0 (unat (file_len w))
   | P_Copy bs \<Rightarrow> take (unat (file_len w)) bs)"

definition file_room :: "'d ub_world \<Rightarrow> nat" where
  "file_room w = (case file_buff w of P_Code \<Rightarrow> CODE_BUF_BYTES | P_Copy bs \<Rightarrow> length bs)"

definition usb_send_data_to_ingenic :: "'d usb01 \<Rightarrow> ('d, int) ubt" where
  "usb_send_data_to_ingenic L = do {
     w \<leftarrow> State_Monad.get;
     crash_if (unat (file_len w) > file_room w);
     let (st, d) = ul_bulk_write L 0x01 (file_bytes w) (ub_dev w);
     State_Monad.update (\<lambda>w. w\<lparr>ub_dev := d\<rparr>);
     State_Monad.return (if st < sint (file_len w) then -1 else 1) }"

text \<open>The result is the status and the bytes received, which overwrite the start of the buffer.\<close>

definition usb_read_data_from_ingenic :: "'d usb01 \<Rightarrow> u32 \<Rightarrow> ('d, int \<times> bytes) ubt" where
  "usb_read_data_from_ingenic L len = do {
     w \<leftarrow> State_Monad.get;
     let (st, bs, d) = ul_bulk_read L 0x81 (unat len) (ub_dev w);
     State_Monad.update (\<lambda>w. w\<lparr>ub_dev := d\<rparr>);
     State_Monad.return (if st < sint len then -1 else 1, take (unat len) bs) }"

definition usb_ingenic_start :: "'d usb01 \<Rightarrow> u8 \<Rightarrow> u32 \<Rightarrow> ('d, int) ubt" where
  "usb_ingenic_start L rqst stage_addr = do {
     st \<leftarrow> vendor_out L rqst (STAGE_ADDR_MSB stage_addr) (STAGE_ADDR_LSB stage_addr);
     State_Monad.return (if st \<noteq> 0 then st else 1) }"

definition CODE_SIZE :: u32 where "CODE_SIZE = 4 * 1024 * 1024"

definition usb_ingenic_upload :: "'d usb01 \<Rightarrow> nat \<Rightarrow> ('d, int) ubt" where
  "usb_ingenic_upload L stage = do {
     total \<leftarrow> gets ub_total_size;
     let stage_addr = (if stage = 1 then 0x80002000 else 0x80000000 + total - CODE_SIZE);
     r \<leftarrow> usb_send_data_address_to_ingenic L stage_addr;
     r \<leftarrow> usb_send_data_to_ingenic L;
     cpu \<leftarrow> (if stage = 2 then usb_get_ingenic_cpu L else State_Monad.return 1);
     if cpu < 1 then State_Monad.return (-1)
     else do {
       r \<leftarrow> (if stage = 2 then usb_ingenic_flush_cache L else State_Monad.return 1);
       r \<leftarrow> usb_ingenic_start L (if stage = 2 then VR_PROGRAM_START2 else VR_PROGRAM_START1) stage_addr;
       if r < 1 then State_Monad.return (-1)
       else do {
         r \<leftarrow> usb_get_ingenic_cpu L;
         State_Monad.return (if r < 1 then -1 else 1) } } }"

definition usb_ingenic_nand_ops :: "'d usb01 \<Rightarrow> u32 \<Rightarrow> ('d, int) ubt" where
  "usb_ingenic_nand_ops L ops = do {
     st \<leftarrow> vendor_out L VR_NAND_OPS (ucast (ops AND 0xffff)) 0;
     State_Monad.return (ok_or_fail st) }"

definition usb_ingenic_configration :: "'d usb01 \<Rightarrow> u32 \<Rightarrow> ('d, int) ubt" where
  "usb_ingenic_configration L ops = do {
     st \<leftarrow> vendor_out L VR_CONFIGRATION (ucast ops) 0;
     State_Monad.return (ok_or_fail st) }"

definition usb_ingenic_sdram_ops :: "'d usb01 \<Rightarrow> u32 \<Rightarrow> ('d, int) ubt" where
  "usb_ingenic_sdram_ops L ops = do {
     st \<leftarrow> vendor_out L VR_SDRAM_OPS (ucast ops) 0;
     State_Monad.return (ok_or_fail st) }"

definition usb_ingenic_reset :: "'d usb01 \<Rightarrow> u32 \<Rightarrow> ('d, int) ubt" where
  "usb_ingenic_reset L ops = do {
     st \<leftarrow> vendor_out L VR_RESET (ucast ops) 0;
     State_Monad.return (ok_or_fail st) }"

end
