(* ===== verification/Usbboot_Cmd.thy ===== *)
theory Usbboot_Cmd
  imports Usbboot_Usb
begin

unbundle bit_operations_syntax

text \<open>
  The commands of the older host program, \<^verbatim>\<open>usbboot/src/cmd.c\<close>.  The code buffer of every
  command is the global \<^verbatim>\<open>code_buf\<close>, so the structures \<^verbatim>\<open>nand_in\<close> and \<^verbatim>\<open>sdram_in\<close> carry no
  pointer to it.  A comparison of a signed status with an unsigned length is unsigned, as in C.  An
  access outside a buffer, a division by zero and an index outside \<^verbatim>\<open>cs\<close> set \<^verbatim>\<open>ub_crash\<close>.  The host
  is little-endian.
\<close>

section \<open>Structures sent to the device\<close>

definition enc_fw_args :: "fw_args \<Rightarrow> bytes" where
  "enc_fw_args a = enc_u32 (fa_cpu_id a) @ enc_u8 (fa_ext_clk a) @ enc_u8 (fa_cpu_speed a) @ enc_u8 (fa_phm_div a)
     @ enc_u8 (fa_use_uart a) @ enc_u32 (fa_boudrate a) @ enc_u8 (fa_bus_width a) @ enc_u8 (fa_bank_num a)
     @ enc_u8 (fa_row_addr a) @ enc_u8 (fa_col_addr a) @ enc_u8 (fa_is_mobile a) @ enc_u8 (fa_is_busshare a)
     @ enc_u8 (fa_debug_ops a) @ enc_u8 (fa_pin_num a) @ enc_u32 (fa_start a) @ enc_u32 (fa_size a)"

definition hand_words :: "hand \<Rightarrow> u32 list" where
  "hand_words h = [hd_pt h, hd_nand_bw h, hd_nand_rc h, hd_nand_ps h, hd_nand_ppb h, hd_nand_force_erase h, hd_nand_pn h,
     hd_nand_os h, hd_nand_eccpos h, hd_nand_bbpage h, hd_nand_bbpos h, hd_nand_plane h, hd_nand_bchbit h, hd_nand_wppin h,
     hd_nand_bpc h]"

definition enc_hand :: "hand \<Rightarrow> bytes" where
  "enc_hand h = concat (List.map enc_u32 (hand_words h)) @ enc_fw_args (hd_fw_args h)"

interpretation fwa: codec enc_fw_args dec_fw_args 28
  by unfold_locales
    (simp_all add: enc_fw_args_def dec_fw_args_def slice_simps le_simps del: slice_0)

lemma length_hand_words: "length (concat (List.map enc_u32 (hand_words h))) = 60"
  unfolding u32c.length_encs by (simp add: hand_words_def)

lemma hand_word_bytes: "k < 15 \<Longrightarrow> hand_word k (enc_hand h) = hand_words h ! k"
proof -
  assume "k < 15"
  then have "slice (4 * k) 4 (enc_hand h) = slice (4 * k) 4 (concat (List.map enc_u32 (hand_words h)))"
    unfolding enc_hand_def by (intro slice_append1) (simp add: length_hand_words)
  then show ?thesis
    using word_at_nth [of k "hand_words h"] \<open>k < 15\<close> by (simp add: hand_word_def word_at_def hand_words_def)
qed

interpretation hand: codec enc_hand dec_hand 88
proof unfold_locales
  fix h :: hand
  show "length (enc_hand h) = 88" by (simp add: enc_hand_def length_hand_words fwa.length_enc)
  have "slice 60 28 (enc_hand h) = enc_fw_args (hd_fw_args h)"
    by (simp add: enc_hand_def slice_append2 length_hand_words fwa.length_enc)
  then show "dec_hand (enc_hand h) = h"
    by (simp add: dec_hand_def hand_word_bytes fwa.dec_enc) (simp add: hand_words_def)
qed

section \<open>Files and the state\<close>

text \<open>\<^verbatim>\<open>read (fd, buf, n)\<close> at a position: -1 if the medium fails there.\<close>

definition posix_read :: "c_file \<Rightarrow> nat \<Rightarrow> nat \<Rightarrow> int \<times> bytes" where
  "posix_read f pos n = (let bs = fread_at f pos n in
     if 0 < n \<and> f_readable f \<le> pos \<and> pos < length (f_data f) then (-1, []) else (int (length bs), bs))"

definition put_code :: "nat \<Rightarrow> bytes \<Rightarrow> ('d, unit) ubt" where
  "put_code off bs = do {
     crash_if (off + length bs > CODE_BUF_BYTES);
     State_Monad.update (\<lambda>w. w\<lparr>code_buf := buf_put off bs (code_buf w)\<rparr>) }"

definition set_fa :: "(fw_args \<Rightarrow> fw_args) \<Rightarrow> ('d, unit) ubt" where
  "set_fa f = State_Monad.update (\<lambda>w. w\<lparr>ub_hand := (ub_hand w)\<lparr>hd_fw_args := f (hd_fw_args (ub_hand w))\<rparr>\<rparr>)"

definition set_file :: "file_ptr \<Rightarrow> u32 \<Rightarrow> ('d, unit) ubt" where
  "set_file p len = State_Monad.update (\<lambda>w. w\<lparr>file_buff := p, file_len := len\<rparr>)"

definition read_ret :: "'d usb01 \<Rightarrow> ('d, int) ubt" where
  "read_ret L = do {
     (r, bs) \<leftarrow> usb_read_data_from_ingenic L 8;
     State_Monad.update (\<lambda>w. w\<lparr>ub_ret := put_at 0 bs (ub_ret w)\<rparr>);
     State_Monad.return r }"

text \<open>\<^verbatim>\<open>(ret[3] << 24) | (ret[2] << 16) | (ret[1] << 8) | (ret[0] << 0)\<close>\<close>

definition ret_word :: "('d, u32) ubt" where
  "ret_word = gets (\<lambda>w. dec_u32 (take 4 (ub_ret w)))"

definition ppb_div :: "u32 \<Rightarrow> ('d, u32) ubt" where
  "ppb_div x = do {
     h \<leftarrow> gets ub_hand;
     crash_if (hd_nand_ppb h = 0);
     State_Monad.return (x div hd_nand_ppb h) }"

section \<open>Booting\<close>

definition load_file :: "string \<Rightarrow> ('d, int) ubt" where
  "load_file path = do {
     w \<leftarrow> State_Monad.get;
     case ub_files w path of
       None \<Rightarrow> State_Monad.return (-1)
     | Some f \<Rightarrow> do {
         let len = of_nat (length (f_data f));
         set_file P_Code len;
         if \<not> ub_openable w path then State_Monad.return (-1)
         else do {
           let (status, bs) = posix_read f 0 (unat len);
           put_code 0 bs;
           if word_of_int status < len then State_Monad.return (-1)
           else do {
             put_code 8 (enc_fw_args (hd_fw_args (ub_hand w)));
             State_Monad.return 1 } } } }"

definition get_ingenic_cpu :: "'d usb01 \<Rightarrow> ('d, int) ubt" where
  "get_ingenic_cpu L = do {
     status \<leftarrow> usb_get_ingenic_cpu L;
     set_fa (\<lambda>a. a\<lparr>fa_cpu_id := (if status = 1 \<or> status = 4 then 0x4740 else if status = 2 \<or> status = 5 then 0x4750
       else if status = 3 \<or> status = 6 then 0x4760 else 0)\<rparr>);
     State_Monad.return status }"

definition is_booted :: "int \<Rightarrow> bool" where
  "is_booted cpu = (cpu = 4 \<or> cpu = 5 \<or> cpu = 6)"

definition init_cfg :: "'d usb01 \<Rightarrow> ('d, unit) ubt" where
  "init_cfg L = do {
     cpu \<leftarrow> get_ingenic_cpu L;
     if \<not> is_booted cpu then State_Monad.return ()
     else do {
       h \<leftarrow> gets ub_hand;
       set_file (P_Copy (enc_hand h)) 88;
       r \<leftarrow> usb_send_data_to_ingenic L;
       if r \<noteq> 1 then State_Monad.return ()
       else do {
         r \<leftarrow> usb_ingenic_configration L (ucast DS_hand);
         if r \<noteq> 1 then State_Monad.return ()
         else do { r \<leftarrow> read_ret L; State_Monad.return () } } } }"

definition load_stage :: "'d usb01 \<Rightarrow> string \<Rightarrow> nat \<Rightarrow> ('d, int) ubt" where
  "load_stage L path stage = do {
     r \<leftarrow> load_file path;
     if r < 1 then State_Monad.return (-1)
     else do {
       r \<leftarrow> usb_ingenic_upload L stage;
       State_Monad.return (if r < 1 then -1 else 1) } }"

definition boot :: "'d usb01 \<Rightarrow> string \<Rightarrow> string \<Rightarrow> ('d, int) ubt" where
  "boot L stage1_path stage2_path = do {
     status \<leftarrow> get_ingenic_cpu L;
     if is_booted status then State_Monad.return 1
     else do {
       r \<leftarrow> load_stage L stage1_path 1;
       if r < 1 then State_Monad.return (-1)
       else do {
         r \<leftarrow> load_stage L stage2_path 2;
         if r < 1 then State_Monad.return (-1)
         else do { init_cfg L; State_Monad.return 1 } } } }"

section \<open>NAND\<close>

text \<open>The 16-bit operation word: option, chip and operation.\<close>

definition op_word :: "u32 \<Rightarrow> u32 \<Rightarrow> u8 \<Rightarrow> u32" where
  "op_word option chip op = ((push_bit 12 option AND 0xf000) + (push_bit 4 chip AND 0xff0) + ucast op) AND 0xffff"

definition NAND_MARK_BAD :: u8 where "NAND_MARK_BAD = 2"
definition NAND_READ_OOB :: u8 where "NAND_READ_OOB = 3"
definition MAX_DEV_NUM :: nat where "MAX_DEV_NUM = 16"
definition MAX_TRANSFER_SIZE :: u32 where "MAX_TRANSFER_SIZE = 0x100000"
definition NAND_MAX_BLK_NUM :: u32 where "NAND_MAX_BLK_NUM = 10000000"
definition NAND_MAX_PAGE_NUM :: u32 where "NAND_MAX_PAGE_NUM = 1073740824"
definition MAX_LOAD_SIZE :: nat where "MAX_LOAD_SIZE = 0x3000"

definition error_check :: "(nat \<Rightarrow> u8) \<Rightarrow> (nat \<Rightarrow> u8) \<Rightarrow> nat \<Rightarrow> bool" where
  "error_check org obj n = list_all (\<lambda>i. org i = obj i) [0..<n]"

definition nand_markbad :: "'d usb01 \<Rightarrow> u32 \<Rightarrow> ('d, int) ubt" where
  "nand_markbad L start = do {
     cpu \<leftarrow> get_ingenic_cpu L;
     if \<not> is_booted cpu then State_Monad.return (-1)
     else do {
       r \<leftarrow> usb_send_data_address_to_ingenic L start;
       r \<leftarrow> usb_ingenic_nand_ops L (ucast NAND_MARK_BAD);
       r \<leftarrow> read_ret L;
       page \<leftarrow> ret_word;
       b \<leftarrow> ppb_div page;
       report (R_Bad_Block b);
       State_Monad.return 0 } }"

text \<open>The pages that a transfer of \<^verbatim>\<open>length\<close> bytes fills, and the bytes of a page on the wire.\<close>

definition wire_page :: "u32 \<Rightarrow> hand \<Rightarrow> u32" where
  "wire_page option h = (if option = 2 then hd_nand_ps h else hd_nand_ps h + hd_nand_os h)"

definition page_count :: "u32 \<Rightarrow> u32 \<Rightarrow> u32" where
  "page_count len page = (if len mod page \<noteq> 0 then len div page + 1 else len div page)"

text \<open>One chip of \<^verbatim>\<open>nand_program_check\<close>: \<^verbatim>\<open>None\<close> for \<^verbatim>\<open>goto err\<close>.\<close>

definition program_chip :: "'d usb01 \<Rightarrow> nand_in \<Rightarrow> u32 \<Rightarrow> ('d, u32 option) ubt" where
  "program_chip L ni i = do {
     h \<leftarrow> gets ub_hand;
     let page = wire_page (ni_option ni) h;
     crash_if (page = 0);
     let page_num = page_count (ni_length ni) page;
     r \<leftarrow> usb_send_data_address_to_ingenic L (ni_start ni);
     if r \<noteq> 1 then State_Monad.return None
     else do {
       r \<leftarrow> usb_send_data_length_to_ingenic L page_num;
       if r \<noteq> 1 then State_Monad.return None
       else do {
         r \<leftarrow> usb_ingenic_nand_ops L (op_word (ni_option ni) i NAND_PROGRAM);
         if r \<noteq> 1 then State_Monad.return None
         else do {
           r \<leftarrow> read_ret L;
           if r \<noteq> 1 then State_Monad.return None
           else do {
             r \<leftarrow> usb_send_data_address_to_ingenic L (ni_start ni);
             r \<leftarrow> usb_send_data_length_to_ingenic L page_num;
             let opt = (if ni_option ni \<le> 1 then ni_option ni else 2);
             let total = page_num * wire_page opt h;
             r \<leftarrow> usb_ingenic_nand_ops L (op_word opt i NAND_READ);
             (r, bs) \<leftarrow> usb_read_data_from_ingenic L total;
             crash_if (length bs > CODE_BUF_BYTES);
             State_Monad.update (\<lambda>w. w\<lparr>check_buf := buf_put 0 bs (check_buf w)\<rparr>);
             r \<leftarrow> read_ret L;
             cur_page \<leftarrow> ret_word;
             w \<leftarrow> State_Monad.get;
             (if ni_start ni = 0 \<and> hd_nand_ps h = 4096 \<and> fa_cpu_id (hd_fw_args (ub_hand w)) = 0x4740 then State_Monad.return ()
              else do {
                (if error_check (code_buf w) (check_buf w) (unat (ni_length ni)) then State_Monad.return ()
                 else do {
                   report R_Mismatch;
                   b \<leftarrow> ppb_div (cur_page - 1);
                   if cur_page mod hd_nand_ppb h = 0 then do { r \<leftarrow> nand_markbad L b; State_Monad.return () }
                   else State_Monad.return () });
                report (R_Page cur_page) });
             State_Monad.return (Some cur_page) } } } } }"

fun program_chips :: "'d usb01 \<Rightarrow> nand_in \<Rightarrow> nat \<Rightarrow> nat \<Rightarrow> u32 \<Rightarrow> ('d, u32 option) ubt" where
  "program_chips L ni i 0 cur_page = State_Monad.return (Some cur_page)"
| "program_chips L ni i (Suc n) cur_page = do {
     cs \<leftarrow> gets ub_cs;
     if \<not> cs i then program_chips L ni (i + 1) n cur_page
     else do {
       r \<leftarrow> program_chip L ni (of_nat i);
       case r of None \<Rightarrow> State_Monad.return None | Some p \<Rightarrow> program_chips L ni (i + 1) n p } }"

text \<open>The result is the page for \<^verbatim>\<open>*start_page\<close>, or \<^verbatim>\<open>None\<close> for -1.\<close>

definition nand_program_check :: "'d usb01 \<Rightarrow> nand_in \<Rightarrow> ('d, u32 option) ubt" where
  "nand_program_check L ni = do {
     if ni_length ni > MAX_TRANSFER_SIZE then State_Monad.return None
     else do {
       cpu \<leftarrow> get_ingenic_cpu L;
       if \<not> is_booted cpu then State_Monad.return None
       else do {
         set_file P_Code (ni_length ni);
         r \<leftarrow> usb_send_data_to_ingenic L;
         program_chips L ni 0 MAX_DEV_NUM (-1) } } }"

fun erase_chips :: "'d usb01 \<Rightarrow> u32 \<Rightarrow> u32 \<Rightarrow> nat \<Rightarrow> nat \<Rightarrow> ('d, unit) ubt" where
  "erase_chips L start_blk blk_num i 0 = State_Monad.return ()"
| "erase_chips L start_blk blk_num i (Suc n) = do {
     cs \<leftarrow> gets ub_cs;
     (if cs i then do {
        r \<leftarrow> usb_send_data_address_to_ingenic L start_blk;
        r \<leftarrow> usb_send_data_length_to_ingenic L blk_num;
        r \<leftarrow> usb_ingenic_nand_ops L (op_word 0 (of_nat i) NAND_ERASE);
        r \<leftarrow> read_ret L;
        State_Monad.return () }
      else State_Monad.return ());
     erase_chips L start_blk blk_num (i + 1) n }"

definition nand_erase :: "'d usb01 \<Rightarrow> u32 \<Rightarrow> u32 \<Rightarrow> ('d, int) ubt" where
  "nand_erase L start_blk blk_num = do {
     if start_blk > NAND_MAX_BLK_NUM \<or> blk_num > NAND_MAX_BLK_NUM then State_Monad.return (-1)
     else do {
       cpu \<leftarrow> get_ingenic_cpu L;
       if \<not> is_booted cpu then State_Monad.return (-1)
       else do {
         erase_chips L start_blk blk_num 0 MAX_DEV_NUM;
         page \<leftarrow> ret_word;
         end_block \<leftarrow> ppb_div page;
         report (R_Erased end_block (end_block - start_blk - blk_num));
         State_Monad.return 1 } } }"

text \<open>The transfers of whole blocks, \<^verbatim>\<open>for (k = 0; k < m; k++)\<close>, from a position of the file; the result is the
  start page for the rest, \<^verbatim>\<open>None\<close> for an early return of -1.\<close>

fun program_blocks :: "'d usb01 \<Rightarrow> c_file \<Rightarrow> u32 \<Rightarrow> nand_in \<Rightarrow> nat \<Rightarrow> nat \<Rightarrow> ('d, nand_in option) ubt" where
  "program_blocks L f transfer_size ni pos 0 = State_Monad.return (Some ni)"
| "program_blocks L f transfer_size ni pos (Suc n) = do {
     let (status, bs) = posix_read f pos (unat transfer_size);
     put_code 0 bs;
     if word_of_int status < transfer_size then State_Monad.return None
     else do {
       let ni = ni\<lparr>ni_length := transfer_size\<rparr>;
       r \<leftarrow> nand_program_check L ni;
       case r of
         None \<Rightarrow> State_Monad.return None
       | Some start_page \<Rightarrow>
           program_blocks L f transfer_size (ni\<lparr>ni_start := start_page\<rparr>) (pos + unat transfer_size) n } }"

definition program_rest :: "'d usb01 \<Rightarrow> c_file \<Rightarrow> nand_in \<Rightarrow> nat \<Rightarrow> u32 \<Rightarrow> ('d, int) ubt" where
  "program_rest L f ni pos j = do {
     h \<leftarrow> gets ub_hand;
     let ps = hd_nand_ps h;
     crash_if (ps = 0);
     let padded = (if j mod ps \<noteq> 0 then j + (ps - j mod ps) else j);
     put_code 0 (replicate (unat padded) 0);
     let (status, bs) = posix_read f pos (unat j);
     put_code 0 bs;
     if word_of_int status < j then State_Monad.return (-1)
     else do {
       r \<leftarrow> nand_program_check L (ni\<lparr>ni_length := padded\<rparr>);
       State_Monad.return (if r = None then -1 else 1) } }"

definition nand_program_file :: "'d usb01 \<Rightarrow> nand_in \<Rightarrow> string \<Rightarrow> ('d, int) ubt" where
  "nand_program_file L ni fname = do {
     w \<leftarrow> State_Monad.get;
     case ub_files w fname of
       None \<Rightarrow> State_Monad.return (-1)
     | Some f \<Rightarrow>
         if \<not> ub_openable w fname then State_Monad.return (-1)
         else do {
           let h = ub_hand w;
           let flen = (of_nat (length (f_data f)) :: u32);
           let transfer_size = hd_nand_ppb h * wire_page (ni_option ni) h;
           crash_if (transfer_size = 0);
           start_blk \<leftarrow> ppb_div (ni_start ni);
           let blk_num = (if flen mod transfer_size = 0 then flen div transfer_size else flen div transfer_size + 1);
           r \<leftarrow> nand_erase L start_blk blk_num;
           if r \<noteq> 1 then State_Monad.return (-1)
           else do {
             let m = flen div transfer_size;
             let j = flen mod transfer_size;
             res \<leftarrow> program_blocks L f transfer_size ni 0 (unat m);
             case res of
               None \<Rightarrow> State_Monad.return (-1)
             | Some ni' \<Rightarrow>
                 if j \<noteq> 0 then program_rest L f ni' (unat m * unat transfer_size) j
                 else State_Monad.return 1 } } }"

definition set_cs :: "int \<Rightarrow> ('d, unit) ubt" where
  "set_cs i = do {
     crash_if (i < 0 \<or> int MAX_DEV_NUM \<le> i);
     State_Monad.update (\<lambda>w. w\<lparr>ub_cs := (ub_cs w)(nat i := True)\<rparr>) }"

definition init_nand_in :: "('d, unit) ubt" where
  "init_nand_in = State_Monad.update (\<lambda>w. w\<lparr>ub_nand_in := (ub_nand_in w)\<lparr>ni_dev := 0\<rparr>, ub_cs := (\<lambda>_. False)\<rparr>)"

definition upd_nand_in :: "(nand_in \<Rightarrow> nand_in) \<Rightarrow> ('d, unit) ubt" where
  "upd_nand_in f = State_Monad.update (\<lambda>w. w\<lparr>ub_nand_in := f (ub_nand_in w)\<rparr>)"

text \<open>\<^verbatim>\<open>com_argv[k]\<close> and its value; entries that the command line did not set are empty strings.\<close>

definition com_arg :: "nat \<Rightarrow> ('d, string) ubt" where
  "com_arg k = gets (\<lambda>w. if k < length (com_argv w) then com_argv w ! k else [])"

definition num_arg :: "nat \<Rightarrow> ('d, int) ubt" where
  "num_arg k = do { s \<leftarrow> com_arg k; State_Monad.return (atoi s) }"

definition nand_prog :: "'d usb01 \<Rightarrow> ('d, int) ubt" where
  "nand_prog L = do {
     w \<leftarrow> State_Monad.get;
     if length (com_argv w) \<noteq> 6 then State_Monad.return 0
     else do {
       init_nand_in;
       start \<leftarrow> num_arg 1;
       image_file \<leftarrow> com_arg 2;
       dev \<leftarrow> num_arg 3;
       upd_nand_in (\<lambda>n. n\<lparr>ni_start := word_of_int start, ni_dev := word_of_int dev\<rparr>);
       chip \<leftarrow> num_arg 4;
       set_cs chip;
       t \<leftarrow> com_arg 5;
       upd_nand_in (\<lambda>n. if t = ''-e'' then n\<lparr>ni_option := 0\<rparr> else if t = ''-o'' then n\<lparr>ni_option := 1\<rparr>
         else if t = ''-n'' then n\<lparr>ni_option := 2\<rparr> else n);
       ni \<leftarrow> gets ub_nand_in;
       (if hd_nand_plane (ub_hand w) = 1 then do { r \<leftarrow> nand_program_file L ni image_file; State_Monad.return () }
        else State_Monad.return ());
       State_Monad.return 1 } }"

definition nand_query :: "'d usb01 \<Rightarrow> ('d, int) ubt" where
  "nand_query L = do {
     w \<leftarrow> State_Monad.get;
     if length (com_argv w) < 3 then State_Monad.return (-1)
     else do {
       init_nand_in;
       dev \<leftarrow> num_arg 1;
       upd_nand_in (\<lambda>n. n\<lparr>ni_dev := word_of_int dev\<rparr>);
       chip \<leftarrow> num_arg 2;
       set_cs chip;
       cs \<leftarrow> gets ub_cs;
       case find cs [0..<MAX_DEV_NUM] of
         None \<Rightarrow> State_Monad.return (-1)
       | Some csn \<Rightarrow> do {
           cpu \<leftarrow> get_ingenic_cpu L;
           if \<not> is_booted cpu then State_Monad.return (-1)
           else do {
             r \<leftarrow> usb_ingenic_nand_ops L (op_word 0 (of_nat csn) NAND_QUERY);
             r \<leftarrow> read_ret L;
             w \<leftarrow> State_Monad.get;
             report (R_Query (take 5 (ub_ret w)));
             r \<leftarrow> read_ret L;
             State_Monad.return 1 } } } }"

text \<open>The argument of \<^verbatim>\<open>nand_read\<close> is one of the three read operations.\<close>

definition nand_read :: "'d usb01 \<Rightarrow> u8 \<Rightarrow> ('d, int) ubt" where
  "nand_read L mode = do {
     w \<leftarrow> State_Monad.get;
     if length (com_argv w) < 5 then State_Monad.return (-1)
     else do {
       init_nand_in;
       start \<leftarrow> num_arg 1;
       len \<leftarrow> num_arg 2;
       dev \<leftarrow> num_arg 3;
       upd_nand_in (\<lambda>n. n\<lparr>ni_start := word_of_int start, ni_length := word_of_int len, ni_dev := word_of_int dev\<rparr>);
       chip \<leftarrow> num_arg 4;
       let csn = (word_of_int chip :: u8);
       if unat csn \<ge> MAX_DEV_NUM then State_Monad.return (-1)
       else do {
         set_cs (uint csn);
         if word_of_int start > NAND_MAX_PAGE_NUM \<or> word_of_int len > NAND_MAX_PAGE_NUM then State_Monad.return (-1)
         else do {
           cpu \<leftarrow> get_ingenic_cpu L;
           if \<not> is_booted cpu then State_Monad.return (-1)
           else do {
             h \<leftarrow> gets ub_hand;
             crash_if (hd_nand_ps h = 0);
             let page_num = word_of_int len div hd_nand_ps h + 1;
             r \<leftarrow> usb_send_data_address_to_ingenic L (word_of_int start);
             r \<leftarrow> usb_send_data_length_to_ingenic L page_num;
             r \<leftarrow> usb_ingenic_nand_ops L (op_word (if mode = NAND_READ_OOB then 0 else 2) (ucast csn) mode);
             (r, bs) \<leftarrow> usb_read_data_from_ingenic L (page_num * hd_nand_ps h);
             put_code 0 bs;
             crash_if (nat len > CODE_BUF_BYTES);
             w \<leftarrow> State_Monad.get;
             report (R_Data (buf_bytes (code_buf w) 0 (nat len)));
             r \<leftarrow> read_ret L;
             page \<leftarrow> ret_word;
             report (R_Page page);
             State_Monad.return 1 } } } } }"

section \<open>Debugging with the first stage\<close>

definition run_stage1 :: "'d usb01 \<Rightarrow> ('d, int) ubt" where
  "run_stage1 L = do {
     path \<leftarrow> gets ub_stage1;
     load_stage L path 1 }"

definition debug_memory :: "'d usb01 \<Rightarrow> u32 \<Rightarrow> u32 \<Rightarrow> ('d, int) ubt" where
  "debug_memory L start len = do {
     cpu \<leftarrow> get_ingenic_cpu L;
     if is_booted cpu then State_Monad.return (-1)
     else do {
       total \<leftarrow> gets ub_total_size;
       set_fa (\<lambda>a. a\<lparr>fa_cpu_id := (if cpu = 1 then 0x4740 else if cpu = 2 then 0x4750 else fa_cpu_id a),
         fa_debug_ops := 1, fa_start := start, fa_size := (if len = 0 then total else len)\<rparr>);
       r \<leftarrow> run_stage1 L;
       if r < 1 then State_Monad.return (-1)
       else do {
         (r, bs) \<leftarrow> usb_read_data_from_ingenic L 8;
         report (R_Memtest (if length bs < 4 then None else Some (dec_u32 (take 4 bs))));
         State_Monad.return 1 } } }"

definition debug_gpio :: "'d usb01 \<Rightarrow> u8 \<Rightarrow> u8 \<Rightarrow> ('d, int) ubt" where
  "debug_gpio L ops pin = do {
     cpu \<leftarrow> get_ingenic_cpu L;
     if is_booted cpu then State_Monad.return (-1)
     else do {
       set_fa (\<lambda>a. a\<lparr>fa_cpu_id := (if cpu = 1 then 0x4740 else if cpu = 2 then 0x4750 else fa_cpu_id a)\<rparr>);
       if cpu = 1 \<and> pin > 124 \<or> cpu = 2 \<and> pin > 178 then State_Monad.return (-1)
       else do {
         set_fa (\<lambda>a. a\<lparr>fa_debug_ops := ops, fa_pin_num := pin\<rparr>);
         r \<leftarrow> run_stage1 L;
         State_Monad.return (if r < 1 then -1 else 0) } } }"

definition debug_go :: "'d usb01 \<Rightarrow> ('d, int) ubt" where
  "debug_go L = do {
     w \<leftarrow> State_Monad.get;
     if length (com_argv w) < 3 then State_Monad.return 0
     else do {
       a \<leftarrow> com_arg 1;
       r \<leftarrow> usb_ingenic_start L VR_PROGRAM_START2 (strtoul 0 a);
       State_Monad.return (if r < 1 then -1 else 1) } }"

section \<open>SDRAM\<close>

definition sdram_load :: "'d usb01 \<Rightarrow> u32 \<Rightarrow> u32 \<Rightarrow> ('d, int) ubt" where
  "sdram_load L start len = do {
     cpu \<leftarrow> get_ingenic_cpu L;
     if \<not> is_booted cpu then State_Monad.return (-1)
     else if len > of_nat MAX_LOAD_SIZE then State_Monad.return (-1)
     else do {
       set_file P_Code len;
       r \<leftarrow> usb_send_data_to_ingenic L;
       r \<leftarrow> usb_send_data_address_to_ingenic L start;
       r \<leftarrow> usb_send_data_length_to_ingenic L len;
       r \<leftarrow> usb_ingenic_sdram_ops L (ucast SDRAM_LOAD);
       r \<leftarrow> read_ret L;
       a \<leftarrow> ret_word;
       report (R_Loaded a);
       State_Monad.return 1 } }"

fun load_blocks :: "'d usb01 \<Rightarrow> c_file \<Rightarrow> u32 \<Rightarrow> nat \<Rightarrow> nat \<Rightarrow> ('d, u32 option) ubt" where
  "load_blocks L f start pos 0 = State_Monad.return (Some start)"
| "load_blocks L f start pos (Suc n) = do {
     let (status, bs) = posix_read f pos MAX_LOAD_SIZE;
     put_code 0 bs;
     if status < int MAX_LOAD_SIZE then State_Monad.return None
     else do {
       r \<leftarrow> sdram_load L start (of_nat MAX_LOAD_SIZE);
       if r < 1 then State_Monad.return None
       else load_blocks L f (start + of_nat MAX_LOAD_SIZE) (pos + MAX_LOAD_SIZE) n } }"

definition load_rest :: "'d usb01 \<Rightarrow> c_file \<Rightarrow> u32 \<Rightarrow> nat \<Rightarrow> nat \<Rightarrow> ('d, int) ubt" where
  "load_rest L f start pos j = do {
     let j = (if j mod 4 \<noteq> 0 then j + (4 - j mod 4) else j);
     let (status, bs) = posix_read f pos j;
     put_code 0 bs;
     if word_of_int status < (of_nat j :: u32) then State_Monad.return (-1)
     else do {
       r \<leftarrow> sdram_load L start (of_nat j);
       State_Monad.return (if r < 1 then -1 else 1) } }"

text \<open>\<^verbatim>\<open>flen\<close> is an \<^verbatim>\<open>unsigned int\<close>.\<close>

definition sdram_load_file :: "'d usb01 \<Rightarrow> u32 \<Rightarrow> string \<Rightarrow> ('d, int) ubt" where
  "sdram_load_file L start path = do {
     w \<leftarrow> State_Monad.get;
     case ub_files w path of
       None \<Rightarrow> State_Monad.return (-1)
     | Some f \<Rightarrow>
         if \<not> ub_openable w path then State_Monad.return (-1)
         else do {
           let flen = unat (of_nat (length (f_data f)) :: u32);
           let m = flen div MAX_LOAD_SIZE;
           let j = flen mod MAX_LOAD_SIZE;
           res \<leftarrow> load_blocks L f start 0 m;
           case res of
             None \<Rightarrow> State_Monad.return (-1)
           | Some s \<Rightarrow> if j \<noteq> 0 then load_rest L f s (m * MAX_LOAD_SIZE) j else State_Monad.return 1 } }"

definition device_reset :: "'d usb01 \<Rightarrow> u32 \<Rightarrow> ('d, int) ubt" where
  "device_reset L ops = do {
     cpu \<leftarrow> get_ingenic_cpu L;
     if \<not> is_booted cpu then State_Monad.return (-1)
     else do {
       r \<leftarrow> usb_ingenic_reset L ops;
       State_Monad.return (if r < 1 then -1 else 1) } }"

end
