(* ===== verification/Usbboot_Line.thy ===== *)
theory Usbboot_Line
  imports Usbboot_Cmd
begin

unbundle bit_operations_syntax

text \<open>
  The rest of the older host program: its configuration file, \<^verbatim>\<open>usbboot/src/ingenic_cfg.c\<close>, the
  command lines, \<^verbatim>\<open>command_line.c\<close>, and \<^verbatim>\<open>main.c\<close> after the parsing of the options.  The
  configuration library \<^verbatim>\<open>confuse\<close> is a parameter: what it reads from a file, \<^verbatim>\<open>None\<close> if the file cannot be parsed, and
  otherwise the integer of an option that the file sets.
\<close>

section \<open>Configuration\<close>

type_synonym confuse = "string \<Rightarrow> (string \<Rightarrow> int option) option"

definition cfg_getint :: "(string \<Rightarrow> int option) \<Rightarrow> string \<Rightarrow> int" where
  "cfg_getint f name = (case f name of Some v \<Rightarrow> v | None \<Rightarrow> if name = ''BOUDRATE'' then 57600 else 0)"

definition cfg_u8 :: "(string \<Rightarrow> int option) \<Rightarrow> string \<Rightarrow> u8" where
  "cfg_u8 f name = word_of_int (cfg_getint f name)"

definition cfg_u32 :: "(string \<Rightarrow> int option) \<Rightarrow> string \<Rightarrow> u32" where
  "cfg_u32 f name = word_of_int (cfg_getint f name)"

text \<open>The tests of \<^verbatim>\<open>check_dump_cfg\<close>; the message at their end divides by \<^verbatim>\<open>phm_div\<close>.\<close>

definition cfg_valid :: "hand \<Rightarrow> bool" where
  "cfg_valid h = (let a = hd_fw_args h in
     \<not> (fa_ext_clk a > 27 \<or> fa_ext_clk a < 12) \<and>
     \<not> (fa_phm_div a > 32 \<or> fa_ext_clk a < 2) \<and>
     \<not> ((uint (fa_cpu_speed a) * uint (fa_ext_clk a)) mod 12 \<noteq> 0) \<and>
     \<not> (fa_bus_width a > 1) \<and>
     \<not> (fa_bank_num a > 1) \<and>
     \<not> (fa_row_addr a > 13 \<and> fa_row_addr a < 11) \<and>
     \<not> (fa_col_addr a > 13 \<and> fa_col_addr a < 11) \<and>
     \<not> (hd_nand_ps h < 2048 \<and> hd_nand_os h > 16) \<and>
     \<not> (hd_nand_ps h < 2048 \<and> hd_nand_ppb h > 32) \<and>
     \<not> (hd_nand_ps h > 512 \<and> hd_nand_os h \<le> 16) \<and>
     \<not> (hd_nand_ps h > 512 \<and> hd_nand_ppb h < 64))"

definition check_dump_cfg :: "hand \<Rightarrow> ('d, int) ubt" where
  "check_dump_cfg h = do {
     crash_if (cfg_valid h \<and> fa_phm_div (hd_fw_args h) = 0);
     State_Monad.return (if cfg_valid h then 1 else 0) }"

definition read_hand :: "(string \<Rightarrow> int option) \<Rightarrow> hand \<Rightarrow> hand" where
  "read_hand f h = (let a = hd_fw_args h in h\<lparr>hd_nand_bw := cfg_u32 f ''NAND_BUSWIDTH'', hd_nand_rc := cfg_u32 f ''NAND_ROWCYCLES'',
     hd_nand_ps := cfg_u32 f ''NAND_PAGESIZE'', hd_nand_ppb := cfg_u32 f ''NAND_PAGEPERBLOCK'',
     hd_nand_force_erase := cfg_u32 f ''NAND_FORCEERASE'', hd_nand_os := cfg_u32 f ''NAND_OOBSIZE'',
     hd_nand_eccpos := cfg_u32 f ''NAND_ECCPOS'', hd_nand_bbpos := cfg_u32 f ''NAND_BADBLOCKPOS'',
     hd_nand_bbpage := cfg_u32 f ''NAND_BADBLOCKPAGE'', hd_nand_plane := cfg_u32 f ''NAND_PLANENUM'',
     hd_nand_bchbit := cfg_u32 f ''NAND_BCHBIT'', hd_nand_wppin := cfg_u32 f ''NAND_WPPIN'',
     hd_nand_bpc := cfg_u32 f ''NAND_BLOCKPERCHIP'',
     hd_fw_args := a\<lparr>fa_boudrate := cfg_u32 f ''BOUDRATE'', fa_ext_clk := cfg_u8 f ''EXTCLK'',
       fa_cpu_speed := cfg_u8 f ''CPUSPEED'', fa_phm_div := cfg_u8 f ''PHMDIV'', fa_use_uart := cfg_u8 f ''USEUART'',
       fa_bus_width := cfg_u8 f ''BUSWIDTH'', fa_bank_num := cfg_u8 f ''BANKS'', fa_row_addr := cfg_u8 f ''ROWADDR'',
       fa_col_addr := cfg_u8 f ''COLADDR'', fa_is_mobile := cfg_u8 f ''ISMOBILE'', fa_is_busshare := cfg_u8 f ''ISBUSSHARE'',
       fa_debug_ops := cfg_u8 f ''DEBUGOPS'', fa_pin_num := cfg_u8 f ''PINNUM'', fa_start := cfg_u32 f ''START'',
       fa_size := cfg_u32 f ''SIZE''\<rparr>\<rparr>)"

text \<open>\<^verbatim>\<open>2 << (row_addr + col_addr - 1)\<close> in \<^verbatim>\<open>int\<close>.\<close>

definition cfg_total_size :: "fw_args \<Rightarrow> u32" where
  "cfg_total_size a = push_bit (nat (uint (fa_row_addr a) + uint (fa_col_addr a) - 1)) 2 * 2
     * (ucast (fa_bank_num a) + 1) * 2 * (2 - ucast (fa_bus_width a))"

definition parse_configure :: "confuse \<Rightarrow> string \<Rightarrow> ('d, int) ubt" where
  "parse_configure C file_path = do {
     w \<leftarrow> State_Monad.get;
     case (ub_files w file_path, C file_path) of
       (Some x, Some f) \<Rightarrow> do {
         let h = read_hand f (ub_hand w);
         let a = hd_fw_args h;
         crash_if (fa_ext_clk a = 0);
         let a = a\<lparr>fa_bus_width := (if fa_bus_width a = 32 then 0 else 1), fa_bank_num := fa_bank_num a div 4,
           fa_cpu_speed := fa_cpu_speed a div fa_ext_clk a\<rparr>;
         let n = uint (fa_row_addr a) + uint (fa_col_addr a) - 1;
         crash_if (n < 0 \<or> n > 29);
         let h = h\<lparr>hd_fw_args := a\<rparr>;
         State_Monad.update (\<lambda>w. w\<lparr>ub_hand := h, ub_total_size := cfg_total_size a\<rparr>);
         r \<leftarrow> check_dump_cfg h;
         State_Monad.return (if r < 1 then -1 else 1) }
     | _ \<Rightarrow> State_Monad.return (-1) }"

section \<open>Command lines\<close>

text \<open>\<^verbatim>\<open>strtok (buf, delim)\<close> and the calls that follow: the tokens of a string.\<close>

fun strtok_all :: "char set \<Rightarrow> string \<Rightarrow> string \<Rightarrow> string list" where
  "strtok_all delim acc [] = (if acc = [] then [] else [rev acc])"
| "strtok_all delim acc (c # cs) =
     (if c \<in> delim then (if acc = [] then [] else [rev acc]) @ strtok_all delim [] cs
      else strtok_all delim (c # acc) cs)"

definition handle_nerase :: "'d usb01 \<Rightarrow> ('d, int) ubt" where
  "handle_nerase L = do {
     w \<leftarrow> State_Monad.get;
     if length (com_argv w) < 5 then State_Monad.return (-1)
     else do {
       init_nand_in;
       start \<leftarrow> num_arg 1;
       len \<leftarrow> num_arg 2;
       dev \<leftarrow> num_arg 3;
       upd_nand_in (\<lambda>n. n\<lparr>ni_start := word_of_int start, ni_length := word_of_int len, ni_dev := word_of_int dev\<rparr>);
       chip \<leftarrow> num_arg 4;
       if chip \<ge> int MAX_DEV_NUM then State_Monad.return (-1)
       else do {
         set_cs chip;
         r \<leftarrow> nand_erase L (word_of_int start) (word_of_int len);
         State_Monad.return (if r < 1 then -1 else 0) } } }"

definition handle_nmark :: "'d usb01 \<Rightarrow> ('d, int) ubt" where
  "handle_nmark L = do {
     w \<leftarrow> State_Monad.get;
     if length (com_argv w) < 4 then State_Monad.return (-1)
     else do {
       init_nand_in;
       start \<leftarrow> num_arg 1;
       dev \<leftarrow> num_arg 2;
       upd_nand_in (\<lambda>n. n\<lparr>ni_start := word_of_int start, ni_dev := word_of_int dev\<rparr>);
       chip \<leftarrow> num_arg 3;
       if chip \<ge> int MAX_DEV_NUM then State_Monad.return (-1)
       else do {
         set_cs chip;
         r \<leftarrow> nand_markbad L (word_of_int start);
         State_Monad.return 0 } } }"

definition handle_memtest :: "'d usb01 \<Rightarrow> ('d, int) ubt" where
  "handle_memtest L = do {
     w \<leftarrow> State_Monad.get;
     let argc = length (com_argv w);
     if argc \<noteq> 2 \<and> argc \<noteq> 4 then State_Monad.return (-1)
     else do {
       start \<leftarrow> com_arg 2;
       len \<leftarrow> com_arg 3;
       r \<leftarrow> (if argc = 4 then debug_memory L (strtoul 0 start) (strtoul 0 len) else debug_memory L 0 0);
       State_Monad.return 0 } }"

definition handle_gpio :: "'d usb01 \<Rightarrow> u8 \<Rightarrow> ('d, int) ubt" where
  "handle_gpio L mode = do {
     w \<leftarrow> State_Monad.get;
     if length (com_argv w) < 3 then State_Monad.return (-1)
     else do {
       pin \<leftarrow> num_arg 1;
       r \<leftarrow> debug_gpio L mode (word_of_int pin);
       State_Monad.return 0 } }"

definition handle_load :: "'d usb01 \<Rightarrow> ('d, int) ubt" where
  "handle_load L = do {
     w \<leftarrow> State_Monad.get;
     if length (com_argv w) < 4 then State_Monad.return (-1)
     else do {
       a \<leftarrow> com_arg 1;
       path \<leftarrow> com_arg 2;
       dev \<leftarrow> num_arg 3;
       State_Monad.update (\<lambda>w. w\<lparr>ub_sdram_in := (ub_sdram_in w)\<lparr>si_start := strtoul 0 a, si_dev := word_of_int dev\<rparr>\<rparr>);
       r \<leftarrow> sdram_load_file L (strtoul 0 a) path;
       State_Monad.return 0 } }"

text \<open>\<^verbatim>\<open>com_argv\<close> has room for 10 words of 99 characters.\<close>

definition command_handle :: "'d usb01 \<Rightarrow> string \<Rightarrow> ('d, int) ubt" where
  "command_handle L buf = (case strtok_all {CHR 0x0A, CHR '' ''} [] buf of
     [] \<Rightarrow> State_Monad.return 0
   | cmd # args \<Rightarrow> do {
       crash_if (length args \<ge> 10 \<or> list_ex (\<lambda>a. length a \<ge> 100) (cmd # args));
       State_Monad.update (\<lambda>w. w\<lparr>com_argv := cmd # args\<rparr>);
       w \<leftarrow> State_Monad.get;
       r \<leftarrow> (if cmd = ''boot'' then boot L (ub_stage1 w) (ub_stage2 w)
             else if cmd = ''nprog'' then nand_prog L
             else if cmd = ''nquery'' then nand_query L
             else if cmd = ''nerase'' then handle_nerase L
             else if cmd = ''nmark'' then handle_nmark L
             else if cmd = ''nread'' then nand_read L NAND_READ
             else if cmd = ''nreadraw'' then nand_read L NAND_READ_RAW
             else if cmd = ''nreadoob'' then nand_read L NAND_READ_OOB
             else if cmd = ''gpios'' then handle_gpio L 2
             else if cmd = ''gpioc'' then handle_gpio L 3
             else if cmd = ''load'' then handle_load L
             else if cmd = ''go'' then debug_go L
             else if cmd = ''memtest'' then handle_memtest L
             else if cmd = ''reset'' then device_reset L 0
             else State_Monad.return 0);
       State_Monad.return (if cmd = ''exit'' then -1 else 0) })"

section \<open>The main program\<close>

text \<open>The commands of the option \<^verbatim>\<open>-c\<close>: of ten or more, the loop of \<^verbatim>\<open>strtok\<close> stores ten and
  the last stored one is not run.\<close>

definition sub_commands :: "string \<Rightarrow> string list" where
  "sub_commands line = take 9 (strtok_all {CHR '';''} [] line)"

fun run_commands :: "'d usb01 \<Rightarrow> string list \<Rightarrow> ('d, unit) ubt" where
  "run_commands L [] = State_Monad.return ()"
| "run_commands L (l # ls) = do { r \<leftarrow> command_handle L l; run_commands L ls }"

text \<open>The prompt, on the lines of the standard input; at its end \<^verbatim>\<open>fgets\<close> fails and the loop goes on for ever.\<close>

fun prompt_loop :: "'d usb01 \<Rightarrow> string list \<Rightarrow> ('d, unit) ubt" where
  "prompt_loop L [] = State_Monad.update (\<lambda>w. w\<lparr>ub_hung := True\<rparr>)"
| "prompt_loop L (l # ls) = do {
     r \<leftarrow> command_handle L l;
     if r \<noteq> 0 then State_Monad.return () else prompt_loop L ls }"

definition usbboot_main :: "'d usb01 \<Rightarrow> confuse \<Rightarrow> string \<Rightarrow> string option \<Rightarrow> string list \<Rightarrow> ('d, int) ubt" where
  "usbboot_main L C cfgpath command stdin = do {
     r \<leftarrow> usb_ingenic_init L;
     if r < 1 then State_Monad.return 1
     else do {
       r \<leftarrow> parse_configure C cfgpath;
       if r < 1 then State_Monad.return 1
       else do {
         (case command of Some line \<Rightarrow> run_commands L (sub_commands line) | None \<Rightarrow> prompt_loop L stdin);
         usb_ingenic_cleanup L;
         State_Monad.return 0 } } }"

end
