(* ===== verification/Usbboot_Facts.thy ===== *)
theory Usbboot_Facts
  imports Usbboot_Line Fw_Instances
begin

unbundle bit_operations_syntax

text \<open>
  What the older host program guarantees, and what it does not check.  \<^verbatim>\<open>ub_recorder\<close> is the
  device that records every transfer and answers each by an arbitrary function of the
  transfers before it, that is, any device at all as far as the host can see.
\<close>

section \<open>An arbitrary device\<close>

datatype ub_transfer = T_Ctl u8 u8 u16 u16 | T_Out bytes | T_In nat

type_synonym ub_answers = "ub_transfer list \<Rightarrow> ub_transfer \<Rightarrow> int \<times> bytes"

definition ub_recorder :: "ub_answers \<Rightarrow> usb01_device list list \<Rightarrow> ub_transfer list usb01" where
  "ub_recorder ans buses = \<lparr>ul_buses = (\<lambda>d. buses), ul_open = (\<lambda>i d. (True, d)), ul_claim = (\<lambda>i d. (0, d)),
     ul_release = (\<lambda>i d. d), ul_close = (\<lambda>d. d),
     ul_control = (\<lambda>t r v i n d. let x = T_Ctl t r v i in (fst (ans d x), snd (ans d x), d @ [x])),
     ul_bulk_write = (\<lambda>ep bs d. (fst (ans d (T_Out bs)), d @ [T_Out bs])),
     ul_bulk_read = (\<lambda>ep n d. (fst (ans d (T_In n)), snd (ans d (T_In n)), d @ [T_In n]))\<rparr>"

lemma ub_recorder_sel [simp]:
  "ul_control (ub_recorder ans b) t r v i n d = (fst (ans d (T_Ctl t r v i)), snd (ans d (T_Ctl t r v i)), d @ [T_Ctl t r v i])"
  "ul_bulk_write (ub_recorder ans b) ep bs d = (fst (ans d (T_Out bs)), d @ [T_Out bs])"
  "ul_bulk_read (ub_recorder ans b) ep n d = (fst (ans d (T_In n)), snd (ans d (T_In n)), d @ [T_In n])"
  by (simp_all add: ub_recorder_def Let_def)

text \<open>The device always answers the question for the processor with a name of the second stage.\<close>

abbreviation "ask_cpu \<equiv> T_Ctl 0xC0 0 0 0"

definition booted :: "ub_answers \<Rightarrow> bool" where
  "booted ans \<longleftrightarrow> (\<forall>d. fst (ans d ask_cpu) = 8 \<and> snd (ans d ask_cpu) \<in> {ascii ''Boot4740'', ascii ''Boot4750'', ascii ''Boot4760''})"

text \<open>What the program makes of an answer to that question.\<close>

definition cpu_of :: "bytes \<Rightarrow> int" where
  "cpu_of bs = (case map_of cpu_names (c_string (take 8 (put_at 0 (take 8 bs) (replicate 9 0)) @ [0])) of Some v \<Rightarrow> v | None \<Rightarrow> -1)"

lemma cpu_of_boot: "cpu_of (ascii ''Boot4740'') = 4" "cpu_of (ascii ''Boot4750'') = 5" "cpu_of (ascii ''Boot4760'') = 6"
  by code_simp+

text \<open>The parts of the state that later steps rely on.\<close>

definition same_rest :: "'d ub_world \<Rightarrow> 'd ub_world \<Rightarrow> bool" where
  "same_rest w w' \<longleftrightarrow> ub_files w' = ub_files w \<and> ub_openable w' = ub_openable w \<and> ub_crash w' = ub_crash w
     \<and> ub_hung w' = ub_hung w \<and> ub_cs w' = ub_cs w \<and> code_buf w' = code_buf w \<and> hd_nand_ppb (ub_hand w') = hd_nand_ppb (ub_hand w)"

lemma same_rest_trans: "same_rest w w' \<Longrightarrow> same_rest w' w'' \<Longrightarrow> same_rest w w''"
  by (simp add: same_rest_def)

lemma run_get_cpu:
  assumes "booted ans"
  shows "\<exists>cpu w'. run_state (get_ingenic_cpu (ub_recorder ans b)) w = (cpu, w') \<and> is_booted cpu
    \<and> ub_dev w' = ub_dev w @ [ask_cpu] \<and> same_rest w w'"
proof -
  let ?r = "ans (ub_dev w) ask_cpu"
  have st: "fst ?r = 8" using assms by (simp add: booted_def)
  have "cpu_of (snd ?r) \<in> {4, 5, 6}"
    using assms cpu_of_boot unfolding booted_def by (metis insert_iff singletonD)
  then have "is_booted (cpu_of (snd ?r))" by (auto simp: is_booted_def)
  moreover have "\<exists>w'. run_state (get_ingenic_cpu (ub_recorder ans b)) w = (cpu_of (snd ?r), w')
      \<and> ub_dev w' = ub_dev w @ [ask_cpu] \<and> same_rest w w'"
    by (simp add: get_ingenic_cpu_def usb_get_ingenic_cpu_def host_simps st VR_GET_CPU_INFO_def set_fa_def same_rest_def
      flip: cpu_of_def)
  ultimately show ?thesis by blast
qed

section \<open>Loading a file\<close>

text \<open>The transfers of one block, whatever the device answers.\<close>

definition block_transfers :: "u32 \<Rightarrow> bytes \<Rightarrow> ub_transfer list" where
  "block_transfers a bs = (let n = of_nat (length bs) :: u32 in
    [ask_cpu, T_Out bs, T_Ctl 0x40 1 (STAGE_ADDR_MSB a) (STAGE_ADDR_LSB a),
     T_Ctl 0x40 2 (STAGE_ADDR_MSB n) (STAGE_ADDR_LSB n), T_Ctl 0x40 8 0 0, T_In 8])"

lemma run_put_code:
  assumes "length bs \<le> CODE_BUF_BYTES"
  shows "\<exists>w'. run_state (put_code 0 bs) w = ((), w') \<and> buf_bytes (code_buf w') 0 (length bs) = bs
    \<and> ub_dev w' = ub_dev w \<and> ub_crash w' = ub_crash w \<and> ub_hung w' = ub_hung w"
proof -
  have "buf_bytes (buf_put 0 bs (code_buf w)) 0 (length bs) = bs"
    by (rule nth_equalityI) (simp_all add: buf_bytes_def buf_put_def)
  then show ?thesis using assms by (simp add: put_code_def host_simps)
qed

lemma run_sdram_load:
  assumes "booted ans" "length bs \<le> MAX_LOAD_SIZE" "buf_bytes (code_buf w) 0 (length bs) = bs"
  shows "\<exists>w'. run_state (sdram_load (ub_recorder ans b) a (of_nat (length bs))) w = (1, w')
    \<and> ub_dev w' = ub_dev w @ block_transfers a bs \<and> ub_crash w' = ub_crash w \<and> ub_hung w' = ub_hung w"
proof -
  obtain cpu w1 where 1: "run_state (get_ingenic_cpu (ub_recorder ans b)) w = (cpu, w1)" "is_booted cpu"
      "ub_dev w1 = ub_dev w @ [ask_cpu]" "same_rest w w1"
    using run_get_cpu [OF assms(1)] by blast
  have len: "unat (of_nat (length bs) :: u32) = length bs"
    using assms(2) by (simp add: MAX_LOAD_SIZE_def unat_of_nat)
  have small: "\<not> (of_nat MAX_LOAD_SIZE :: u32) < of_nat (length bs)"
    using assms(2) len by (simp add: MAX_LOAD_SIZE_def word_less_nat_alt)
  have bytes: "buf_bytes (code_buf w1) 0 (length bs) = bs" using 1(4) assms(3) by (simp add: same_rest_def)
  show ?thesis
    using 1(2) small assms(2)
    by (simp add: sdram_load_def host_simps 1(1) set_file_def usb_send_data_to_ingenic_def file_bytes_def file_room_def len bytes
      usb_send_data_address_to_ingenic_def usb_send_data_length_to_ingenic_def usb_ingenic_sdram_ops_def vendor_out_def
      read_ret_def usb_read_data_from_ingenic_def ret_word_def vr_defs SDRAM_LOAD_def MAX_LOAD_SIZE_def CODE_BUF_BYTES_def
      block_transfers_def 1(3) split_def)
      (use 1(4) in \<open>simp add: same_rest_def Let_def\<close>)
qed

text \<open>The blocks of a file from the block \<^verbatim>\<open>k\<close> on.\<close>

definition blocks_from :: "u32 \<Rightarrow> bytes \<Rightarrow> nat \<Rightarrow> nat \<Rightarrow> ub_transfer list" where
  "blocks_from start data k n = concat (List.map (\<lambda>k. block_transfers (start + of_nat (k * MAX_LOAD_SIZE))
     (slice (k * MAX_LOAD_SIZE) MAX_LOAD_SIZE data)) [k..<n])"

lemma blocks_from_Cons: "k < n \<Longrightarrow> blocks_from start data k n
    = block_transfers (start + of_nat (k * MAX_LOAD_SIZE)) (slice (k * MAX_LOAD_SIZE) MAX_LOAD_SIZE data) @ blocks_from start data (Suc k) n"
  by (simp add: blocks_from_def upt_conv_Cons)

lemma blocks_from_none: "n \<le> k \<Longrightarrow> blocks_from start data k n = []"
  by (simp add: blocks_from_def)

lemma read_whole: "f_readable f = length (f_data f) \<Longrightarrow> pos + n \<le> length (f_data f) \<Longrightarrow>
    posix_read f pos n = (int n, slice pos n (f_data f))"
  by (auto simp: posix_read_def fread_at_def slice_def Let_def)

lemma run_load_blocks:
  assumes "booted ans" "f_readable f = length (f_data f)"
  shows "(k + n) * MAX_LOAD_SIZE \<le> length (f_data f) \<Longrightarrow>
    \<exists>w'. run_state (load_blocks (ub_recorder ans b) f (start + of_nat (k * MAX_LOAD_SIZE)) (k * MAX_LOAD_SIZE) n) w
        = (Some (start + of_nat ((k + n) * MAX_LOAD_SIZE)), w')
      \<and> ub_dev w' = ub_dev w @ blocks_from start (f_data f) k (k + n) \<and> ub_crash w' = ub_crash w \<and> ub_hung w' = ub_hung w"
proof (induction n arbitrary: k w)
  case 0
  then show ?case by (simp add: host_simps blocks_from_none)
next
  case (Suc n)
  let ?pos = "k * MAX_LOAD_SIZE" and ?a = "start + of_nat (k * MAX_LOAD_SIZE)"
  let ?bs = "slice ?pos MAX_LOAD_SIZE (f_data f)"
  have room: "?pos + MAX_LOAD_SIZE \<le> length (f_data f)" using Suc.prems by (simp add: algebra_simps)
  then have lb: "length ?bs = MAX_LOAD_SIZE" by simp
  obtain w1 where 1: "run_state (put_code 0 ?bs) w = ((), w1)" "buf_bytes (code_buf w1) 0 MAX_LOAD_SIZE = ?bs"
      "ub_dev w1 = ub_dev w" "ub_crash w1 = ub_crash w" "ub_hung w1 = ub_hung w"
    using run_put_code [of ?bs w] lb by (auto simp: MAX_LOAD_SIZE_def CODE_BUF_BYTES_def)
  obtain w2 where 2: "run_state (sdram_load (ub_recorder ans b) ?a (of_nat MAX_LOAD_SIZE)) w1 = (1, w2)"
      "ub_dev w2 = ub_dev w1 @ block_transfers ?a ?bs" "ub_crash w2 = ub_crash w1" "ub_hung w2 = ub_hung w1"
    using run_sdram_load [OF assms(1), of ?bs w1 b ?a] lb 1(2) by auto
  obtain w3 where 3: "run_state (load_blocks (ub_recorder ans b) f (start + of_nat (Suc k * MAX_LOAD_SIZE)) (Suc k * MAX_LOAD_SIZE) n) w2
        = (Some (start + of_nat ((Suc k + n) * MAX_LOAD_SIZE)), w3)"
      "ub_dev w3 = ub_dev w2 @ blocks_from start (f_data f) (Suc k) (Suc k + n)" "ub_crash w3 = ub_crash w2" "ub_hung w3 = ub_hung w2"
    using Suc.IH [of "Suc k" w2] Suc.prems by auto
  have next_a: "?a + of_nat MAX_LOAD_SIZE = start + of_nat (Suc k * MAX_LOAD_SIZE)" "?pos + MAX_LOAD_SIZE = Suc k * MAX_LOAD_SIZE"
    by (simp_all add: algebra_simps)
  show ?case
    using 1 2 3 next_a by (simp add: read_whole [OF assms(2) room] host_simps blocks_from_Cons add.assoc del: of_nat_mult mult_Suc)
qed

lemma run_load_rest:
  assumes "booted ans" "f_readable f = length (f_data f)" "pos + j = length (f_data f)" "0 < j" "j < MAX_LOAD_SIZE"
  shows "\<exists>w'. run_state (load_rest (ub_recorder ans b) f a pos j) w = (if j mod 4 = 0 then 1 else -1, w')
    \<and> ub_dev w' = ub_dev w @ (if j mod 4 = 0 then block_transfers a (slice pos MAX_LOAD_SIZE (f_data f)) else [])
    \<and> ub_crash w' = ub_crash w \<and> ub_hung w' = ub_hung w"
proof -
  let ?bs = "drop pos (f_data f)"
  have lb: "length ?bs = j" using assms(3) by simp
  obtain w1 where 1: "run_state (put_code 0 ?bs) w = ((), w1)" "buf_bytes (code_buf w1) 0 j = ?bs"
      "ub_dev w1 = ub_dev w" "ub_crash w1 = ub_crash w" "ub_hung w1 = ub_hung w"
    using run_put_code [of ?bs w] lb assms(5) by (auto simp: MAX_LOAD_SIZE_def CODE_BUF_BYTES_def)
  show ?thesis
  proof (cases "j mod 4 = 0")
    case True
    obtain w2 where 2: "run_state (sdram_load (ub_recorder ans b) a (of_nat j)) w1 = (1, w2)"
        "ub_dev w2 = ub_dev w1 @ block_transfers a ?bs" "ub_crash w2 = ub_crash w1" "ub_hung w2 = ub_hung w1"
      using run_sdram_load [OF assms(1), of ?bs w1 b a] lb assms(5) 1(2) by auto
    have s: "slice pos j (f_data f) = ?bs" "slice pos MAX_LOAD_SIZE (f_data f) = ?bs" using lb assms(5) by (simp_all add: slice_def)
    have rd: "posix_read f pos j = (int j, ?bs)" using read_whole [OF assms(2), of pos j] s assms(3) by simp
    have "\<not> word_of_int (int j) < (of_nat j :: u32)" by simp
    with 1 2 s rd True show ?thesis by (simp add: load_rest_def host_simps)
  next
    case False
    let ?j = "j + (4 - j mod 4)"
    have "j div 4 < 3072" using assms(5) by (simp add: MAX_LOAD_SIZE_def less_mult_imp_div_less)
    moreover have "j mod 4 < 4" "4 * (j div 4) + j mod 4 = j" by simp_all
    ultimately have j: "j < ?j" "?j \<le> MAX_LOAD_SIZE" unfolding MAX_LOAD_SIZE_def by linarith+
    have rd: "posix_read f pos ?j = (int j, ?bs)" using assms(2,3,4) j by (auto simp: posix_read_def fread_at_def Let_def)
    define jj where "jj = ?j"
    have "unat (of_nat j :: u32) = j" "unat (of_nat jj :: u32) = jj" using j by (simp_all add: jj_def [symmetric] MAX_LOAD_SIZE_def unat_of_nat)
    then have "word_of_int (int j) < (of_nat ?j :: u32)" using j(1) unfolding jj_def [symmetric] by (simp add: word_less_nat_alt)
    with 1 rd False show ?thesis by (simp add: load_rest_def host_simps del: of_nat_add of_nat_diff)
  qed
qed

text \<open>C24.  \<^verbatim>\<open>sdram_load_file\<close> against any device that says it has booted: whatever the device answers to the
  transfers, failures included, the program sends all blocks of 0x3000 bytes of the file with their
  addresses and reports success, if the length of the file is a multiple of four; for any other
  file it sends only the whole blocks and fails, because it rounds the rest up and then misses
  the bytes behind the end of the file.\<close>

theorem load_sends_every_block:
  fixes data :: bytes
  assumes "booted ans" "ub_files w path = Some \<lparr>f_data = data, f_readable = length data\<rparr>" "ub_openable w path" "length data < 2 ^ 32"
  defines "ok \<equiv> length data mod 4 = 0"
  shows "\<exists>w'. run_state (sdram_load_file (ub_recorder ans b) start path) w = (if ok then 1 else -1, w')
    \<and> ub_dev w' = ub_dev w @ concat (List.map (\<lambda>k. block_transfers (start + of_nat (k * MAX_LOAD_SIZE))
        (slice (k * MAX_LOAD_SIZE) MAX_LOAD_SIZE data))
          [0..<(if ok then (length data + MAX_LOAD_SIZE - 1) div MAX_LOAD_SIZE else length data div MAX_LOAD_SIZE)])
    \<and> ub_crash w' = ub_crash w"
proof -
  let ?f = "\<lparr>f_data = data, f_readable = length data\<rparr>" and ?L = "ub_recorder ans b"
  define m j where "m = length data div MAX_LOAD_SIZE" and "j = length data mod MAX_LOAD_SIZE"
  have mj: "m * MAX_LOAD_SIZE + j = length data" "j < MAX_LOAD_SIZE" by (simp add: m_def j_def) (simp add: j_def MAX_LOAD_SIZE_def)
  have ok: "ok \<longleftrightarrow> j mod 4 = 0" by (simp add: ok_def j_def MAX_LOAD_SIZE_def mod_mod_cancel)
  have len: "unat (of_nat (length data) :: u32) = length data" using assms(4) by (simp add: unat_of_nat take_bit_nat_eq_self_iff)
  obtain w1 where 1: "run_state (load_blocks (ub_recorder ans b) ?f start 0 m) w = (Some (start + of_nat (m * MAX_LOAD_SIZE)), w1)"
      "ub_dev w1 = ub_dev w @ blocks_from start data 0 m" "ub_crash w1 = ub_crash w"
    using run_load_blocks [OF assms(1), of ?f 0 m b start w] mj by auto
  have run: "run_state (sdram_load_file ?L start path) w = run_state (do { res \<leftarrow> load_blocks ?L ?f start 0 m;
      case res of None \<Rightarrow> State_Monad.return (-1)
      | Some s \<Rightarrow> if 0 < j then load_rest ?L ?f s (m * MAX_LOAD_SIZE) j else State_Monad.return 1 }) w"
    using assms(2,3) len unfolding m_def j_def by (simp add: sdram_load_file_def host_simps Let_def)
  show ?thesis
  proof (cases "j = 0")
    case True
    then have "(length data + MAX_LOAD_SIZE - 1) div MAX_LOAD_SIZE = m" using mj by (simp add: MAX_LOAD_SIZE_def)
    then show ?thesis using 1 True ok unfolding run
      by (simp add: host_simps blocks_from_def del: of_nat_mult)
  next
    case False
    then obtain w2 where 2: "run_state (load_rest ?L ?f (start + of_nat (m * MAX_LOAD_SIZE)) (m * MAX_LOAD_SIZE) j) w1
          = (if j mod 4 = 0 then 1 else -1, w2)"
        "ub_dev w2 = ub_dev w1 @ (if j mod 4 = 0 then block_transfers (start + of_nat (m * MAX_LOAD_SIZE))
           (slice (m * MAX_LOAD_SIZE) MAX_LOAD_SIZE data) else [])" "ub_crash w2 = ub_crash w1"
      using run_load_rest [OF assms(1), of ?f "m * MAX_LOAD_SIZE" j b "start + of_nat (m * MAX_LOAD_SIZE)" w1] mj
      by (auto simp del: of_nat_mult)
    have up: "(length data + MAX_LOAD_SIZE - 1) div MAX_LOAD_SIZE = Suc m" using mj False by (simp add: MAX_LOAD_SIZE_def)
    have down: "length data div MAX_LOAD_SIZE = m" by (simp add: m_def)
    show ?thesis using 1 2 False ok up down unfolding run
      by (simp add: host_simps blocks_from_def del: of_nat_mult)
  qed
qed

text \<open>A state of the program after its start, and a device that has booted and then fails every transfer.\<close>

definition blank_ub :: "ub_transfer list ub_world" where
  "blank_ub = \<lparr>ub_dev = [], ub_usb_dev = Some (0, 0), ub_handle = True, ub_interface = 0, cpu_info_buff = replicate 9 0,
     file_buff = P_Code, file_len = 0, code_buf = (\<lambda>_. 0), check_buf = (\<lambda>_. 0), ub_ret = replicate 8 0, ub_cs = (\<lambda>_. False),
     ub_hand = zero_hand, ub_total_size = 0x2000000, ub_nand_in = \<lparr>ni_dev = 0, ni_start = 0, ni_length = 0, ni_option = 0\<rparr>,
     ub_sdram_in = \<lparr>si_dev = 0, si_start = 0, si_length = 0\<rparr>, com_argv = [], ub_stage1 = ''s1'', ub_stage2 = ''s2'',
     ub_files = [''kernel'' \<mapsto> \<lparr>f_data = replicate 8 7, f_readable = 8\<rparr>, ''odd'' \<mapsto> \<lparr>f_data = replicate 5 7, f_readable = 5\<rparr>],
     ub_openable = (\<lambda>_. True), ub_log = [], ub_hung = False, ub_crash = False\<rparr>"

definition dead_device :: ub_answers where
  "dead_device d x = (if x = ask_cpu then (8, ascii ''Boot4740'') else (-1, []))"

lemma booted_dead: "booted dead_device"
  by (simp add: booted_def dead_device_def)

theorem load_sends_every_block_witness:
  "(\<exists>w'. run_state (sdram_load_file (ub_recorder dead_device []) 0x80000000 ''kernel'') blank_ub = (1, w')
     \<and> ub_dev w' = block_transfers 0x80000000 (replicate 8 7) \<and> \<not> ub_crash w')
   \<and> (\<exists>w'. run_state (sdram_load_file (ub_recorder dead_device []) 0x80000000 ''odd'') blank_ub = (-1, w') \<and> ub_dev w' = [])"
  using load_sends_every_block [OF booted_dead, where w = blank_ub and path = "''kernel''" and data = "replicate 8 7" and b = "[]" and start = "0x80000000"]
    load_sends_every_block [OF booted_dead, where w = blank_ub and path = "''odd''" and data = "replicate 5 7" and b = "[]" and start = "0x80000000"]
  by (auto simp: blank_ub_def MAX_LOAD_SIZE_def slice_def)

section \<open>Erasing\<close>

definition erase_transfers :: "u32 \<Rightarrow> u32 \<Rightarrow> nat \<Rightarrow> ub_transfer list" where
  "erase_transfers start n i = [T_Ctl 0x40 1 (STAGE_ADDR_MSB start) (STAGE_ADDR_LSB start),
     T_Ctl 0x40 2 (STAGE_ADDR_MSB n) (STAGE_ADDR_LSB n), T_Ctl 0x40 7 (of_nat (16 * i + 5)) 0, T_In 8]"

lemma erase_word: "i < MAX_DEV_NUM \<Longrightarrow> (ucast (op_word 0 (of_nat i) NAND_ERASE AND 0xffff) :: u16) = of_nat (16 * i + 5)"
proof -
  assume "i < MAX_DEV_NUM"
  then have "i \<in> set [0..<16]" by (simp add: MAX_DEV_NUM_def)
  moreover have "list_all (\<lambda>i. (ucast (op_word 0 (of_nat i) NAND_ERASE AND 0xffff) :: u16) = of_nat (16 * i + 5)) [0..<16]"
    by code_simp
  ultimately show ?thesis by (auto simp: list_all_iff)
qed

lemma run_erase_chips:
  "i + n \<le> MAX_DEV_NUM \<Longrightarrow> \<exists>w'. run_state (erase_chips (ub_recorder ans b) start blks i n) w = ((), w')
    \<and> ub_dev w' = ub_dev w @ concat (List.map (erase_transfers start blks) (filter (ub_cs w) [i..<i + n]))
    \<and> ub_cs w' = ub_cs w \<and> ub_hand w' = ub_hand w \<and> ub_crash w' = ub_crash w"
proof (induction n arbitrary: i w)
  case 0
  then show ?case by (simp add: host_simps)
next
  case (Suc n)
  have up: "[i..<i + Suc n] = i # [Suc i..<Suc i + n]" by (simp add: upt_conv_Cons)
  define w1 where "w1 = (if ub_cs w i then snd (run_state (do {
        r \<leftarrow> usb_send_data_address_to_ingenic (ub_recorder ans b) start;
        r \<leftarrow> usb_send_data_length_to_ingenic (ub_recorder ans b) blks;
        r \<leftarrow> usb_ingenic_nand_ops (ub_recorder ans b) (op_word 0 (of_nat i) NAND_ERASE);
        r \<leftarrow> read_ret (ub_recorder ans b);
        State_Monad.return () }) w) else w)"
  have 1: "ub_dev w1 = ub_dev w @ (if ub_cs w i then erase_transfers start blks i else [])" "ub_cs w1 = ub_cs w"
      "ub_hand w1 = ub_hand w" "ub_crash w1 = ub_crash w"
    using erase_word [of i] Suc.prems
    by (simp_all add: w1_def host_simps usb_send_data_address_to_ingenic_def usb_send_data_length_to_ingenic_def vendor_out_def
      usb_ingenic_nand_ops_def read_ret_def usb_read_data_from_ingenic_def erase_transfers_def vr_defs split_def)
  obtain w2 where 2: "run_state (erase_chips (ub_recorder ans b) start blks (Suc i) n) w1 = ((), w2)"
      "ub_dev w2 = ub_dev w1 @ concat (List.map (erase_transfers start blks) (filter (ub_cs w1) [Suc i..<Suc i + n]))"
      "ub_cs w2 = ub_cs w1" "ub_hand w2 = ub_hand w1" "ub_crash w2 = ub_crash w1"
    using Suc.IH [of "Suc i" w1] Suc.prems by auto
  have "run_state (erase_chips (ub_recorder ans b) start blks i (Suc n)) w = ((), w2)"
    using 2(1) by (cases "ub_cs w i") (simp_all add: w1_def host_simps split_def)
  then show ?case using 1 2 unfolding up by simp
qed

text \<open>\<^verbatim>\<open>nand_erase\<close> against any device that says it has booted sends, for every selected chip, the
  first block, the number of blocks and the request with the number of the chip, and asks
  for the result; it reports success whatever the device answers to any of these transfers.\<close>

theorem erase_ignores_failures:
  assumes "booted ans" "start \<le> NAND_MAX_BLK_NUM" "blks \<le> NAND_MAX_BLK_NUM" "hd_nand_ppb (ub_hand w) \<noteq> 0"
  shows "\<exists>w'. run_state (nand_erase (ub_recorder ans b) start blks) w = (1, w')
    \<and> ub_dev w' = ub_dev w @ [ask_cpu] @ concat (List.map (erase_transfers start blks) (filter (ub_cs w) [0..<16]))
    \<and> ub_crash w' = ub_crash w"
proof -
  obtain cpu w1 where 1: "run_state (get_ingenic_cpu (ub_recorder ans b)) w = (cpu, w1)" "is_booted cpu"
      "ub_dev w1 = ub_dev w @ [ask_cpu]" "same_rest w w1"
    using run_get_cpu [OF assms(1)] by blast
  obtain w2 where 2: "run_state (erase_chips (ub_recorder ans b) start blks 0 MAX_DEV_NUM) w1 = ((), w2)"
      "ub_dev w2 = ub_dev w1 @ concat (List.map (erase_transfers start blks) (filter (ub_cs w1) [0..<16]))"
      "ub_cs w2 = ub_cs w1" "ub_hand w2 = ub_hand w1" "ub_crash w2 = ub_crash w1"
    using run_erase_chips [of 0 MAX_DEV_NUM ans b start blks w1] by (auto simp: MAX_DEV_NUM_def)
  show ?thesis
    using 1 2 assms(2-4) by (simp add: nand_erase_def host_simps ret_word_def ppb_div_def same_rest_def not_less)
qed

theorem erase_ignores_failures_witness:
  "\<exists>w'. run_state (nand_erase (ub_recorder dead_device []) 10 3) (blank_ub\<lparr>ub_cs := (\<lambda>i. i = 2)\<rparr>) = (1, w')
    \<and> ub_dev w' = [ask_cpu] @ erase_transfers 10 3 2 \<and> \<not> ub_crash w'"
proof -
  have "filter (\<lambda>i. i = 2) [0..<16] = [2::nat]" by code_simp
  then show ?thesis
    using erase_ignores_failures [OF booted_dead, of 10 3 "blank_ub\<lparr>ub_cs := (\<lambda>i. i = 2)\<rparr>" "[]"]
    by (simp add: blank_ub_def zero_hand_def NAND_MAX_BLK_NUM_def)
qed

section \<open>Booting\<close>

text \<open>The question for the processor returns the number of bytes received if that is not eight, and
  the callers read it as the number of a processor: a device that answers with four, five or six
  bytes, of whatever content, counts as booted, and \<^verbatim>\<open>boot\<close> succeeds without having sent any program.\<close>

theorem short_answer_counts_as_booted:
  assumes "fst (ans (ub_dev w) ask_cpu) = n" "n \<in> {4, 5, 6}"
  shows "\<exists>w'. run_state (boot (ub_recorder ans b) s1 s2) w = (1, w') \<and> ub_dev w' = ub_dev w @ [ask_cpu]
    \<and> fa_cpu_id (hd_fw_args (ub_hand w')) = (if n = 4 then 0x4740 else if n = 5 then 0x4750 else 0x4760)"
proof -
  have "n \<noteq> 8" "is_booted n" using assms(2) by (auto simp: is_booted_def)
  then show ?thesis
    using assms by (auto simp add: boot_def get_ingenic_cpu_def usb_get_ingenic_cpu_def host_simps split_def VR_GET_CPU_INFO_def set_fa_def)
qed

theorem short_answer_counts_as_booted_witness:
  "\<exists>w'. run_state (boot (ub_recorder (\<lambda>d x. (5, ascii ''Error'')) []) ''s1'' ''s2'') blank_ub = (1, w') \<and> ub_dev w' = [ask_cpu]"
  using short_answer_counts_as_booted [of "\<lambda>d x. (5, ascii ''Error'')" blank_ub 5 "[]" "''s1''" "''s2''"]
  by (auto simp: blank_ub_def)

end
