(* ===== verification/Usbboot_Config.thy ===== *)
theory Usbboot_Config
  imports Usbboot_Facts
begin

text \<open>
  The configuration of the older host program: how it is read, what the checks let through, and how
  it travels to the first and to the second stage.
\<close>

section \<open>Reading\<close>

lemma shifted_two: "0 < n \<Longrightarrow> (push_bit (n - 1) 2 :: u32) = word_of_int (2 ^ n)"
  by (cases n) (simp_all add: push_bit_eq_mult)

text \<open>C27.  The size of the memory that \<^verbatim>\<open>parse_configure\<close> computes is the capacity of the described chips:
  two to the number of row and column bits, times the banks, times the bytes of the bus.  That is half of what the comment
  of \<^verbatim>\<open>doc/usbboot.cfg\<close> says the program computes, which divides the width of the bus by 4 and not by the 8 bits of a byte.\<close>

theorem configured_size:
  assumes "ub_files w path \<noteq> None" "C path = Some f"
    and "f ''ROWADDR'' = Some r" "f ''COLADDR'' = Some k" "f ''BANKS'' = Some banks" "f ''BUSWIDTH'' = Some width"
    and "0 \<le> r" "0 \<le> k" "0 < r + k" "banks \<in> {2, 4}" "width \<in> {16, 32}" "2 ^ nat (r + k) * banks * (width div 8) < 2 ^ 32"
  shows "uint (ub_total_size (snd (run_state (parse_configure C path) w))) = 2 ^ nat (r + k) * banks * (width div 8)
    \<and> 2 * uint (ub_total_size (snd (run_state (parse_configure C path) w))) = 2 ^ nat (r + k) * banks * (width div 4)"
proof -
  let ?n = "nat (r + k)" and ?size = "2 ^ nat (r + k) * banks * (width div 8)"
  have "(4::int) * 2 ^ ?n \<le> ?size" using assms(10,11) by auto
  then have "(4::int) * 2 ^ ?n < 2 ^ 32" using assms(12) by (rule order.strict_trans1)
  then have "(2::int) ^ (?n + 2) < 2 ^ 32" by (simp add: power_add)
  then have n: "r + k < 30" using power_less_imp_less_exp [of "2::int" "?n + 2" 32] by simp
  then have rk: "uint (word_of_int r :: u8) = r" "uint (word_of_int k :: u8) = k"
    using assms(7,8) by (simp_all add: uint_word_of_int)
  have sub: "nat (r + k - 1) = ?n - 1" using assms(9) by simp
  have size: "ub_total_size (snd (run_state (parse_configure C path) w))
      = push_bit (?n - 1) 2 * 2 * (ucast ((word_of_int banks :: u8) div 4) + 1) * 2
        * (2 - ucast (if (word_of_int width :: u8) = 32 then 0 else 1 :: u8))"
    using assms(1-6) rk sub
    by (auto simp: parse_configure_def host_simps check_dump_cfg_def cfg_total_size_def read_hand_def Let_def cfg_u8_def
      cfg_getint_def split: prod.splits)
  have word: "ub_total_size (snd (run_state (parse_configure C path) w)) = word_of_int ?size"
    unfolding size shifted_two [of ?n, OF assms(9) [folded zero_less_nat_eq]] using assms(10,11)
    by (auto simp: word_arith_nat_div)
  have exact: "uint (word_of_int S :: u32) = S" if "0 \<le> S" "S < 2 ^ 32" for S :: int
    using that by (simp add: uint_word_of_int)
  have "0 \<le> ?size" using order_trans [OF _ \<open>4 * 2 ^ ?n \<le> ?size\<close>, of 0] by simp
  then have size: "uint (ub_total_size (snd (run_state (parse_configure C path) w))) = ?size"
    unfolding word using assms(12) by (rule exact)
  moreover have "width div 4 = 2 * (width div 8)" using assms(11) by auto
  ultimately show ?thesis by simp
qed

text \<open>The configuration of the NanoNote.\<close>

definition nanonote :: "string \<Rightarrow> int option" where
  "nanonote = [''EXTCLK'' \<mapsto> 12, ''CPUSPEED'' \<mapsto> 252, ''PHMDIV'' \<mapsto> 3, ''BOUDRATE'' \<mapsto> 57600, ''USEUART'' \<mapsto> 0,
     ''BUSWIDTH'' \<mapsto> 16, ''BANKS'' \<mapsto> 4, ''ROWADDR'' \<mapsto> 13, ''COLADDR'' \<mapsto> 9, ''NAND_BUSWIDTH'' \<mapsto> 8,
     ''NAND_ROWCYCLES'' \<mapsto> 3, ''NAND_PAGESIZE'' \<mapsto> 4096, ''NAND_PAGEPERBLOCK'' \<mapsto> 128, ''NAND_OOBSIZE'' \<mapsto> 128,
     ''NAND_ECCPOS'' \<mapsto> 12, ''NAND_BADBLOCKPAGE'' \<mapsto> 127, ''NAND_PLANENUM'' \<mapsto> 1, ''NAND_BCHBIT'' \<mapsto> 4]"

theorem configured_size_witness:
  "uint (ub_total_size (snd (run_state (parse_configure (\<lambda>_. Some nanonote) ''kernel'') blank_ub))) = 32 * 1024 * 1024"
  using configured_size [of blank_ub "''kernel''" "\<lambda>_. Some nanonote" nanonote 13 9 4 16]
  by (simp add: nanonote_def blank_ub_def)

section \<open>Checking\<close>

text \<open>What \<^verbatim>\<open>parse_configure\<close> has put together when it comes to the checks.\<close>

definition parsed :: "(string \<Rightarrow> int option) \<Rightarrow> hand \<Rightarrow> hand" where
  "parsed f h = (let h = read_hand f h; a = hd_fw_args h in
     h\<lparr>hd_fw_args := a\<lparr>fa_bus_width := (if fa_bus_width a = 32 then 0 else 1), fa_bank_num := fa_bank_num a div 4,
       fa_cpu_speed := fa_cpu_speed a div fa_ext_clk a\<rparr>\<rparr>)"

lemma run_parse:
  assumes "ub_files w path = Some x"
  defines "h \<equiv> \<lambda>f. parsed f (ub_hand w)" and "bits \<equiv> \<lambda>f. uint (cfg_u8 f ''ROWADDR'') + uint (cfg_u8 f ''COLADDR'')"
  shows "fst (run_state (parse_configure (\<lambda>_. Some f) path) w) = (if cfg_valid (h f) then 1 else -1)"
    "ub_crash (snd (run_state (parse_configure (\<lambda>_. Some f) path) w)) \<longleftrightarrow> ub_crash w \<or> cfg_u8 f ''EXTCLK'' = 0
      \<or> bits f < 1 \<or> 30 < bits f \<or> cfg_valid (h f) \<and> cfg_u8 f ''PHMDIV'' = 0"
  using assms(1) by (auto simp: h_def bits_def parsed_def parse_configure_def host_simps check_dump_cfg_def Let_def read_hand_def)

lemma cfg_updated [simp]:
  "cfg_u8 (f(n \<mapsto> v)) m = (if m = n then word_of_int v else cfg_u8 f m)"
  "cfg_u32 (f(n \<mapsto> v)) m = (if m = n then word_of_int v else cfg_u32 f m)"
  by (simp_all add: cfg_u8_def cfg_u32_def cfg_getint_def)

lemma no_check:
  "cfg_valid (parsed f h) \<Longrightarrow> cfg_valid (parsed (f(''PHMDIV'' \<mapsto> 0)) h)"
  "cfg_valid (parsed (f(''ROWADDR'' \<mapsto> r, ''COLADDR'' \<mapsto> k)) h) = cfg_valid (parsed f h)"
proof -
  have range: "\<not> (13 < v \<and> v < 11)" for v :: u8 by (auto simp: word_less_nat_alt)
  show "cfg_valid (parsed f h) \<Longrightarrow> cfg_valid (parsed (f(''PHMDIV'' \<mapsto> 0)) h)"
    by (simp add: cfg_valid_def parsed_def read_hand_def Let_def)
  show "cfg_valid (parsed (f(''ROWADDR'' \<mapsto> r, ''COLADDR'' \<mapsto> k)) h) = cfg_valid (parsed f h)"
    using range by (simp add: cfg_valid_def parsed_def read_hand_def Let_def)
qed

text \<open>C39.  What the checks of the configuration miss.  A zero \<^verbatim>\<open>EXTCLK\<close> (its default) ends in a division by zero before any check.  Any accepted
  configuration is still accepted when its \<^verbatim>\<open>PHMDIV\<close> is zero, and the message after the checks then divides by zero.  It is still accepted with
  any numbers of row and column bits, documented as 11 to 13 and 8 to 12, even when the shift that computes the size of the memory
  overflows.\<close>

theorem configuration_check_gaps:
  fixes r k :: int
  defines "parse \<equiv> \<lambda>f path w. run_state (parse_configure (\<lambda>_. Some f) path) w"
  assumes "ub_files w path \<noteq> None"
  shows "(cfg_u8 f ''EXTCLK'' = 0 \<longrightarrow> ub_crash (snd (parse f path w)))
    \<and> (fst (parse f path w) = 1 \<and> \<not> ub_crash (snd (parse f path w)) \<longrightarrow>
        fst (parse (f(''PHMDIV'' \<mapsto> 0)) path w) = 1 \<and> ub_crash (snd (parse (f(''PHMDIV'' \<mapsto> 0)) path w))
      \<and> fst (parse (f(''ROWADDR'' \<mapsto> r, ''COLADDR'' \<mapsto> k)) path w) = 1
      \<and> (r \<in> {0..<256} \<and> k \<in> {0..<256} \<and> 30 < r + k \<longrightarrow> ub_crash (snd (parse (f(''ROWADDR'' \<mapsto> r, ''COLADDR'' \<mapsto> k)) path w))))"
proof -
  obtain x where x: "ub_files w path = Some x" using assms(2) by auto
  note run = run_parse [OF x] no_check
  have "fst (parse f path w) = 1 \<longleftrightarrow> cfg_valid (parsed f (ub_hand w))" by (simp add: parse_def run)
  moreover have "r \<in> {0..<256} \<and> k \<in> {0..<256} \<and> 30 < r + k \<longrightarrow> 30 < uint (word_of_int r :: u8) + uint (word_of_int k :: u8)"
    by (auto simp: uint_word_of_int)
  ultimately show ?thesis by (auto simp: parse_def run)
qed

theorem configuration_check_gaps_witness:
  "ub_crash (snd (run_state (parse_configure (\<lambda>_. Some (nanonote(''EXTCLK'' := None))) ''kernel'') blank_ub))
   \<and> fst (run_state (parse_configure (\<lambda>_. Some (nanonote(''PHMDIV'' \<mapsto> 0))) ''kernel'') blank_ub) = 1
   \<and> ub_crash (snd (run_state (parse_configure (\<lambda>_. Some (nanonote(''PHMDIV'' \<mapsto> 0))) ''kernel'') blank_ub))
   \<and> fst (run_state (parse_configure (\<lambda>_. Some (nanonote(''ROWADDR'' \<mapsto> 99, ''COLADDR'' \<mapsto> 9))) ''kernel'') blank_ub) = 1"
proof -
  have there: "ub_files blank_ub ''kernel'' \<noteq> None" by (simp add: blank_ub_def)
  have "fst (run_state (parse_configure (\<lambda>_. Some nanonote) ''kernel'') blank_ub) = 1
      \<and> \<not> ub_crash (snd (run_state (parse_configure (\<lambda>_. Some nanonote) ''kernel'') blank_ub))"
    by (simp add: parse_configure_def host_simps check_dump_cfg_def read_hand_def Let_def cfg_valid_def cfg_u8_def cfg_u32_def cfg_getint_def
      nanonote_def blank_ub_def)
  then show ?thesis
    using configuration_check_gaps [OF there, of nanonote 99 9] configuration_check_gaps [OF there, of "nanonote(''EXTCLK'' := None)" 0 0]
    by (simp add: cfg_u8_def cfg_getint_def)
qed

section \<open>To the device\<close>

text \<open>The structure \<^verbatim>\<open>hand\<close> as it lies in the memory of the host and as the firmware reads it.\<close>

lemma hand_roundtrip: "dec_hand (enc_hand h) = h \<and> length (enc_hand h) = 88 \<and> dec_fw_args (slice 60 28 (enc_hand h)) = hd_fw_args h"
proof -
  have "slice 60 28 (enc_hand h) = enc_fw_args (hd_fw_args h)"
    by (simp add: enc_hand_def slice_append2 length_hand_words fwa.length_enc)
  then show ?thesis by (simp only: hand.dec_enc hand.length_enc fwa.dec_enc simp_thms)
qed

lemma load_file_patches:
  assumes "ub_files w path = Some \<lparr>f_data = data, f_readable = length data\<rparr>" "ub_openable w path"
    and "36 \<le> length data" "length data \<le> CODE_BUF_BYTES"
  shows "\<exists>w'. run_state (load_file path) w = (1, w') \<and> ub_crash w' = ub_crash w
    \<and> file_bytes w' = take 8 data @ enc_fw_args (hd_fw_args (ub_hand w)) @ drop 36 data"
proof -
  let ?a = "enc_fw_args (hd_fw_args (ub_hand w))"
  let ?buf = "buf_put 8 ?a (buf_put 0 data (code_buf w))"
  have len: "unat (of_nat (length data) :: u32) = length data" using assms(4) by (simp add: CODE_BUF_BYTES_def unat_of_nat)
  have rd: "posix_read \<lparr>f_data = data, f_readable = length data\<rparr> 0 (length data) = (int (length data), data)"
    using read_whole [of "\<lparr>f_data = data, f_readable = length data\<rparr>" 0 "length data"] by (simp add: slice_def)
  have buf: "buf_bytes ?buf 0 (length data) = take 8 data @ ?a @ drop 36 data"
    using assms(3) fwa.length_enc by (intro nth_equalityI) (auto simp: buf_bytes_def buf_put_def nth_append)
  show ?thesis using assms fwa.length_enc len
    by (simp add: load_file_def host_simps set_file_def put_code_def rd file_bytes_def buf CODE_BUF_BYTES_def)
qed

lemma patched_args:
  "36 \<le> length data \<Longrightarrow> dec_fw_args (slice 8 28 (take 8 data @ enc_fw_args a @ drop 36 data)) = a"
  by (simp add: slice_def fwa.length_enc fwa.dec_enc)

text \<open>C25.  \<^verbatim>\<open>load_file\<close> prepares a stage file that fits the buffer: what will be sent is the file with the 28 bytes
  from offset 8 replaced by the arguments of the configuration, in the layout the firmware reads.\<close>

theorem stage_file_patched:
  assumes "ub_files w path = Some \<lparr>f_data = data, f_readable = length data\<rparr>" "ub_openable w path"
    and "36 \<le> length data" "length data \<le> CODE_BUF_BYTES"
  shows "\<exists>w'. run_state (load_file path) w = (1, w')
    \<and> file_bytes w' = take 8 data @ enc_fw_args (hd_fw_args (ub_hand w)) @ drop 36 data
    \<and> dec_fw_args (slice 8 28 (file_bytes w')) = hd_fw_args (ub_hand w) \<and> ub_crash w' = ub_crash w"
  using load_file_patches [OF assms] patched_args [OF assms(3)] by auto

theorem stage_file_patched_witness:
  "\<exists>w'. run_state (load_file ''stage'') (blank_ub\<lparr>ub_files := [''stage'' \<mapsto> \<lparr>f_data = replicate 40 7, f_readable = 40\<rparr>]\<rparr>) = (1, w')
    \<and> file_bytes w' = replicate 8 7 @ enc_fw_args zero_args @ replicate 4 7"
  using stage_file_patched [of "blank_ub\<lparr>ub_files := [''stage'' \<mapsto> \<lparr>f_data = replicate 40 7, f_readable = 40\<rparr>]\<rparr>" "''stage''" "replicate 40 7"]
  by (auto simp: blank_ub_def zero_hand_def CODE_BUF_BYTES_def)

end
