(* ===== verification/Usbboot_Frame.thy ===== *)
theory Usbboot_Frame
  imports Usbboot_Facts Frame
begin

text \<open>
  What the commands of the older host program leave alone, on any device: the files, the paths of
  the stages, the size of the memory and the configuration, but for the fields of it that the commands
  set for the device (processor and debug operation).  The locale \<^verbatim>\<open>config_view\<close> has the commands that at most
  replace the number of the processor, its extension \<^verbatim>\<open>debug_view\<close> those that leave a debug operation in the configuration.
\<close>

text \<open>The configuration without the number of the processor, and without the debug operation too.\<close>

definition without_cpu :: "hand \<Rightarrow> hand" where
  "without_cpu h = h\<lparr>hd_fw_args := (hd_fw_args h)\<lparr>fa_cpu_id := 0\<rparr>\<rparr>"

definition without_debug :: "hand \<Rightarrow> hand" where
  "without_debug h = h\<lparr>hd_fw_args := (hd_fw_args h)\<lparr>fa_cpu_id := 0, fa_debug_ops := 0, fa_pin_num := 0, fa_start := 0, fa_size := 0\<rparr>\<rparr>"

definition settled ::
  "(hand \<Rightarrow> 'c) \<Rightarrow> 'd ub_world \<Rightarrow> 'c \<times> u32 \<times> (string \<Rightarrow> c_file option) \<times> (string \<Rightarrow> bool) \<times> string \<times> string \<times> bool" where
  "settled conf w = (conf (ub_hand w), ub_total_size w, ub_files w, ub_openable w, ub_stage1 w, ub_stage2 w, ub_hung w)"

text \<open>The word that \<^verbatim>\<open>command_handle\<close> looks at.\<close>

definition command_word :: "string \<Rightarrow> string" where
  "command_word buf = (case strtok_all {CHR 0x0A, CHR '' ''} [] buf of [] \<Rightarrow> [] | cmd # args \<Rightarrow> cmd)"

locale config_view =
  fixes conf :: "hand \<Rightarrow> 'c"
  assumes conf_cpu: "conf (h\<lparr>hd_fw_args := (hd_fw_args h)\<lparr>fa_cpu_id := c\<rparr>\<rparr>) = conf h"
begin

abbreviation "kept \<equiv> settled conf"

lemma keeps_marks [keeps]: "keeps kept (crash_if b)" "keeps kept (report r)"
  by (simp_all add: keeps_def settled_def host_simps)

section \<open>Device access\<close>

lemma keeps_vendor [keeps]: "keeps kept (vendor_out L r v i)"
  unfolding vendor_out_def by (intro keeps keeps_update) (simp add: settled_def)

lemma keeps_requests [keeps]: "keeps kept (usb_ingenic_flush_cache L)" "keeps kept (usb_send_data_length_to_ingenic L n)"
  "keeps kept (usb_send_data_address_to_ingenic L n)" "keeps kept (usb_ingenic_start L q n)"
  "keeps kept (usb_ingenic_nand_ops L n)" "keeps kept (usb_ingenic_configration L n)"
  "keeps kept (usb_ingenic_sdram_ops L n)" "keeps kept (usb_ingenic_reset L n)"
  unfolding usb_ingenic_flush_cache_def usb_send_data_length_to_ingenic_def usb_send_data_address_to_ingenic_def
    usb_ingenic_start_def usb_ingenic_nand_ops_def usb_ingenic_configration_def usb_ingenic_sdram_ops_def usb_ingenic_reset_def
  by (intro keeps)+

lemma keeps_transfers [keeps]: "keeps kept (usb_get_ingenic_cpu L)" "keeps kept (usb_send_data_to_ingenic L)"
  "keeps kept (usb_read_data_from_ingenic L n)"
  unfolding usb_get_ingenic_cpu_def usb_send_data_to_ingenic_def usb_read_data_from_ingenic_def
  by (intro keeps keeps_update; simp add: settled_def)+

lemma keeps_upload [keeps]: "keeps kept (usb_ingenic_upload L n)"
  unfolding usb_ingenic_upload_def by (intro keeps)

section \<open>Commands\<close>

lemma keeps_parts [keeps]: "keeps kept (put_code k bs)" "keeps kept (set_file p n)" "keeps kept (read_ret L)"
  "keeps kept ret_word" "keeps kept (ppb_div n)" "keeps kept (com_arg k)" "keeps kept (num_arg k)"
  "keeps kept init_nand_in" "keeps kept (upd_nand_in f)" "keeps kept (set_cs i)"
  unfolding put_code_def set_file_def read_ret_def ret_word_def ppb_div_def com_arg_def num_arg_def init_nand_in_def
    upd_nand_in_def set_cs_def
  by (intro keeps keeps_update; simp add: settled_def)+

lemma keeps_set_fa: "(\<And>h. conf (h\<lparr>hd_fw_args := f (hd_fw_args h)\<rparr>) = conf h) \<Longrightarrow> keeps kept (set_fa f)"
  unfolding set_fa_def by (intro keeps_update) (simp add: settled_def)

lemma keeps_cpu [keeps]: "keeps kept (get_ingenic_cpu L)"
  unfolding get_ingenic_cpu_def by (intro keeps keeps_set_fa) (rule conf_cpu)

lemma keeps_boot [keeps]: "keeps kept (load_file p)" "keeps kept (init_cfg L)" "keeps kept (load_stage L p n)"
    "keeps kept (boot L p q)"
proof -
  show 1: "keeps kept (load_file p)" for p unfolding load_file_def by (intro keeps)
  show 2: "keeps kept (init_cfg L)" unfolding init_cfg_def by (intro keeps)
  show 3: "keeps kept (load_stage L p n)" for p n unfolding load_stage_def by (intro keeps 1)
  show "keeps kept (boot L p q)" unfolding boot_def by (intro keeps 2 3)
qed

lemma keeps_markbad [keeps]: "keeps kept (nand_markbad L n)"
  unfolding nand_markbad_def by (intro keeps)

lemma keeps_program_chip [keeps]: "keeps kept (program_chip L ni i)"
  unfolding program_chip_def by (intro keeps keeps_update; simp add: settled_def)

lemma keeps_program_chips [keeps]: "keeps kept (program_chips L ni i n p)"
  by (induction n arbitrary: i p) (simp_all, (intro keeps | simp)+)

lemma keeps_program_check [keeps]: "keeps kept (nand_program_check L ni)"
  unfolding nand_program_check_def by (intro keeps)

lemma keeps_erase [keeps]: "keeps kept (erase_chips L a b i n)" "keeps kept (nand_erase L a b)"
proof -
  show *: "keeps kept (erase_chips L a b i n)" for i n
    by (induction n arbitrary: i) (simp_all, (intro keeps | simp)+)
  show "keeps kept (nand_erase L a b)" unfolding nand_erase_def by (intro keeps *)
qed

lemma keeps_program_blocks [keeps]: "keeps kept (program_blocks L f t ni pos n)"
  by (induction n arbitrary: ni pos) (simp_all, (intro keeps | simp)+)

lemma keeps_program [keeps]: "keeps kept (nand_program_file L ni p)" "keeps kept (nand_prog L)"
proof -
  have 1: "keeps kept (program_rest L f ni pos j)" for f ni pos j unfolding program_rest_def by (intro keeps)
  show 2: "keeps kept (nand_program_file L ni p)" for ni p unfolding nand_program_file_def by (intro keeps 1)
  show "keeps kept (nand_prog L)" unfolding nand_prog_def by (intro keeps 2)
qed

lemma keeps_nand [keeps]: "keeps kept (nand_query L)" "keeps kept (nand_read L m)"
  unfolding nand_query_def nand_read_def by (intro keeps)+

lemma keeps_go [keeps]: "keeps kept (debug_go L)" "keeps kept (run_stage1 L)"
  unfolding debug_go_def run_stage1_def by (intro keeps)+

lemma keeps_sdram [keeps]: "keeps kept (sdram_load L a n)" "keeps kept (load_blocks L f a pos k)"
    "keeps kept (sdram_load_file L a p)" "keeps kept (device_reset L n)"
proof -
  show 1: "keeps kept (sdram_load L a n)" for a n unfolding sdram_load_def by (intro keeps)
  show 2: "keeps kept (load_blocks L f a pos k)" for f a pos k
    by (induction k arbitrary: a pos) (simp_all, (intro keeps 1 | simp)+)
  have 3: "keeps kept (load_rest L f a pos j)" for f a pos j unfolding load_rest_def by (intro keeps 1)
  show "keeps kept (sdram_load_file L a p)" unfolding sdram_load_file_def by (intro keeps 2 3)
  show "keeps kept (device_reset L n)" unfolding device_reset_def by (intro keeps)
qed

lemma keeps_handlers [keeps]: "keeps kept (handle_nerase L)" "keeps kept (handle_nmark L)" "keeps kept (handle_load L)"
  unfolding handle_nerase_def handle_nmark_def handle_load_def
  by (intro keeps keeps_update; simp add: settled_def)+

text \<open>The rest of \<^verbatim>\<open>command_handle\<close>, and all of it for the lines that do not debug.\<close>

lemma keeps_command_if:
  assumes "command_word buf \<in> {''memtest'', ''gpios'', ''gpioc''} \<Longrightarrow> keeps kept (handle_memtest L) \<and> (\<forall>m. keeps kept (handle_gpio L m))"
  shows "keeps kept (command_handle L buf)"
proof (cases "strtok_all {CHR 0x0A, CHR '' ''} [] buf")
  case Nil
  then show ?thesis unfolding command_handle_def by (simp, intro keeps)
next
  case (Cons cmd args)
  then have "cmd = ''memtest'' \<Longrightarrow> keeps kept (handle_memtest L)" "cmd = ''gpios'' \<Longrightarrow> keeps kept (handle_gpio L m)"
      "cmd = ''gpioc'' \<Longrightarrow> keeps kept (handle_gpio L m)" for m
    using assms by (auto simp: command_word_def)
  then show ?thesis
    unfolding command_handle_def Cons list.case by (intro keeps keeps_update) (simp_all add: settled_def)
qed

end

locale debug_view = config_view +
  assumes conf_debug: "conf (h\<lparr>hd_fw_args := (hd_fw_args h)\<lparr>fa_debug_ops := op, fa_pin_num := pin\<rparr>\<rparr>) = conf h"
    and conf_range: "conf (h\<lparr>hd_fw_args := (hd_fw_args h)\<lparr>fa_cpu_id := c, fa_debug_ops := op, fa_start := x, fa_size := n\<rparr>\<rparr>) = conf h"
begin

lemma keeps_debug [keeps]: "keeps kept (debug_memory L a n)" "keeps kept (debug_gpio L ops pin)"
  unfolding debug_memory_def debug_gpio_def
  by (intro keeps keeps_set_fa; simp add: conf_cpu conf_debug conf_range)+

lemma keeps_debug_handlers [keeps]: "keeps kept (handle_memtest L)" "keeps kept (handle_gpio L m)"
  unfolding handle_memtest_def handle_gpio_def by (intro keeps)+

lemma keeps_command: "keeps kept (command_handle L buf)"
  by (rule keeps_command_if) (auto intro: keeps_debug_handlers)

end

interpretation no_cpu: config_view without_cpu
  by unfold_locales (simp add: without_cpu_def)

interpretation no_debug: debug_view without_debug
  by unfold_locales (simp_all add: without_debug_def)

lemma same_without:
  "without_cpu h' = without_cpu h \<Longrightarrow> \<exists>cpu. h' = h\<lparr>hd_fw_args := (hd_fw_args h)\<lparr>fa_cpu_id := cpu\<rparr>\<rparr>"
  "without_debug h' = without_debug h \<Longrightarrow> \<exists>cpu ops pin start size. h' = h\<lparr>hd_fw_args := (hd_fw_args h)\<lparr>fa_cpu_id := cpu,
     fa_debug_ops := ops, fa_pin_num := pin, fa_start := start, fa_size := size\<rparr>\<rparr>"
  by (cases h; cases h'; cases "hd_fw_args h"; cases "hd_fw_args h'"; auto simp: without_cpu_def without_debug_def)+

text \<open>C26.  What a command line may change, on any device, when it meets no undefined behaviour: the size of the memory, the paths of the
  stages, the files, and every NAND, clock, serial and memory setting of the configuration stay as they were read at the start.  The number of
  the processor is overwritten with the one that the device reports, and \<^verbatim>\<open>memtest\<close>, \<^verbatim>\<open>gpios\<close> and \<^verbatim>\<open>gpioc\<close> leave their operation, pin
  and range in the four debug fields; no other command touches those.\<close>

theorem commands_keep_configuration:
  defines "w' \<equiv> \<lambda>L buf w. snd (run_state (command_handle L buf) w)"
  assumes "\<not> ub_crash (w' L buf w)"
  shows "ub_total_size (w' L buf w) = ub_total_size w \<and> ub_files (w' L buf w) = ub_files w
    \<and> ub_stage1 (w' L buf w) = ub_stage1 w \<and> ub_stage2 (w' L buf w) = ub_stage2 w
    \<and> (\<exists>cpu ops pin start size. ub_hand (w' L buf w) = (ub_hand w)\<lparr>hd_fw_args := (hd_fw_args (ub_hand w))\<lparr>fa_cpu_id := cpu,
         fa_debug_ops := ops, fa_pin_num := pin, fa_start := start, fa_size := size\<rparr>\<rparr>)
    \<and> (command_word buf \<notin> {''memtest'', ''gpios'', ''gpioc''}
        \<longrightarrow> (\<exists>cpu. ub_hand (w' L buf w) = (ub_hand w)\<lparr>hd_fw_args := (hd_fw_args (ub_hand w))\<lparr>fa_cpu_id := cpu\<rparr>\<rparr>))"
proof -
  have all: "settled without_debug (w' L buf w) = settled without_debug w"
    using no_debug.keeps_command [of L buf] by (simp only: keeps_def w'_def)
  have "command_word buf \<notin> {''memtest'', ''gpios'', ''gpioc''} \<Longrightarrow> settled without_cpu (w' L buf w) = settled without_cpu w"
    using no_cpu.keeps_command_if [of buf L] by (simp only: keeps_def w'_def simp_thms)
  then have "command_word buf \<notin> {''memtest'', ''gpios'', ''gpioc''}
      \<longrightarrow> (\<exists>cpu. ub_hand (w' L buf w) = (ub_hand w)\<lparr>hd_fw_args := (hd_fw_args (ub_hand w))\<lparr>fa_cpu_id := cpu\<rparr>\<rparr>)"
    using same_without(1) [of "ub_hand (w' L buf w)" "ub_hand w"] by (simp only: settled_def prod.inject simp_thms) blast
  then show ?thesis
    using all same_without(2) [of "ub_hand (w' L buf w)" "ub_hand w"] by (simp only: settled_def prod.inject simp_thms)
qed

lemma commands_keep_configuration_witness:
  "hd_nand_ps (ub_hand (snd (run_state (command_handle (ub_recorder dead_device []) ''memtest'') blank_ub))) = 2048
   \<and> fa_debug_ops (hd_fw_args (ub_hand (snd (run_state (command_handle (ub_recorder dead_device []) ''go 0x80000000 now'') blank_ub)))) = 0"
proof -
  let ?L = "ub_recorder dead_device []"
  have words: "strtok_all {CHR 0x0A, CHR '' ''} [] ''memtest'' = [''memtest'']"
      "strtok_all {CHR 0x0A, CHR '' ''} [] ''go 0x80000000 now'' = [''go'', ''0x80000000'', ''now'']" by simp_all
  have 1: "\<not> ub_crash (snd (run_state (command_handle ?L ''memtest'') blank_ub))"
    by (simp add: command_handle_def words host_simps handle_memtest_def debug_memory_def com_arg_def get_ingenic_cpu_def usb_get_ingenic_cpu_def
      set_fa_def blank_ub_def split_def Let_def)
  have 2: "\<not> ub_crash (snd (run_state (command_handle ?L ''go 0x80000000 now'') blank_ub))"
    by (simp add: command_handle_def words host_simps debug_go_def com_arg_def usb_ingenic_start_def vendor_out_def blank_ub_def split_def Let_def)
  show ?thesis
    using commands_keep_configuration [OF 1] commands_keep_configuration [OF 2]
    by (auto simp: command_word_def words blank_ub_def zero_hand_def zero_args_def)
qed

section \<open>The prompt\<close>

definition is_exit :: "string \<Rightarrow> bool" where
  "is_exit l \<longleftrightarrow> (case strtok_all {CHR 0x0A, CHR '' ''} [] l of [] \<Rightarrow> False | cmd # _ \<Rightarrow> cmd = ''exit'')"

lemma command_result: "fst (run_state (command_handle L l) w) = (if is_exit l then -1 else 0)"
  by (auto simp: command_handle_def is_exit_def host_simps split: list.splits prod.splits)

lemma command_hung: "ub_hung (snd (run_state (command_handle L l) w)) = ub_hung w"
  using no_debug.keeps_command [of L l] by (simp add: keeps_def settled_def)

text \<open>The prompt ends exactly if some line of the input is the command \<^verbatim>\<open>exit\<close>; an input that ends
  without it keeps the program running for ever, on any device.\<close>

theorem prompt_ends_iff_exit:
  "ub_hung (snd (run_state (prompt_loop L ls) w)) = (ub_hung w \<or> find is_exit ls = None)"
proof (induction ls arbitrary: w)
  case Nil
  then show ?case by (simp add: host_simps)
next
  case (Cons l ls)
  obtain r w1 where 1: "run_state (command_handle L l) w = (r, w1)" by (cases "run_state (command_handle L l) w")
  then have "r = (if is_exit l then -1 else 0)" "ub_hung w1 = ub_hung w"
    using command_result [of L l w] command_hung [of L l w] by simp_all
  with 1 Cons.IH [of w1] show ?case by (simp add: host_simps)
qed

end
