(* ===== verification/Stage1_State.thy ===== *)
theory Stage1_State
  imports Boothandler
begin

unbundle bit_operations_syntax

text \<open>
  The first stage of \<^verbatim>\<open>usbboot\<close>, \<^verbatim>\<open>usbboot/xburst_stage1\<close>: its globals (\<^verbatim>\<open>main.c\<close>), the registers it
  accesses and its serial port (\<^verbatim>\<open>common.c\<close>).  It runs from the locked cache at 0x80002000, which is
  \<^verbatim>\<open>s1_mem\<close>; the hardware is the parameter \<^verbatim>\<open>mmio\<close>, whose 32-bit accesses are also those to the
  uncached memory.  A wait for the hardware takes the number \<^verbatim>\<open>P\<close> of turns it may make, and
  one that would need more marks the program as hung.  A division by zero, an index outside a table and the use of an
  uninitialised variable set \<^verbatim>\<open>s1_ub\<close>.  The delay loops are left out.
\<close>

section \<open>State\<close>

record 'h st1 =
  s1_hw :: 'h
  s1_mem :: "u32 \<Rightarrow> u8"
  CPU_ID :: u32
  UART_BASE :: u32
  CONFIG_BAUDRATE :: u32
  SDRAM_BW16 :: u8
  SDRAM_BANK4 :: u8
  SDRAM_ROW :: u8
  SDRAM_COL :: u8
  CONFIG_MOBILE_SDRAM :: u8
  CFG_CPU_SPEED :: u32
  CFG_EXTAL :: u32
  PHM_DIV :: u8
  IS_SHARE :: u8
  s1_junk :: u32
  s1_rom :: bool
  s1_hung :: bool
  s1_ub :: bool

type_synonym ('h, 'a) s1 = "('h st1, 'a) state"

definition s1_gets :: "('h st1 \<Rightarrow> 'a) \<Rightarrow> ('h, 'a) s1" where
  "s1_gets g = do { s \<leftarrow> State_Monad.get; State_Monad.return (g s) }"

definition s1_mark :: "bool \<Rightarrow> ('h, unit) s1" where
  "s1_mark b = State_Monad.update (\<lambda>s. s\<lparr>s1_ub := s1_ub s \<or> b\<rparr>)"

definition s1_read :: "('h \<Rightarrow> 'a \<times> 'h) \<Rightarrow> ('h, 'a) s1" where
  "s1_read g = do {
     h \<leftarrow> s1_gets s1_hw;
     State_Monad.update (\<lambda>s. s\<lparr>s1_hw := snd (g h)\<rparr>);
     State_Monad.return (fst (g h)) }"

definition s1_write :: "('h \<Rightarrow> 'h) \<Rightarrow> ('h, unit) s1" where
  "s1_write g = State_Monad.update (\<lambda>s. s\<lparr>s1_hw := g (s1_hw s)\<rparr>)"

lemma run_s1_gets [host_simps]: "run_state (s1_gets g) s = (g s, s)"
  by (simp add: s1_gets_def)

lemma run_s1_mark [host_simps]: "run_state (s1_mark b) s = ((), s\<lparr>s1_ub := s1_ub s \<or> b\<rparr>)"
  by (simp add: s1_mark_def host_simps)

lemma run_s1_read [host_simps]: "run_state (s1_read g) s = (fst (g (s1_hw s)), s\<lparr>s1_hw := snd (g (s1_hw s))\<rparr>)"
  by (simp add: s1_read_def host_simps)

lemma run_s1_write [host_simps]: "run_state (s1_write g) s = ((), s\<lparr>s1_hw := g (s1_hw s)\<rparr>)"
  by (simp add: s1_write_def host_simps)

text \<open>\<^verbatim>\<open>REG8\<close>, \<^verbatim>\<open>REG16\<close> and \<^verbatim>\<open>REG32\<close>\<close>

definition get8 :: "'h mmio \<Rightarrow> u32 \<Rightarrow> ('h, u8) s1" where "get8 M a = s1_read (io_r8 M a)"
definition put8 :: "'h mmio \<Rightarrow> u32 \<Rightarrow> u8 \<Rightarrow> ('h, unit) s1" where "put8 M a v = s1_write (io_w8 M a v)"
definition put16 :: "'h mmio \<Rightarrow> u32 \<Rightarrow> u16 \<Rightarrow> ('h, unit) s1" where "put16 M a v = s1_write (io_w16 M a v)"
definition get32 :: "'h mmio \<Rightarrow> u32 \<Rightarrow> ('h, u32) s1" where "get32 M a = s1_read (io_r32 M a)"
definition put32 :: "'h mmio \<Rightarrow> u32 \<Rightarrow> u32 \<Rightarrow> ('h, unit) s1" where "put32 M a v = s1_write (io_w32 M a v)"

lemmas s1_reg_defs = get8_def put8_def put16_def get32_def put32_def

fun put32s :: "'h mmio \<Rightarrow> (u32 \<times> u32) list \<Rightarrow> ('h, unit) s1" where
  "put32s M [] = State_Monad.return ()"
| "put32s M ((a, v) # ws) = do { put32 M a v; put32s M ws }"

fun s1_wait :: "nat \<Rightarrow> ('h, bool) s1 \<Rightarrow> ('h, unit) s1" where
  "s1_wait 0 ready = State_Monad.update (\<lambda>s. s\<lparr>s1_hung := True\<rparr>)"
| "s1_wait (Suc n) ready = do { r \<leftarrow> ready; if r then State_Monad.return () else s1_wait n ready }"

section \<open>Serial port\<close>

definition UART0_BASE :: u32 where "UART0_BASE = 0xB0030000"
definition OFF_TDR :: u32 where "OFF_TDR = 0x00"
definition OFF_RDR :: u32 where "OFF_RDR = 0x00"
definition OFF_DLLR :: u32 where "OFF_DLLR = 0x00"
definition OFF_DLHR :: u32 where "OFF_DLHR = 0x04"
definition OFF_IER :: u32 where "OFF_IER = 0x04"
definition OFF_FCR :: u32 where "OFF_FCR = 0x08"
definition OFF_LCR :: u32 where "OFF_LCR = 0x0C"
definition OFF_LSR :: u32 where "OFF_LSR = 0x14"
definition OFF_SIRCR :: u32 where "OFF_SIRCR = 0x20"

lemmas uart_defs = UART0_BASE_def OFF_TDR_def OFF_RDR_def OFF_DLLR_def OFF_DLHR_def OFF_IER_def OFF_FCR_def OFF_LCR_def
  OFF_LSR_def OFF_SIRCR_def

text \<open>The wait of \<^verbatim>\<open>serial_putc\<close> and the write of one byte; a line feed is preceded by a carriage return.\<close>

definition uart_idle :: "'h mmio \<Rightarrow> ('h, bool) s1" where
  "uart_idle M = do {
     base \<leftarrow> s1_gets UART_BASE;
     lsr \<leftarrow> get8 M (base + OFF_LSR);
     State_Monad.return (lsr AND 0x60 = 0x60) }"

definition uart_send :: "'h mmio \<Rightarrow> nat \<Rightarrow> u8 \<Rightarrow> ('h, unit) s1" where
  "uart_send M P b = do {
     s1_wait P (uart_idle M);
     base \<leftarrow> s1_gets UART_BASE;
     put8 M (base + OFF_TDR) b }"

definition serial_putc :: "'h mmio \<Rightarrow> nat \<Rightarrow> u8 \<Rightarrow> ('h, unit) s1" where
  "serial_putc M P b = do {
     (if b = 0x0A then uart_send M P 0x0D else State_Monad.return ());
     uart_send M P b }"

fun serial_put_bytes :: "'h mmio \<Rightarrow> nat \<Rightarrow> bytes \<Rightarrow> ('h, unit) s1" where
  "serial_put_bytes M P [] = State_Monad.return ()"
| "serial_put_bytes M P (b # bs) = do { serial_putc M P b; serial_put_bytes M P bs }"

definition serial_puts :: "'h mmio \<Rightarrow> nat \<Rightarrow> string \<Rightarrow> ('h, unit) s1" where
  "serial_puts M P s = serial_put_bytes M P (ascii s)"

definition serial_tstc :: "'h mmio \<Rightarrow> ('h, bool) s1" where
  "serial_tstc M = do {
     base \<leftarrow> s1_gets UART_BASE;
     lsr \<leftarrow> get8 M (base + OFF_LSR);
     State_Monad.return (lsr AND 1 \<noteq> 0) }"

definition serial_getc :: "'h mmio \<Rightarrow> nat \<Rightarrow> ('h, u8) s1" where
  "serial_getc M P = do {
     s1_wait P (serial_tstc M);
     base \<leftarrow> s1_gets UART_BASE;
     get8 M (base + OFF_RDR) }"

text \<open>The bytes that \<^verbatim>\<open>serial_put_hex\<close> puts into its buffer.\<close>

definition hex_byte :: "u32 \<Rightarrow> nat \<Rightarrow> u8" where
  "hex_byte d i = (let v = (ucast (drop_bit ((7 - i) * 4) d AND 0xf) :: u8) in if v < 10 then v + 0x30 else v + (0x41 - 10))"

definition hex_bytes :: "u32 \<Rightarrow> bytes" where
  "hex_bytes d = List.map (hex_byte d) [0..<8]"

definition serial_put_hex :: "'h mmio \<Rightarrow> nat \<Rightarrow> u32 \<Rightarrow> ('h, unit) s1" where
  "serial_put_hex M P d = serial_put_bytes M P (hex_bytes d @ [0x0A])"

text \<open>\<^verbatim>\<open>serial_setbrg_4740\<close> and \<^verbatim>\<open>serial_setbrg_4760\<close> differ only in the divisor.\<close>

definition set_divisor :: "'h mmio \<Rightarrow> u32 \<Rightarrow> ('h, unit) s1" where
  "set_divisor M baud_div = do {
     base \<leftarrow> s1_gets UART_BASE;
     tmp \<leftarrow> get8 M (base + OFF_LCR);
     put8 M (base + OFF_LCR) (tmp OR 0x80);
     put8 M (base + OFF_DLHR) (ucast (drop_bit 8 baud_div AND 0xff));
     put8 M (base + OFF_DLLR) (ucast (baud_div AND 0xff));
     put8 M (base + OFF_LCR) ((tmp OR 0x80) AND NOT 0x80) }"

definition serial_setbrg_4740 :: "'h mmio \<Rightarrow> ('h, unit) s1" where
  "serial_setbrg_4740 M = do {
     s \<leftarrow> s1_gets (\<lambda>s. s);
     s1_mark (CONFIG_BAUDRATE s = 0);
     set_divisor M (CFG_EXTAL s div 16 div CONFIG_BAUDRATE s) }"

text \<open>In \<^verbatim>\<open>board-jz4760.c\<close> the names \<^verbatim>\<open>CFG_EXTAL\<close> and \<^verbatim>\<open>CFG_CPU_SPEED\<close> are macros of \<^verbatim>\<open>board-jz4760.h\<close>.\<close>

definition CFG_EXTAL_4760 :: u32 where "CFG_EXTAL_4760 = 12000000"
definition CFG_CPU_SPEED_4760 :: u32 where "CFG_CPU_SPEED_4760 = 144000000"

definition serial_setbrg_4760 :: "'h mmio \<Rightarrow> ('h, unit) s1" where
  "serial_setbrg_4760 M = set_divisor M (CFG_EXTAL_4760 div 16 div 57600)"

definition serial_init :: "'h mmio \<Rightarrow> ('h, unit) s1" where
  "serial_init M = do {
     base \<leftarrow> s1_gets UART_BASE;
     cpu \<leftarrow> s1_gets CPU_ID;
     put8 M (base + OFF_IER) 0;
     put8 M (base + OFF_FCR) (NOT 0x10);
     put8 M (base + OFF_SIRCR) (NOT 3);
     put8 M (base + OFF_LCR) 3;
     (if cpu = 0x4740 then serial_setbrg_4740 M else serial_setbrg_4760 M);
     put8 M (base + OFF_FCR) 0x17 }"

end
