(* ===== verification/Stage1_4740.thy ===== *)
theory Stage1_4740
  imports Stage1_State Nandflash_4740
begin

unbundle bit_operations_syntax

text \<open>
  The first stage on the JZ4740, \<^verbatim>\<open>usbboot/xburst_stage1/board-jz4740.c\<close>: pins, clocks and SDRAM.
\<close>

section \<open>Pins\<close>

definition FUNS :: "u32 \<Rightarrow> u32" where "FUNS = GPIO_PX 0x44"
definition FUNC :: "u32 \<Rightarrow> u32" where "FUNC = GPIO_PX 0x48"
definition SELS :: "u32 \<Rightarrow> u32" where "SELS = GPIO_PX 0x54"
definition SELC :: "u32 \<Rightarrow> u32" where "SELC = GPIO_PX 0x58"
definition DIRS :: "u32 \<Rightarrow> u32" where "DIRS = GPIO_PX 0x64"
definition DIRC :: "u32 \<Rightarrow> u32" where "DIRC = GPIO_PX 0x68"
definition PES :: "u32 \<Rightarrow> u32" where "PES = GPIO_PX 0x34"
definition TRGS :: "u32 \<Rightarrow> u32" where "TRGS = GPIO_PX 0x74"
definition TRGC :: "u32 \<Rightarrow> u32" where "TRGC = GPIO_PX 0x78"
definition DATS :: "u32 \<Rightarrow> u32" where "DATS = GPIO_PX 0x14"
definition DATC :: "u32 \<Rightarrow> u32" where "DATC = GPIO_PX 0x18"

lemmas gpio_defs = FUNS_def FUNC_def SELS_def SELC_def DIRS_def DIRC_def PES_def TRGS_def TRGC_def DATS_def DATC_def
  GPIO_PX_def GPIO_BASE_def

definition pins_nand :: "(u32 \<times> u32) list" where
  "pins_nand = [(FUNS 1, 0x02018000), (SELC 1, 0x02018000), (PES 1, 0x02018000),
     (FUNS 2, 0x30000000), (SELC 2, 0x30000000), (PES 2, 0x30000000),
     (FUNC 2, 0x40000000), (SELC 2, 0x40000000), (DIRC 2, 0x40000000), (PES 2, 0x40000000),
     (FUNS 1, 0x00400000), (SELC 1, 0x00400000)]"

definition pins_sdram_32bit :: "(u32 \<times> u32) list" where
  "pins_sdram_32bit = [(FUNS 0, 0xffffffff), (SELC 0, 0xffffffff), (PES 0, 0xffffffff),
     (FUNS 1, 0x81f9ffff), (SELC 1, 0x81f9ffff), (PES 1, 0x81f9ffff),
     (FUNS 2, 0x07000000), (SELC 2, 0x07000000), (PES 2, 0x07000000)]"

definition pins_uart0 :: "(u32 \<times> u32) list" where
  "pins_uart0 = [(FUNS 3, 0x06000000), (SELS 3, 0x06000000), (PES 3, 0x06000000)]"

definition pins_uart1 :: "(u32 \<times> u32) list" where
  "pins_uart1 = [(FUNS 3, 0xc0000000), (SELC 3, 0xc0000000), (TRGS 3, 0xc0000000), (PES 3, 0xc0000000)]"

definition gpio_init_4740 :: "'h mmio \<Rightarrow> ('h, unit) s1" where
  "gpio_init_4740 M = do {
     put32s M pins_nand;
     put32s M pins_sdram_32bit;
     put32s M pins_uart0;
     put32s M pins_uart1 }"

section \<open>Clocks\<close>

definition CPM_BASE :: u32 where "CPM_BASE = 0xB0000000"
definition CPM_CPCCR :: u32 where "CPM_CPCCR = CPM_BASE + 0x00"
definition CPM_CPPCR :: u32 where "CPM_CPPCR = CPM_BASE + 0x10"
definition CPM_UHCCDR :: u32 where "CPM_UHCCDR = CPM_BASE + 0x6C"

text \<open>The table \<^verbatim>\<open>n2FR\<close>, from divisors to their codes.\<close>

definition n2FR :: "u32 list" where
  "n2FR = [0, 0, 1, 2, 3, 0, 4, 0, 5, 0, 0, 0, 6, 0, 0, 0, 7, 0, 0, 0, 0, 0, 0, 0, 8, 0, 0, 0, 0, 0, 0, 0, 9]"

definition clock_dividers :: "u32 list" where
  "clock_dividers = [1, 2, 3, 4, 6, 8, 12, 16, 24, 32]"

definition cfcr_4740 :: "u32 \<Rightarrow> u32" where
  "cfcr_4740 code = push_bit 30 1 OR n2FR ! 1 OR push_bit 4 code OR push_bit 8 code OR push_bit 12 code OR push_bit 16 code"

definition plcr1_4740 :: "u32 \<Rightarrow> u32" where
  "plcr1_4740 m = push_bit 23 (m - 2) OR push_bit 18 0 OR push_bit 16 0 OR 0x20 OR push_bit 8 1"

text \<open>\<^verbatim>\<open>pllout2\<close> is an \<^verbatim>\<open>int\<close>.\<close>

definition pll_init_4740 :: "'h mmio \<Rightarrow> ('h, unit) s1" where
  "pll_init_4740 M = do {
     s \<leftarrow> s1_gets (\<lambda>s. s);
     s1_mark (unat (PHM_DIV s) \<ge> length n2FR \<or> CFG_EXTAL s = 0);
     let cfcr = cfcr_4740 (n2FR ! unat (PHM_DIV s));
     let pllout2 = (if cfcr AND push_bit 21 1 \<noteq> 0 then CFG_CPU_SPEED s else CFG_CPU_SPEED s div 2);
     put32 M CPM_UHCCDR (word_of_int (sint pllout2 sdiv 48000000 - 1));
     put32 M CPM_CPCCR cfcr;
     put32 M CPM_CPPCR (plcr1_4740 (CFG_CPU_SPEED s * 2 div CFG_EXTAL s)) }"

text \<open>\<^verbatim>\<open>__cpm_get_pllout\<close> of \<^verbatim>\<open>jz4740.h\<close>, the frequency that a value of the register stands for, as
  the manufacturer's header computes it.\<close>

definition pllout_4740 :: "u32 \<Rightarrow> u32 \<Rightarrow> u32" where
  "pllout_4740 extal cppcr = (if cppcr AND push_bit 8 1 \<noteq> 0 \<and> cppcr AND push_bit 9 1 = 0
     then extal div ((drop_bit 18 (cppcr AND 0x007c0000) + 2) * [1, 2, 2, 4] ! unat (drop_bit 16 (cppcr AND 0x00030000)))
       * (drop_bit 23 (cppcr AND 0xff800000) + 2)
     else extal)"

definition cpm_get_cdiv :: "'h mmio \<Rightarrow> ('h, u32) s1" where
  "cpm_get_cdiv M = do { v \<leftarrow> get32 M CPM_CPCCR; State_Monad.return (v AND 0xf) }"

definition cpm_get_mdiv :: "'h mmio \<Rightarrow> ('h, u32) s1" where
  "cpm_get_mdiv M = do { v \<leftarrow> get32 M CPM_CPCCR; State_Monad.return (drop_bit 12 (v AND 0xf000)) }"

section \<open>SDRAM\<close>

definition EMC_BCR :: u32 where "EMC_BCR = EMC_BASE + 0x0"
definition EMC_DMCR :: u32 where "EMC_DMCR = EMC_BASE + 0x80"
definition EMC_RTCSR :: u32 where "EMC_RTCSR = EMC_BASE + 0x84"
definition EMC_RTCNT :: u32 where "EMC_RTCNT = EMC_BASE + 0x88"
definition EMC_RTCOR :: u32 where "EMC_RTCOR = EMC_BASE + 0x8c"
definition EMC_SDMR0 :: u32 where "EMC_SDMR0 = EMC_BASE + 0xa000"

lemmas emc_defs = EMC_BCR_def EMC_DMCR_def EMC_RTCSR_def EMC_RTCNT_def EMC_RTCOR_def EMC_SDMR0_def EMC_BASE_def

text \<open>\<^verbatim>\<open>configs.h\<close>: \<^verbatim>\<open>SDRAM_CASL\<close> is 3, and the timings in nanoseconds.\<close>

definition SDRAM_TRAS :: u32 where "SDRAM_TRAS = 45"
definition SDRAM_RCD :: u32 where "SDRAM_RCD = 20"
definition SDRAM_TPC :: u32 where "SDRAM_TPC = 20"
definition SDRAM_TRWL :: u32 where "SDRAM_TRWL = 7"
definition SDRAM_TREF :: u32 where "SDRAM_TREF = 15625"

lemmas sdram_timing_defs = SDRAM_TRAS_def SDRAM_RCD_def SDRAM_TPC_def SDRAM_TRWL_def SDRAM_TREF_def

text \<open>The \<^verbatim>\<open>int\<close> shifts of the byte arguments: a row below 11 or a column below 8 is negative.\<close>

definition dmcr_geometry :: "u32 \<Rightarrow> u32 \<Rightarrow> u32 \<Rightarrow> u32 \<Rightarrow> u32" where
  "dmcr_geometry row col bank bw = push_bit 20 (row - 11) OR push_bit 26 (col - 8) OR push_bit 19 bank OR push_bit 31 bw
     OR push_bit 17 1 OR 2"

definition dmcr_timing :: "u32 \<Rightarrow> u32" where
  "dmcr_timing ns = (let
     tras = min 11 (max 4 (SDRAM_TRAS div ns));
     rcd = min 3 (SDRAM_RCD div ns);
     tpc = min 7 (SDRAM_TPC div ns);
     trwl = min 3 (SDRAM_TRWL div ns);
     trc = min 14 ((SDRAM_TRAS + SDRAM_TPC) div ns)
     in push_bit 13 (tras - 4) OR push_bit 11 rcd OR push_bit 8 tpc OR push_bit 5 trwl OR push_bit 2 (drop_bit 1 (trc + 1)))"

definition SDMODE :: u32 where "SDMODE = 0x32"

definition refresh_count :: "u32 \<Rightarrow> u32" where
  "refresh_count ns = min 0xff (SDRAM_TREF div ns div 64 + 1)"

text \<open>The accesses after the computation of the clock.\<close>

definition sdram_program :: "'h mmio \<Rightarrow> u32 \<Rightarrow> ('h, unit) s1" where
  "sdram_program M mem_clk = do {
     s \<leftarrow> s1_gets (\<lambda>s. s);
     put32 M EMC_BCR 0;
     put16 M EMC_RTCSR 0;
     let bw = (ucast (SDRAM_BW16 s) :: u32);
     let dmcr0 = dmcr_geometry 11 8 0 bw;
     s1_mark (mem_clk = 0 \<or> 1000000000 div mem_clk = 0);
     let ns = 1000000000 div mem_clk;
     let dmcr = dmcr_geometry (ucast (SDRAM_ROW s)) (ucast (SDRAM_COL s)) (ucast (SDRAM_BANK4 s)) bw OR dmcr_timing ns;
     put32 M EMC_DMCR dmcr;
     put8 M (EMC_SDMR0 OR SDMODE) 0;
     put32 M EMC_DMCR (dmcr OR push_bit 24 1);
     put16 M EMC_RTCOR (ucast (refresh_count ns));
     put16 M EMC_RTCNT 0;
     put16 M EMC_RTCSR 3;
     put32 M EMC_DMCR (dmcr0 OR push_bit 24 1 OR push_bit 23 1);
     put8 M (EMC_SDMR0 OR SDMODE) 0;
     put32 M EMC_DMCR (dmcr OR push_bit 24 1 OR push_bit 23 1) }"

definition sdram_init_4740 :: "'h mmio \<Rightarrow> ('h, unit) s1" where
  "sdram_init_4740 M = do {
     s \<leftarrow> s1_gets (\<lambda>s. s);
     if SDRAM_BW16 s = 0xff then State_Monad.return ()
     else do {
       c \<leftarrow> cpm_get_cdiv M;
       m \<leftarrow> cpm_get_mdiv M;
       s1_mark (unat c \<ge> length clock_dividers \<or> unat m \<ge> length clock_dividers);
       sdram_program M (CFG_CPU_SPEED s * clock_dividers ! unat c div clock_dividers ! unat m) } }"

end
