(* ===== verification/Stage1_4760.thy ===== *)
theory Stage1_4760
  imports Stage1_4740
begin

unbundle bit_operations_syntax

text \<open>
  The first stage on the JZ4760, \<^verbatim>\<open>usbboot/xburst_stage1/board-jz4760.c\<close> as \<^verbatim>\<open>board-jz4760.h\<close> configures it: DDR2
  memory, no FPGA, no debug output.  The functions of its memory test are modelled too; the
  calls of \<^verbatim>\<open>ddr_dma_test\<close> are disabled in \<^verbatim>\<open>sdram_init_4760\<close>.
\<close>

definition nand_init_4760_st1 :: "'h mmio \<Rightarrow> ('h, unit) s1" where
  "nand_init_4760_st1 M = do { v \<leftarrow> get32 M 0xB3410050; put32 M 0xB3410050 (v OR 3) }"

definition cpm_start_all_4760 :: "'h mmio \<Rightarrow> ('h, unit) s1" where
  "cpm_start_all_4760 M = put32s M [(CPM_BASE + 0x20, 0), (CPM_BASE + 0x28, 0)]"

section \<open>Pins\<close>

definition pins_uart0_4760 :: "(u32 \<times> u32) list" where
  "pins_uart0_4760 = [(FUNS 5, 0x00000005), (TRGC 5, 0x00000005), (SELC 5, 0x00000005), (PES 5, 0x00000005)]"

definition pins_uart1_4760 :: "(u32 \<times> u32) list" where
  "pins_uart1_4760 = [(FUNS 3, 0x14000000), (TRGC 3, 0x14000000), (SELC 3, 0x14000000), (PES 3, 0x14000000)]"

definition pins_uart2_4760 :: "(u32 \<times> u32) list" where
  "pins_uart2_4760 = [(FUNS 2, 0x50000000), (TRGC 2, 0x50000000), (SELC 2, 0x50000000), (PES 2, 0x50000000)]"

definition pins_uart3_4760 :: "(u32 \<times> u32) list" where
  "pins_uart3_4760 = [(FUNS 4, 0x00000028), (TRGC 4, 0x00000028), (SELS 4, 0x00000028), (PES 4, 0x00000028)]"

definition pins_nand_8bit :: "nat \<Rightarrow> (u32 \<times> u32) list" where
  "pins_nand_8bit n = (let cs = push_bit (n - 1) 0x00200000 in
     [(FUNS 0, 0x002c00ff), (SELC 0, 0x002c00ff), (PES 0, 0x002c00ff),
      (FUNS 1, 0x00000003), (SELC 1, 0x00000003), (PES 1, 0x00000003),
      (FUNS 0, cs), (SELC 0, cs), (PES 0, cs),
      (FUNC 0, 0x00100000), (SELC 0, 0x00100000), (DIRC 0, 0x00100000), (PES 0, 0x00100000)])"

definition gpio_init_4760 :: "'h mmio \<Rightarrow> ('h, unit) s1" where
  "gpio_init_4760 M = do {
     put32s M pins_uart0_4760;
     put32s M pins_uart1_4760;
     put32s M pins_uart2_4760;
     put32s M pins_uart3_4760;
     put32s M (pins_nand_8bit 1) }"

section \<open>The search for the PLL parameters\<close>

definition MHZ :: u32 where "MHZ = 1000 * 1000"

definition od_table :: "u32 list" where "od_table = [1, 2, 4, 8]"

text \<open>What a candidate gives, and its encoding.  All arithmetic is that of 32-bit words.\<close>

definition pll_raw :: "u32 \<Rightarrow> nat \<Rightarrow> nat \<Rightarrow> nat \<Rightarrow> u32" where
  "pll_raw xtal i k j = xtal * of_nat (j * 2) div of_nat k div od_table ! i"

definition pll_distance :: "u32 \<Rightarrow> u32 \<Rightarrow> nat \<Rightarrow> nat \<Rightarrow> nat \<Rightarrow> u32" where
  "pll_distance speed xtal i k j = (let tmp = pll_raw xtal i k j in if tmp > speed then tmp - speed else speed - tmp)"

definition pll_code :: "nat \<Rightarrow> nat \<Rightarrow> nat \<Rightarrow> u32" where
  "pll_code i k j = push_bit 24 (of_nat j) OR push_bit 18 (of_nat k) OR push_bit 16 (of_nat i)"

text \<open>The state of the search: the least distance so far, its encoding, and whether it was left by \<^verbatim>\<open>return\<close>.\<close>

type_synonym pll_state = "u32 \<times> u32 \<times> bool"

definition xin_low :: "u32 \<Rightarrow> nat \<Rightarrow> bool" where
  "xin_low xtal k \<longleftrightarrow> xtal div of_nat k < 1 * MHZ"

definition xin_high :: "u32 \<Rightarrow> nat \<Rightarrow> bool" where
  "xin_high xtal k \<longleftrightarrow> xtal div of_nat k > 15 * MHZ"

definition od_rejected :: "u32 \<Rightarrow> nat \<Rightarrow> bool" where
  "od_rejected speed i \<longleftrightarrow> speed * od_table ! i < 500 * MHZ \<or> speed * od_table ! i > 1500 * MHZ"

definition pll_consider :: "u32 \<Rightarrow> u32 \<Rightarrow> nat \<Rightarrow> nat \<Rightarrow> nat \<Rightarrow> pll_state \<Rightarrow> pll_state" where
  "pll_consider speed xtal i k j = (\<lambda>(distance, best, stop). let tmp = pll_distance speed xtal i k j in
     if tmp < distance then (tmp, pll_code i k j, tmp = 0) else (distance, best, stop))"

definition pll_stopped :: "pll_state \<Rightarrow> bool" where "pll_stopped acc = snd (snd acc)"

primrec pll_try_m :: "u32 \<Rightarrow> u32 \<Rightarrow> nat \<Rightarrow> nat \<Rightarrow> nat list \<Rightarrow> pll_state \<Rightarrow> pll_state" where
  "pll_try_m speed xtal i k [] acc = acc"
| "pll_try_m speed xtal i k (j # js) acc = (let acc' = pll_consider speed xtal i k j acc in
     if pll_stopped acc' then acc' else pll_try_m speed xtal i k js acc')"

primrec pll_try_n :: "u32 \<Rightarrow> u32 \<Rightarrow> nat \<Rightarrow> nat list \<Rightarrow> pll_state \<Rightarrow> pll_state" where
  "pll_try_n speed xtal i [] acc = acc"
| "pll_try_n speed xtal i (k # ks) acc =
     (if xin_low xtal k then acc
      else if xin_high xtal k then pll_try_n speed xtal i ks acc
      else let acc' = pll_try_m speed xtal i k [4..<128] acc in
        if pll_stopped acc' then acc' else pll_try_n speed xtal i ks acc')"

primrec pll_try_od :: "u32 \<Rightarrow> u32 \<Rightarrow> nat list \<Rightarrow> pll_state \<Rightarrow> pll_state" where
  "pll_try_od speed xtal [] acc = acc"
| "pll_try_od speed xtal (i # os) acc =
     (if od_rejected speed i then pll_try_od speed xtal os acc
      else let acc' = pll_try_n speed xtal i [2..<16] acc in
        if pll_stopped acc' then acc' else pll_try_od speed xtal os acc')"

definition pll_calc_m_n_od :: "u32 \<Rightarrow> u32 \<Rightarrow> u32" where
  "pll_calc_m_n_od speed xtal = fst (snd (pll_try_od speed xtal [0..<length od_table] (0xFFFFFFFF, 0, False)))"

section \<open>Clocks\<close>

definition CPM_CPPSR :: u32 where "CPM_CPPSR = CPM_BASE + 0x14"

definition cfcr_4760 :: u32 where
  "cfcr_4760 = ((push_bit 21 1 OR n2FR ! 1 OR push_bit 4 (n2FR ! 2) OR push_bit 16 (n2FR ! 4) OR push_bit 8 (n2FR ! 4)
     OR push_bit 12 (n2FR ! 4) OR push_bit 24 (n2FR ! 4)) AND NOT (push_bit 31 1)) OR push_bit 30 1 OR push_bit 22 1"

definition pll_init_4760 :: "'h mmio \<Rightarrow> nat \<Rightarrow> ('h, unit) s1" where
  "pll_init_4760 M P = do {
     put32 M CPM_CPCCR cfcr_4760;
     put32 M CPM_CPPCR (pll_calc_m_n_od CFG_CPU_SPEED_4760 CFG_EXTAL_4760 OR 0x20 OR push_bit 8 1);
     s1_wait P (do { v \<leftarrow> get32 M CPM_CPPSR; State_Monad.return (v AND push_bit 29 1 \<noteq> 0) }) }"

text \<open>\<^verbatim>\<open>__cpm_get_pllout\<close> and \<^verbatim>\<open>__cpm_get_mclk\<close> of \<^verbatim>\<open>jz4760.h\<close>.  The header defines \<^verbatim>\<open>JZ_EXTAL\<close> before
  \<^verbatim>\<open>board-jz4760.h\<close> defines \<^verbatim>\<open>CFG_EXTAL\<close>, so it has its default.\<close>

definition JZ_EXTAL :: u32 where "JZ_EXTAL = 3686400"

definition pllout_4760 :: "u32 \<Rightarrow> u32 \<Rightarrow> u32" where
  "pllout_4760 extal cppcr = (if cppcr AND push_bit 8 1 \<noteq> 0 \<and> cppcr AND push_bit 9 1 = 0
     then extal * (drop_bit 24 (cppcr AND 0x7f000000) * 2)
       div (drop_bit 18 (cppcr AND 0x003c0000) * od_table ! unat (drop_bit 16 (cppcr AND 0x00030000)))
     else extal)"

definition pll_divisor :: "u32 \<Rightarrow> u32" where
  "pll_divisor cppcr = drop_bit 18 (cppcr AND 0x003c0000)"

definition cpm_get_mclk :: "'h mmio \<Rightarrow> ('h, u32) s1" where
  "cpm_get_mclk M = do {
     v \<leftarrow> get32 M CPM_CPPCR;
     pllout \<leftarrow> (if v AND push_bit 8 1 \<noteq> 0 \<and> v AND push_bit 9 1 = 0 then do {
         m \<leftarrow> get32 M CPM_CPPCR;
         n \<leftarrow> get32 M CPM_CPPCR;
         od \<leftarrow> get32 M CPM_CPPCR;
         s1_mark (pll_divisor n = 0);
         State_Monad.return (JZ_EXTAL * (drop_bit 24 (m AND 0x7f000000) * 2)
           div (pll_divisor n * od_table ! unat (drop_bit 16 (od AND 0x00030000)))) }
       else State_Monad.return JZ_EXTAL);
     mdiv \<leftarrow> cpm_get_mdiv M;
     s1_mark (unat mdiv \<ge> 6);
     State_Monad.return (pllout div clock_dividers ! unat mdiv) }"

section \<open>The DDR controller\<close>

definition DDRC_BASE :: u32 where "DDRC_BASE = 0xB3020000"
definition DDRC_CFG :: u32 where "DDRC_CFG = DDRC_BASE + 0x4"
definition DDRC_CTRL :: u32 where "DDRC_CTRL = DDRC_BASE + 0x8"
definition DDRC_LMR :: u32 where "DDRC_LMR = DDRC_BASE + 0xc"
definition DDRC_TIMING1 :: u32 where "DDRC_TIMING1 = DDRC_BASE + 0x10"
definition DDRC_TIMING2 :: u32 where "DDRC_TIMING2 = DDRC_BASE + 0x14"
definition DDRC_REFCNT :: u32 where "DDRC_REFCNT = DDRC_BASE + 0x18"
definition DDRC_DQS :: u32 where "DDRC_DQS = DDRC_BASE + 0x1c"
definition DDRC_MMAP0 :: u32 where "DDRC_MMAP0 = DDRC_BASE + 0x24"
definition DDRC_MMAP1 :: u32 where "DDRC_MMAP1 = DDRC_BASE + 0x28"
definition DDRC_MDELAY :: u32 where "DDRC_MDELAY = DDRC_BASE + 0x2c"

lemmas ddrc_defs = DDRC_CFG_def DDRC_CTRL_def DDRC_LMR_def DDRC_TIMING1_def DDRC_TIMING2_def DDRC_REFCNT_def DDRC_DQS_def
  DDRC_MMAP0_def DDRC_MMAP1_def DDRC_MDELAY_def DDRC_BASE_def

definition DDR_MEM_PHY_BASE :: u32 where "DDR_MEM_PHY_BASE = 0x20000000"

text \<open>The configuration of the chip in \<^verbatim>\<open>board-jz4760.h\<close>: 13 row and 10 column bits, 8 banks, 32 bits,
  one chip select, a CAS latency of 3.\<close>

definition ddrc_cfg_reg :: u32 where
  "ddrc_cfg_reg = (push_bit 12 4 OR push_bit 10 (13 - 12) OR push_bit 8 (10 - 8) OR push_bit 7 0 OR push_bit 6 1
     OR push_bit 2 ((3 - 1) OR 0x8) OR push_bit 1 1 OR 1) OR push_bit 15 1"

text \<open>\<^verbatim>\<open>initdram\<close>: the size that the configuration register describes.\<close>

definition dram_size :: "u32 \<Rightarrow> u32" where
  "dram_size cfg = (let
     rows = 12 + drop_bit 10 (cfg AND 0xc00);
     cols = 8 + drop_bit 8 (cfg AND 0x300);
     dw = (if cfg AND 1 \<noteq> 0 then 4 else 2);
     banks = (if cfg AND 2 \<noteq> 0 then 8 else 4)
     in push_bit (unat (rows + cols)) 1 * dw * banks * (0 + 1))"

definition initdram :: "'h mmio \<Rightarrow> ('h, u32) s1" where
  "initdram M = do { v \<leftarrow> get32 M DDRC_CFG; State_Monad.return (dram_size v) }"

definition MR_WORD :: "u32 \<Rightarrow> u32" where
  "MR_WORD v = push_bit 16 v OR push_bit 4 2 OR 1"

text \<open>The mode registers of the DDR2 chip, in the order of the commands.\<close>

definition ddr2_commands :: "u32 \<Rightarrow> (u32 \<times> u32) list" where
  "ddr2_commands twr = [(DDRC_LMR, 0x01), (DDRC_LMR, 0x221), (DDRC_LMR, 0x321),
     (DDRC_LMR, MR_WORD (push_bit 10 1) OR 0x100),
     (DDRC_LMR, MR_WORD (push_bit 9 (twr - 1) OR push_bit 8 1 OR push_bit 4 3 OR 2)),
     (DDRC_LMR, 0x01), (DDRC_LMR, 0x11), (DDRC_LMR, 0x11),
     (DDRC_LMR, MR_WORD (push_bit 9 (twr - 1) OR push_bit 4 3 OR 2)),
     (DDRC_LMR, MR_WORD (push_bit 10 1 OR push_bit 7 7) OR 0x100),
     (DDRC_LMR, MR_WORD (push_bit 10 1) OR 0x100)]"

definition ddr_mem_init :: "'h mmio \<Rightarrow> u32 \<Rightarrow> u32 \<Rightarrow> u32 \<Rightarrow> u32 \<Rightarrow> ('h, unit) s1" where
  "ddr_mem_init M msel hl tsel quar = do {
     t \<leftarrow> get32 M DDRC_TIMING1;
     let twr = drop_bit 4 (t AND 0x70) + 1;
     put32 M DDRC_CFG ddrc_cfg_reg;
     put32 M DDRC_MDELAY (push_bit 18 tsel OR push_bit 16 msel OR push_bit 15 hl OR push_bit 14 quar OR push_bit 6 1);
     put32 M DDRC_LMR 0x11;
     put32 M DDRC_CTRL 2;
     put32s M (ddr2_commands twr) }"

text \<open>The cycles of a time in nanoseconds, rounded up.\<close>

definition cycles :: "u32 \<Rightarrow> u32 \<Rightarrow> u32" where
  "cycles t ns = (if t mod ns = 0 then t div ns else t div ns + 1)"

definition clamp :: "u32 \<Rightarrow> u32 \<Rightarrow> u32 \<Rightarrow> u32" where
  "clamp lo hi v = min hi (max lo v)"

definition ddrc_timing1 :: "u32 \<Rightarrow> u32" where
  "ddrc_timing1 ns = push_bit 28 (clamp 1 31 (cycles 45 ns) div 2) OR push_bit 24 (clamp 1 4 (cycles 8 ns) - 1)
     OR push_bit 20 (clamp 1 8 (cycles 42 ns) - 1) OR push_bit 16 (clamp 1 8 (cycles 42 ns) - 1)
     OR push_bit 12 (clamp 3 31 (cycles 60 ns) div 2) OR push_bit 8 (clamp 2 4 (cycles 8 ns) - 1)
     OR push_bit 4 (clamp 2 6 (cycles 15 ns) - 1) OR (min 4 (cycles 2 ns) - 1) OR (clamp 1 4 (2 div ns) - 1)"

definition ddrc_timing2 :: "u32 \<Rightarrow> u32" where
  "ddrc_timing2 ns = push_bit 12 (min 31 (cycles 128 ns) div 2)
     OR push_bit 8 ((clamp 9 129 (6 div ns) - 1) div 8 - 1) OR push_bit 4 (2 - 1) OR (2 - 1)"

text \<open>The lower bound is tested after the upper one, so a quotient of zero gives 0xfff.\<close>

definition ddr_refcnt :: "u32 \<Rightarrow> u32" where
  "ddr_refcnt mem_clk = (let
     ns_int = (if 1000000000 mod mem_clk = 0 then 1000000000 div mem_clk else 1000000000 div mem_clk + 1);
     tmp = 7800 div ns_int div (16 * 2) - 1
     in push_bit 1 1 OR 1 OR push_bit 16 (max 1 (min 0xfff tmp)))"

definition ddr_mmap :: "u32 \<Rightarrow> u32 \<times> u32" where
  "ddr_mmap memsize = (let
     mask = 0xff AND NOT ((drop_bit 24 memsize - 1) AND 0xff)
     in (push_bit 8 (drop_bit 24 DDR_MEM_PHY_BASE) OR mask,
         push_bit 8 (drop_bit 24 (DDR_MEM_PHY_BASE + memsize)) OR mask))"

text \<open>\<^verbatim>\<open>sdram_init_4760\<close> after the drive strength of the clock pins.  The variable \<^verbatim>\<open>index\<close> is used but, with the
  probe disabled, never set.\<close>

definition ddr_setup_4760 :: "'h mmio \<Rightarrow> ('h, unit) s1" where
  "ddr_setup_4760 M = do {
     put32s M [(0xB3420310, 0x3f), (0xB3420410, 0x3f)];
     mem_clk \<leftarrow> cpm_get_mclk M;
     s1_mark (mem_clk = 0 \<or> 1000000000 div mem_clk = 0);
     let ns = 1000000000 div mem_clk;
     index \<leftarrow> s1_gets s1_junk;
     s1_mark True;
     let msel = word_of_int (sint index sdiv 4);
     let hl = (word_of_int (sint index sdiv 2) AND 1) XOR 1;
     put32s M [(DDRC_CTRL, 1), (DDRC_CTRL, 0), (DDRC_TIMING1, ddrc_timing1 ns), (DDRC_TIMING2, ddrc_timing2 ns)];
     ddr_mem_init M msel hl 0 (index AND 1);
     memsize \<leftarrow> initdram M;
     put32s M [(DDRC_MMAP0, fst (ddr_mmap memsize)), (DDRC_MMAP1, snd (ddr_mmap memsize)), (DDRC_REFCNT, ddr_refcnt mem_clk),
       (DDRC_DQS, push_bit 23 1 OR push_bit 24 1), (DDRC_CTRL, push_bit 8 1 OR push_bit 4 1 OR push_bit 1 1), (DDRC_LMR, 0x11)] }"

definition sdram_init_4760 :: "'h mmio \<Rightarrow> ('h, unit) s1" where
  "sdram_init_4760 M = do {
     v \<leftarrow> get32 M (EMC_BASE + 0x600c);
     put32 M (EMC_BASE + 0x600c) (v OR push_bit 18 3);
     ddr_setup_4760 M }"

section \<open>The memory test of the board file\<close>

definition gen_verify_data :: "u32 \<Rightarrow> u32" where
  "gen_verify_data i = i div 4 * 0x11111111"

text \<open>\<^verbatim>\<open>jzmemset\<close> writes eight words per turn, \<^verbatim>\<open>len / 32\<close> turns.\<close>

definition jzmemset :: "'h mmio \<Rightarrow> u32 \<Rightarrow> u32 \<Rightarrow> int \<Rightarrow> ('h, unit) s1" where
  "jzmemset M dest ch len = (let wd = push_bit 24 ch OR push_bit 16 ch OR push_bit 8 ch OR ch in
     put32s M (List.map (\<lambda>k. (dest + 4 * of_nat k, wd)) [0..<8 * nat (len div 32)]))"

fun dma_check_loop :: "'h mmio \<Rightarrow> bool \<Rightarrow> u32 \<Rightarrow> u32 \<Rightarrow> u32 \<Rightarrow> nat \<Rightarrow> u32 \<Rightarrow> ('h, u32) s1" where
  "dma_check_loop M print_flag addr1 addr2 i 0 err = State_Monad.return err"
| "dma_check_loop M print_flag addr1 addr2 i (Suc n) err = do {
     let expected = gen_verify_data i;
     dsrc \<leftarrow> get32 M addr1;
     ddst \<leftarrow> get32 M addr2;
     if dsrc \<noteq> expected \<or> ddst \<noteq> expected then
       (if \<not> print_flag then State_Monad.return 1 else dma_check_loop M print_flag (addr1 + 4) (addr2 + 4) (i + 4) n 1)
     else dma_check_loop M print_flag (addr1 + 4) (addr2 + 4) (i + 4) n err }"

definition dma_check_result :: "'h mmio \<Rightarrow> u32 \<Rightarrow> u32 \<Rightarrow> nat \<Rightarrow> bool \<Rightarrow> ('h, u32) s1" where
  "dma_check_result M src dst len print_flag = dma_check_loop M print_flag src dst 0 ((len + 3) div 4) 0"

fun check_words :: "'h mmio \<Rightarrow> u32 \<Rightarrow> u32 \<Rightarrow> u32 \<Rightarrow> nat \<Rightarrow> ('h, u32) s1" where
  "check_words M addr1 addr2 i 0 = State_Monad.return 0"
| "check_words M addr1 addr2 i (Suc n) = do {
     a \<leftarrow> get32 M addr1;
     b \<leftarrow> get32 M addr2;
     if a \<noteq> b then State_Monad.return 1
     else do {
       c' \<leftarrow> get32 M addr1;
       if c' \<noteq> i div 4 * 0x11111111 then State_Monad.return 1
       else check_words M (addr1 + 4) (addr2 + 4) (i + 4) n } }"

definition check_result :: "'h mmio \<Rightarrow> u32 \<Rightarrow> u32 \<Rightarrow> nat \<Rightarrow> ('h, u32) s1" where
  "check_result M src dst len = check_words M src dst 0 ((len + 3) div 4)"

definition DMA_REG :: "u32 \<Rightarrow> u32 \<Rightarrow> u32" where
  "DMA_REG reg n = 0xB3420000 + (n div 6 * 0x100 + reg + (n - n div 6 * 6) * 0x20)"

text \<open>\<^verbatim>\<open>addr & (~0xa0000000)\<close>\<close>

definition phys_addr :: "u32 \<Rightarrow> u32" where
  "phys_addr a = a AND NOT 0xa0000000"

definition dma_data_move :: "'h mmio \<Rightarrow> u32 \<Rightarrow> u32 \<Rightarrow> u32 \<Rightarrow> int \<Rightarrow> u32 \<Rightarrow> ('h, unit) s1" where
  "dma_data_move M chan src dst len burst = put32s M [(DMA_REG 0x10 chan, 0), (DMA_REG 0x0c chan, 8), (DMA_REG 0x00 chan, phys_addr src),
     (DMA_REG 0x04 chan, phys_addr dst), (DMA_REG 0x08 chan, word_of_int (len sdiv 32)),
     (DMA_REG 0x14 chan, push_bit 23 1 OR push_bit 22 1 OR burst)]"

definition dma_nodesc_test :: "'h mmio \<Rightarrow> u32 \<Rightarrow> u32 \<Rightarrow> u32 \<Rightarrow> int \<Rightarrow> ('h, unit) s1" where
  "dma_nodesc_test M chan src dst len = do {
     dma_data_move M chan src dst len (push_bit 8 4);
     put32 M (DMA_REG 0x10 chan) (push_bit 31 1 OR 1) }"

text \<open>One bank: pattern, transfer, comparison.\<close>

definition dma_test_bank :: "'h mmio \<Rightarrow> nat \<Rightarrow> bool \<Rightarrow> u32 \<Rightarrow> nat \<Rightarrow> ('h, u32) s1" where
  "dma_test_bank M P print_flag banksize bank = do {
     let src = 0xa0000000 + banksize * of_nat bank;
     let dst = 0xa0000000 + banksize * (of_nat bank + 1) - 4096;
     put32s M (List.map (\<lambda>k. (src + 4 * of_nat k, gen_verify_data (4 * of_nat k))) [0..<1024]);
     put32 M 0xB3420300 0;
     jzmemset M dst 0 4096;
     dma_nodesc_test M 0 src dst 4096;
     put32 M 0xB3420300 1;
     s1_wait P (do { v \<leftarrow> get32 M (DMA_REG 0x08 0); State_Monad.return (v = 0) });
     err \<leftarrow> dma_check_result M src dst 4096 print_flag;
     v \<leftarrow> get32 M (DMA_REG 0x10 0);
     put32 M (DMA_REG 0x10 0) (v AND NOT 1);
     (if err = 0 then serial_puts M P ''passed:'' else State_Monad.return ());
     serial_put_hex M P (of_nat bank);
     State_Monad.return err }"

fun dma_test_banks :: "'h mmio \<Rightarrow> nat \<Rightarrow> bool \<Rightarrow> u32 \<Rightarrow> nat \<Rightarrow> nat \<Rightarrow> ('h, u32) s1" where
  "dma_test_banks M P print_flag banksize bank 0 = State_Monad.return 0"
| "dma_test_banks M P print_flag banksize bank (Suc n) = do {
     err \<leftarrow> dma_test_bank M P print_flag banksize bank;
     if err \<noteq> 0 then State_Monad.return err else dma_test_banks M P print_flag banksize (bank + 1) n }"

definition ddr_dma_test :: "'h mmio \<Rightarrow> nat \<Rightarrow> bool \<Rightarrow> ('h, u32) s1" where
  "ddr_dma_test M P print_flag = do {
     put32s M [(0xB3420310, 0x3f), (0xB3420410, 0x3f)];
     memsize \<leftarrow> initdram M;
     dma_test_banks M P print_flag (word_of_int (sint memsize sdiv 8)) 0 8 }"

text \<open>\<^verbatim>\<open>testallmem\<close>: the first 64 MB.\<close>

fun testall_check :: "'h mmio \<Rightarrow> nat \<Rightarrow> u32 \<Rightarrow> nat \<Rightarrow> ('h, unit) s1" where
  "testall_check M P i 0 = State_Monad.return ()"
| "testall_check M P i (Suc n) = do {
     d \<leftarrow> get32 M (0xa0000000 + i);
     (if d \<noteq> i then do {
        serial_puts M P (''errdata:'' @ [CHR 0x0A]);
        serial_puts M P (''expect:'' @ [CHR 0x0A]);
        serial_put_hex M P i;
        serial_put_hex M P d }
      else State_Monad.return ());
     testall_check M P (i + 4) n }"

definition testallmem :: "'h mmio \<Rightarrow> nat \<Rightarrow> ('h, unit) s1" where
  "testallmem M P = do {
     put32s M (List.map (\<lambda>k. (0xa0000000 + 4 * of_nat k, 4 * of_nat k)) [0..<16 * 1024 * 1024]);
     testall_check M P 0 (16 * 1024 * 1024) }"

end
