(* ===== verification/Pll_Search.thy ===== *)
theory Pll_Search
  imports Stage1_4760
begin

unbundle bit_operations_syntax

text \<open>
  What the search for the PLL parameters of the JZ4760 finds: the first of the admissible
  candidates with the least distance from the wanted frequency.
\<close>

section \<open>Candidates\<close>

type_synonym candidate = "nat \<times> nat \<times> nat"

definition xin_divisors :: "u32 \<Rightarrow> nat list" where
  "xin_divisors xtal = List.filter (\<lambda>k. \<not> xin_high xtal k) (takeWhile (\<lambda>k. \<not> xin_low xtal k) [2..<16])"

definition pll_candidates :: "u32 \<Rightarrow> u32 \<Rightarrow> candidate list" where
  "pll_candidates speed xtal = concat (List.map (\<lambda>i. concat (List.map (\<lambda>k. List.map (\<lambda>j. (i, k, j)) [4..<128]) (xin_divisors xtal)))
     (List.filter (\<lambda>i. \<not> od_rejected speed i) [0..<4]))"

definition cand_distance :: "u32 \<Rightarrow> u32 \<Rightarrow> candidate \<Rightarrow> u32" where
  "cand_distance speed xtal = (\<lambda>(i, k, j). pll_distance speed xtal i k j)"

definition cand_code :: "candidate \<Rightarrow> u32" where
  "cand_code = (\<lambda>(i, k, j). pll_code i k j)"

text \<open>The reference: of the candidates nearer than the largest distance, the first that none is nearer than.\<close>

definition nearest :: "('c \<Rightarrow> u32) \<Rightarrow> 'c list \<Rightarrow> 'c option" where
  "nearest d cs = List.find (\<lambda>x. list_all (\<lambda>y. d x \<le> d y) cs) (List.filter (\<lambda>x. d x < 0xFFFFFFFF) cs)"

definition pll_nearest :: "u32 \<Rightarrow> u32 \<Rightarrow> u32" where
  "pll_nearest speed xtal = (case nearest (cand_distance speed xtal) (pll_candidates speed xtal) of
     None \<Rightarrow> 0 | Some x \<Rightarrow> cand_code x)"

section \<open>The search as a fold\<close>

definition trial :: "u32 \<Rightarrow> u32 \<Rightarrow> candidate \<Rightarrow> pll_state \<Rightarrow> pll_state" where
  "trial speed xtal = (\<lambda>(i, k, j). pll_consider speed xtal i k j)"

lemma trial_stopped:
  "fst acc = 0 \<Longrightarrow> trial speed xtal x acc = acc"
  by (cases acc; cases x) (simp add: trial_def pll_consider_def Let_def)

lemma fold_trial_stopped: "fst acc = 0 \<Longrightarrow> fold (trial speed xtal) xs acc = acc"
  by (induction xs) (simp_all add: trial_stopped)

definition wf_acc :: "pll_state \<Rightarrow> bool" where "wf_acc acc \<longleftrightarrow> pll_stopped acc = (fst acc = 0)"

lemma wf_trial: "wf_acc acc \<Longrightarrow> wf_acc (trial speed xtal x acc)"
  by (cases acc; cases x) (auto simp: wf_acc_def trial_def pll_consider_def pll_stopped_def Let_def)

lemma wf_fold: "wf_acc acc \<Longrightarrow> wf_acc (fold (trial speed xtal) xs acc)"
  by (induction xs arbitrary: acc) (simp_all add: wf_trial)

lemma fold_after_stop:
  assumes "wf_acc acc" "pll_stopped (fold (trial speed xtal) xs acc)"
  shows "fold (trial speed xtal) (xs @ ys) acc = fold (trial speed xtal) xs acc"
  using assms wf_fold [OF assms(1), of speed xtal xs] by (simp add: wf_acc_def fold_trial_stopped)

lemma try_m_fold:
  "wf_acc acc \<Longrightarrow> pll_try_m speed xtal i k js acc = fold (trial speed xtal) (List.map (\<lambda>j. (i, k, j)) js) acc"
proof (induction js arbitrary: acc)
  case (Cons j js)
  have step: "pll_consider speed xtal i k j acc = trial speed xtal (i, k, j) acc" by (simp add: trial_def)
  show ?case using Cons wf_trial [OF Cons.prems, of speed xtal "(i, k, j)"]
    by (auto simp: Let_def step wf_acc_def fold_trial_stopped)
qed simp

definition row_candidates :: "nat \<Rightarrow> nat list \<Rightarrow> candidate list" where
  "row_candidates i ks = concat (List.map (\<lambda>k. List.map (\<lambda>j. (i, k, j)) [4..<128]) ks)"

lemma try_n_fold:
  "wf_acc acc \<Longrightarrow> pll_try_n speed xtal i ks acc = fold (trial speed xtal)
     (row_candidates i (List.filter (\<lambda>k. \<not> xin_high xtal k) (takeWhile (\<lambda>k. \<not> xin_low xtal k) ks))) acc"
proof (induction ks arbitrary: acc)
  case (Cons k ks)
  let ?m = "List.map (\<lambda>j. (i, k, j)) [4..<128]"
  let ?r = "row_candidates i (List.filter (\<lambda>k. \<not> xin_high xtal k) (takeWhile (\<lambda>k. \<not> xin_low xtal k) ks))"
  have wf: "wf_acc (fold (trial speed xtal) ?m acc)" by (rule wf_fold [OF Cons.prems])
  show ?case
  proof (cases "xin_low xtal k \<or> xin_high xtal k")
    case False
    then have "pll_try_n speed xtal i (k # ks) acc = fold (trial speed xtal) (?m @ ?r) acc"
      using fold_after_stop [OF Cons.prems, of speed xtal ?m ?r] Cons.IH [OF wf]
      by (auto simp: Let_def try_m_fold [OF Cons.prems] simp del: upt_rec_numeral)
    then show ?thesis using False by (simp add: row_candidates_def del: upt_rec_numeral)
  qed (use Cons in \<open>auto simp: row_candidates_def simp del: upt_rec_numeral\<close>)
qed (simp add: row_candidates_def)

lemma try_od_fold:
  "wf_acc acc \<Longrightarrow> pll_try_od speed xtal os acc = fold (trial speed xtal)
     (concat (List.map (\<lambda>i. row_candidates i (xin_divisors xtal)) (List.filter (\<lambda>i. \<not> od_rejected speed i) os))) acc"
proof (induction os arbitrary: acc)
  case (Cons i os)
  let ?m = "row_candidates i (xin_divisors xtal)"
  let ?r = "concat (List.map (\<lambda>i. row_candidates i (xin_divisors xtal)) (List.filter (\<lambda>i. \<not> od_rejected speed i) os))"
  have wf: "wf_acc (fold (trial speed xtal) ?m acc)" by (rule wf_fold [OF Cons.prems])
  show ?case
  proof (cases "od_rejected speed i")
    case False
    then have "pll_try_od speed xtal (i # os) acc = fold (trial speed xtal) (?m @ ?r) acc"
      using fold_after_stop [OF Cons.prems, of speed xtal ?m ?r] Cons.IH [OF wf]
      by (auto simp: Let_def try_n_fold [OF Cons.prems] xin_divisors_def simp del: upt_rec_numeral)
    then show ?thesis using False by simp
  qed (use Cons in \<open>auto simp del: upt_rec_numeral\<close>)
qed simp

section \<open>The fold finds the nearest\<close>

definition first_least :: "('c \<Rightarrow> u32) \<Rightarrow> 'c list \<Rightarrow> 'c \<Rightarrow> bool" where
  "first_least d xs x \<longleftrightarrow> (\<exists>us vs. xs = us @ x # vs \<and> d x < 0xFFFFFFFF \<and> (\<forall>y \<in> set us. d x < d y) \<and> (\<forall>y \<in> set vs. d x \<le> d y))"

lemma nearest_Some: "first_least d xs x \<Longrightarrow> nearest d xs = Some x"
proof -
  assume "first_least d xs x"
  then obtain us vs where xs: "xs = us @ x # vs" and d: "d x < 0xFFFFFFFF"
    and us: "\<forall>y \<in> set us. d x < d y" and vs: "\<forall>y \<in> set vs. d x \<le> d y"
    unfolding first_least_def by blast
  have "List.find (\<lambda>z. list_all (\<lambda>y. d z \<le> d y) xs) (List.filter (\<lambda>z. d z < 0xFFFFFFFF) us) = None"
    using us by (auto simp: find_None_iff xs)
  moreover have "list_all (\<lambda>y. d x \<le> d y) xs" using us vs by (auto simp: xs list_all_iff)
  ultimately show ?thesis using d by (simp add: nearest_def xs find_append)
qed

lemma nearest_None: "\<forall>x \<in> set xs. \<not> d x < 0xFFFFFFFF \<Longrightarrow> nearest d xs = None"
  by (simp add: nearest_def find_None_iff)

lemma first_least_snoc: "first_least d xs b \<Longrightarrow> d b \<le> d x \<Longrightarrow> first_least d (xs @ [x]) b"
proof -
  assume "first_least d xs b" and x: "d b \<le> d x"
  then obtain us vs where xs: "xs = us @ b # vs" and rest: "d b < 0xFFFFFFFF" "\<forall>y \<in> set us. d b < d y" "\<forall>y \<in> set vs. d b \<le> d y"
    unfolding first_least_def by blast
  have "xs @ [x] = us @ b # (vs @ [x])" using xs by simp
  moreover have "\<forall>y \<in> set (vs @ [x]). d b \<le> d y" using rest x by simp
  ultimately show ?thesis using rest unfolding first_least_def by blast
qed

lemma first_least_new:
  assumes "\<forall>y \<in> set xs. d x < d y" "d x < 0xFFFFFFFF" shows "first_least d (xs @ [x]) x"
  unfolding first_least_def using assms by (intro exI [of _ xs] exI [of _ "[]"]) simp

lemma first_least_all:
  assumes "first_least d xs b" "y \<in> set xs" shows "d b \<le> d y"
proof -
  obtain us vs where "xs = us @ b # vs" "\<forall>y \<in> set us. d b < d y" "\<forall>y \<in> set vs. d b \<le> d y"
    using assms(1) unfolding first_least_def by blast
  then show ?thesis using assms(2) by (auto dest: less_imp_le)
qed

lemma fold_nearest:
  fixes speed xtal :: u32 and xs :: "candidate list"
  defines "d \<equiv> cand_distance speed xtal"
  shows "fold (trial speed xtal) xs (0xFFFFFFFF, 0, False) = (case nearest d xs of
     None \<Rightarrow> (0xFFFFFFFF, 0, False) | Some x \<Rightarrow> (d x, cand_code x, d x = 0))
   \<and> (case nearest d xs of None \<Rightarrow> \<forall>x \<in> set xs. \<not> d x < 0xFFFFFFFF | Some x \<Rightarrow> first_least d xs x)"
proof (induction xs rule: rev_induct)
  case Nil
  show ?case by (simp add: nearest_def)
next
  case (snoc x xs)
  have step: "trial speed xtal x (e, c', t) = (if d x < e then (d x, cand_code x, d x = 0) else (e, c', t))" for e c' t
    by (cases x) (simp add: trial_def pll_consider_def d_def cand_distance_def cand_code_def Let_def)
  show ?case
  proof (cases "nearest d xs")
    case None
    then have all: "\<forall>x \<in> set xs. \<not> d x < 0xFFFFFFFF" using snoc by simp
    show ?thesis
    proof (cases "d x < 0xFFFFFFFF")
      case True
      then have "first_least d (xs @ [x]) x" using all by (intro first_least_new) auto
      then show ?thesis using snoc None True by (simp add: step nearest_Some)
    next
      case False
      then show ?thesis using snoc None all by (simp add: step nearest_None)
    qed
  next
    case (Some b)
    then have b: "first_least d xs b" using snoc by simp
    show ?thesis
    proof (cases "d x < d b")
      case True
      moreover have "d b < 0xFFFFFFFF" using b unfolding first_least_def by auto
      ultimately have "first_least d (xs @ [x]) x"
        using first_least_all [OF b] by (intro first_least_new) (auto intro: less_le_trans less_trans)
      then show ?thesis using snoc Some True by (simp add: step nearest_Some)
    next
      case False
      then have "first_least d (xs @ [x]) b" using b by (intro first_least_snoc) auto
      then show ?thesis using snoc Some False by (simp add: step nearest_Some)
    qed
  qed
qed

text \<open>The search, with its nested loops and its early exits, is that reference.\<close>

lemma pll_search_reference: "pll_calc_m_n_od speed xtal = pll_nearest speed xtal"
proof -
  have wf: "wf_acc (0xFFFFFFFF, 0, False)" by (simp add: wf_acc_def pll_stopped_def)
  have len: "length od_table = 4" by (simp add: od_table_def)
  have "pll_calc_m_n_od speed xtal = fst (snd (fold (trial speed xtal) (pll_candidates speed xtal) (0xFFFFFFFF, 0, False)))"
    by (simp only: pll_calc_m_n_od_def len try_od_fold [OF wf] pll_candidates_def row_candidates_def)
  then show ?thesis
    using fold_nearest [of speed xtal "pll_candidates speed xtal"] by (simp add: pll_nearest_def split: option.splits)
qed

section \<open>The settings of the PLL\<close>

text \<open>The settings that the comments of the code allow, in numbers: a setting \<^verbatim>\<open>(i, n, j)\<close> divides the crystal by \<^verbatim>\<open>n\<close>, multiplies
  by \<^verbatim>\<open>2 * j\<close> and divides by \<^verbatim>\<open>2 ^ i\<close>; the frequency before that division must be between 500 and 1500 MHz, and that of the divided crystal
  between 1 and 50 MHz.\<close>

definition pll_setting :: "nat \<Rightarrow> nat \<Rightarrow> candidate \<Rightarrow> bool" where
  "pll_setting speed xtal = (\<lambda>(i, n, j). i \<le> 3 \<and> 2 \<le> n \<and> n \<le> 15 \<and> 4 \<le> j \<and> j \<le> 127
     \<and> 500000000 \<le> speed * 2 ^ i \<and> speed * 2 ^ i \<le> 1500000000 \<and> n * 1000000 \<le> xtal \<and> xtal \<le> n * 50000000)"

definition pll_frequency :: "nat \<Rightarrow> candidate \<Rightarrow> nat" where
  "pll_frequency xtal = (\<lambda>(i, n, j). xtal * (2 * j) div (n * 2 ^ i))"

definition pll_error :: "nat \<Rightarrow> nat \<Rightarrow> candidate \<Rightarrow> int" where
  "pll_error speed xtal c = \<bar>int (pll_frequency xtal c) - int speed\<bar>"

text \<open>The order of the search: \<^verbatim>\<open>i\<close> in the outer loop, then \<^verbatim>\<open>n\<close>, then \<^verbatim>\<open>j\<close>.\<close>

definition tried_before :: "candidate \<Rightarrow> candidate \<Rightarrow> bool" where
  "tried_before = (\<lambda>(i, n, j) (i', n', j'). i < i' \<or> i = i' \<and> (n < n' \<or> n = n' \<and> j < j'))"

text \<open>The fields of the control register.\<close>

definition pll_fields :: "candidate \<Rightarrow> u32" where
  "pll_fields = (\<lambda>(i, n, j). of_nat (j * 2 ^ 24 + n * 2 ^ 18 + i * 2 ^ 16))"

lemma takeWhile_upt:
  assumes "\<And>k. \<not> P k \<Longrightarrow> \<not> P (Suc k)"
  shows "takeWhile P [a..<b] = filter P [a..<b]"
proof (induction "b - a" arbitrary: a)
  case (Suc d)
  then have ab: "[a..<b] = a # [Suc a..<b]" by (simp add: upt_conv_Cons)
  have no: "\<not> P k" if "\<not> P a" "a \<le> k" for k
    using that(2)
  proof (induction k rule: nat_induct_at_least)
    case base
    show ?case by (rule that(1))
  next
    case (Suc k)
    show ?case using Suc.IH by (rule assms)
  qed
  show ?case
  proof (cases "P a")
    case True
    then show ?thesis using Suc by (simp add: ab)
  next
    case False
    then have "filter P [Suc a..<b] = []" using no by (auto simp: filter_empty_conv)
    then show ?thesis using False by (simp add: ab)
  qed
qed simp

lemma unat_of_small: "n < 2 ^ 32 \<Longrightarrow> unat (of_nat n :: u32) = n"
  by (simp add: unat_of_nat)

lemma od_power: "i < 4 \<Longrightarrow> od_table ! i = 2 ^ i"
proof -
  assume "i < 4"
  then consider "i = 0" | "i = 1" | "i = 2" | "i = 3" by linarith
  then show ?thesis by cases (simp_all add: od_table_def)
qed

lemma unat_power: "i < 4 \<Longrightarrow> unat (2 ^ i :: u32) = 2 ^ i"
proof -
  assume "i < 4"
  then consider "i = 0" | "i = 1" | "i = 2" | "i = 3" by linarith
  then show ?thesis by cases simp_all
qed

lemma od_limits:
  assumes "unat speed < 2 ^ 29" "i < 4"
  shows "od_rejected speed i \<longleftrightarrow> unat speed * 2 ^ i < 500000000 \<or> 1500000000 < unat speed * 2 ^ i"
proof -
  have "(2::nat) ^ i \<le> 2 ^ 3" using assms(2) by (intro power_increasing) auto
  then have "unat speed * 2 ^ i < 2 ^ 32" using assms(1) by (intro le_less_trans [OF mult_left_mono [of "2 ^ i" 8]]) auto
  then have "unat (speed * od_table ! i) = unat speed * 2 ^ i"
    using unat_mult_lem [of speed "od_table ! i"] assms(2) by (simp add: od_power unat_power)
  then show ?thesis by (simp add: od_rejected_def word_less_nat_alt MHZ_def)
qed

lemma xin_limits:
  assumes "unat xtal \<le> 30000000" "0 < k" "k < 16"
  shows "xin_low xtal k \<longleftrightarrow> unat xtal < k * 1000000" "2 \<le> k \<Longrightarrow> \<not> xin_high xtal k"
proof -
  have d: "unat (xtal div of_nat k) = unat xtal div k" using assms(3) by (simp add: unat_div unat_of_small)
  have "(unat xtal div k < 1000000) = (unat xtal < k * 1000000)"
    using assms(2) by (simp add: div_less_iff_less_mult mult.commute)
  then show "xin_low xtal k \<longleftrightarrow> unat xtal < k * 1000000" by (simp add: xin_low_def word_less_nat_alt d MHZ_def)
  show "\<not> xin_high xtal k" if "2 \<le> k"
  proof -
    have "unat xtal div k \<le> unat xtal div 2" using that by (intro div_le_mono2) auto
    also have "\<dots> \<le> 30000000 div 2" using assms(1) by (rule div_le_mono)
    finally show ?thesis by (simp add: xin_high_def word_less_nat_alt d MHZ_def)
  qed
qed

text \<open>The candidates of the search are the settings, in the order of the search.\<close>

lemma divisors_in_limits:
  assumes "unat xtal \<le> 30000000"
  shows "xin_divisors xtal = filter (\<lambda>k. k * 1000000 \<le> unat xtal) [2..<16]"
proof -
  let ?P = "\<lambda>k. k * 1000000 \<le> unat xtal"
  have "takeWhile (\<lambda>k. \<not> xin_low xtal k) [2..<16] = takeWhile ?P [2..<16]"
    by (rule takeWhile_cong [OF refl]) (auto simp: xin_limits(1) [OF assms] not_less simp del: upt_rec_numeral)
  also have "\<dots> = filter ?P [2..<16]" by (rule takeWhile_upt) simp
  finally have "takeWhile (\<lambda>k. \<not> xin_low xtal k) [2..<16] = filter ?P [2..<16]" .
  moreover have "filter (\<lambda>k. \<not> xin_high xtal k) (filter ?P [2..<16]) = filter ?P [2..<16]"
    using xin_limits(2) [OF assms] by (intro filter_True) (auto simp del: upt_rec_numeral)
  ultimately show ?thesis by (simp only: xin_divisors_def)
qed

definition all_candidates :: "candidate list" where
  "all_candidates = concat (List.map (\<lambda>i. concat (List.map (\<lambda>k. List.map (\<lambda>j. (i, k, j)) [4..<128]) [2..<16])) [0..<4])"

lemma concat_filter: "concat (List.map f (filter p xs)) = concat (List.map (\<lambda>x. if p x then f x else []) xs)"
  by (induction xs) auto

lemma candidates_filtered:
  assumes "unat speed < 2 ^ 29" "unat xtal \<le> 30000000"
  shows "pll_candidates speed xtal = filter (pll_setting (unat speed) (unat xtal)) all_candidates"
proof -
  let ?p = "pll_setting (unat speed) (unat xtal)"
  let ?row = "\<lambda>i k. List.map (\<lambda>j. (i, k, j)) [4..<128]"
  have row: "(if k * 1000000 \<le> unat xtal then ?row i k else []) = filter ?p (?row i k)"
    if "\<not> od_rejected speed i" "i < 4" "2 \<le> k" "k < 16" for i k
  proof -
    have "?p (i, k, j) \<longleftrightarrow> k * 1000000 \<le> unat xtal" if "4 \<le> j" "j < 128" for j
      using \<open>\<not> od_rejected speed i\<close> \<open>i < 4\<close> \<open>2 \<le> k\<close> \<open>k < 16\<close> that assms by (auto simp: pll_setting_def od_limits)
    then show ?thesis by (auto simp: filter_map o_def intro!: filter_True filter_False simp del: upt_rec_numeral)
  qed
  have none: "filter ?p (?row i k) = []" if "od_rejected speed i" "i < 4" for i k
    using that assms by (auto simp: pll_setting_def od_limits filter_empty_conv simp del: upt_rec_numeral)
  have "(if \<not> od_rejected speed i then concat (List.map (\<lambda>k. if k * 1000000 \<le> unat xtal then ?row i k else []) [2..<16]) else [])
      = concat (List.map (\<lambda>k. filter ?p (?row i k)) [2..<16])" if "i < 4" for i
    using row none that by (auto intro!: arg_cong [where f = concat] map_cong simp del: upt_rec_numeral)
  then have "concat (List.map (\<lambda>i. if \<not> od_rejected speed i then concat (List.map (\<lambda>k. if k * 1000000 \<le> unat xtal then ?row i k else []) [2..<16]) else []) [0..<4])
      = concat (List.map (\<lambda>i. concat (List.map (\<lambda>k. filter ?p (?row i k)) [2..<16])) [0..<4])"
    by (intro arg_cong [where f = concat] map_cong) auto
  then show ?thesis
    by (simp only: pll_candidates_def divisors_in_limits [OF assms(2)] concat_filter all_candidates_def filter_concat map_map o_def)
qed

lemma set_all_candidates: "set all_candidates = {(i, k, j). i < 4 \<and> 2 \<le> k \<and> k < 16 \<and> 4 \<le> j \<and> j < 128}"
proof -
  have "c \<in> set all_candidates \<longleftrightarrow> (\<exists>i \<in> {0..<4}. \<exists>k \<in> {2..<16}. \<exists>j \<in> {4..<128}. c = (i, k, j))" for c
    by (simp only: all_candidates_def set_concat set_map set_upt UN_iff image_iff UN_simps bex_simps)
  then show ?thesis by auto
qed

lemma candidates_are_settings:
  assumes "unat speed < 2 ^ 29" "unat xtal \<le> 30000000"
  shows "c \<in> set (pll_candidates speed xtal) \<longleftrightarrow> pll_setting (unat speed) (unat xtal) c"
  by (cases c) (auto simp: candidates_filtered [OF assms] set_all_candidates pll_setting_def)

lemma sorted_concat:
  assumes "sorted_wrt (<) ks" "\<And>k. sorted_wrt R (f k)" "\<And>k k' x y. (k :: nat) < k' \<Longrightarrow> x \<in> set (f k) \<Longrightarrow> y \<in> set (f k') \<Longrightarrow> R x y"
  shows "sorted_wrt R (concat (List.map f ks))"
  using assms(1) by (induction ks) (auto simp: sorted_wrt_append assms(2) dest: assms(3))

lemma candidates_sorted:
  assumes "unat speed < 2 ^ 29" "unat xtal \<le> 30000000"
  shows "sorted_wrt tried_before (pll_candidates speed xtal)"
proof -
  have j: "sorted_wrt tried_before (List.map (\<lambda>j. (i, k, j)) [4..<128])" for i k
    by (simp add: sorted_wrt_map tried_before_def del: upt_rec_numeral)
  have k: "sorted_wrt tried_before (concat (List.map (\<lambda>k. List.map (\<lambda>j. (i, k, j)) [4..<128]) [2..<16]))" for i
    by (rule sorted_concat [OF sorted_wrt_upt j]) (auto simp: tried_before_def simp del: upt_rec_numeral)
  have "sorted_wrt tried_before all_candidates"
    unfolding all_candidates_def by (rule sorted_concat [OF sorted_wrt_upt k]) (auto simp: tried_before_def simp del: upt_rec_numeral)
  then show ?thesis by (simp add: candidates_filtered [OF assms] sorted_wrt_filter)
qed

text \<open>Without a wrap the distance of the search is the error of the setting, and its encoding has the three numbers in their fields.\<close>

lemma distance_is_error:
  assumes "unat speed < 2 ^ 29" "unat xtal * 254 < 2 ^ 32" "pll_setting (unat speed) (unat xtal) c"
  shows "unat (cand_distance speed xtal c) = nat (pll_error (unat speed) (unat xtal) c)" "cand_distance speed xtal c < 0xFFFFFFFF"
proof -
  obtain i k j where c: "c = (i, k, j)" by (cases c)
  have b: "i < 4" "2 \<le> k" "k < 16" "j < 128" using assms(3) by (auto simp: pll_setting_def c)
  have j: "unat (of_nat (j * 2) :: u32) = j * 2" by (rule unat_of_small) (use b in simp)
  have "unat xtal * (j * 2) \<le> unat xtal * 254" using b(4) by simp
  then have lt: "unat xtal * (j * 2) < 2 ^ 32" using assms(2) by (rule le_less_trans)
  have m: "unat (xtal * of_nat (j * 2)) = unat xtal * (j * 2)"
    using unat_mult_lem [of xtal "of_nat (j * 2)"] lt unfolding j by simp
  have raw: "unat (pll_raw xtal i k j) = pll_frequency (unat xtal) c"
    unfolding pll_raw_def unat_div m
    using b by (simp add: unat_of_small od_power unat_power pll_frequency_def c div_mult2_eq mult_ac)
  have "pll_frequency (unat xtal) c \<le> unat xtal * (2 * j) div 2"
    unfolding pll_frequency_def c prod.case using b by (intro div_le_mono2) (auto intro: order_trans [OF _ mult_le_mono [of 2 k 1]])
  also have "\<dots> < 2 ^ 31" using lt by (simp add: mult_ac)
  finally have f: "unat (pll_raw xtal i k j) < 2 ^ 31" by (simp add: raw)
  have "unat (cand_distance speed xtal c) = (if unat speed < pll_frequency (unat xtal) c
      then pll_frequency (unat xtal) c - unat speed else unat speed - pll_frequency (unat xtal) c)"
    by (simp add: cand_distance_def c pll_distance_def Let_def word_less_nat_alt unat_sub_if' raw [unfolded c])
  moreover have "nat \<bar>int a - int b\<bar> = (if b < a then a - b else b - a)" for a b :: nat by auto
  ultimately show "unat (cand_distance speed xtal c) = nat (pll_error (unat speed) (unat xtal) c)"
    by (simp only: pll_error_def)
  show "cand_distance speed xtal c < 0xFFFFFFFF"
    using f assms(1) by (auto simp: cand_distance_def c pll_distance_def Let_def word_less_nat_alt unat_sub_if')
qed

lemma bit_below: "k < 2 ^ m \<Longrightarrow> bit (of_nat k :: u32) n \<Longrightarrow> n < m"
proof -
  assume "k < 2 ^ m" and b: "bit (of_nat k :: u32) n"
  then have "take_bit m k = k" by (simp add: take_bit_nat_eq_self)
  then have "(of_nat k :: u32) = take_bit m (of_nat k)" by (metis of_nat_take_bit)
  then show ?thesis using b by (metis bit_take_bit_iff)
qed

lemma code_is_fields:
  assumes "i < 4" "k < 16" "j < 128"
  shows "pll_code i k j = pll_fields (i, k, j)"
proof -
  have n: "bit (of_nat k :: u32) n \<Longrightarrow> n < 4" "bit (of_nat i :: u32) n \<Longrightarrow> n < 2" for n
    using bit_below [of k 4 n] bit_below [of i 2 n] assms by auto
  have 1: "push_bit 18 (of_nat k) AND push_bit 16 (of_nat i) = (0 :: u32)"
    by (rule bit_eqI) (auto simp: bit_and_iff bit_push_bit_iff dest!: n)
  have 2: "push_bit 24 (of_nat j) AND (push_bit 18 (of_nat k) OR push_bit 16 (of_nat i)) = (0 :: u32)"
    by (rule bit_eqI) (auto simp: bit_and_iff bit_or_iff bit_push_bit_iff dest!: n)
  have "pll_code i k j = push_bit 24 (of_nat j) + (push_bit 18 (of_nat k) + push_bit 16 (of_nat i))"
    unfolding pll_code_def or.assoc disjunctive_add_eq_or [OF 1] disjunctive_add_eq_or [OF 2] ..
  then show ?thesis by (simp add: pll_fields_def push_bit_eq_mult)
qed

text \<open>C12.  The search for the PLL parameters of the JZ4760 finds, for a crystal up to 16.9 MHz and a wanted frequency up to 536 MHz, the
  register value of a best setting: among the settings that the comments of the code allow, none gives a frequency nearer to the wanted one,
  and of the equally near ones it is the one that comes first.  If there is no such setting it finds 0.  (For these crystals the upper limit
  of the code for the divided crystal, which is 15 MHz and not the 50 MHz of the comment, excludes nothing, and no product wraps.)\<close>

theorem pll_search_nearest:
  fixes speed xtal :: u32
  defines "ok \<equiv> pll_setting (unat speed) (unat xtal)" and "err \<equiv> pll_error (unat speed) (unat xtal)"
  assumes "unat speed < 2 ^ 29" "unat xtal * 254 < 2 ^ 32"
  shows "if \<exists>c. ok c
    then \<exists>c. ok c \<and> pll_calc_m_n_od speed xtal = pll_fields c
      \<and> (\<forall>c'. ok c' \<longrightarrow> err c < err c' \<or> err c = err c' \<and> (c = c' \<or> tried_before c c'))
    else pll_calc_m_n_od speed xtal = 0"
proof -
  let ?d = "cand_distance speed xtal" and ?cs = "pll_candidates speed xtal"
  have x: "unat xtal \<le> 30000000" using assms(4) by simp
  note is_ok = candidates_are_settings [OF assms(3) x, folded ok_def]
  note dist = distance_is_error [OF assms(3,4), folded ok_def err_def]
  show ?thesis
  proof (cases "nearest ?d ?cs")
    case None
    then have "\<forall>c \<in> set ?cs. \<not> ?d c < 0xFFFFFFFF" using fold_nearest [where xs = ?cs and speed = speed and xtal = xtal] by simp
    then have "\<not> (\<exists>c. ok c)" using is_ok dist(2) by blast
    then show ?thesis using None by (simp add: pll_search_reference pll_nearest_def)
  next
    case (Some c)
    then have "first_least ?d ?cs c" using fold_nearest [where xs = ?cs and speed = speed and xtal = xtal] by simp
    then obtain us vs where cs: "?cs = us @ c # vs" and us: "\<forall>y \<in> set us. ?d c < ?d y" and vs: "\<forall>y \<in> set vs. ?d c \<le> ?d y"
      unfolding first_least_def by blast
    have c: "ok c" using is_ok [of c] by (simp add: cs)
    have later: "tried_before c y" if "y \<in> set vs" for y
      using candidates_sorted [OF assms(3) x] that by (simp add: cs sorted_wrt_append)
    have best: "err c < err c' \<or> err c = err c' \<and> (c = c' \<or> tried_before c c')" if "ok c'" for c'
    proof -
      have "c' \<in> set us \<or> c' = c \<or> c' \<in> set vs" using is_ok [of c'] that by (auto simp: cs)
      moreover have "0 \<le> err c" "0 \<le> err c'" by (simp_all add: err_def pll_error_def)
      moreover have "?d c < ?d c' \<longleftrightarrow> nat (err c) < nat (err c')" "?d c \<le> ?d c' \<longleftrightarrow> nat (err c) \<le> nat (err c')"
        by (simp_all only: word_less_nat_alt word_le_nat_alt dist(1) [OF c] dist(1) [OF that])
      ultimately show ?thesis
        using us vs later [of c'] by (auto dest!: bspec [where x = c'])
    qed
    have "pll_calc_m_n_od speed xtal = pll_fields c"
      using Some c by (cases c) (auto simp: pll_search_reference pll_nearest_def cand_code_def code_is_fields ok_def pll_setting_def)
    then have all: "ok c \<and> pll_calc_m_n_od speed xtal = pll_fields c
        \<and> (\<forall>c'. ok c' \<longrightarrow> err c < err c' \<or> err c = err c' \<and> (c = c' \<or> tried_before c c'))" using c best by blast
    then have "\<exists>c. ok c" by blast
    then show ?thesis unfolding if_P [OF \<open>\<exists>c. ok c\<close>] using all by blast
  qed
qed

lemma pll_search_nearest_witness:
  "\<exists>c. pll_setting 144000000 12000000 c \<and> pll_calc_m_n_od 144000000 12000000 = pll_fields c \<and> pll_frequency 12000000 c = 144000000"
proof -
  have ok: "pll_setting 144000000 12000000 (2, 2, 48)" and e: "pll_error 144000000 12000000 (2, 2, 48) = 0"
    by (simp_all add: pll_setting_def pll_error_def pll_frequency_def)
  have n: "unat (144000000 :: u32) = 144000000" "unat (12000000 :: u32) = 12000000" by simp_all
  have ex: "\<exists>c. pll_setting 144000000 12000000 c" using ok by blast
  obtain c where c: "pll_setting 144000000 12000000 c" "pll_calc_m_n_od 144000000 12000000 = pll_fields c"
      and best: "\<And>c'. pll_setting 144000000 12000000 c' \<Longrightarrow> pll_error 144000000 12000000 c \<le> pll_error 144000000 12000000 c'"
    using pll_search_nearest [of 144000000 12000000, unfolded n if_P [OF ex]] by force
  have "pll_error 144000000 12000000 c = 0" using best [OF ok] e by (simp add: pll_error_def)
  then show ?thesis using c by (intro exI [of _ c]) (simp add: pll_error_def)
qed

end
