(* ===== verification/Stage1_Main.thy ===== *)
theory Stage1_Main
  imports Stage1_4760
begin

unbundle bit_operations_syntax

text \<open>
  The main program of the first stage (\<^verbatim>\<open>main.c\<close>) and its debugging operations (\<^verbatim>\<open>debug.c\<close>).  The
  arguments of the host are at 0x80002008, eight bytes into the image that the host has patched.
\<close>

section \<open>Arguments\<close>

definition s1_args :: "(u32 \<Rightarrow> u8) \<Rightarrow> fw_args" where
  "s1_args mem = dec_fw_args (List.map (\<lambda>k. mem (0x80002008 + of_nat k)) [0..<28])"

definition s1_load_args :: "('h, unit) s1" where
  "s1_load_args = do {
     s \<leftarrow> s1_gets (\<lambda>s. s);
     let a = s1_args (s1_mem s);
     let extal = (ucast (fa_ext_clk a) :: u32) * 1000000;
     let speed = (ucast (fa_cpu_speed a) :: u32) * extal;
     State_Monad.update (\<lambda>s. s\<lparr>
       CPU_ID := fa_cpu_id a,
       CFG_EXTAL := (if extal = 19000000 then 19200000 else extal),
       CFG_CPU_SPEED := (if extal = 19000000 then 192000000 else speed),
       PHM_DIV := fa_phm_div a,
       UART_BASE := UART0_BASE + ucast (fa_use_uart a) * 0x1000,
       CONFIG_BAUDRATE := fa_boudrate a,
       SDRAM_BW16 := fa_bus_width a,
       SDRAM_BANK4 := fa_bank_num a,
       SDRAM_ROW := fa_row_addr a,
       SDRAM_COL := fa_col_addr a,
       CONFIG_MOBILE_SDRAM := fa_is_mobile a,
       IS_SHARE := fa_is_busshare a\<rparr>) }"

section \<open>Debugging\<close>

text \<open>The loop of \<^verbatim>\<open>check_sdram\<close>: a word at a time, the last bad address.  It does not end when the end of the range
  is above the last word of the address space; the number of turns is bounded by the first parameter.\<close>

fun check_loop :: "'h mmio \<Rightarrow> nat \<Rightarrow> nat \<Rightarrow> u32 \<Rightarrow> u32 \<Rightarrow> u32 \<Rightarrow> ('h, u32) s1" where
  "check_loop M P 0 addr end_addr err = do { State_Monad.update (\<lambda>s. s\<lparr>s1_hung := True\<rparr>); State_Monad.return err }"
| "check_loop M P (Suc n) addr end_addr err =
     (if addr < end_addr then do {
        put32 M addr addr;
        v \<leftarrow> get32 M addr;
        if v \<noteq> addr then do { serial_put_hex M P addr; check_loop M P n (addr + 4) end_addr addr }
        else check_loop M P n (addr + 4) end_addr err }
      else State_Monad.return err)"

definition check_sdram :: "'h mmio \<Rightarrow> nat \<Rightarrow> nat \<Rightarrow> u32 \<Rightarrow> u32 \<Rightarrow> ('h, u32) s1" where
  "check_sdram M P N saddr len = do {
     serial_puts M P (CHR 0x0A # ''Check SDRAM ... '' @ [CHR 0x0A]);
     let saddr = saddr + 0xa0000000;
     let len = len + saddr;
     serial_put_hex M P saddr;
     serial_put_hex M P len;
     err \<leftarrow> check_loop M P N (saddr AND 0xfffffffc) len 0;
     serial_puts M P ((if err \<noteq> 0 then ''Check SDRAM fail!'' else ''Check SDRAM pass!'') @ [CHR 0x0A]);
     State_Monad.return err }"

definition s1_gpio_as_output :: "'h mmio \<Rightarrow> u8 \<Rightarrow> ('h, unit) s1" where
  "s1_gpio_as_output M pin = (let p = ucast (pin div 32); b = push_bit (unat (pin mod 32)) 1 in
     put32s M [(FUNC p, b), (SELC p, b), (DIRS p, b)])"

definition gpio_test :: "'h mmio \<Rightarrow> nat \<Rightarrow> bool \<Rightarrow> u8 \<Rightarrow> ('h, unit) s1" where
  "gpio_test M P ops pin = (let p = ucast (pin div 32); b = push_bit (unat (pin mod 32)) 1 in do {
     s1_gpio_as_output M pin;
     serial_puts M P (CHR 0x0A # (if ops then ''GPIO set '' else ''GPIO clear ''));
     serial_put_hex M P (ucast pin);
     put32 M (if ops then DATS p else DATC p) b })"

text \<open>\<^verbatim>\<open>debug.c\<close> includes \<^verbatim>\<open>jz4760.h\<close> on both processors.\<close>

definition USB_BASE_4760 :: u32 where "USB_BASE_4760 = 0xB3440000"

definition send_test_result :: "'h mmio \<Rightarrow> u32 \<Rightarrow> ('h, unit) s1" where
  "send_test_result M err = do {
     put32 M (USB_BASE_4760 + 0x24) err;
     put32 M (USB_BASE_4760 + 0x24) 0;
     v \<leftarrow> get8 M (USB_BASE_4760 + 0x12);
     put8 M (USB_BASE_4760 + 0x12) (v OR 1) }"

definition do_debug :: "'h mmio \<Rightarrow> nat \<Rightarrow> nat \<Rightarrow> ('h, unit) s1" where
  "do_debug M P N = do {
     s \<leftarrow> s1_gets (\<lambda>s. s);
     let a = s1_args (s1_mem s);
     if fa_debug_ops a = 1 then do {
       (if CPU_ID s = 0x4740 then do { gpio_init_4740 M; serial_init M; sdram_init_4740 M }
        else if CPU_ID s = 0x4760 then do { gpio_init_4760 M; serial_init M; sdram_init_4760 M }
        else State_Monad.return ());
       put8 M (USB_BASE_4760 + 0x0e) 1;
       err \<leftarrow> check_sdram M P N (fa_start a) (fa_size a);
       send_test_result M err }
     else if fa_debug_ops a = 2 then gpio_test M P True (fa_pin_num a)
     else if fa_debug_ops a = 3 then gpio_test M P False (fa_pin_num a)
     else State_Monad.return () }"

section \<open>Main program\<close>

fun put_hexs :: "'h mmio \<Rightarrow> nat \<Rightarrow> u32 list \<Rightarrow> ('h, unit) s1" where
  "put_hexs M P [] = State_Monad.return ()"
| "put_hexs M P (d # ds) = do { serial_put_hex M P d; put_hexs M P ds }"

definition shown_args :: "'h st1 \<Rightarrow> u32 list" where
  "shown_args s = [CPU_ID s, CFG_EXTAL s, CFG_CPU_SPEED s, ucast (PHM_DIV s), ucast (fa_use_uart (s1_args (s1_mem s))),
     CONFIG_BAUDRATE s, ucast (SDRAM_BW16 s), ucast (SDRAM_BANK4 s), ucast (SDRAM_ROW s), ucast (SDRAM_COL s)]"

text \<open>The messages after the initialisation, and on the JZ4760 the jump back into the boot ROM.\<close>

definition s1_finish :: "'h mmio \<Rightarrow> nat \<Rightarrow> ('h, unit) s1" where
  "s1_finish M P = do {
     s \<leftarrow> s1_gets (\<lambda>s. s);
     serial_puts M P (''Setup xburst CPU args as:'' @ [CHR 0x0A]);
     put_hexs M P (shown_args s);
     v \<leftarrow> get32 M CPM_CPCCR;
     serial_put_hex M P v;
     serial_puts M P (''xburst stage1 run finish !'' @ [CHR 0x0A]);
     State_Monad.update (\<lambda>s. s\<lparr>s1_rom := s1_rom s \<or> CPU_ID s = 0x4760\<rparr>) }"

definition board_init_4740 :: "'h mmio \<Rightarrow> ('h, unit) s1" where
  "board_init_4740 M = do {
     gpio_init_4740 M;
     pll_init_4740 M;
     serial_init M;
     sdram_init_4740 M }"

definition board_init_4760 :: "'h mmio \<Rightarrow> nat \<Rightarrow> ('h, unit) s1" where
  "board_init_4760 M P = do {
     gpio_init_4760 M;
     cpm_start_all_4760 M;
     serial_init M;
     pll_init_4760 M P;
     sdram_init_4760 M }"

definition c_main :: "'h mmio \<Rightarrow> nat \<Rightarrow> nat \<Rightarrow> ('h, unit) s1" where
  "c_main M P N = do {
     s1_load_args;
     s \<leftarrow> s1_gets (\<lambda>s. s);
     if 0 < sint (fa_debug_ops (s1_args (s1_mem s))) then do_debug M P N
     else if CPU_ID s = 0x4740 then do { board_init_4740 M; s1_finish M P }
     else if CPU_ID s = 0x4760 then do { board_init_4760 M P; s1_finish M P }
     else State_Monad.return () }"

end
