(* ===== verification/Stage1_Bus.thy ===== *)
theory Stage1_Bus
  imports Stage1_Main Frame
begin

unbundle bit_operations_syntax

text \<open>
  The bus as the first stage sees it: the history of its accesses, where any function of the history and of
  the address gives what is read.  \<^verbatim>\<open>touches A f\<close> says that the program \<^verbatim>\<open>f\<close> accesses only addresses
  that satisfy \<^verbatim>\<open>A\<close> for the base address of the serial port.
\<close>

section \<open>Bus\<close>

datatype bus_event = Rd8 u32 | Rd16 u32 | Rd32 u32 | Wr8 u32 u8 | Wr16 u32 u16 | Wr32 u32 u32

fun ev_addr :: "bus_event \<Rightarrow> u32" where
  "ev_addr (Rd8 a) = a" | "ev_addr (Rd16 a) = a" | "ev_addr (Rd32 a) = a"
| "ev_addr (Wr8 a v) = a" | "ev_addr (Wr16 a v) = a" | "ev_addr (Wr32 a v) = a"

type_synonym bus = "bus_event list"

definition bus_io :: "(bus \<Rightarrow> u32 \<Rightarrow> u32) \<Rightarrow> bus mmio" where
  "bus_io ans = \<lparr>io_r8 = \<lambda>a h. (ucast (ans h a), h @ [Rd8 a]), io_w8 = \<lambda>a v h. h @ [Wr8 a v],
     io_r16 = \<lambda>a h. (ucast (ans h a), h @ [Rd16 a]), io_w16 = \<lambda>a v h. h @ [Wr16 a v],
     io_r32 = \<lambda>a h. (ans h a, h @ [Rd32 a]), io_w32 = \<lambda>a v h. h @ [Wr32 a v]\<rparr>"

lemma run_get8 [host_simps]: "run_state (get8 (bus_io ans) a) s = (ucast (ans (s1_hw s) a), s\<lparr>s1_hw := s1_hw s @ [Rd8 a]\<rparr>)"
  by (simp add: get8_def bus_io_def host_simps)

lemma run_get32 [host_simps]: "run_state (get32 (bus_io ans) a) s = (ans (s1_hw s) a, s\<lparr>s1_hw := s1_hw s @ [Rd32 a]\<rparr>)"
  by (simp add: get32_def bus_io_def host_simps)

lemma run_put8 [host_simps]: "run_state (put8 (bus_io ans) a v) s = ((), s\<lparr>s1_hw := s1_hw s @ [Wr8 a v]\<rparr>)"
  by (simp add: put8_def bus_io_def host_simps)

lemma run_put16 [host_simps]: "run_state (put16 (bus_io ans) a v) s = ((), s\<lparr>s1_hw := s1_hw s @ [Wr16 a v]\<rparr>)"
  by (simp add: put16_def bus_io_def host_simps)

lemma run_put32 [host_simps]: "run_state (put32 (bus_io ans) a v) s = ((), s\<lparr>s1_hw := s1_hw s @ [Wr32 a v]\<rparr>)"
  by (simp add: put32_def bus_io_def host_simps)

lemma run_put32s [host_simps]:
  "run_state (put32s (bus_io ans) ws) s = ((), s\<lparr>s1_hw := s1_hw s @ List.map (\<lambda>(a, v). Wr32 a v) ws\<rparr>)"
  by (induction ws arbitrary: s) (auto simp: host_simps)

section \<open>Touched addresses\<close>

text \<open>The globals that \<^verbatim>\<open>load_args\<close> sets, which no other operation changes.\<close>

definition settings :: "bus st1 \<Rightarrow> bus st1" where
  "settings s = s\<lparr>s1_hw := [], s1_hung := False, s1_ub := False, s1_rom := False\<rparr>"

lemma settings_fields:
  assumes "settings s' = settings s"
  shows "UART_BASE s' = UART_BASE s" "CPU_ID s' = CPU_ID s" "CFG_CPU_SPEED s' = CFG_CPU_SPEED s" "CFG_EXTAL s' = CFG_EXTAL s"
    "PHM_DIV s' = PHM_DIV s" "SDRAM_BW16 s' = SDRAM_BW16 s" "SDRAM_BANK4 s' = SDRAM_BANK4 s" "SDRAM_ROW s' = SDRAM_ROW s"
    "SDRAM_COL s' = SDRAM_COL s" "s1_mem s' = s1_mem s"
  using assms by (cases s; cases s'; simp add: settings_def)+

definition touches :: "(u32 \<Rightarrow> u32 \<Rightarrow> bool) \<Rightarrow> (bus, 'a) s1 \<Rightarrow> bool" where
  "touches A f \<longleftrightarrow> (\<forall>s. settings (snd (run_state f s)) = settings s
     \<and> (\<exists>es. s1_hw (snd (run_state f s)) = s1_hw s @ es \<and> list_all (\<lambda>e. A (UART_BASE s) (ev_addr e)) es))"

named_theorems touches

lemma touchesD:
  assumes "touches A f" "run_state f s = (x, s')"
  obtains es where "settings s' = settings s" "s1_hw s' = s1_hw s @ es" "list_all (\<lambda>e. A (UART_BASE s) (ev_addr e)) es"
  using assms unfolding touches_def by (metis snd_conv)

lemma touches_weaken:
  assumes "touches A f" "\<And>b a. A b a \<Longrightarrow> B b a" shows "touches B f"
  using assms unfolding touches_def list_all_iff by metis

lemma touches_bind [touches]:
  assumes f: "touches A f" and g: "\<And>x. touches A (g x)" shows "touches A (f \<bind> g)"
  unfolding touches_def
proof
  fix s
  obtain x s1 where r: "run_state f s = (x, s1)" by (cases "run_state f s")
  obtain y s2 where q: "run_state (g x) s1 = (y, s2)" by (cases "run_state (g x) s1")
  obtain es where e: "settings s1 = settings s" "s1_hw s1 = s1_hw s @ es" "list_all (\<lambda>e. A (UART_BASE s) (ev_addr e)) es"
    by (rule touchesD [OF f r])
  obtain es' where e': "settings s2 = settings s1" "s1_hw s2 = s1_hw s1 @ es'" "list_all (\<lambda>e. A (UART_BASE s1) (ev_addr e)) es'"
    by (rule touchesD [OF g q])
  show "settings (snd (run_state (f \<bind> g) s)) = settings s
     \<and> (\<exists>es. s1_hw (snd (run_state (f \<bind> g) s)) = s1_hw s @ es \<and> list_all (\<lambda>e. A (UART_BASE s) (ev_addr e)) es)"
    using r q e e' settings_fields(1) [OF e(1)] by (simp add: host_simps)
qed

lemma settings_log [simp]:
  "settings (s\<lparr>s1_hw := h\<rparr>) = settings s" "settings (s\<lparr>s1_ub := b\<rparr>) = settings s" "settings (s\<lparr>s1_hung := b\<rparr>) = settings s"
  "settings (s\<lparr>s1_rom := b\<rparr>) = settings s"
  by (simp_all add: settings_def)

lemma touches_return [touches]: "touches A (State_Monad.return x)" by (simp add: touches_def host_simps)
lemma touches_gets [touches]: "touches A (s1_gets g)" by (simp add: touches_def host_simps)
lemma touches_mark [touches]: "touches A (s1_mark b)" by (simp add: touches_def host_simps)

lemma touches_update:
  "(\<And>s. settings (f s) = settings s) \<Longrightarrow> (\<And>s. s1_hw (f s) = s1_hw s) \<Longrightarrow> touches A (State_Monad.update f)"
  by (simp add: touches_def host_simps)

lemma touches_if [touches]: "touches A f \<Longrightarrow> touches A g \<Longrightarrow> touches A (if c then f else g)" by simp
lemma touches_let [touches]: "touches A (f x) \<Longrightarrow> touches A (Let x f)" by simp

lemma touches_get8 [touches]: "(\<And>b. A b a) \<Longrightarrow> touches A (get8 (bus_io ans) a)" by (simp add: touches_def host_simps)
lemma touches_get32 [touches]: "(\<And>b. A b a) \<Longrightarrow> touches A (get32 (bus_io ans) a)" by (simp add: touches_def host_simps)
lemma touches_put8 [touches]: "(\<And>b. A b a) \<Longrightarrow> touches A (put8 (bus_io ans) a v)" by (simp add: touches_def host_simps)
lemma touches_put16 [touches]: "(\<And>b. A b a) \<Longrightarrow> touches A (put16 (bus_io ans) a v)" by (simp add: touches_def host_simps)
lemma touches_put32 [touches]: "(\<And>b. A b a) \<Longrightarrow> touches A (put32 (bus_io ans) a v)" by (simp add: touches_def host_simps)

lemma touches_put32s [touches]:
  "(\<And>b. list_all (A b) (List.map fst ws)) \<Longrightarrow> touches A (put32s (bus_io ans) ws)"
  by (fastforce simp: touches_def host_simps list_all_iff)

lemma touches_wait [touches]: "touches A f \<Longrightarrow> touches A (s1_wait n f)"
  by (induction n) (auto intro!: touches touches_update)

section \<open>Serial port\<close>

definition uart_reg :: "u32 \<Rightarrow> u32 \<Rightarrow> bool" where
  "uart_reg b a \<longleftrightarrow> a - b \<in> {0x00, 0x04, 0x08, 0x0C, 0x14, 0x20}"

lemma touches_uart_idle [touches]: "touches uart_reg (uart_idle (bus_io ans))"
  by (simp add: touches_def uart_idle_def host_simps uart_reg_def uart_defs)

lemma touches_uart_tdr: "touches uart_reg (do { b \<leftarrow> s1_gets UART_BASE; put8 (bus_io ans) (b + OFF_TDR) v })"
  by (simp add: touches_def host_simps uart_reg_def uart_defs)

lemma touches_uart_send [touches]: "touches uart_reg (uart_send (bus_io ans) P v)"
  unfolding uart_send_def by (intro touches touches_uart_tdr)

lemma touches_serial_put_bytes [touches]: "touches uart_reg (serial_put_bytes (bus_io ans) P bs)"
  by (induction bs) (auto simp: serial_putc_def intro!: touches)

lemma touches_serial_puts [touches]: "touches uart_reg (serial_puts (bus_io ans) P str)"
  and touches_serial_put_hex [touches]: "touches uart_reg (serial_put_hex (bus_io ans) P d)"
  unfolding serial_puts_def serial_put_hex_def by (intro touches)+

lemma touches_set_divisor [touches]: "touches uart_reg (set_divisor (bus_io ans) v)"
  by (simp add: touches_def set_divisor_def host_simps uart_reg_def uart_defs)

lemma touches_setbrg [touches]:
  "touches uart_reg (serial_setbrg_4740 (bus_io ans))" "touches uart_reg (serial_setbrg_4760 (bus_io ans))"
  unfolding serial_setbrg_4740_def serial_setbrg_4760_def by (intro touches)+

lemma touches_serial_init [touches]: "touches uart_reg (serial_init (bus_io ans))"
proof -
  have pre: "touches uart_reg (do { b \<leftarrow> s1_gets UART_BASE; put8 (bus_io ans) (b + OFF_IER) 0; put8 (bus_io ans) (b + OFF_FCR) (NOT 0x10);
      put8 (bus_io ans) (b + OFF_SIRCR) (NOT 3); put8 (bus_io ans) (b + OFF_LCR) 3 })"
    and post: "touches uart_reg (do { b \<leftarrow> s1_gets UART_BASE; put8 (bus_io ans) (b + OFF_FCR) 0x17 })"
    by (simp_all add: touches_def host_simps uart_reg_def uart_defs)
  have "touches uart_reg (do {
      do { b \<leftarrow> s1_gets UART_BASE; put8 (bus_io ans) (b + OFF_IER) 0; put8 (bus_io ans) (b + OFF_FCR) (NOT 0x10);
        put8 (bus_io ans) (b + OFF_SIRCR) (NOT 3); put8 (bus_io ans) (b + OFF_LCR) 3 };
      cpu \<leftarrow> s1_gets CPU_ID;
      (if cpu = 0x4740 then serial_setbrg_4740 (bus_io ans) else serial_setbrg_4760 (bus_io ans));
      do { b \<leftarrow> s1_gets UART_BASE; put8 (bus_io ans) (b + OFF_FCR) 0x17 } })" (is "touches _ ?f")
    by (intro touches pre post)
  moreover have "run_state ?f s = run_state (serial_init (bus_io ans)) s" for s
    by (simp add: serial_init_def serial_setbrg_4740_def serial_setbrg_4760_def set_divisor_def host_simps)
  ultimately show ?thesis by (simp add: touches_def)
qed

section \<open>Pins, clocks and memory controller\<close>

definition gpio_reg :: "u32 \<Rightarrow> u32 \<Rightarrow> bool" where "gpio_reg b a \<longleftrightarrow> drop_bit 11 a = drop_bit 11 GPIO_BASE"

lemma touches_gpio_init [touches]: "touches gpio_reg (gpio_init_4740 (bus_io ans))"
  unfolding gpio_init_4740_def
  by (intro touches)
    (simp_all add: pins_nand_def pins_sdram_32bit_def pins_uart0_def pins_uart1_def gpio_reg_def gpio_defs)

definition emc_reg :: "u32 \<Rightarrow> u32 \<Rightarrow> bool" where "emc_reg b a \<longleftrightarrow> drop_bit 16 a = drop_bit 16 EMC_BASE"

lemma touches_sdram_program [touches]: "touches emc_reg (sdram_program (bus_io ans) mem_clk)"
  unfolding sdram_program_def
  by (intro touches) (simp_all add: emc_reg_def emc_defs SDMODE_def)

definition cpm_reg :: "u32 \<Rightarrow> u32 \<Rightarrow> bool" where "cpm_reg b a \<longleftrightarrow> a \<in> {CPM_CPCCR, CPM_CPPCR, CPM_UHCCDR}"

lemmas cpm_defs = CPM_CPCCR_def CPM_CPPCR_def CPM_UHCCDR_def CPM_BASE_def

lemma touches_cpm_get [touches]: "touches cpm_reg (cpm_get_cdiv (bus_io ans))" "touches cpm_reg (cpm_get_mdiv (bus_io ans))"
  unfolding cpm_get_cdiv_def cpm_get_mdiv_def by (intro touches; simp add: cpm_reg_def)+

lemma touches_pll_init [touches]: "touches cpm_reg (pll_init_4740 (bus_io ans))"
  unfolding pll_init_4740_def by (intro touches) (simp_all add: cpm_reg_def)

text \<open>What is accessed after the pins and the clocks are set up.\<close>

definition late_reg :: "u32 \<Rightarrow> u32 \<Rightarrow> bool" where "late_reg b a \<longleftrightarrow> uart_reg b a \<or> a = CPM_CPCCR"

lemmas touches_late = touches_weaken [where B = late_reg]

lemma touches_put_hexs [touches]: "touches uart_reg (put_hexs (bus_io ans) P ds)"
  by (induction ds) (auto intro!: touches)

lemma touches_finish: "touches late_reg (s1_finish (bus_io ans) P)"
  unfolding s1_finish_def
  by (intro touches touches_update; (rule touches_late, (rule touches)+, simp add: late_reg_def)?)
    (simp_all add: late_reg_def)

end
