(* ===== verification/Stage1_Props.thy ===== *)
theory Stage1_Props
  imports Stage1_Bus Usbboot_Config
begin

unbundle bit_operations_syntax

text \<open>
  The first stage on the JZ4740, from the configuration file of the host to the registers of the device.
\<close>

section \<open>Arguments in memory\<close>

text \<open>The image of the stage is at 0x80002000.\<close>

definition image_loaded :: "(u32 \<Rightarrow> u8) \<Rightarrow> bytes \<Rightarrow> bool" where
  "image_loaded mem bs \<longleftrightarrow> List.map (\<lambda>k. mem (0x80002000 + of_nat k)) [0..<length bs] = bs"

lemma args_of_image:
  assumes "image_loaded mem bs" "36 \<le> length bs" shows "s1_args mem = dec_fw_args (slice 8 28 bs)"
proof -
  have byte: "mem (0x80002000 + of_nat k) = bs ! k" if "k < length bs" for k
    using assms(1) that unfolding image_loaded_def by (metis (no_types, lifting) add_0 nth_map_upt diff_zero)
  have "List.map (\<lambda>k. mem (0x80002008 + of_nat k)) [0..<28] = slice 8 28 bs"
  proof (rule nth_equalityI)
    fix k assume "k < length (List.map (\<lambda>k. mem (0x80002008 + of_nat k)) [0..<28])"
    then have k: "k < 28" by simp
    have "(0x80002008 + of_nat k :: u32) = 0x80002000 + of_nat (8 + k)" by simp
    then show "List.map (\<lambda>k. mem (0x80002008 + of_nat k)) [0..<28] ! k = slice 8 28 bs ! k"
      using byte [of "8 + k"] k assms(2) by (simp add: slice_def del: upt_rec_numeral)
  qed (use assms(2) in \<open>simp add: slice_def\<close>)
  then show ?thesis unfolding s1_args_def by simp
qed

text \<open>What \<^verbatim>\<open>load_args\<close> leaves.\<close>

definition args_loaded :: "fw_args \<Rightarrow> bus st1 \<Rightarrow> bool" where
  "args_loaded a s \<longleftrightarrow> CPU_ID s = fa_cpu_id a \<and> PHM_DIV s = fa_phm_div a \<and> SDRAM_BW16 s = fa_bus_width a
     \<and> SDRAM_BANK4 s = fa_bank_num a \<and> SDRAM_ROW s = fa_row_addr a \<and> SDRAM_COL s = fa_col_addr a
     \<and> UART_BASE s = UART0_BASE + ucast (fa_use_uart a) * 0x1000 \<and> s1_args (s1_mem s) = a
     \<and> (ucast (fa_ext_clk a) * 1000000 \<noteq> (19000000 :: u32) \<longrightarrow>
        CFG_EXTAL s = ucast (fa_ext_clk a) * 1000000 \<and> CFG_CPU_SPEED s = ucast (fa_cpu_speed a) * (ucast (fa_ext_clk a) * 1000000))"

lemma run_load_args:
  obtains s' where "run_state s1_load_args s = ((), s')" "args_loaded (s1_args (s1_mem s)) s'" "s1_hw s' = s1_hw s"
  by (rule that [of "snd (run_state s1_load_args s)"])
    (simp_all add: s1_load_args_def host_simps Let_def args_loaded_def)

lemma args_loaded_settings: "args_loaded a s \<Longrightarrow> settings s' = settings s \<Longrightarrow> args_loaded a s'"
  by (simp add: args_loaded_def settings_fields [of s' s])

section \<open>What the program does on the bus\<close>

definition pll_events :: "bus st1 \<Rightarrow> bus" where
  "pll_events s = (let cfcr = cfcr_4740 (n2FR ! unat (PHM_DIV s)) in
     [Wr32 CPM_UHCCDR (word_of_int (sint (if cfcr AND push_bit 21 1 \<noteq> 0 then CFG_CPU_SPEED s else CFG_CPU_SPEED s div 2) sdiv 48000000 - 1)),
      Wr32 CPM_CPCCR cfcr, Wr32 CPM_CPPCR (plcr1_4740 (CFG_CPU_SPEED s * 2 div CFG_EXTAL s))])"

text \<open>\<^verbatim>\<open>emits f s es\<close>: from \<^verbatim>\<open>s\<close> the program \<^verbatim>\<open>f\<close> makes the accesses \<^verbatim>\<open>es\<close> and keeps the settings.\<close>

definition emits :: "(bus, unit) s1 \<Rightarrow> bus st1 \<Rightarrow> bus \<Rightarrow> bool" where
  "emits f s es \<longleftrightarrow> settings (snd (run_state f s)) = settings s \<and> s1_hw (snd (run_state f s)) = s1_hw s @ es"

lemma emits_bind:
  assumes "emits f s es" and "\<And>s'. settings s' = settings s \<Longrightarrow> s1_hw s' = s1_hw s @ es \<Longrightarrow> emits g s' es'"
  shows "emits (f \<bind> (\<lambda>_. g)) s (es @ es')"
proof -
  obtain s' where r: "run_state f s = ((), s')" by (cases "run_state f s") simp
  then show ?thesis using assms(1) assms(2) [of s'] by (simp add: emits_def host_simps)
qed

lemma touches_emits:
  assumes "touches A f" obtains es where "emits f s es" "list_all (\<lambda>e. A (UART_BASE s) (ev_addr e)) es"
  using assms unfolding touches_def emits_def by blast

lemma emits_pll_init: "emits (pll_init_4740 (bus_io ans)) s (pll_events s)"
  by (simp add: pll_init_4740_def host_simps Let_def pll_events_def emits_def)

definition sdram_value :: "bus st1 \<Rightarrow> u32 \<Rightarrow> u32" where
  "sdram_value s ns = dmcr_geometry (ucast (SDRAM_ROW s)) (ucast (SDRAM_COL s)) (ucast (SDRAM_BANK4 s)) (ucast (SDRAM_BW16 s)) OR dmcr_timing ns"

definition sdram_events :: "bus st1 \<Rightarrow> u32 \<Rightarrow> bus" where
  "sdram_events s ns = [Wr32 EMC_BCR 0, Wr16 EMC_RTCSR 0, Wr32 EMC_DMCR (sdram_value s ns),
     Wr8 (EMC_SDMR0 OR SDMODE) 0, Wr32 EMC_DMCR (sdram_value s ns OR push_bit 24 1), Wr16 EMC_RTCOR (ucast (refresh_count ns)),
     Wr16 EMC_RTCNT 0, Wr16 EMC_RTCSR 3, Wr32 EMC_DMCR (dmcr_geometry 11 8 0 (ucast (SDRAM_BW16 s)) OR push_bit 24 1 OR push_bit 23 1),
     Wr8 (EMC_SDMR0 OR SDMODE) 0, Wr32 EMC_DMCR (sdram_value s ns OR push_bit 24 1 OR push_bit 23 1)]"

lemma emits_sdram_program: "emits (sdram_program (bus_io ans) clk) s (sdram_events s (1000000000 div clk))"
  by (simp add: sdram_program_def host_simps Let_def sdram_events_def sdram_value_def emits_def)

lemma sdram_events_settings: "settings s' = settings s \<Longrightarrow> sdram_events s' ns = sdram_events s ns"
  by (simp add: sdram_events_def sdram_value_def settings_fields [of s' s])

lemma emits_sdram_init:
  assumes "SDRAM_BW16 s \<noteq> 0xff"
  obtains ns where "emits (sdram_init_4740 (bus_io ans)) s ([Rd32 CPM_CPCCR, Rd32 CPM_CPCCR] @ sdram_events s ns)"
proof -
  have "\<exists>clk b. run_state (sdram_init_4740 (bus_io ans)) s
      = run_state (sdram_program (bus_io ans) clk) (s\<lparr>s1_hw := s1_hw s @ [Rd32 CPM_CPCCR, Rd32 CPM_CPCCR], s1_ub := b\<rparr>)"
    using assms by (simp add: sdram_init_4740_def cpm_get_cdiv_def cpm_get_mdiv_def host_simps Let_def) (intro exI; rule refl)
  then obtain clk b where r: "run_state (sdram_init_4740 (bus_io ans)) s
      = run_state (sdram_program (bus_io ans) clk) (s\<lparr>s1_hw := s1_hw s @ [Rd32 CPM_CPCCR, Rd32 CPM_CPCCR], s1_ub := b\<rparr>)"
    by blast
  let ?s = "s\<lparr>s1_hw := s1_hw s @ [Rd32 CPM_CPCCR, Rd32 CPM_CPCCR], s1_ub := b\<rparr>"
  have same: "sdram_events ?s ns = sdram_events s ns" for ns by (rule sdram_events_settings) simp
  show thesis
    using emits_sdram_program [of ans clk ?s] by (intro that [of "1000000000 div clk"]) (simp add: emits_def r same)
qed

lemma c_main_4740:
  assumes a: "a = s1_args (s1_mem s)" "fa_cpu_id a = 0x4740" "\<not> 0 < sint (fa_debug_ops a)" "fa_bus_width a \<noteq> 0xff"
  obtains s0 es1 es2 es3 ns where "args_loaded a s0"
    "s1_hw (snd (run_state (c_main (bus_io ans) P N) s)) = s1_hw s @ es1 @ pll_events s0 @ es2
      @ ([Rd32 CPM_CPCCR, Rd32 CPM_CPCCR] @ sdram_events s0 ns) @ es3"
    "list_all (\<lambda>e. gpio_reg (UART_BASE s0) (ev_addr e)) es1" "list_all (\<lambda>e. uart_reg (UART_BASE s0) (ev_addr e)) es2"
    "list_all (\<lambda>e. late_reg (UART_BASE s0) (ev_addr e)) es3"
proof -
  let ?M = "bus_io ans"
  obtain s0 where l: "run_state s1_load_args s = ((), s0)" "args_loaded a s0" "s1_hw s0 = s1_hw s"
    using run_load_args [of s] a(1) by blast
  obtain s1 where g: "run_state (gpio_init_4740 ?M) s0 = ((), s1)" by (cases "run_state (gpio_init_4740 ?M) s0") simp
  obtain s2 where p: "run_state (pll_init_4740 ?M) s1 = ((), s2)" by (cases "run_state (pll_init_4740 ?M) s1") simp
  obtain s3 where u: "run_state (serial_init ?M) s2 = ((), s3)" by (cases "run_state (serial_init ?M) s2") simp
  obtain s4 where d: "run_state (sdram_init_4740 ?M) s3 = ((), s4)" by (cases "run_state (sdram_init_4740 ?M) s3") simp
  obtain es1 where 1: "settings s1 = settings s0" "s1_hw s1 = s1_hw s0 @ es1"
      "list_all (\<lambda>e. gpio_reg (UART_BASE s0) (ev_addr e)) es1"
    by (rule touchesD [OF touches_gpio_init g])
  have 2: "settings s2 = settings s1" "s1_hw s2 = s1_hw s1 @ pll_events s1"
    using emits_pll_init [of ans s1] p by (simp_all add: emits_def)
  obtain es2 where 3: "settings s3 = settings s2" "s1_hw s3 = s1_hw s2 @ es2"
      "list_all (\<lambda>e. uart_reg (UART_BASE s2) (ev_addr e)) es2"
    by (rule touchesD [OF touches_serial_init u])
  have s30: "settings s3 = settings s0" using 1 2 3 by simp
  then have w3: "SDRAM_BW16 s3 \<noteq> 0xff" using l(2) a(4) settings_fields [OF s30] by (simp add: args_loaded_def)
  obtain ns where 4: "settings s4 = settings s3" "s1_hw s4 = s1_hw s3 @ [Rd32 CPM_CPCCR, Rd32 CPM_CPCCR] @ sdram_events s3 ns"
    using emits_sdram_init [OF w3, of ans] d by (auto simp: emits_def)
  obtain es3 where 5: "s1_hw (snd (run_state (s1_finish ?M P) s4)) = s1_hw s4 @ es3"
      "list_all (\<lambda>e. late_reg (UART_BASE s4) (ev_addr e)) es3"
    using touches_finish [of ans P] unfolding touches_def by blast
  have cpu: "CPU_ID s0 = 0x4740" "s1_args (s1_mem s0) = a" using l(2) a(2) by (simp_all add: args_loaded_def)
  have run: "run_state (c_main ?M P N) s = run_state (s1_finish ?M P) s4"
    using cpu a(3) by (simp add: c_main_def board_init_4740_def host_simps l(1) g p u d)
  have pll: "pll_events s1 = pll_events s0" using settings_fields [OF 1(1)] by (simp add: pll_events_def Let_def)
  show thesis
  proof (rule that [OF l(2)])
    show "list_all (\<lambda>e. uart_reg (UART_BASE s0) (ev_addr e)) es2"
      using 3(3) settings_fields(1) [OF 2(1)] settings_fields(1) [OF 1(1)] by simp
    show "list_all (\<lambda>e. late_reg (UART_BASE s0) (ev_addr e)) es3"
      using 5(2) settings_fields(1) [OF 4(1)] settings_fields(1) [OF s30] by simp
    show "s1_hw (snd (run_state (c_main ?M P N) s)) = s1_hw s @ es1 @ pll_events s0 @ es2
      @ ([Rd32 CPM_CPCCR, Rd32 CPM_CPCCR] @ sdram_events s0 ns) @ es3"
      by (simp add: run 5 4 3 2 1 l(3) pll sdram_events_settings [OF s30])
  qed (rule 1(3))
qed

section \<open>Addresses apart\<close>

lemma unat_add_mod: "unat (x + y :: u32) mod 4096 = (unat x mod 4096 + unat y mod 4096) mod 4096"
  by (simp add: unat_word_ariths mod_mod_cancel mod_add_eq)

lemma uart_offset:
  assumes "uart_reg (UART0_BASE + ucast (u :: u8) * 0x1000) a"
  shows "unat a mod 4096 \<in> {0x00, 0x04, 0x08, 0x0C, 0x14, 0x20}"
proof -
  let ?b = "UART0_BASE + ucast u * 0x1000"
  have "unat (x * 0x1000 :: u32) mod 4096 = 0" for x by (simp add: unat_word_ariths mod_mod_cancel)
  then have "unat ?b mod 4096 = 0" using unat_add_mod [of UART0_BASE "ucast u * 0x1000"] by (simp add: UART0_BASE_def)
  then have "unat a mod 4096 = unat (a - ?b) mod 4096" using unat_add_mod [of ?b "a - ?b"] by simp
  then show ?thesis using assms by (auto simp: uart_reg_def)
qed

lemma not_there:
  assumes "list_all (\<lambda>e. A (ev_addr e)) es" "\<not> A x" shows "List.filter (\<lambda>e. ev_addr e = x) es = []"
  using assms by (auto simp: filter_empty_conv list_all_iff)

lemma late_apart:
  "\<not> late_reg (UART0_BASE + ucast (u :: u8) * 0x1000) CPM_CPPCR" "\<not> late_reg (UART0_BASE + ucast (u :: u8) * 0x1000) EMC_DMCR"
  "\<not> uart_reg (UART0_BASE + ucast (u :: u8) * 0x1000) CPM_CPPCR" "\<not> uart_reg (UART0_BASE + ucast (u :: u8) * 0x1000) EMC_DMCR"
  "\<not> gpio_reg b CPM_CPPCR" "\<not> gpio_reg b EMC_DMCR"
  using uart_offset [of u CPM_CPPCR] uart_offset [of u EMC_DMCR]
  by (auto simp: late_reg_def gpio_reg_def cpm_defs emc_defs GPIO_BASE_def)

section \<open>What is written to the PLL and to the memory controller\<close>

definition at :: "u32 \<Rightarrow> bus \<Rightarrow> bus" where "at a = List.filter (\<lambda>e. ev_addr e = a)"

lemma at_Nil: "at a [] = []" by (simp add: at_def)

lemma at_append [simp]: "at a (xs @ ys) = at a xs @ at a ys" by (simp add: at_def)

lemma at_elsewhere: "list_all (\<lambda>e. A (ev_addr e)) es \<Longrightarrow> \<not> A a \<Longrightarrow> at a es = []"
  unfolding at_def by (rule not_there)

lemma at_cppcr:
  "at CPM_CPPCR (pll_events s) = [Wr32 CPM_CPPCR (plcr1_4740 (CFG_CPU_SPEED s * 2 div CFG_EXTAL s))]"
  "at CPM_CPPCR [Rd32 CPM_CPCCR, Rd32 CPM_CPCCR] = []" "at CPM_CPPCR (sdram_events s ns) = []"
  by (simp_all add: at_def pll_events_def sdram_events_def Let_def cpm_defs emc_defs SDMODE_def)

lemma at_dmcr:
  "at EMC_DMCR (pll_events s) = []" "at EMC_DMCR [Rd32 CPM_CPCCR, Rd32 CPM_CPCCR] = []"
  "at EMC_DMCR (sdram_events s ns) = [Wr32 EMC_DMCR (sdram_value s ns),
     Wr32 EMC_DMCR (sdram_value s ns OR push_bit 24 1),
     Wr32 EMC_DMCR (dmcr_geometry 11 8 0 (ucast (SDRAM_BW16 s)) OR push_bit 24 1 OR push_bit 23 1),
     Wr32 EMC_DMCR (sdram_value s ns OR push_bit 24 1 OR push_bit 23 1)]"
  by (simp_all add: at_def pll_events_def sdram_events_def Let_def cpm_defs emc_defs SDMODE_def)

lemma c_main_writes:
  assumes a: "a = s1_args (s1_mem s)" "fa_cpu_id a = 0x4740" "\<not> 0 < sint (fa_debug_ops a)" "fa_bus_width a \<noteq> 0xff"
    and hw: "s1_hw s = []"
  obtains s0 ns where "args_loaded a s0"
    "at CPM_CPPCR (s1_hw (snd (run_state (c_main (bus_io ans) P N) s)))
      = [Wr32 CPM_CPPCR (plcr1_4740 (CFG_CPU_SPEED s0 * 2 div CFG_EXTAL s0))]"
    "at EMC_DMCR (s1_hw (snd (run_state (c_main (bus_io ans) P N) s))) = [Wr32 EMC_DMCR (sdram_value s0 ns),
     Wr32 EMC_DMCR (sdram_value s0 ns OR push_bit 24 1),
     Wr32 EMC_DMCR (dmcr_geometry 11 8 0 (ucast (SDRAM_BW16 s0)) OR push_bit 24 1 OR push_bit 23 1),
     Wr32 EMC_DMCR (sdram_value s0 ns OR push_bit 24 1 OR push_bit 23 1)]"
proof -
  obtain s0 es1 es2 es3 ns where loaded: "args_loaded a s0"
    and log: "s1_hw (snd (run_state (c_main (bus_io ans) P N) s)) = s1_hw s @ es1 @ pll_events s0 @ es2
      @ ([Rd32 CPM_CPCCR, Rd32 CPM_CPCCR] @ sdram_events s0 ns) @ es3"
    and es: "list_all (\<lambda>e. gpio_reg (UART_BASE s0) (ev_addr e)) es1" "list_all (\<lambda>e. uart_reg (UART_BASE s0) (ev_addr e)) es2"
      "list_all (\<lambda>e. late_reg (UART_BASE s0) (ev_addr e)) es3"
    by (rule c_main_4740 [OF a, of ans P N])
  have base: "UART_BASE s0 = UART0_BASE + ucast (fa_use_uart a) * 0x1000" using loaded by (simp add: args_loaded_def)
  note apart = es [THEN at_elsewhere, unfolded base]
  show thesis
    by (rule that [OF loaded, of ns]; unfold log hw at_append at_cppcr at_dmcr; simp add: apart late_apart at_Nil)
qed

section \<open>Clock\<close>

lemma plcr1_bits:
  fixes x :: u32
  assumes "x < 512"
  shows "drop_bit 23 ((push_bit 23 x OR 0x120) AND 0xff800000) = x"
    "drop_bit 18 ((push_bit 23 x OR 0x120) AND 0x007c0000) = 0"
    "drop_bit 16 ((push_bit 23 x OR 0x120) AND 0x00030000) = 0"
    "(push_bit 23 x OR 0x120) AND 0x100 = 0x100"
    "(push_bit 23 x OR 0x120) AND 0x200 = 0"
proof -
  have u: "unat x < 512" using assms by (simp add: word_less_nat_alt)
  have "take_bit 9 x = x" using u by (simp add: take_bit_eq_mod unat_mod word_unat_eq_iff)
  then have m: "x AND 511 = x" by (simp add: take_bit_eq_mask mask_eq_exp_minus_1)
  have "unat (drop_bit 23 (push_bit 23 x)) = unat x"
    using u by (simp add: unat_drop_bit_eq drop_bit_eq_div push_bit_eq_mult unat_word_ariths)
  then have d: "drop_bit 23 (push_bit 23 x) = x" by (simp only: word_unat_eq_iff)
  have low: "drop_bit k (push_bit 23 x) AND mask n = 0" if "k + n \<le> 23" for k n
    using that by (intro bit_word_eqI) (auto simp: bit_simps)
  have "push_bit 23 x AND push_bit k 1 = 0" if "k < 23" for k
    using that by (intro bit_word_eqI) (auto simp: bit_simps)
  from this [of 8] this [of 9] show "(push_bit 23 x OR 0x120) AND 0x100 = 0x100" "(push_bit 23 x OR 0x120) AND 0x200 = 0"
    by (simp_all add: bit.conj_disj_distrib2)
  show "drop_bit 23 ((push_bit 23 x OR 0x120) AND 0xff800000) = x"
    by (simp add: d m)
  show "drop_bit 18 ((push_bit 23 x OR 0x120) AND 0x007c0000) = 0" "drop_bit 16 ((push_bit 23 x OR 0x120) AND 0x00030000) = 0"
    using low [of 18 5] low [of 16 2] by (simp_all add: mask_eq_exp_minus_1)
qed
lemma fits_u32: "n < 2 ^ 32 \<Longrightarrow> unat (of_nat n :: u32) = n" by (simp add: unat_of_nat)

lemma pllout_of_multiplier:
  assumes "2 \<le> m" "m < 514" shows "pllout_4740 extal (plcr1_4740 m) = extal div 2 * m"
proof -
  have "m - 2 < 512" using assms by (simp add: word_less_nat_alt word_le_nat_alt unat_sub)
  moreover have "plcr1_4740 m = push_bit 23 (m - 2) OR 0x120" by (simp add: plcr1_4740_def or.assoc)
  ultimately show ?thesis using plcr1_bits [of "m - 2"] by (simp add: pllout_4740_def)
qed

text \<open>The clock of the processor for a multiplier \<^verbatim>\<open>q\<close> of \<^verbatim>\<open>e\<close> MHz.\<close>

lemma clock_of_args:
  fixes q e :: nat
  assumes "0 < e" "0 < q" "q * e < 256"
  defines "extal \<equiv> of_nat e * 1000000 :: u32"
  shows "unat (pllout_4740 extal (plcr1_4740 (of_nat q * extal * 2 div extal))) = q * e * 1000000"
proof -
  have e: "e < 256" "q < 256" using assms(1-3) by (auto intro: le_less_trans [of _ "q * e"])
  have x: "extal = of_nat (e * 1000000)" by (simp add: extal_def)
  have ux: "unat extal = e * 1000000" using e unfolding x by (simp add: unat_of_nat del: of_nat_mult)
  have b1: "q * e * 2000000 < 2 ^ 32" and b2: "q * e * 1000000 < 2 ^ 32" using assms(3) by (simp_all add: mult.commute [of q e])
  have "of_nat q * extal * 2 = of_nat (q * e * 2000000)" by (simp add: x algebra_simps)
  then have "unat (of_nat q * extal * 2) = q * e * 2000000" by (simp only: fits_u32 [OF b1])
  then have m: "of_nat q * extal * 2 div extal = of_nat (2 * q)"
    using assms(1) e by (intro word_unat_eq_iff [THEN iffD2]) (simp add: unat_div ux unat_of_nat del: of_nat_mult)
  have h: "extal div 2 = of_nat (e * 500000)"
    using e by (intro word_unat_eq_iff [THEN iffD2]) (simp add: unat_div ux unat_of_nat del: of_nat_mult)
  have "pllout_4740 extal (plcr1_4740 (of_nat (2 * q))) = extal div 2 * of_nat (2 * q)"
    using assms(2) e by (intro pllout_of_multiplier) (simp_all add: word_less_nat_alt word_le_nat_alt unat_of_nat del: of_nat_mult)
  also have "\<dots> = of_nat (q * e * 1000000)" by (simp add: h algebra_simps)
  finally show ?thesis by (simp only: m fits_u32 [OF b2])
qed

section \<open>From the configuration to the device\<close>

lemma configure_run:
  assumes "ub_files w cfg \<noteq> None" "C cfg = Some f"
  shows "\<exists>h. let w1 = snd (run_state (parse_configure C cfg) w); a = hd_fw_args (read_hand f h) in
      hd_fw_args (ub_hand w1) = a\<lparr>fa_bus_width := (if fa_bus_width a = 32 then 0 else 1), fa_bank_num := fa_bank_num a div 4,
        fa_cpu_speed := fa_cpu_speed a div fa_ext_clk a\<rparr>
      \<and> ub_total_size w1 = cfg_total_size (hd_fw_args (ub_hand w1)) \<and> ub_files w1 = ub_files w \<and> ub_openable w1 = ub_openable w"
  using assms by (intro exI [of _ "ub_hand w"])
    (auto simp: parse_configure_def host_simps check_dump_cfg_def Let_def split: prod.splits)

lemma configured:
  assumes "ub_files w cfg \<noteq> None" "C cfg = Some f" "w1 = snd (run_state (parse_configure C cfg) w)"
  defines "a \<equiv> hd_fw_args (ub_hand w1)"
  shows "fa_ext_clk a = cfg_u8 f ''EXTCLK''" "fa_cpu_speed a = cfg_u8 f ''CPUSPEED'' div cfg_u8 f ''EXTCLK''"
    "fa_debug_ops a = cfg_u8 f ''DEBUGOPS''" "fa_bus_width a = (if cfg_u8 f ''BUSWIDTH'' = 32 then 0 else 1)"
    "fa_bank_num a = cfg_u8 f ''BANKS'' div 4" "fa_row_addr a = cfg_u8 f ''ROWADDR''" "fa_col_addr a = cfg_u8 f ''COLADDR''"
    "ub_total_size w1 = cfg_total_size a" "ub_files w1 = ub_files w" "ub_openable w1 = ub_openable w"
  using configure_run [of w cfg C f, OF assms(1,2)] unfolding a_def assms(3)
  by (auto simp: read_hand_def Let_def)

text \<open>The arguments of the device when the image that \<^verbatim>\<open>load_file\<close> prepares for a processor is in its memory.\<close>

lemma device_args:
  assumes "ub_files w path = Some \<lparr>f_data = data, f_readable = length data\<rparr>" "ub_openable w path"
    and "36 \<le> length data" "length data \<le> CODE_BUF_BYTES"
    and "run_state (do { set_fa (\<lambda>a. a\<lparr>fa_cpu_id := cpu\<rparr>); load_file path }) w = (r, w2)"
    and "image_loaded mem (file_bytes w2)"
  shows "s1_args mem = (hd_fw_args (ub_hand w))\<lparr>fa_cpu_id := cpu\<rparr>"
proof -
  let ?a = "(hd_fw_args (ub_hand w))\<lparr>fa_cpu_id := cpu\<rparr>"
  let ?w = "w\<lparr>ub_hand := (ub_hand w)\<lparr>hd_fw_args := ?a\<rparr>\<rparr>"
  have "run_state (load_file path) ?w = (r, w2)" using assms(5) by (simp add: set_fa_def host_simps)
  then have w2: "file_bytes w2 = take 8 data @ enc_fw_args ?a @ drop 36 data"
    using load_file_patches [of ?w path data] assms(1-4) by auto
  then have "36 \<le> length (file_bytes w2)" using assms(3) by (simp add: fwa.length_enc)
  then show ?thesis using args_of_image [OF assms(6)] patched_args [OF assms(3)] w2 by simp
qed

text \<open>C8.  From the configuration file to the clock of the device: when \<^verbatim>\<open>EXTCLK\<close> divides \<^verbatim>\<open>CPUSPEED\<close>, and the crystal is not
  19 MHz, the one write to the PLL register by the first stage that the host has patched with the configuration gives exactly the configured
  frequency, whatever the hardware answers.\<close>

theorem configured_clock:
  assumes "ub_files w cfg \<noteq> None" "C cfg = Some f" "w1 = snd (run_state (parse_configure C cfg) w)"
    and "f ''EXTCLK'' = Some e" "f ''CPUSPEED'' = Some k" "0 < e" "0 < k" "k < 256" "e dvd k" "e \<noteq> 19" "f ''DEBUGOPS'' = None"
    and "ub_files w path = Some \<lparr>f_data = data, f_readable = length data\<rparr>" "ub_openable w path"
    and "36 \<le> length data" "length data \<le> CODE_BUF_BYTES"
    and "run_state (do { set_fa (\<lambda>a. a\<lparr>fa_cpu_id := 0x4740\<rparr>); load_file path }) w1 = (r, w2)"
    and "image_loaded (s1_mem s) (file_bytes w2)" "s1_hw s = []"
  shows "\<exists>v. at CPM_CPPCR (s1_hw (snd (run_state (c_main (bus_io ans) P N) s))) = [Wr32 CPM_CPPCR v]
    \<and> int (unat (pllout_4740 (word_of_int (e * 1000000)) v)) = k * 1000000"
proof -
  note conf = configured [OF assms(1-3)]
  define a where "a = (hd_fw_args (ub_hand w1))\<lparr>fa_cpu_id := 0x4740\<rparr>"
  have args: "a = s1_args (s1_mem s)"
    using device_args [OF _ _ assms(14-17)] assms(12,13) conf(9,10) by (simp add: a_def)
  have dbg: "\<not> 0 < sint (fa_debug_ops a)" by (simp add: a_def conf cfg_u8_def cfg_getint_def assms(11))
  have bw: "fa_bus_width a \<noteq> 0xff" by (simp add: a_def conf)
  have id: "fa_cpu_id a = 0x4740" by (simp add: a_def)
  obtain s0 ns where loaded: "args_loaded a s0"
    and writes: "at CPM_CPPCR (s1_hw (snd (run_state (c_main (bus_io ans) P N) s)))
      = [Wr32 CPM_CPPCR (plcr1_4740 (CFG_CPU_SPEED s0 * 2 div CFG_EXTAL s0))]"
    by (rule c_main_writes [OF args id dbg bw assms(18), of ans P N])
  define n q where "n = nat e" and "q = nat (k div e)"
  have kq: "k div e * e = k" "0 < k div e" using assms(6,7,9) by (auto simp: pos_imp_zdiv_pos_iff zdvd_imp_le)
  then have prod: "int q * int n = k" using assms(6) by (simp add: q_def n_def)
  then have "int (q * n) = k" by simp
  then have "q * n < 256" using assms(8) by linarith
  moreover have "0 < n" "0 < q" using assms(6) kq(2) by (simp_all add: n_def q_def)
  ultimately have le: "q * n < 256" "0 < n" "0 < q" by simp_all
  then have small: "n < 256" "q < 256" by (auto intro: le_less_trans [of _ "q * n"])
  have byte: "unat (word_of_int m :: u8) = nat m" if "0 \<le> m" "m < 256" for m using that by (simp add: unat_eq_nat_uint uint_word_of_int)
  have ext: "unat (fa_ext_clk a) = n" and spd: "unat (fa_cpu_speed a) = q"
    using assms(4-8) small byte [of e] byte [of k]
    by (simp_all add: a_def conf cfg_u8_def cfg_getint_def unat_div n_def q_def nat_div_distrib)
  have "(ucast x :: u32) = of_nat (unat x)" for x :: u8 by simp
  then have cast: "(ucast (fa_ext_clk a) :: u32) = of_nat n" "(ucast (fa_cpu_speed a) :: u32) = of_nat q" by (metis ext, metis spd)
  have "unat (of_nat n * 1000000 :: u32) = n * 1000000" using small
    using fits_u32 [of "n * 1000000"] by simp
  moreover have "n \<noteq> 19" using assms(6,10) by (simp add: n_def)
  ultimately have "of_nat n * 1000000 \<noteq> (19000000 :: u32)" by auto
  then have regs: "CFG_EXTAL s0 = of_nat n * 1000000" "CFG_CPU_SPEED s0 = of_nat q * (of_nat n * 1000000)"
    using loaded by (simp_all add: args_loaded_def cast)
  have "word_of_int e = (of_nat n :: u32)" using assms(6) by (simp add: n_def)
  then have "word_of_int (e * 1000000) = (of_nat n * 1000000 :: u32)" by (simp add: wi_hom_mult [symmetric])
  moreover have "int (q * n * 1000000) = k * 1000000" using prod by simp
  ultimately have "int (unat (pllout_4740 (word_of_int (e * 1000000)) (plcr1_4740 (CFG_CPU_SPEED s0 * 2 div CFG_EXTAL s0)))) = k * 1000000"
    unfolding regs using clock_of_args [OF le(2,3,1)] by simp
  then show ?thesis using writes by blast
qed

section \<open>Memory\<close>

lemma timing_field:
  assumes "x \<le> 7" "n \<in> {2, 5, 8, 11, 13}" shows "drop_bit 16 (push_bit n x :: u32) = 0"
proof -
  have "unat x \<le> 7" using assms(1) by (simp add: word_le_nat_alt)
  then have "unat (push_bit n x) < 2 ^ 16" using assms(2) by (auto simp: push_bit_eq_mult unat_word_ariths)
  then show ?thesis by (intro word_unat_eq_iff [THEN iffD2]) (simp add: drop_bit_eq_div unat_div)
qed

lemma timing_bounds:
  "min 11 (max 4 x) - 4 \<le> (7 :: u32)" "min 3 x \<le> (7 :: u32)" "min 7 x \<le> (7 :: u32)" "drop_bit 1 (min 14 x + 1) \<le> (7 :: u32)"
proof -
  have "unat (min 11 (max 4 x)) \<le> 11" "4 \<le> unat (min 11 (max 4 x))" "unat (min 14 x) \<le> 14" 
    by (auto simp: min_def max_def word_le_nat_alt)
  then show "min 11 (max 4 x) - 4 \<le> (7 :: u32)" "drop_bit 1 (min 14 x + 1) \<le> (7 :: u32)"
    by (simp_all add: word_le_nat_alt unat_sub unat_drop_bit_eq drop_bit_eq_div unat_word_ariths)
qed (auto simp: min_def word_le_nat_alt)

lemma dmcr_timing_low: "drop_bit (16 + k) (dmcr_timing ns) = 0"
proof -
  have "drop_bit 16 (dmcr_timing ns) = 0"
    using timing_field timing_bounds by (simp add: dmcr_timing_def Let_def)
  then have "drop_bit k (drop_bit 16 (dmcr_timing ns)) = 0" by simp
  then show ?thesis by (simp add: drop_bit_drop_bit add.commute)
qed

text \<open>The memory that a value of the control register describes, by its fields \<^verbatim>\<open>RA\<close>, \<^verbatim>\<open>CA\<close>, \<^verbatim>\<open>BA\<close> and \<^verbatim>\<open>BW\<close> in \<^verbatim>\<open>jz4740.h\<close>.\<close>

definition dmcr_capacity :: "u32 \<Rightarrow> nat" where
  "dmcr_capacity v = 2 ^ (unat (drop_bit 20 v AND 3) + 11) * 2 ^ (unat (drop_bit 26 v AND 7) + 8)
     * (if drop_bit 19 v AND 1 = 0 then 2 else 4) * (if drop_bit 31 v AND 1 = 0 then 4 else 2)"

lemma capacity_of_value:
  "dmcr_capacity ((dmcr_geometry row col bank bw OR dmcr_timing ns) OR push_bit 24 1 OR push_bit 23 1)
    = dmcr_capacity (dmcr_geometry row col bank bw OR push_bit 24 1 OR push_bit 23 1)"
  using dmcr_timing_low [of 4 ns] dmcr_timing_low [of 10 ns] dmcr_timing_low [of 3 ns] dmcr_timing_low [of 15 ns]
  by (simp add: dmcr_capacity_def)

lemma capacity_configured:
  assumes "r \<in> {11, 12, 13}" "k \<in> {8, 9, 10, 11, 12}" "b \<in> {0, 1}" "w \<in> {0, 1}"
    "fa_row_addr a = r" "fa_col_addr a = k" "fa_bank_num a = b" "fa_bus_width a = w"
  shows "dmcr_capacity (dmcr_geometry (ucast r) (ucast k) (ucast b) (ucast w) OR push_bit 24 1 OR push_bit 23 1) = unat (cfg_total_size a)"
  using assms(1-4) unfolding cfg_total_size_def assms(5-8)
  by (elim insertE emptyE; simp add: dmcr_capacity_def dmcr_geometry_def)

text \<open>C9.  From the configuration file to the memory controller: for the geometries that the controller knows, the last of the four writes to its
  register describes a memory of exactly the size that the host computes from the same configuration and uses for its transfers,
  whatever the hardware answers.\<close>

theorem configured_memory:
  assumes "ub_files w cfg \<noteq> None" "C cfg = Some f" "w1 = snd (run_state (parse_configure C cfg) w)"
    and "cfg_u8 f ''ROWADDR'' \<in> {11, 12, 13}" "cfg_u8 f ''COLADDR'' \<in> {8, 9, 10, 11, 12}" "cfg_u8 f ''BANKS'' \<in> {2, 4}"
    and "f ''DEBUGOPS'' = None"
    and "ub_files w path = Some \<lparr>f_data = data, f_readable = length data\<rparr>" "ub_openable w path"
    and "36 \<le> length data" "length data \<le> CODE_BUF_BYTES"
    and "run_state (do { set_fa (\<lambda>a. a\<lparr>fa_cpu_id := 0x4740\<rparr>); load_file path }) w1 = (r, w2)"
    and "image_loaded (s1_mem s) (file_bytes w2)" "s1_hw s = []"
  shows "\<exists>v1 v2 v3 v. at EMC_DMCR (s1_hw (snd (run_state (c_main (bus_io ans) P N) s)))
      = [Wr32 EMC_DMCR v1, Wr32 EMC_DMCR v2, Wr32 EMC_DMCR v3, Wr32 EMC_DMCR v]
    \<and> dmcr_capacity v = unat (ub_total_size w1)"
proof -
  note conf = configured [OF assms(1-3)]
  define a where "a = (hd_fw_args (ub_hand w1))\<lparr>fa_cpu_id := 0x4740\<rparr>"
  have args: "a = s1_args (s1_mem s)"
    using device_args [OF _ _ assms(10-13)] assms(8,9) conf(9,10) by (simp add: a_def)
  have dbg: "\<not> 0 < sint (fa_debug_ops a)" by (simp add: a_def conf cfg_u8_def cfg_getint_def assms(7))
  have bw: "fa_bus_width a \<in> {0, 1}" "fa_bus_width a \<noteq> 0xff" by (simp_all add: a_def conf)
  have bank: "fa_bank_num a \<in> {0, 1}" using assms(6) by (auto simp: a_def conf)
  have geo: "fa_row_addr a \<in> {11, 12, 13}" "fa_col_addr a \<in> {8, 9, 10, 11, 12}" using assms(4,5) by (simp_all add: a_def conf)
  have id: "fa_cpu_id a = 0x4740" by (simp add: a_def)
  obtain s0 ns where loaded: "args_loaded a s0"
    and writes: "at EMC_DMCR (s1_hw (snd (run_state (c_main (bus_io ans) P N) s))) = [Wr32 EMC_DMCR (sdram_value s0 ns),
     Wr32 EMC_DMCR (sdram_value s0 ns OR push_bit 24 1),
     Wr32 EMC_DMCR (dmcr_geometry 11 8 0 (ucast (SDRAM_BW16 s0)) OR push_bit 24 1 OR push_bit 23 1),
     Wr32 EMC_DMCR (sdram_value s0 ns OR push_bit 24 1 OR push_bit 23 1)]"
    by (rule c_main_writes [OF args id dbg bw(2) assms(14), of ans P N])
  have "dmcr_capacity (sdram_value s0 ns OR push_bit 24 1 OR push_bit 23 1) = unat (cfg_total_size a)"
    unfolding sdram_value_def capacity_of_value
    using loaded capacity_configured [OF geo bank bw(1) refl refl refl refl] by (simp only: args_loaded_def)
  also have "cfg_total_size a = ub_total_size w1" by (simp add: conf(8) a_def cfg_total_size_def)
  finally show ?thesis unfolding writes by blast
qed

section \<open>The NanoNote\<close>

definition load_image :: "bytes \<Rightarrow> bus st1" where
  "load_image bs = \<lparr>s1_hw = [], s1_mem = (\<lambda>a. bs ! unat (a - 0x80002000)), CPU_ID = 0, UART_BASE = 0, CONFIG_BAUDRATE = 0,
     SDRAM_BW16 = 0, SDRAM_BANK4 = 0, SDRAM_ROW = 0, SDRAM_COL = 0, CONFIG_MOBILE_SDRAM = 0, CFG_CPU_SPEED = 0, CFG_EXTAL = 0,
     PHM_DIV = 0, IS_SHARE = 0, s1_junk = 0, s1_rom = False, s1_hung = False, s1_ub = False\<rparr>"

lemma image_loaded_image: "length bs < 2 ^ 32 \<Longrightarrow> image_loaded (s1_mem (load_image bs)) bs"
  unfolding image_loaded_def by (intro nth_equalityI) (simp_all add: load_image_def fits_u32)

definition stage_world :: "ub_transfer list ub_world" where
  "stage_world = blank_ub\<lparr>ub_files := [''cfg'' \<mapsto> \<lparr>f_data = [], f_readable = 0\<rparr>,
     ''stage'' \<mapsto> \<lparr>f_data = replicate 40 7, f_readable = 40\<rparr>]\<rparr>"

definition nanonote_configured :: "ub_transfer list ub_world" where
  "nanonote_configured = snd (run_state (parse_configure (\<lambda>_. Some nanonote) ''cfg'') stage_world)"

definition nanonote_patched :: "ub_transfer list ub_world" where
  "nanonote_patched = snd (run_state (do { set_fa (\<lambda>a. a\<lparr>fa_cpu_id := 0x4740\<rparr>); load_file ''stage'' }) nanonote_configured)"

lemma nanonote_image: "image_loaded (s1_mem (load_image (file_bytes nanonote_patched))) (file_bytes nanonote_patched)"
proof (rule image_loaded_image)
  have "length (file_bytes nanonote_patched) \<le> unat (file_len nanonote_patched)"
    by (simp add: file_bytes_def buf_bytes_def split: file_ptr.split)
  then show "length (file_bytes nanonote_patched) < 2 ^ 32"
    using unsigned_less [of "file_len nanonote_patched", where 'a = nat] by simp
qed

theorem configured_clock_witness:
  "\<exists>v. at CPM_CPPCR (s1_hw (snd (run_state (c_main (bus_io (\<lambda>_ _. 0x60)) 5 5) (load_image (file_bytes nanonote_patched))))) = [Wr32 CPM_CPPCR v]
    \<and> int (unat (pllout_4740 12000000 v)) = 252000000"
  using configured_clock [of stage_world "''cfg''" "\<lambda>_. Some nanonote" nanonote nanonote_configured 12 252 "''stage''" "replicate 40 7"
      "fst (run_state (do { set_fa (\<lambda>a. a\<lparr>fa_cpu_id := 0x4740\<rparr>); load_file ''stage'' }) nanonote_configured)" nanonote_patched
      "load_image (file_bytes nanonote_patched)" "\<lambda>_ _. 0x60" 5 5] nanonote_image
  by (simp add: stage_world_def nanonote_configured_def nanonote_patched_def nanonote_def blank_ub_def CODE_BUF_BYTES_def load_image_def)

theorem configured_memory_witness:
  "\<exists>v1 v2 v3 v. at EMC_DMCR (s1_hw (snd (run_state (c_main (bus_io (\<lambda>_ _. 0x60)) 5 5) (load_image (file_bytes nanonote_patched)))))
      = [Wr32 EMC_DMCR v1, Wr32 EMC_DMCR v2, Wr32 EMC_DMCR v3, Wr32 EMC_DMCR v]
    \<and> dmcr_capacity v = unat (ub_total_size nanonote_configured)"
  using configured_memory [of stage_world "''cfg''" "\<lambda>_. Some nanonote" nanonote nanonote_configured "''stage''" "replicate 40 7"
      "fst (run_state (do { set_fa (\<lambda>a. a\<lparr>fa_cpu_id := 0x4740\<rparr>); load_file ''stage'' }) nanonote_configured)" nanonote_patched
      "load_image (file_bytes nanonote_patched)" "\<lambda>_ _. 0x60" 5 5] nanonote_image
  by (simp add: stage_world_def nanonote_configured_def nanonote_patched_def nanonote_def blank_ub_def CODE_BUF_BYTES_def load_image_def
    cfg_u8_def cfg_getint_def)

end
