(* ===== verification/Stage1_Board.thy ===== *)
theory Stage1_Board
  imports Stage1_Props
begin

unbundle bit_operations_syntax

text \<open>
  On the JZ4760 the first stage does not use the clocks and the baud rate of the host's configuration.
\<close>

text \<open>\<^verbatim>\<open>ignores f\<close>: the memory with the arguments, the clocks and the baud rate make no difference to the program.\<close>

definition reclock :: "(u32 \<Rightarrow> u8) \<Rightarrow> u32 \<Rightarrow> u32 \<Rightarrow> u32 \<Rightarrow> 'h st1 \<Rightarrow> 'h st1" where
  "reclock m x y b s = s\<lparr>s1_mem := m, CFG_EXTAL := x, CFG_CPU_SPEED := y, CONFIG_BAUDRATE := b\<rparr>"

definition ignores :: "('h, 'a) s1 \<Rightarrow> bool" where
  "ignores f \<longleftrightarrow> (\<forall>s m x y b. CPU_ID s = 0x4760 \<longrightarrow> CPU_ID (snd (run_state f s)) = 0x4760
     \<and> run_state f (reclock m x y b s) = (fst (run_state f s), reclock m x y b (snd (run_state f s))))"

named_theorems ignores

lemma ignores_bind [ignores]:
  assumes "ignores f" "\<And>x. ignores (g x)" shows "ignores (f \<bind> g)"
  using assms unfolding ignores_def by (auto simp: host_simps split: prod.splits)

lemma ignores_return [ignores]: "ignores (State_Monad.return x)" by (simp add: ignores_def host_simps)

lemma ignores_gets [ignores]: "(\<And>m x y b s. g (reclock m x y b s) = g s) \<Longrightarrow> ignores (s1_gets g)"
  by (simp add: ignores_def host_simps)

lemma ignores_reg [ignores]:
  "ignores (get8 M a)" "ignores (put8 M a v)" "ignores (put16 M a w)" "ignores (get32 M a)" "ignores (put32 M a d)"
  "ignores (s1_mark b)" "ignores (State_Monad.update (\<lambda>s. s\<lparr>s1_hung := True\<rparr>))"
  by (simp_all add: ignores_def host_simps s1_reg_defs reclock_def)

lemma ignores_if [ignores]: "ignores f \<Longrightarrow> ignores g \<Longrightarrow> ignores (if c then f else g)" by simp
lemma ignores_let [ignores]: "ignores (f x) \<Longrightarrow> ignores (Let x f)" by simp

lemma ignores_put32s [ignores]: "ignores (put32s M ws)"
  by (induction ws) (auto intro!: ignores)

lemma ignores_wait [ignores]: "ignores f \<Longrightarrow> ignores (s1_wait n f)"
  by (induction n) (auto intro!: ignores)

lemma ignores_set_divisor [ignores]: "ignores (set_divisor M v)"
  unfolding set_divisor_def by (intro ignores) (simp add: reclock_def)

lemma ignores_cpu: "ignores (g 0x4760) \<Longrightarrow> ignores (s1_gets CPU_ID \<bind> g)"
  by (auto simp: ignores_def host_simps reclock_def)

lemma ignores_serial_init [ignores]: "ignores (serial_init M)"
  unfolding serial_init_def serial_setbrg_4760_def
  by (rule ignores_bind [OF ignores_gets], simp add: reclock_def, rule ignores_cpu, simp, intro ignores)

lemma ignores_board: "ignores (board_init_4760 M P)"
  unfolding board_init_4760_def gpio_init_4760_def cpm_start_all_4760_def pll_init_4760_def sdram_init_4760_def ddr_setup_4760_def cpm_get_mclk_def
    cpm_get_mdiv_def ddr_mem_init_def initdram_def
  by (intro ignores) (simp_all add: reclock_def)

text \<open>The search for 144 MHz from 12 MHz.\<close>

lemma pll_code_4760: "pll_calc_m_n_od CFG_CPU_SPEED_4760 CFG_EXTAL_4760 = pll_code (Suc (Suc 0)) 2 48"
  by (simp add: pll_calc_m_n_od_def od_table_def od_rejected_def MHZ_def CFG_CPU_SPEED_4760_def CFG_EXTAL_4760_def xin_low_def xin_high_def
    pll_consider_def pll_distance_def pll_raw_def pll_stopped_def Let_def)

text \<open>C38.  On the JZ4760 the crystal, the processor clock and the baud rate that the host has configured are ignored: the accesses that
  initialise the board, on any hardware, are the same whatever these three arguments are, and the PLL is set for 144 MHz from 12 MHz.\<close>

theorem host_clock_ignored:
  assumes "fa_cpu_id (s1_args m) = 0x4760"
    and "s1_args m' = (s1_args m)\<lparr>fa_ext_clk := x, fa_cpu_speed := y, fa_boudrate := b\<rparr>"
  shows "s1_hw (snd (run_state (do { s1_load_args; board_init_4760 M P }) (s\<lparr>s1_mem := m'\<rparr>)))
      = s1_hw (snd (run_state (do { s1_load_args; board_init_4760 M P }) (s\<lparr>s1_mem := m\<rparr>)))
    \<and> pllout_4760 CFG_EXTAL_4760 (pll_calc_m_n_od CFG_CPU_SPEED_4760 CFG_EXTAL_4760 OR 0x20 OR push_bit 8 1) = CFG_CPU_SPEED_4760"
proof
  let ?t = "snd (run_state s1_load_args (s\<lparr>s1_mem := m\<rparr>))" and ?t' = "snd (run_state s1_load_args (s\<lparr>s1_mem := m'\<rparr>))"
  have "?t' = reclock m' (CFG_EXTAL ?t') (CFG_CPU_SPEED ?t') (CONFIG_BAUDRATE ?t') ?t" "CPU_ID ?t = 0x4760"
    using assms by (cases s; simp add: s1_load_args_def host_simps Let_def reclock_def)+
  then obtain X Y B where t: "?t' = reclock m' X Y B ?t" "CPU_ID ?t = 0x4760" by blast
  have "s1_hw (snd (run_state (board_init_4760 M P) (reclock k X Y B u))) = s1_hw (snd (run_state (board_init_4760 M P) u))"
    if "CPU_ID u = 0x4760" for k u
    using ignores_board [of M P] that unfolding ignores_def by (simp add: reclock_def)
  from this [OF t(2)] show "s1_hw (snd (run_state (do { s1_load_args; board_init_4760 M P }) (s\<lparr>s1_mem := m'\<rparr>)))
      = s1_hw (snd (run_state (do { s1_load_args; board_init_4760 M P }) (s\<lparr>s1_mem := m\<rparr>)))"
    by (simp add: host_simps case_prod_unfold t(1))
qed (unfold pll_code_4760, simp add: pll_code_def pllout_4760_def CFG_CPU_SPEED_4760_def CFG_EXTAL_4760_def od_table_def)

definition memory_with :: "fw_args \<Rightarrow> u32 \<Rightarrow> u8" where
  "memory_with a = s1_mem (load_image (replicate 8 0 @ enc_fw_args a))"

lemma args_memory_with: "s1_args (memory_with a) = a"
proof -
  let ?bs = "replicate 8 0 @ enc_fw_args a"
  have "image_loaded (memory_with a) ?bs" unfolding memory_with_def by (rule image_loaded_image) (simp add: fwa.length_enc)
  then show ?thesis by (simp add: args_of_image fwa.length_enc slice_append2 fwa.dec_enc slice_def)
qed

theorem host_clock_ignored_witness:
  "s1_hw (snd (run_state (do { s1_load_args; board_init_4760 (bus_io (\<lambda>_ _. 0x20000000)) 5 })
      (load_image [] \<lparr>s1_mem := memory_with (zero_args\<lparr>fa_cpu_id := 0x4760, fa_ext_clk := 24, fa_cpu_speed := 10, fa_boudrate := 9600\<rparr>)\<rparr>)))
    = s1_hw (snd (run_state (do { s1_load_args; board_init_4760 (bus_io (\<lambda>_ _. 0x20000000)) 5 })
      (load_image [] \<lparr>s1_mem := memory_with (zero_args\<lparr>fa_cpu_id := 0x4760\<rparr>)\<rparr>)))"
  using host_clock_ignored [where m = "memory_with (zero_args\<lparr>fa_cpu_id := 0x4760\<rparr>)"
      and m' = "memory_with (zero_args\<lparr>fa_cpu_id := 0x4760, fa_ext_clk := 24, fa_cpu_speed := 10, fa_boudrate := 9600\<rparr>)"
      and x = 24 and y = 10 and b = 9600 and M = "bus_io (\<lambda>_ _. 0x20000000)" and P = 5 and s = "load_image []"]
  by (simp add: args_memory_with)

end
