(* ===== verification/Stage1_Memtest.thy ===== *)
theory Stage1_Memtest
  imports Stage1_Main Frame
begin

unbundle bit_operations_syntax

text \<open>
  What the memory test of the first stage finds, and what it cannot find.
\<close>

section \<open>A serial port that is ready\<close>

definition uart_ready :: "'h mmio \<Rightarrow> bool" where
  "uart_ready M \<longleftrightarrow> (\<forall>h a. fst (io_r8 M a h) AND 0x60 = 0x60)"

lemma keeps_s1 [keeps]: "keeps view (s1_gets g)" by (simp add: keeps_def host_simps)

lemma keeps_hung [keeps]:
  "keeps s1_hung (get8 M a)" "keeps s1_hung (put8 M a v)" "keeps s1_hung (get32 M a)" "keeps s1_hung (put32 M a w)"
  by (simp_all add: keeps_def host_simps s1_reg_defs)

lemma keeps_wait [keeps]:
  assumes "uart_ready M" "0 < P" shows "keeps s1_hung (s1_wait P (uart_idle M))"
proof -
  obtain n where P: "P = Suc n" using assms(2) by (cases P) auto
  have "fst (run_state (uart_idle M) s)" "s1_hung (snd (run_state (uart_idle M) s)) = s1_hung s" for s
    using assms(1) by (simp_all add: uart_idle_def host_simps s1_reg_defs uart_ready_def)
  then show ?thesis by (simp add: P keeps_def host_simps split: prod.splits) (metis fst_conv snd_conv)
qed

lemma keeps_put_bytes [keeps]: "uart_ready M \<Longrightarrow> 0 < P \<Longrightarrow> keeps s1_hung (serial_put_bytes M P bs)"
  by (induction bs) (auto simp: serial_putc_def uart_send_def intro!: keeps)

lemma keeps_serial [keeps]:
  "uart_ready M \<Longrightarrow> 0 < P \<Longrightarrow> keeps s1_hung (serial_puts M P t)" "uart_ready M \<Longrightarrow> 0 < P \<Longrightarrow> keeps s1_hung (serial_put_hex M P d)"
  unfolding serial_puts_def serial_put_hex_def by (intro keeps; assumption)+

section \<open>The loop\<close>

text \<open>The tested addresses of a range that does not reach the end of the address space.\<close>

definition test_words :: "u32 \<Rightarrow> u32 \<Rightarrow> u32 list" where
  "test_words a e = List.map (\<lambda>i. a + 4 * of_nat i) [0..<(unat e - unat a + 3) div 4]"

lemma test_words_step:
  assumes "a < e" "unat e \<le> 0xfffffffc" shows "test_words a e = a # test_words (a + 4) e"
    and "(unat e - unat a + 3) div 4 = Suc ((unat e - unat (a + 4) + 3) div 4)"
proof -
  have lt: "unat a < unat e" using assms(1) by (simp add: word_less_nat_alt)
  then have "unat (a + 4) = unat a + 4" using assms(2) by (simp add: unat_word_ariths)
  then have d: "unat e - unat (a + 4) = (unat e - unat a) - 4" by simp
  have "(d + 3) div 4 = Suc ((d - 4 + 3) div 4)" if "0 < d" for d :: nat using that by (cases "d < 4") auto
  from this [of "unat e - unat a"] show len: "(unat e - unat a + 3) div 4 = Suc ((unat e - unat (a + 4) + 3) div 4)"
    using lt unfolding d by simp
  show "test_words a e = a # test_words (a + 4) e"
    unfolding test_words_def len by (simp add: upt_conv_Cons map_Suc_upt [symmetric] o_def algebra_simps del: upt_Suc)
qed

lemma test_words_end: "\<not> a < e \<Longrightarrow> test_words a e = []"
  by (simp add: test_words_def word_less_nat_alt)

lemma check_loop_result:
  assumes "\<And>h a. fst (io_r32 M a (io_w32 M a a h)) = readback a" "unat e \<le> 0xfffffffc"
  shows "(unat e - unat a + 3) div 4 < n \<Longrightarrow>
    fst (run_state (check_loop M P n a e err) s) = last (err # List.filter (\<lambda>x. readback x \<noteq> x) (test_words a e))"
proof (induction n arbitrary: a err s)
  case (Suc n)
  show ?case
  proof (cases "a < e")
    case True
    note step = test_words_step [OF True assms(2)]
    have "(unat e - unat (a + 4) + 3) div 4 < n" using Suc.prems step(2) by simp
    note IH = Suc.IH [OF this]
    show ?thesis using True IH
      by (auto simp: host_simps s1_reg_defs assms(1) step(1) split: prod.splits)
  qed (simp add: test_words_end host_simps)
qed simp

lemma check_loop_ends:
  assumes "uart_ready M" "0 < P" "unat e \<le> 0xfffffffc"
  shows "(unat e - unat a + 3) div 4 < n \<Longrightarrow> keeps s1_hung (check_loop M P n a e err)"
proof (induction n arbitrary: a err)
  case (Suc n)
  show ?case
  proof (cases "a < e")
    case True
    have "(unat e - unat (a + 4) + 3) div 4 < n" using Suc.prems test_words_step(2) [OF True assms(3)] by simp
    from Suc.IH [OF this] show ?thesis using True assms by (auto intro!: keeps)
  qed (auto intro: keeps)
qed simp

section \<open>The test\<close>

text \<open>C37.  The memory test, over a range below the end of the address space: with enough turns and a ready
  serial port it returns, and the result is the last address that does not read back its own value right after the write, or 0.  Nothing
  else is seen: a memory in which all addresses share one cell passes.\<close>

theorem memory_test_result:
  fixes saddr len :: u32
  defines "start \<equiv> saddr + 0xa0000000"
  defines "tested \<equiv> test_words (start AND 0xfffffffc) (len + start)"
  assumes "\<And>h a. fst (io_r32 M a (io_w32 M a a h)) = readback a" "uart_ready M" "0 < P"
    and "unat (len + start) \<le> 0xfffffffc" "length tested < N"
  shows "\<exists>s'. run_state (check_sdram M P N saddr len) s = (last (0 # List.filter (\<lambda>x. readback x \<noteq> x) tested), s') \<and> s1_hung s' = s1_hung s"
proof -
  let ?a = "start AND 0xfffffffc" and ?e = "len + start"
  have n: "(unat ?e - unat ?a + 3) div 4 < N" using assms(7) by (simp add: tested_def test_words_def)
  have "keeps s1_hung (check_sdram M P N saddr len)"
    unfolding check_sdram_def Let_def start_def [symmetric] using assms(4-6) by (intro keeps check_loop_ends [OF _ _ _ n]) auto
  moreover have "v = last (0 # List.filter (\<lambda>x. readback x \<noteq> x) tested)" if "run_state (check_loop M P N ?a ?e 0) t = (v, t')" for v t t'
    using check_loop_result [OF assms(3,6) n, where s = t and err = 0 and P = P] that by (simp add: tested_def)
  then have "fst (run_state (check_sdram M P N saddr len) s) = last (0 # List.filter (\<lambda>x. readback x \<noteq> x) tested)"
    unfolding check_sdram_def Let_def start_def [symmetric] by (simp only: host_simps split: prod.split) simp
  ultimately show ?thesis unfolding keeps_def by (metis prod.collapse)
qed

text \<open>A memory of one cell.\<close>

definition one_cell_io :: "u32 mmio" where
  "one_cell_io = \<lparr>io_r8 = \<lambda>a h. (0xff, h), io_w8 = \<lambda>a v h. h, io_r16 = \<lambda>a h. (0, h), io_w16 = \<lambda>a v h. h,
     io_r32 = \<lambda>a h. (h, h), io_w32 = \<lambda>a v h. v\<rparr>"

definition cell_s1 :: "u32 st1" where
  "cell_s1 = \<lparr>s1_hw = 0, s1_mem = (\<lambda>_. 0), CPU_ID = 0, UART_BASE = 0, CONFIG_BAUDRATE = 0,
     SDRAM_BW16 = 0, SDRAM_BANK4 = 0, SDRAM_ROW = 0, SDRAM_COL = 0, CONFIG_MOBILE_SDRAM = 0, CFG_CPU_SPEED = 0, CFG_EXTAL = 0,
     PHM_DIV = 0, IS_SHARE = 0, s1_junk = 0, s1_rom = False, s1_hung = False, s1_ub = False\<rparr>"

theorem memory_test_result_witness:
  "\<exists>s'. run_state (check_sdram one_cell_io 1 8388609 0 0x2000000) cell_s1 = (0, s') \<and> \<not> s1_hung s'"
  using memory_test_result [where M = one_cell_io and readback = "\<lambda>a. a" and P = 1 and saddr = 0 and len = "0x2000000" and N = 8388609 and s = cell_s1]
  by (simp add: one_cell_io_def uart_ready_def test_words_def cell_s1_def)

end
