(* ===== verification/Stage1_Serial.thy ===== *)
theory Stage1_Serial
  imports Stage1_Bus
begin

unbundle bit_operations_syntax

text \<open>
  The numbers that the first stage shows on its serial port.
\<close>

section \<open>Hexadecimal digits\<close>

lemma below_sixteen: "list_all Q [0..<16] \<Longrightarrow> n < 16 \<Longrightarrow> Q n"
  unfolding list_all_iff set_upt by simp

lemma digit_char: "n < 16 \<Longrightarrow> char_of (if n < 10 then n + 48 else n + 55) = hex_digit n"
proof -
  have "list_all (\<lambda>n. char_of (if n < 10 then n + 48 else n + 55 :: nat) = hex_digit n) [0..<16]" by code_simp
  then show "n < 16 \<Longrightarrow> char_of (if n < 10 then n + 48 else n + 55) = hex_digit n" by (rule below_sixteen)
qed

lemma digit_val_hex: "n < 16 \<Longrightarrow> digit_val (hex_digit n) = Some n"
proof -
  have "list_all (\<lambda>n. digit_val (hex_digit n) = Some n) [0..<16]" by code_simp
  then show "n < 16 \<Longrightarrow> digit_val (hex_digit n) = Some n" by (rule below_sixteen)
qed

lemma nibble: "unat (drop_bit k d AND 0xf :: u32) = unat d div 2 ^ k mod 16"
proof -
  have "drop_bit k d AND 0xf = take_bit 4 (drop_bit k d)" by (simp add: take_bit_eq_mask mask_eq_exp_minus_1)
  moreover have "unat d mod 4294967296 = unat d" using unsigned_less [of d, where 'a = nat] by simp
  ultimately show ?thesis by (simp only: unsigned_take_bit_eq unsigned_drop_bit_eq) (simp add: take_bit_eq_mod drop_bit_eq_div)
qed

lemma unat_hex_byte: "unat (hex_byte d i) = (let n = unat d div 16 ^ (7 - i) mod 16 in if n < 10 then n + 48 else n + 55)"
proof -
  let ?n = "unat d div 16 ^ (7 - i) mod 16"
  have "unat (drop_bit ((7 - i) * 4) d AND 0xf) = ?n"
    by (simp only: nibble mult.commute [of _ 4] power_mult) simp
  then have n: "unat (ucast (drop_bit ((7 - i) * 4) d AND 0xf) :: u8) = ?n" by (simp add: unsigned_ucast_eq take_bit_eq_mod)
  have "?n < 16" by simp
  then show ?thesis using n by (simp add: hex_byte_def Let_def word_less_nat_alt unat_word_ariths)
qed

lemma hex_bytes_str: "List.map (\<lambda>b. char_of (unat b)) (hex_bytes d) = hex_str 8 (unat d)"
  by (simp add: hex_bytes_def hex_str_def o_def unat_hex_byte Let_def digit_char [symmetric] del: upt_rec_numeral cong: if_cong)

lemma digits_hex: "digits_acc 16 acc (hex_str n v) = acc * 16 ^ n + v mod 16 ^ n"
proof (induction n arbitrary: acc)
  case (Suc n)
  have "hex_str (Suc n) v = hex_digit (v div 16 ^ n mod 16) # hex_str n v"
    by (simp add: hex_str_def upt_conv_Cons map_Suc_upt [symmetric] o_def del: upt_Suc)
  moreover have "v mod 16 ^ Suc n = v div 16 ^ n mod 16 * 16 ^ n + v mod 16 ^ n"
    using mod_mult2_eq [of v "16 ^ n" 16] by (simp add: mult.commute)
  ultimately show ?case using Suc by (simp add: digit_val_hex algebra_simps)
qed (simp add: hex_str_def)

lemma hex_digit_plain:
  assumes "n < 16"
  shows "\<not> c_isspace (hex_digit n) \<and> hex_digit n \<notin> {CHR ''-'', CHR ''+'', CHR ''x'', CHR ''X''}"
  by (rule below_sixteen [OF _ assms]) code_simp

lemma strtoul_hex: "strtoul 16 (hex_str 8 v) = of_nat (v mod 16 ^ 8)"
proof -
  have len: "length (hex_str 8 v) = 8" by (simp add: hex_str_def)
  have ch: "hex_str 8 v ! i = hex_digit (v div 16 ^ (8 - 1 - i) mod 16)" if "i < 8" for i
    using that by (simp add: hex_str_def del: upt_rec_numeral)
  obtain x xs where s: "hex_str 8 v = x # xs" using len by (cases "hex_str 8 v") auto
  have "x = hex_digit (v div 16 ^ 7 mod 16)" using ch [of 0] by (simp add: s)
  then have "split_sign (hex_str 8 v) = (False, hex_str 8 v)"
    using hex_digit_plain [of "v div 16 ^ 7 mod 16"] by (simp add: s split_sign_def)
  moreover have "hex_str 8 v ! 1 \<notin> {CHR ''x'', CHR ''X''}"
    using hex_digit_plain [of "v div 16 ^ 6 mod 16"] ch [of 1] by simp
  moreover have "v mod 16 ^ 8 < 2 ^ 64" by (rule less_trans [of _ "16 ^ 8"]) simp_all
  ultimately show ?thesis by (simp add: strtoul_def strtoul_base_def digits_hex)
qed

section \<open>What is sent\<close>

definition uart_sent :: "u32 \<Rightarrow> u8 list \<Rightarrow> bus" where
  "uart_sent base bs = concat (List.map (\<lambda>b. [Rd8 (base + OFF_LSR), Wr8 (base + OFF_TDR) b]) bs)"

lemma run_uart_send:
  assumes "\<And>h. ans h (UART_BASE s + OFF_LSR) AND 0x60 = 0x60" "0 < P"
  shows "run_state (uart_send (bus_io ans) P b) s = ((), s\<lparr>s1_hw := s1_hw s @ uart_sent (UART_BASE s) [b]\<rparr>)"
proof -
  have "(ucast x :: u8) AND 0x60 = 0x60" if "x AND 0x60 = 0x60" for x :: u32
  proof -
    have "(ucast (x AND 0x60) :: u8) = ucast x AND 0x60" by (simp add: unsigned_and_eq)
    then show ?thesis using that by simp
  qed
  then show ?thesis using assms by (cases P) (simp_all add: uart_send_def uart_idle_def host_simps uart_sent_def)
qed

lemma uart_sent_append: "uart_sent base (xs @ ys) = uart_sent base xs @ uart_sent base ys"
  by (simp add: uart_sent_def)

lemma run_put_bytes:
  assumes "\<And>h. ans h (UART_BASE s + OFF_LSR) AND 0x60 = 0x60" "0 < P"
  shows "run_state (serial_put_bytes (bus_io ans) P bs) s
    = ((), s\<lparr>s1_hw := s1_hw s @ uart_sent (UART_BASE s) (concat (List.map (\<lambda>b. if b = 0x0A then [0x0D, b] else [b]) bs))\<rparr>)"
  using assms
proof (induction bs arbitrary: s)
  case (Cons b bs)
  let ?bs = "if b = 0x0A then [0x0D, b] else [b]"
  have "run_state (serial_putc (bus_io ans) P b) s = ((), s\<lparr>s1_hw := s1_hw s @ uart_sent (UART_BASE s) ?bs\<rparr>)"
    using run_uart_send [of ans _ P] Cons.prems by (simp add: serial_putc_def host_simps uart_sent_def)
  then show ?case using Cons.IH [of "s\<lparr>s1_hw := s1_hw s @ uart_sent (UART_BASE s) ?bs\<rparr>"] Cons.prems
    by (simp add: host_simps uart_sent_append)
qed (simp add: host_simps uart_sent_def)

lemma no_line_feed: "concat (List.map (\<lambda>b. if b = 0x0A then [0x0D, b] else [b]) (hex_bytes d)) = hex_bytes d"
proof -
  have "hex_byte d i \<noteq> 0x0A" for i
    using unat_hex_byte [of d i] by (auto simp: Let_def split: if_splits)
  then show ?thesis by (simp add: hex_bytes_def del: upt_rec_numeral cong: if_cong) (simp add: o_def concat_map_singleton)
qed

definition uart_s1 :: "bus st1" where
  "uart_s1 = \<lparr>s1_hw = [], s1_mem = (\<lambda>_. 0), CPU_ID = 0x4740, UART_BASE = UART0_BASE, CONFIG_BAUDRATE = 57600,
     SDRAM_BW16 = 1, SDRAM_BANK4 = 1, SDRAM_ROW = 13, SDRAM_COL = 9, CONFIG_MOBILE_SDRAM = 0, CFG_CPU_SPEED = 252000000,
     CFG_EXTAL = 12000000, PHM_DIV = 3, IS_SHARE = 1, s1_junk = 0, s1_rom = False, s1_hung = False, s1_ub = False\<rparr>"

text \<open>C28.  \<^verbatim>\<open>serial_put_hex\<close> on a ready serial port sends eight hexadecimal digits, a carriage return and a line feed, polling the
  status before each, and \<^verbatim>\<open>strtoul\<close> reads the number back.\<close>

theorem serial_hex_roundtrip:
  assumes "\<And>h. ans h (UART_BASE s + OFF_LSR) AND 0x60 = 0x60" "0 < P"
  shows "\<exists>bs. run_state (serial_put_hex (bus_io ans) P d) s = ((), s\<lparr>s1_hw := s1_hw s @ uart_sent (UART_BASE s) (bs @ [0x0D, 0x0A])\<rparr>)
    \<and> List.map (\<lambda>b. char_of (unat b)) bs = hex_str 8 (unat d) \<and> strtoul 16 (List.map (\<lambda>b. char_of (unat b)) bs) = d"
proof (intro exI conjI)
  show "run_state (serial_put_hex (bus_io ans) P d) s
      = ((), s\<lparr>s1_hw := s1_hw s @ uart_sent (UART_BASE s) (hex_bytes d @ [0x0D, 0x0A])\<rparr>)"
    by (simp add: serial_put_hex_def run_put_bytes [where ans = ans and s = s, OF assms] no_line_feed)
  show "strtoul 16 (List.map (\<lambda>b. char_of (unat b)) (hex_bytes d)) = d"
    using unsigned_less [of d, where 'a = nat] by (simp add: hex_bytes_str strtoul_hex)
qed (rule hex_bytes_str)

theorem serial_hex_roundtrip_witness:
  "\<exists>bs. run_state (serial_put_hex (bus_io (\<lambda>_ _. 0x60)) 1 0xB000F00D) uart_s1
      = ((), uart_s1\<lparr>s1_hw := s1_hw uart_s1 @ uart_sent (UART_BASE uart_s1) (bs @ [0x0D, 0x0A])\<rparr>)
    \<and> List.map (\<lambda>b. char_of (unat b)) bs = hex_str 8 0xB000F00D \<and> strtoul 16 (List.map (\<lambda>b. char_of (unat b)) bs) = 0xB000F00D"
  using serial_hex_roundtrip [where ans = "\<lambda>_ _. 0x60" and s = uart_s1 and P = 1 and d = "0xB000F00D"] by simp

end
