(* ===== verification/Stage2_Start.thy ===== *)
theory Stage2_Start
  imports Udc Frame Usbboot_Cmd Fw_Instances
begin

unbundle bit_operations_syntax

text \<open>
  The start of the second stage, \<^verbatim>\<open>usbboot/xburst_stage2/main.c\<close>: it relocates its global offset table to the address
  where it has been loaded and takes the processor from the arguments in its image.  Its serial port (\<^verbatim>\<open>serial.c\<close>) and
  the lines that a cache operation of \<^verbatim>\<open>cache.c\<close> reaches are modelled too.
\<close>

section \<open>Serial port\<close>

text \<open>The base address is a parameter of the operations.\<close>

definition serial2_setbrg :: "'h mmio \<Rightarrow> u32 \<Rightarrow> ('h, unit) fw" where
  "serial2_setbrg M base = do {
     let baud_div = (12000000 div 16 div 57600 :: u32);
     tmp \<leftarrow> jz_readb M (base + 0x0C);
     jz_writeb M (base + 0x0C) (tmp OR 0x80);
     jz_writeb M (base + 0x04) (ucast (drop_bit 8 baud_div AND 0xff));
     jz_writeb M (base + 0x00) (ucast (baud_div AND 0xff));
     jz_writeb M (base + 0x0C) ((tmp OR 0x80) AND NOT 0x80) }"

definition serial2_init :: "'h mmio \<Rightarrow> u32 \<Rightarrow> ('h, unit) fw" where
  "serial2_init M base = do {
     jz_writeb M (base + 0x04) 0;
     jz_writeb M (base + 0x08) (NOT 0x10);
     jz_writeb M (base + 0x20) (NOT 3);
     jz_writeb M (base + 0x0C) 3;
     serial2_setbrg M base;
     jz_writeb M (base + 0x08) 0x17 }"

fun serial2_wait :: "'h mmio \<Rightarrow> nat \<Rightarrow> u32 \<Rightarrow> ('h, unit) fw" where
  "serial2_wait M 0 base = State_Monad.update (\<lambda>s. s\<lparr>hung := True\<rparr>)"
| "serial2_wait M (Suc n) base = do {
     lsr \<leftarrow> jz_readb M (base + 0x14);
     if lsr AND 0x60 = 0x60 then State_Monad.return () else serial2_wait M n base }"

definition serial2_putc :: "'h mmio \<Rightarrow> nat \<Rightarrow> u32 \<Rightarrow> u8 \<Rightarrow> ('h, unit) fw" where
  "serial2_putc M P base b = do {
     (if b = 0x0A then do { serial2_wait M P base; jz_writeb M base 0x0D } else State_Monad.return ());
     serial2_wait M P base;
     jz_writeb M base b }"

fun serial2_put_bytes :: "'h mmio \<Rightarrow> nat \<Rightarrow> u32 \<Rightarrow> bytes \<Rightarrow> ('h, unit) fw" where
  "serial2_put_bytes M P base [] = State_Monad.return ()"
| "serial2_put_bytes M P base (b # bs) = do { serial2_putc M P base b; serial2_put_bytes M P base bs }"

definition serial2_puts :: "'h mmio \<Rightarrow> nat \<Rightarrow> u32 \<Rightarrow> string \<Rightarrow> ('h, unit) fw" where
  "serial2_puts M P base t = serial2_put_bytes M P base (ascii t)"

definition serial2_hex_byte :: "u32 \<Rightarrow> nat \<Rightarrow> u8" where
  "serial2_hex_byte d i = (let v = (ucast (drop_bit ((7 - i) * 4) d AND 0xf) :: u8) in if v < 10 then v + 0x30 else v + (0x41 - 10))"

definition serial2_put_hex :: "'h mmio \<Rightarrow> nat \<Rightarrow> u32 \<Rightarrow> u32 \<Rightarrow> ('h, unit) fw" where
  "serial2_put_hex M P base d = do {
     serial2_puts M P base ''0x'';
     serial2_put_bytes M P base (List.map (serial2_hex_byte d) [0..<8]) }"

section \<open>Cache lines\<close>

text \<open>The lines that \<^verbatim>\<open>dma_cache_wback_inv\<close> writes back: all of the cache, or from the line of the first to the line of the last
  byte.  The loop does not test before its first turn.\<close>

definition CACHE_SIZE :: u32 where "CACHE_SIZE = 16 * 1024"
definition CACHE_LINE_SIZE :: u32 where "CACHE_LINE_SIZE = 32"

definition all_lines :: "u32 list" where
  "all_lines = List.map (\<lambda>i. 0x80000000 + 32 * of_nat i) [0..<512]"

partial_function (option) flush_lines :: "u32 \<Rightarrow> u32 \<Rightarrow> u32 list option" where
  "flush_lines a last_line = (if a = last_line then Some [a]
     else Option.bind (flush_lines (a + CACHE_LINE_SIZE) last_line) (\<lambda>ls. Some (a # ls)))"

definition dma_cache_wback_inv :: "u32 \<Rightarrow> u32 \<Rightarrow> u32 list option" where
  "dma_cache_wback_inv addr len = (if len \<ge> CACHE_SIZE then Some all_lines
     else flush_lines (addr AND NOT (CACHE_LINE_SIZE - 1)) ((addr + len - 1) AND NOT (CACHE_LINE_SIZE - 1)))"

section \<open>Relocation\<close>

definition mem_word :: "(u32 \<Rightarrow> u8) \<Rightarrow> u32 \<Rightarrow> u32" where
  "mem_word m a = dec_u32 [m a, m (a + 1), m (a + 2), m (a + 3)]"

definition put_word :: "u32 \<Rightarrow> u32 \<Rightarrow> (u32 \<Rightarrow> u8) \<Rightarrow> (u32 \<Rightarrow> u8)" where
  "put_word a v m = (let bs = enc_u32 v in m(a := bs ! 0, a + 1 := bs ! 1, a + 2 := bs ! 2, a + 3 := bs ! 3))"

text \<open>The loop over the table; \<^verbatim>\<open>None\<close> when it does not end.\<close>

partial_function (option) got_fix :: "u32 \<Rightarrow> u32 \<Rightarrow> u32 \<Rightarrow> (u32 \<Rightarrow> u8) \<Rightarrow> (u32 \<Rightarrow> u8) option" where
  "got_fix offset addr got_end m = (if addr < got_end
     then got_fix offset (addr + 4) got_end (put_word addr (mem_word m addr + offset) m)
     else Some m)"

definition stage2_args :: "(u32 \<Rightarrow> u8) \<Rightarrow> u32 \<Rightarrow> fw_args" where
  "stage2_args m start = dec_fw_args (List.map (\<lambda>k. m (start + 8 + of_nat k)) [0..<28])"

text \<open>\<^verbatim>\<open>start\<close> is register 20, \<^verbatim>\<open>got0\<close> and \<^verbatim>\<open>got1\<close> the linked bounds of the table.\<close>

definition stage2_setup :: "'h mmio \<Rightarrow> nat \<Rightarrow> u32 \<Rightarrow> u32 \<Rightarrow> u32 \<Rightarrow> ('h, unit) fw" where
  "stage2_setup M P start got0 got1 = do {
     let offset = start - 0x80000000;
     let got_start = got0 + offset;
     let got_end = got1 + offset;
     s \<leftarrow> State_Monad.get;
     case got_fix offset (got_start + 8) got_end (ram s) of
       None \<Rightarrow> State_Monad.update (\<lambda>s. s\<lparr>hung := True\<rparr>)
     | Some m \<Rightarrow> do {
         let a = stage2_args m start;
         State_Monad.update (\<lambda>s. s\<lparr>ram := m, Hand := (Hand s)\<lparr>hd_fw_args := (hd_fw_args (Hand s))\<lparr>fa_cpu_id := fa_cpu_id a\<rparr>\<rparr>\<rparr>);
         let base = 0xB0030000 + ucast (fa_use_uart a) * 0x1000;
         serial2_puts M P base ([CHR 0x0A] @ '' Stage2 start address is :'' @ [CHR 0x09]);
         serial2_put_hex M P base start;
         serial2_puts M P base ([CHR 0x0A] @ '' Address offset is:'' @ [CHR 0x09]);
         serial2_put_hex M P base offset;
         serial2_puts M P base ([CHR 0x0A] @ '' GOT correct to :'' @ [CHR 0x09]);
         serial2_put_hex M P base got_start } }"

definition stage2_main :: "'h mmio \<Rightarrow> 'h drivers \<Rightarrow> nat \<Rightarrow> nat \<Rightarrow> u32 \<Rightarrow> u32 \<Rightarrow> u32 \<Rightarrow> ('h, unit) fw" where
  "stage2_main M D P n start got0 got1 = do {
     stage2_setup M P start got0 got1;
     s \<leftarrow> State_Monad.get;
     on_bit (\<not> hung s) (usb_main M D n) }"

section \<open>What the relocation does\<close>

lemma mem_word_put: "mem_word (put_word a v m) a = v"
proof -
  have "length (enc_u32 v) = 4" by (rule u32c.length_enc)
  then obtain x0 x1 x2 x3 where e: "enc_u32 v = [x0, x1, x2, x3]" by (auto simp: numeral_eq_Suc length_Suc_conv)
  then show ?thesis using u32c.dec_enc [of v] by (simp add: mem_word_def put_word_def)
qed

lemma put_word_other: "b \<notin> {a, a + 1, a + 2, a + 3} \<Longrightarrow> put_word a v m b = m b"
  by (auto simp: put_word_def Let_def)

lemma in_word:
  fixes a b :: u32
  assumes "unat a + 4 \<le> 2 ^ 32" "b \<in> {a, a + 1, a + 2, a + 3}"
  shows "unat a \<le> unat b \<and> unat b < unat a + 4"
  using assms by (auto simp: unat_word_ariths)

lemma unat_entry:
  fixes a :: u32
  assumes "unat a + 4 * k < 2 ^ 32"
  shows "unat (a + 4 * of_nat k) = unat a + 4 * k"
proof -
  have "a + 4 * of_nat k = a + of_nat (4 * k)" by (simp only: of_nat_mult of_nat_numeral)
  moreover have "unat (of_nat (4 * k) :: u32) = 4 * k" using assms by (simp only: unat_of_nat) simp
  ultimately show ?thesis using assms by (simp only: unat_word_ariths) simp
qed

lemma mem_word_cong:
  assumes "\<And>b. b \<in> {a, a + 1, a + 2, a + 3} \<Longrightarrow> m b = m' b"
  shows "mem_word m a = mem_word m' a"
  using assms by (simp add: mem_word_def)

lemma mem_word_apart:
  fixes a c :: u32
  assumes "unat a + 4 \<le> unat c" "unat c + 4 \<le> 2 ^ 32"
  shows "mem_word (put_word a v m) c = mem_word m c"
proof (rule mem_word_cong)
  fix b assume "b \<in> {c, c + 1, c + 2, c + 3}"
  then have "unat a + 4 \<le> unat b" using in_word [of c b] assms by auto
  then have "b \<notin> {a, a + 1, a + 2, a + 3}" using in_word [of a b] assms by fastforce
  then show "put_word a v m b = m b" by (rule put_word_other)
qed

text \<open>The table of \<^verbatim>\<open>n\<close> words at \<^verbatim>\<open>a\<close>, and the memory around it.\<close>

definition table_words :: "(u32 \<Rightarrow> u8) \<Rightarrow> u32 \<Rightarrow> nat \<Rightarrow> u32 list" where
  "table_words m a n = List.map (\<lambda>k. mem_word m (a + 4 * of_nat k)) [0..<n]"

definition outside :: "u32 \<Rightarrow> nat \<Rightarrow> u32 set" where
  "outside a n = {b. unat b < unat a \<or> unat a + 4 * n \<le> unat b}"

lemma table_words_Suc: "table_words m a (Suc n) = mem_word m a # table_words m (a + 4) n"
  by (simp add: table_words_def map_upt_Suc del: upt_Suc) (simp add: algebra_simps)

lemma table_words_put:
  assumes "unat a + 4 + 4 * n \<le> 2 ^ 32"
  shows "table_words (put_word a v m) (a + 4) n = table_words m (a + 4) n"
proof -
  have "mem_word (put_word a v m) (a + 4 + 4 * of_nat k) = mem_word m (a + 4 + 4 * of_nat k)" if "k < n" for k
  proof -
    have e: "a + 4 + 4 * of_nat k = a + 4 * of_nat (Suc k)" by (simp add: algebra_simps)
    show ?thesis unfolding e using assms that by (intro mem_word_apart) (simp_all add: unat_entry del: of_nat_Suc)
  qed
  then show ?thesis by (simp add: table_words_def)
qed

lemma got_fix_run:
  assumes "unat a + 4 * n \<le> 0xfffffffc"
  shows "\<exists>m'. got_fix off a (a + 4 * of_nat n) m = Some m'
    \<and> table_words m' a n = List.map (\<lambda>w. w + off) (table_words m a n)
    \<and> (\<forall>b \<in> outside a n. m' b = m b)"
  using assms
proof (induction n arbitrary: a m)
  case 0
  then show ?case by (subst got_fix.simps) (simp add: table_words_def)
next
  case (Suc n)
  let ?m1 = "put_word a (mem_word m a + off) m" and ?e = "a + 4 * of_nat (Suc n)"
  have next_addr: "unat (a + 4) = unat a + 4" using Suc.prems by (simp add: unat_word_ariths)
  have "unat ?e = unat a + 4 * Suc n" using Suc.prems by (intro unat_entry) simp
  then have lt: "a < ?e" by (simp add: word_less_nat_alt)
  have e: "?e = (a + 4) + 4 * of_nat n" by (simp add: algebra_simps)
  obtain m' where m': "got_fix off (a + 4) (a + 4 + 4 * of_nat n) ?m1 = Some m'"
      "table_words m' (a + 4) n = List.map (\<lambda>w. w + off) (table_words ?m1 (a + 4) n)"
      "\<And>b. b \<in> outside (a + 4) n \<Longrightarrow> m' b = ?m1 b"
    using Suc.IH [of "a + 4" ?m1] Suc.prems next_addr by auto
  have "got_fix off a ?e m = got_fix off (a + 4) ?e ?m1" using lt by (subst got_fix.simps) (rule if_P)
  then have run: "got_fix off a ?e m = Some m'" by (simp only: e m'(1))
  have "m' b = ?m1 b" if "b \<in> {a, a + 1, a + 2, a + 3}" for b
    using m'(3) [of b] in_word [of a b] that Suc.prems by (simp add: outside_def next_addr)
  then have first: "mem_word m' a = mem_word m a + off"
    using mem_word_cong [of a m' ?m1] by (simp add: mem_word_put)
  have rest: "table_words ?m1 (a + 4) n = table_words m (a + 4) n"
    using Suc.prems by (intro table_words_put) simp
  have others: "m' b = m b" if b: "b \<in> outside a (Suc n)" for b
  proof -
    have "b \<notin> {a, a + 1, a + 2, a + 3}" using in_word [of a b] b Suc.prems by (auto simp: outside_def)
    moreover have "b \<in> outside (a + 4) n" using b by (auto simp: outside_def next_addr)
    ultimately show ?thesis using m'(3) [of b] put_word_other [of b a] by presburger
  qed
  show ?case using run first rest m'(2) others by (auto simp: table_words_Suc simp del: of_nat_Suc)
qed

section \<open>The start as a whole\<close>

text \<open>What the serial port leaves alone.\<close>

abbreviation start_view :: "'h fw_state \<Rightarrow> (u32 \<Rightarrow> u8) \<times> hand \<times> bool" where
  "start_view s \<equiv> (ram s, Hand s, fw_ub s)"

lemma keeps_jz_readb: "keeps start_view (jz_readb M p)" by (simp add: keeps_def reg_defs host_simps)
lemma keeps_jz_writeb: "keeps start_view (jz_writeb M p v)" by (simp add: keeps_def reg_defs host_simps)

lemmas keeps_bytes = keeps_jz_readb keeps_jz_writeb

lemma keeps_serial2_wait: "keeps start_view (serial2_wait M n base)"
  by (induction n) (auto intro!: keeps keeps_bytes keeps_update)

lemma keeps_serial2_put_bytes: "keeps start_view (serial2_put_bytes M P base bs)"
  by (induction bs) (auto intro!: keeps keeps_bytes keeps_serial2_wait simp: serial2_putc_def)

lemma keeps_serial2: "keeps start_view (serial2_puts M P base t)" "keeps start_view (serial2_put_hex M P base d)"
  by (auto intro!: keeps keeps_serial2_put_bytes simp: serial2_puts_def serial2_put_hex_def)

lemma stage2_args_outside:
  assumes "\<And>k. k < 28 \<Longrightarrow> m' (start + 8 + of_nat k) = m (start + 8 + of_nat k)"
  shows "stage2_args m' start = stage2_args m start"
  unfolding stage2_args_def using assms by (intro arg_cong [where f = dec_fw_args] map_cong) simp_all

text \<open>Where the entries of the loaded table that are corrected begin.\<close>

definition table_at :: "u32 \<Rightarrow> u32 \<Rightarrow> u32" where
  "table_at start got0 = got0 + (start - 0x80000000) + 8"

lemma stage2_setup_run:
  assumes "got_fix (start - 0x80000000) (table_at start got0) (got1 + (start - 0x80000000)) (ram s) = Some m"
  shows "start_view (snd (run_state (stage2_setup M P start got0 got1) s))
    = (m, (Hand s)\<lparr>hd_fw_args := (hd_fw_args (Hand s))\<lparr>fa_cpu_id := fa_cpu_id (stage2_args m start)\<rparr>\<rparr>, fw_ub s)"
proof -
  let ?s1 = "s\<lparr>ram := m, Hand := (Hand s)\<lparr>hd_fw_args := (hd_fw_args (Hand s))\<lparr>fa_cpu_id := fa_cpu_id (stage2_args m start)\<rparr>\<rparr>\<rparr>"
  obtain prints where k: "keeps start_view prints"
    and r: "run_state (stage2_setup M P start got0 got1) s = run_state prints ?s1"
  proof
    let ?base = "0xB0030000 + ucast (fa_use_uart (stage2_args m start)) * 0x1000"
    let ?p = "do {
         serial2_puts M P ?base ([CHR 0x0A] @ '' Stage2 start address is :'' @ [CHR 0x09]);
         serial2_put_hex M P ?base start;
         serial2_puts M P ?base ([CHR 0x0A] @ '' Address offset is:'' @ [CHR 0x09]);
         serial2_put_hex M P ?base (start - 0x80000000);
         serial2_puts M P ?base ([CHR 0x0A] @ '' GOT correct to :'' @ [CHR 0x09]);
         serial2_put_hex M P ?base (got0 + (start - 0x80000000)) }"
    show "keeps start_view ?p" by (intro keeps keeps_serial2)
    show "run_state (stage2_setup M P start got0 got1) s = run_state ?p ?s1"
      using assms by (simp add: stage2_setup_def host_simps Let_def table_at_def)
  qed
  have "start_view (snd (run_state prints ?s1)) = start_view ?s1" using k unfolding keeps_def by blast
  then show ?thesis by (simp add: r)
qed

text \<open>C11.  Loaded anywhere in the memory, with a table that ends four bytes before the end of the address space, the second stage
  corrects every entry of its table by the distance to the address it is linked for, changes no byte outside the table, and takes
  over the processor that the arguments in its image name; the loop over the table ends.\<close>

theorem stage2_relocates:
  assumes "unat (table_at start got0) + 4 * n \<le> 0xfffffffc" and "got1 = got0 + 8 + 4 * of_nat n"
    and "\<forall>k < 28. start + 8 + of_nat k \<in> outside (table_at start got0) n"
    and "List.map (\<lambda>k. ram s (start + 8 + of_nat k)) [0..<28] = enc_fw_args a"
  shows "\<exists>m. start_view (snd (run_state (stage2_setup M P start got0 got1) s))
      = (m, (Hand s)\<lparr>hd_fw_args := (hd_fw_args (Hand s))\<lparr>fa_cpu_id := fa_cpu_id a\<rparr>\<rparr>, fw_ub s)
    \<and> table_words m (table_at start got0) n
      = List.map (\<lambda>w. w + (start - 0x80000000)) (table_words (ram s) (table_at start got0) n)
    \<and> (\<forall>b \<in> outside (table_at start got0) n. m b = ram s b)"
proof -
  let ?a = "table_at start got0" and ?off = "start - 0x80000000"
  have got1: "got1 + ?off = ?a + 4 * of_nat n" using assms(2) by (simp add: table_at_def)
  obtain m where m: "got_fix ?off ?a (?a + 4 * of_nat n) (ram s) = Some m"
      "table_words m ?a n = List.map (\<lambda>w. w + ?off) (table_words (ram s) ?a n)" "\<forall>b \<in> outside ?a n. m b = ram s b"
    using got_fix_run [OF assms(1), of ?off "ram s"] by blast
  have "stage2_args m start = stage2_args (ram s) start"
    using m(3) assms(3) by (intro stage2_args_outside) blast
  then have "stage2_args m start = a" using assms(4) by (simp add: stage2_args_def fwa.dec_enc)
  then show ?thesis using stage2_setup_run [of start got0 got1 s m M P] m by (simp add: got1)
qed

definition demo_args :: fw_args where
  "demo_args = zero_args\<lparr>fa_cpu_id := 0x4740\<rparr>"

definition demo_image :: "u32 \<Rightarrow> u8" where
  "demo_image = put_word 0x80004108 0x80001000
     (\<lambda>b. if unat (b - 0x80004008) < 28 then enc_fw_args demo_args ! unat (b - 0x80004008) else 0)"

definition ready_uart :: "unit mmio" where
  "ready_uart = \<lparr>io_r8 = (\<lambda>_ h. (0x60, h)), io_w8 = (\<lambda>_ _ h. h), io_r16 = (\<lambda>_ h. (0, h)), io_w16 = (\<lambda>_ _ h. h),
     io_r32 = (\<lambda>_ h. (0, h)), io_w32 = (\<lambda>_ _ h. h)\<rparr>"

lemma demo_image_args: "List.map (\<lambda>k. demo_image (0x80004000 + 8 + of_nat k)) [0..<28] = enc_fw_args demo_args"
proof (rule nth_equalityI)
  fix k assume "k < length (List.map (\<lambda>k. demo_image (0x80004000 + 8 + of_nat k)) [0..<28])"
  then have k: "k < 28" by simp
  have "(of_nat k :: u32) \<noteq> 0x100 + d" if "d \<in> {0, 1, 2, 3}" for d
  proof -
    have "unat (of_nat k :: u32) = k" using k by (simp add: unat_of_nat)
    moreover have "unat (0x100 + d) \<ge> 0x100" using that by auto
    ultimately show ?thesis using k by fastforce
  qed
  then have "(0x80004000 + 8 + of_nat k :: u32) \<notin> {0x80004108, 0x80004108 + 1, 0x80004108 + 2, 0x80004108 + 3}"
    by (fastforce simp: algebra_simps)
  from put_word_other [OF this] have "demo_image (0x80004000 + 8 + of_nat k)
      = (if unat (of_nat k :: u32) < 28 then enc_fw_args demo_args ! unat (of_nat k :: u32) else 0)"
    by (simp add: demo_image_def)
  then show "List.map (\<lambda>k. demo_image (0x80004000 + 8 + of_nat k)) [0..<28] ! k = enc_fw_args demo_args ! k"
    using k by (simp add: unat_of_nat)
qed (simp add: fwa.length_enc)

lemma demo_image_outside: "\<forall>k < 28. 0x80004000 + 8 + of_nat k \<in> outside (table_at 0x80004000 0x80000100) 1"
proof (intro allI impI)
  fix k :: nat assume k: "k < 28"
  have "(0x80004000 + 8 + of_nat k :: u32) = of_nat (0x80004008 + k)" by simp
  moreover have "unat (of_nat (0x80004008 + k) :: u32) = 0x80004008 + k" using k by (simp only: unat_of_nat) simp
  ultimately show "0x80004000 + 8 + of_nat k \<in> outside (table_at 0x80004000 0x80000100) 1"
    using k by (simp only: outside_def table_at_def mem_Collect_eq) simp
qed

lemma demo_image_entry: "table_words demo_image (table_at 0x80004000 0x80000100) 1 = [0x80001000]"
  by (simp add: table_words_def table_at_def demo_image_def mem_word_put)

theorem stage2_relocates_witness:
  "\<exists>m. fst (start_view (snd (run_state (stage2_setup ready_uart 1 0x80004000 0x80000100 0x8000010c) (blank_fw () \<lparr>ram := demo_image\<rparr>)))) = m
    \<and> table_words m 0x80004108 1 = [0x80005000]"
  using stage2_relocates [where M = ready_uart and P = 1 and start = "0x80004000" and ?got0.0 = "0x80000100" and ?got1.0 = "0x8000010c"
      and n = 1 and s = "blank_fw () \<lparr>ram := demo_image\<rparr>" and a = demo_args]
    demo_image_args demo_image_outside demo_image_entry
  by (auto simp: table_at_def)

end
