(* ===== verification/Xbboot_Host.thy ===== *)
theory Xbboot_Host
  imports Usbboot_Facts
begin

unbundle bit_operations_syntax

text \<open>
  The host program of \<^verbatim>\<open>xbboot\<close>, \<^verbatim>\<open>xbboot/host-app/host_main.c\<close>: single requests, and the option \<^verbatim>\<open>-u\<close>, which
  waits for a device and loads it until that succeeds.  \<^verbatim>\<open>libusb\<close> 0.1 is the parameter \<^verbatim>\<open>usb01\<close>, the directory of the
  stage file the parameter \<^verbatim>\<open>DATADIR\<close>; what happens on the bus during the pause before each search is the parameter \<^verbatim>\<open>rest\<close>.
  The messages are left out; \<^verbatim>\<open>xw_shown\<close> is what a request shows as its result.  Allocations succeed, except those of a
  negative size.
\<close>

section \<open>State\<close>

datatype x_result = X_Cpu string | X_Data bytes

text \<open>\<^verbatim>\<open>xw_behind\<close> is the half word that lies behind \<^verbatim>\<open>xburst_cpu\<close> in the memory of the program.\<close>

record 'd xw =
  xw_dev :: 'd
  xburst_interface :: u8
  option_upload :: bool
  xburst_cpu :: u16
  xw_behind :: u16
  xw_files :: "string \<Rightarrow> c_file option"
  xw_shown :: "x_result list"
  xw_crash :: bool

type_synonym ('d, 'a) xbt = "('d xw, 'a) state"

definition x_crash_if :: "bool \<Rightarrow> ('d, unit) xbt" where
  "x_crash_if b = State_Monad.update (\<lambda>w. w\<lparr>xw_crash := xw_crash w \<or> b\<rparr>)"

definition x_show :: "x_result \<Rightarrow> ('d, unit) xbt" where
  "x_show r = State_Monad.update (\<lambda>w. w\<lparr>xw_shown := xw_shown w @ [r]\<rparr>)"

lemma run_x_crash_if [host_simps]: "run_state (x_crash_if b) w = ((), w\<lparr>xw_crash := xw_crash w \<or> b\<rparr>)"
  by (simp add: x_crash_if_def host_simps)

lemma run_x_show [host_simps]: "run_state (x_show r) w = ((), w\<lparr>xw_shown := xw_shown w @ [r]\<rparr>)"
  by (simp add: x_show_def host_simps)

section \<open>Finding the device\<close>

text \<open>The search stops at the second device; the first one has set \<^verbatim>\<open>xburst_cpu\<close> by then.  Without a matching interface, the
  number of an earlier search stays.\<close>

definition open_xburst_device :: "'d usb01 \<Rightarrow> ('d, bool) xbt" where
  "open_xburst_device L = do {
     w \<leftarrow> State_Monad.get;
     case filter is_xburst (concat (ul_buses L (xw_dev w))) of
       [] \<Rightarrow> State_Monad.return False
     | dv # others \<Rightarrow> do {
         State_Monad.update (\<lambda>w. w\<lparr>xburst_cpu := ud_product dv\<rparr>);
         if others \<noteq> [] then State_Monad.return False
         else do {
           State_Monad.update (\<lambda>w. w\<lparr>xburst_interface := (case find (\<lambda>(c, sc, n). c = 0xff \<and> sc = 0) (concat (concat (ud_configs dv))) of
             None \<Rightarrow> xburst_interface w | Some (c, sc, n) \<Rightarrow> n)\<rparr>);
           let found = hd (concat (List.map (\<lambda>(i, bus). List.map (\<lambda>(k, dv). (i, k)) (filter (\<lambda>(k, dv). is_xburst dv) (enumerate 0 bus)))
             (enumerate 0 (ul_buses L (xw_dev w)))));
           let (opened, d) = ul_open L found (xw_dev w);
           State_Monad.update (\<lambda>w. w\<lparr>xw_dev := d\<rparr>);
           if \<not> opened then State_Monad.return False
           else do {
             w \<leftarrow> State_Monad.get;
             let (st, d) = ul_claim L (xburst_interface w) (xw_dev w);
             if st < 0 then do {
               State_Monad.update (\<lambda>w. w\<lparr>xw_dev := ul_close L d\<rparr>);
               State_Monad.return False }
             else do {
               State_Monad.update (\<lambda>w. w\<lparr>xw_dev := d\<rparr>);
               State_Monad.return True } } } } }"

text \<open>The parameter tells whether there is a handle.\<close>

definition close_xburst_device :: "'d usb01 \<Rightarrow> bool \<Rightarrow> ('d, unit) xbt" where
  "close_xburst_device L h = State_Monad.update (\<lambda>w.
     let d = (if h \<and> xburst_interface w \<noteq> 0 then ul_release L (xburst_interface w) (xw_dev w) else xw_dev w)
     in w\<lparr>xw_dev := (if h then ul_close L d else d)\<rparr>)"

section \<open>Requests\<close>

datatype x_request = REQ_BULK_READ | REQ_BULK_WRITE | REQ_VR u8

definition request_of :: "string \<Rightarrow> x_request option" where
  "request_of s = map_of [(''bulk_read'', REQ_BULK_READ), (''bulk_write'', REQ_BULK_WRITE),
     (''VR_GET_CPU_INFO'', REQ_VR 0), (''get_info'', REQ_VR 0), (''VR_SET_DATA_ADDRESS'', REQ_VR 1), (''set_addr'', REQ_VR 1),
     (''VR_SET_DATA_LENGTH'', REQ_VR 2), (''set_len'', REQ_VR 2), (''VR_FLUSH_CACHES'', REQ_VR 3), (''flush_cache'', REQ_VR 3),
     (''VR_PROGRAM_START1'', REQ_VR 4), (''start1'', REQ_VR 4), (''VR_PROGRAM_START2'', REQ_VR 5), (''start2'', REQ_VR 5)] s"

definition x_control :: "'d usb01 \<Rightarrow> u8 \<Rightarrow> u8 \<Rightarrow> u16 \<Rightarrow> u16 \<Rightarrow> nat \<Rightarrow> ('d, int \<times> bytes) xbt" where
  "x_control L t r value index len = do {
     w \<leftarrow> State_Monad.get;
     let (st, bs, d) = ul_control L t r value index len (xw_dev w);
     State_Monad.update (\<lambda>w. w\<lparr>xw_dev := d\<rparr>);
     State_Monad.return (st, bs) }"

definition x_get_info :: "'d usb01 \<Rightarrow> ('d, int) xbt" where
  "x_get_info L = do {
     (st, bs) \<leftarrow> x_control L 0xC0 0 0 0 8;
     if st \<noteq> 8 then State_Monad.return 1
     else do {
       x_show (X_Cpu (c_string (put_at 0 (take 8 bs) (replicate 9 0))));
       State_Monad.return 0 } }"

definition x_word_request :: "'d usb01 \<Rightarrow> u8 \<Rightarrow> string option \<Rightarrow> ('d, int) xbt" where
  "x_word_request L r str_param = (case str_param of
     None \<Rightarrow> State_Monad.return 1
   | Some s \<Rightarrow> do {
       let u32_param = strtoul 0 s;
       (st, bs) \<leftarrow> x_control L 0x40 r (ucast (drop_bit 16 u32_param)) (ucast (u32_param AND 0xffff)) 0;
       State_Monad.return (if st \<noteq> 0 then 1 else 0) })"

definition x_flush :: "'d usb01 \<Rightarrow> ('d, int) xbt" where
  "x_flush L = do {
     (st, bs) \<leftarrow> x_control L 0x40 3 0 0 0;
     State_Monad.return (if st \<noteq> 0 then 1 else 0) }"

text \<open>\<^verbatim>\<open>strtol (s, 0, 16)\<close> stored in an \<^verbatim>\<open>int\<close>, and the length that a \<^verbatim>\<open>bulk_read\<close> is given.\<close>

definition strtol_16 :: "string \<Rightarrow> int" where
  "strtol_16 s = (let (neg, ds) = split_sign s; v = int (strtoul_base 16 ds)
     in c_int (if neg then max (- v) (- (2 ^ 63)) else min v (2 ^ 63 - 1)))"

definition read_length :: "string \<Rightarrow> int" where
  "read_length s = (if take 2 s = ''0x'' then strtol_16 (drop 2 s) else atoi s)"

definition x_bulk_read :: "'d usb01 \<Rightarrow> string option \<Rightarrow> ('d, int) xbt" where
  "x_bulk_read L str_param = (case str_param of
     None \<Rightarrow> State_Monad.return 1
   | Some s \<Rightarrow> (let read_len = read_length s in
       if read_len < 0 then State_Monad.return 1
       else do {
         w \<leftarrow> State_Monad.get;
         let (st, bs, d) = ul_bulk_read L 0x81 (nat read_len) (xw_dev w);
         State_Monad.update (\<lambda>w. w\<lparr>xw_dev := d\<rparr>);
         x_crash_if (st > read_len);
         (if st > 0 then x_show (X_Data (take (nat st) bs)) else State_Monad.return ());
         State_Monad.return (if st < read_len then 1 else 0) }))"

text \<open>The four bytes that \<^verbatim>\<open>memcpy\<close> takes from the 16-bit variable \<^verbatim>\<open>xburst_cpu\<close>.\<close>

definition cpu_bytes :: "'d xw \<Rightarrow> bytes" where
  "cpu_bytes w = enc_u16 (xburst_cpu w) @ enc_u16 (xw_behind w)"

definition x_bulk_write :: "'d usb01 \<Rightarrow> string option \<Rightarrow> ('d, int) xbt" where
  "x_bulk_write L str_param = (case str_param of
     None \<Rightarrow> State_Monad.return 1
   | Some path \<Rightarrow> do {
       w \<leftarrow> State_Monad.get;
       case xw_files w path of
         None \<Rightarrow> State_Monad.return 1
       | Some f \<Rightarrow> (let
           len = c_int (int (length (f_data f)));
           file_data = fread_at f 0 (nat len) in
           if len < 0 \<or> int (length file_data) \<noteq> len then State_Monad.return 1
           else do {
             x_crash_if (option_upload w \<and> len < 12);
             let out = (if option_upload w then take (nat len) (put_at 8 (cpu_bytes w) file_data) else file_data);
             State_Monad.update (\<lambda>w. w\<lparr>option_upload := False\<rparr>);
             let (st, d) = ul_bulk_write L 0x01 out (xw_dev w);
             State_Monad.update (\<lambda>w. w\<lparr>xw_dev := d\<rparr>);
             State_Monad.return (if st < len then 1 else 0) }) })"

definition send_request :: "'d usb01 \<Rightarrow> string \<Rightarrow> string option \<Rightarrow> ('d, int) xbt" where
  "send_request L request str_param = (case request_of request of
     None \<Rightarrow> State_Monad.return 1
   | Some REQ_BULK_READ \<Rightarrow> x_bulk_read L str_param
   | Some REQ_BULK_WRITE \<Rightarrow> x_bulk_write L str_param
   | Some (REQ_VR r) \<Rightarrow> if r = 0 then x_get_info L else if r = 3 then x_flush L else x_word_request L r str_param)"

section \<open>The main program\<close>

definition STAGE1_ADDRESS :: string where "STAGE1_ADDRESS = ''0x80002000''"

definition upload_requests :: "string \<Rightarrow> string \<Rightarrow> string \<Rightarrow> (string \<times> string) list" where
  "upload_requests DATADIR addr path = [(''set_addr'', STAGE1_ADDRESS), (''bulk_write'', DATADIR @ ''stage1.bin''),
     (''start1'', STAGE1_ADDRESS), (''get_info'', ''NULL''), (''set_addr'', addr), (''bulk_write'', path),
     (''flush_cache'', ''NULL''), (''start2'', addr)]"

text \<open>The requests up to the first that fails.\<close>

fun send_all :: "'d usb01 \<Rightarrow> (string \<times> string) list \<Rightarrow> ('d, bool) xbt" where
  "send_all L [] = State_Monad.return True"
| "send_all L ((r, p) # rs) = do {
     e \<leftarrow> send_request L r (Some p);
     if e \<noteq> 0 then State_Monad.return False else send_all L rs }"

text \<open>One turn of the loop of \<^verbatim>\<open>-u\<close>, and the loop itself with the number of turns it may make; it leaves the device open.\<close>

definition upload_turn :: "'d usb01 \<Rightarrow> ('d \<Rightarrow> 'd) \<Rightarrow> (string \<times> string) list \<Rightarrow> ('d, bool) xbt" where
  "upload_turn L rest rs = do {
     State_Monad.update (\<lambda>w. w\<lparr>xw_dev := rest (xw_dev w)\<rparr>);
     h \<leftarrow> open_xburst_device L;
     if \<not> h then State_Monad.return False
     else do {
       done \<leftarrow> send_all L rs;
       (if done then State_Monad.return () else close_xburst_device L True);
       State_Monad.return done } }"

fun upload_loop :: "'d usb01 \<Rightarrow> ('d \<Rightarrow> 'd) \<Rightarrow> nat \<Rightarrow> (string \<times> string) list \<Rightarrow> ('d, bool) xbt" where
  "upload_loop L rest 0 rs = State_Monad.return False"
| "upload_loop L rest (Suc n) rs = do {
     done \<leftarrow> upload_turn L rest rs;
     if done then State_Monad.return True else upload_loop L rest n rs }"

text \<open>\<^verbatim>\<open>argv\<close> without the name of the program.  The result is the exit status, \<^verbatim>\<open>None\<close> while the loop goes on.\<close>

definition xbboot_main :: "'d usb01 \<Rightarrow> ('d \<Rightarrow> 'd) \<Rightarrow> string \<Rightarrow> nat \<Rightarrow> string list \<Rightarrow> ('d, int option) xbt" where
  "xbboot_main L rest DATADIR n argv = (case argv of
     [] \<Rightarrow> State_Monad.return (Some 0)
   | cmd # params \<Rightarrow>
       if cmd \<in> {''-h'', ''--help'', ''-v'', ''--version''} then State_Monad.return (Some 0)
       else if cmd \<in> {''-u'', ''--upload''} then
         (case params of
            [addr, path] \<Rightarrow> do {
              State_Monad.update (\<lambda>w. w\<lparr>option_upload := True\<rparr>);
              done \<leftarrow> upload_loop L rest n (upload_requests DATADIR addr path);
              (if done then do { close_xburst_device L True; State_Monad.return (Some 0) } else State_Monad.return None) }
          | _ \<Rightarrow> State_Monad.return (Some 0))
       else do {
         h \<leftarrow> open_xburst_device L;
         e \<leftarrow> (if h then send_request L cmd (case params of [] \<Rightarrow> None | p # ps \<Rightarrow> Some p) else State_Monad.return 0);
         close_xburst_device L h;
         State_Monad.return (Some (if e \<noteq> 0 then 1 else 0)) })"

end
