(* ===== verification/Xbboot_Target.thy ===== *)
theory Xbboot_Target
  imports Stage1_Main Stage2_Start
begin

unbundle bit_operations_syntax

text \<open>
  The programs that \<^verbatim>\<open>xbboot\<close> runs on the device: its first stage (\<^verbatim>\<open>target-stage1\<close>) and the echo kernel
  (\<^verbatim>\<open>target-echokernel\<close>), with the serial port of \<^verbatim>\<open>target-common/serial.c\<close>.  The state is that of the first
  stage of \<^verbatim>\<open>usbboot\<close>: the global \<^verbatim>\<open>ARG_EXTAL\<close> is \<^verbatim>\<open>CFG_EXTAL\<close>, \<^verbatim>\<open>ARG_UART_BAUD\<close> is
  \<^verbatim>\<open>CONFIG_BAUDRATE\<close>, \<^verbatim>\<open>ARG_BUS_WIDTH_16\<close> is \<^verbatim>\<open>SDRAM_BW16\<close>, and so on.  The serial port and the functions of
  \<^verbatim>\<open>board-jz4760.c\<close> that both programs share are those of \<^verbatim>\<open>usbboot\<close>, with the same text.
\<close>

section \<open>The first stage on the JZ4740\<close>

definition PEC :: "u32 \<Rightarrow> u32" where "PEC = GPIO_PX 0x38"

definition pins_lcd_18bit :: "(u32 \<times> u32) list" where
  "pins_lcd_18bit = [(FUNS 2, 0x003fffff), (SELC 2, 0x003fffff), (PES 2, 0x003fffff)]"

definition pins_msc :: "(u32 \<times> u32) list" where
  "pins_msc = [(FUNS 3, 0x00003f00), (SELC 3, 0x00003f00), (PES 3, 0x00003f00)]"

definition pin_as_output :: "nat \<Rightarrow> (u32 \<times> u32) list" where
  "pin_as_output n = (let p = of_nat (n div 32); b = push_bit (n mod 32) 1 in [(FUNC p, b), (SELC p, b), (DIRS p, b)])"

definition pin_as_input :: "nat \<Rightarrow> (u32 \<times> u32) list" where
  "pin_as_input n = (let p = of_nat (n div 32); b = push_bit (n mod 32) 1 in [(FUNC p, b), (SELC p, b), (DIRC p, b)])"

definition pin_clear :: "nat \<Rightarrow> (u32 \<times> u32) list" where
  "pin_clear n = [(DATC (of_nat (n div 32)), push_bit (n mod 32) 1)]"

definition pin_enable_pull :: "nat \<Rightarrow> (u32 \<times> u32) list" where
  "pin_enable_pull n = [(PEC (of_nat (n div 32)), push_bit (n mod 32) 1)]"

definition GPIO_LCD_CS :: nat where "GPIO_LCD_CS = 2 * 32 + 21"
definition GPIO_KEYOUT_BASE :: nat where "GPIO_KEYOUT_BASE = 2 * 32 + 10"
definition GPIO_KEYIN_BASE :: nat where "GPIO_KEYIN_BASE = 3 * 32 + 18"

definition xb_gpio_init_4740 :: "'h mmio \<Rightarrow> ('h, unit) s1" where
  "xb_gpio_init_4740 M = do {
     put32s M pins_nand;
     put32s M pins_sdram_32bit;
     put32 M (SELS 2) 0x80000000;
     put32s M pins_uart0;
     put32s M pins_lcd_18bit;
     put32s M pins_msc;
     put32s M (concat (List.map (\<lambda>i. pin_as_input (GPIO_KEYIN_BASE + i) @ pin_enable_pull (GPIO_KEYIN_BASE + i)) [0..<7]));
     put32s M (concat (List.map (\<lambda>i. pin_as_output (GPIO_KEYOUT_BASE + i) @ pin_clear (GPIO_KEYOUT_BASE + i)) [0..<8]));
     put32s M (pin_as_output GPIO_LCD_CS @ pin_clear GPIO_LCD_CS) }"

definition xb_pll_init_4740 :: "'h mmio \<Rightarrow> ('h, unit) s1" where
  "xb_pll_init_4740 M = do {
     s \<leftarrow> s1_gets (\<lambda>s. s);
     s1_mark (unat (PHM_DIV s) \<ge> length n2FR \<or> CFG_EXTAL s = 0);
     let cfcr = cfcr_4740 (n2FR ! unat (PHM_DIV s));
     let pllout2 = (if cfcr AND push_bit 21 1 \<noteq> 0 then CFG_CPU_SPEED s else CFG_CPU_SPEED s div 2);
     put32 M CPM_UHCCDR (word_of_int (sint pllout2 sdiv 48000000 - 1));
     let plcr1 = plcr1_4740 (CFG_CPU_SPEED s * 2 div CFG_EXTAL s);
     put32 M CPM_CPCCR cfcr;
     put32 M CPM_CPPCR plcr1 }"

definition xb_serial_setbaud :: "'h mmio \<Rightarrow> ('h, unit) s1" where
  "xb_serial_setbaud M = do {
     s \<leftarrow> s1_gets (\<lambda>s. s);
     s1_mark (CONFIG_BAUDRATE s = 0);
     set_divisor M (CFG_EXTAL s div 16 div CONFIG_BAUDRATE s) }"

text \<open>\<^verbatim>\<open>serial_init_4740\<close> and \<^verbatim>\<open>serial_init_4760\<close> around the setting of the baud rate.\<close>

definition uart_setup :: "'h mmio \<Rightarrow> u32 \<Rightarrow> ('h, unit) s1 \<Rightarrow> ('h, unit) s1" where
  "uart_setup M uart setbaud = do {
     let base = UART0_BASE + uart * 0x1000;
     State_Monad.update (\<lambda>s. s\<lparr>UART_BASE := base\<rparr>);
     put8 M (base + OFF_IER) 0;
     put8 M (base + OFF_FCR) (NOT 0x10);
     put8 M (base + OFF_SIRCR) (NOT 3);
     put8 M (base + OFF_LCR) 3;
     setbaud;
     put8 M (base + OFF_FCR) 0x17 }"

definition serial_init_4740 :: "'h mmio \<Rightarrow> u32 \<Rightarrow> ('h, unit) s1" where
  "serial_init_4740 M uart = uart_setup M uart (xb_serial_setbaud M)"

text \<open>A bus width of 0xff leaves the memory alone, any other value stands for 16 bits.\<close>

definition xb_sdram_init_4740 :: "'h mmio \<Rightarrow> ('h, unit) s1" where
  "xb_sdram_init_4740 M = do {
     s \<leftarrow> s1_gets (\<lambda>s. s);
     if SDRAM_BW16 s = 0xff then State_Monad.return ()
     else do {
       State_Monad.update (\<lambda>s. s\<lparr>SDRAM_BW16 := 1\<rparr>);
       c \<leftarrow> cpm_get_cdiv M;
       m \<leftarrow> cpm_get_mdiv M;
       s1_mark (unat c \<ge> length clock_dividers \<or> unat m \<ge> length clock_dividers);
       sdram_program M (CFG_CPU_SPEED s * clock_dividers ! unat c div clock_dividers ! unat m) } }"

definition xb_nand_init_4740 :: "'h mmio \<Rightarrow> ('h, unit) s1" where
  "xb_nand_init_4740 M = do {
     put32 M EMC_SMCR1 0x094c4400;
     v \<leftarrow> get32 M EMC_NFCSR;
     put32 M EMC_NFCSR (v OR 3) }"

section \<open>The first stage on the JZ4760\<close>

definition pins_nand_16bit :: "nat \<Rightarrow> (u32 \<times> u32) list" where
  "pins_nand_16bit n = (let cs = push_bit (n - 1) 0x00200000 in
     [(FUNS 0, 0x002cffff), (SELC 0, 0x002cffff), (PES 0, 0x002cffff),
      (FUNS 1, 0x0000000c), (SELC 1, 0x0000000c), (PES 1, 0x0000000c),
      (FUNS 0, cs), (SELC 0, cs), (PES 0, cs),
      (FUNC 0, 0x00100000), (SELC 0, 0x00100000), (DIRC 0, 0x00100000), (PES 0, 0x00100000)])"

definition xb_gpio_init_4760 :: "'h mmio \<Rightarrow> ('h, unit) s1" where
  "xb_gpio_init_4760 M = do {
     put32s M pins_uart0_4760;
     put32s M pins_uart1_4760;
     put32s M pins_uart2_4760;
     put32s M pins_uart3_4760;
     put32s M (pins_nand_16bit 1) }"

definition serial_init_4760 :: "'h mmio \<Rightarrow> u32 \<Rightarrow> ('h, unit) s1" where
  "serial_init_4760 M uart = uart_setup M uart (serial_setbrg_4760 M)"

text \<open>\<^verbatim>\<open>EMC_PMEMPS2\<close> is another address here than in the header of \<^verbatim>\<open>usbboot\<close>.\<close>

definition xb_sdram_init_4760 :: "'h mmio \<Rightarrow> ('h, unit) s1" where
  "xb_sdram_init_4760 M = do {
     v \<leftarrow> get32 M (EMC_BASE + 0x6008);
     put32 M (EMC_BASE + 0x6008) (v OR push_bit 18 3);
     ddr_setup_4760 M }"

section \<open>The main program of the first stage\<close>

text \<open>The word at 0x80002008; the bus width is the low byte of the word at 0x80002014.\<close>

definition xb_load_args_4740 :: "('h, unit) s1" where
  "xb_load_args_4740 = State_Monad.update (\<lambda>s. s\<lparr>
     CFG_EXTAL := 12 * 1000000,
     CFG_CPU_SPEED := 21 * (12 * 1000000),
     PHM_DIV := 3,
     CONFIG_BAUDRATE := 57600,
     SDRAM_BW16 := ucast (mem_word (s1_mem s) 0x80002014),
     SDRAM_BANK4 := 1,
     SDRAM_ROW := 13,
     SDRAM_COL := 9\<rparr>)"

definition xb_stage1_main :: "'h mmio \<Rightarrow> nat \<Rightarrow> ('h, unit) s1" where
  "xb_stage1_main M P = do {
     State_Monad.update (\<lambda>s. s\<lparr>CPU_ID := mem_word (s1_mem s) 0x80002008\<rparr>);
     cpu \<leftarrow> s1_gets CPU_ID;
     if cpu \<noteq> 0x4740 \<and> cpu \<noteq> 0x4760 then State_Monad.return ()
     else do {
       (if cpu = 0x4740 then do {
          xb_load_args_4740;
          xb_gpio_init_4740 M;
          serial_init_4740 M 0;
          xb_pll_init_4740 M;
          xb_sdram_init_4740 M;
          xb_nand_init_4740 M;
          serial_puts M P (''Ben NanoNote'' @ [CHR 0x0A]) }
        else do {
          xb_gpio_init_4760 M;
          cpm_start_all_4760 M;
          serial_init_4760 M 1;
          pll_init_4760 M P;
          xb_sdram_init_4760 M;
          nand_init_4760_st1 M;
          serial_puts M P (''JZ4760 EVB lepus'' @ [CHR 0x0A]) });
       serial_puts M P (''GPIO, clocks, SDRAM, UART setup'' @ [CHR 0x0A] @ ''now jump back to BOOT ROM...'' @ [CHR 0x0A]);
       State_Monad.update (\<lambda>s. s\<lparr>s1_rom := s1_rom s \<or> cpu = 0x4760\<rparr>) } }"

section \<open>The echo kernel\<close>

text \<open>\<^verbatim>\<open>start\<close> is register 20, \<^verbatim>\<open>got0\<close> and \<^verbatim>\<open>got1\<close> are the linked bounds of the offset table.\<close>

definition echo_pre_main :: "'h mmio \<Rightarrow> nat \<Rightarrow> u32 \<Rightarrow> u32 \<Rightarrow> u32 \<Rightarrow> ('h, unit) s1" where
  "echo_pre_main M P start got0 got1 = do {
     let offset = start - 0x80000000;
     s \<leftarrow> s1_gets (\<lambda>s. s);
     case got_fix offset (got0 + offset + 8) (got1 + offset) (s1_mem s) of
       None \<Rightarrow> State_Monad.update (\<lambda>s. s\<lparr>s1_hung := True\<rparr>)
     | Some m \<Rightarrow> do {
         State_Monad.update (\<lambda>s. s\<lparr>s1_mem := m, UART_BASE := 0xB0030000 + 0x1000\<rparr>);
         serial_puts M P ''Start address is:'';
         serial_put_hex M P start;
         serial_puts M P ''Address offset is:'';
         serial_put_hex M P (start - 0x80000000);
         serial_puts M P ''GOT corrected to:'';
         serial_put_hex M P (got0 + offset) } }"

text \<open>One turn of the endless loop, and \<^verbatim>\<open>n\<close> of them.\<close>

definition echo_turn :: "'h mmio \<Rightarrow> nat \<Rightarrow> ('h, unit) s1" where
  "echo_turn M P = do {
     t \<leftarrow> serial_tstc M;
     if t then do {
       c \<leftarrow> serial_getc M P;
       serial_putc M P c;
       (if c = 0x0D then serial_putc M P 0x0A else State_Monad.return ()) }
     else State_Monad.return () }"

fun echo_main :: "'h mmio \<Rightarrow> nat \<Rightarrow> nat \<Rightarrow> ('h, unit) s1" where
  "echo_main M P 0 = State_Monad.return ()"
| "echo_main M P (Suc n) = do { echo_turn M P; echo_main M P n }"

end
