(* ===== verification/Xbboot_Facts.thy ===== *)
theory Xbboot_Facts
  imports Xbboot_Host Xbboot_Target Stage1_Props
begin

unbundle bit_operations_syntax

text \<open>
  The upload of \<^verbatim>\<open>xbboot\<close> on a device that records the transfers and answers each by an arbitrary function of those before it, and
  what the first stage makes of the image it has been sent.
\<close>

section \<open>Transfers up to the first that is refused\<close>

text \<open>What the program takes for success.\<close>

fun x_accepts :: "ub_answers \<Rightarrow> ub_transfer list \<Rightarrow> ub_transfer \<Rightarrow> bool" where
  "x_accepts ans d (T_Ctl t r v i) = (fst (ans d (T_Ctl t r v i)) = (if t = 0xC0 then 8 else 0))"
| "x_accepts ans d (T_Out bs) = (int (length bs) \<le> fst (ans d (T_Out bs)))"
| "x_accepts ans d (T_In n) = (int n \<le> fst (ans d (T_In n)))"

fun x_sent :: "ub_answers \<Rightarrow> ub_transfer list \<Rightarrow> ub_transfer list \<Rightarrow> ub_transfer list" where
  "x_sent ans d [] = d"
| "x_sent ans d (t # ts) = (if x_accepts ans d t then x_sent ans (d @ [t]) ts else d @ [t])"

fun x_all_accepted :: "ub_answers \<Rightarrow> ub_transfer list \<Rightarrow> ub_transfer list \<Rightarrow> bool" where
  "x_all_accepted ans d [] = True"
| "x_all_accepted ans d (t # ts) = (x_accepts ans d t \<and> x_all_accepted ans (d @ [t]) ts)"

lemma x_sent_all: "x_all_accepted ans d ts \<Longrightarrow> x_sent ans d ts = d @ ts"
  by (induction ts arbitrary: d) auto

definition word_request :: "u8 \<Rightarrow> u32 \<Rightarrow> ub_transfer" where
  "word_request r a = T_Ctl 0x40 r (ucast (drop_bit 16 a)) (ucast (a AND 0xffff))"

definition upload_transfers :: "bytes \<Rightarrow> u32 \<Rightarrow> bytes \<Rightarrow> ub_transfer list" where
  "upload_transfers stage a prog = [word_request 1 0x80002000, T_Out stage, word_request 4 0x80002000, T_Ctl 0xC0 0 0 0,
     word_request 1 a, T_Out prog, T_Ctl 0x40 3 0 0, word_request 5 a]"

section \<open>One request\<close>

text \<open>\<^verbatim>\<open>x_step m ans t\<close>: from every state in which the files are \<^verbatim>\<open>fs\<close> and the upload flag is \<^verbatim>\<open>u\<close>, the request \<^verbatim>\<open>m\<close> makes the transfer
  \<^verbatim>\<open>t\<close>, succeeds if it is accepted, and changes nothing else but what is shown.\<close>

definition x_step :: "(ub_transfer list, int) xbt \<Rightarrow> ub_answers \<Rightarrow> (string \<Rightarrow> c_file option) \<Rightarrow> bool set \<Rightarrow> ub_transfer \<Rightarrow> bool" where
  "x_step m ans fs us t \<longleftrightarrow> (\<forall>w. xw_files w = fs \<and> option_upload w \<in> us \<longrightarrow>
     (\<exists>sh. run_state m w = (if x_accepts ans (xw_dev w) t then 0 else 1, w\<lparr>xw_dev := xw_dev w @ [t], xw_shown := sh\<rparr>)))"

lemma x_stepI:
  assumes "\<And>w. \<exists>sh. run_state m w = (if x_accepts ans (xw_dev w) t then 0 else 1, w\<lparr>xw_dev := xw_dev w @ [t], xw_shown := sh\<rparr>)"
  shows "x_step m ans fs us t"
  using assms by (simp add: x_step_def)

lemma x_stepD:
  "x_step m ans fs us t \<Longrightarrow> xw_files w = fs \<Longrightarrow> option_upload w \<in> us \<Longrightarrow>
    \<exists>sh. run_state m w = (if x_accepts ans (xw_dev w) t then 0 else 1, w\<lparr>xw_dev := xw_dev w @ [t], xw_shown := sh\<rparr>)"
  unfolding x_step_def by blast

lemma keep_shown: "m w = (r, w\<lparr>xw_dev := d\<rparr>) \<Longrightarrow> \<exists>sh. m w = (r, w\<lparr>xw_dev := d, xw_shown := sh\<rparr>)"
  by (intro exI [of _ "xw_shown w"]) simp

lemma run_x_control:
  "run_state (x_control (ub_recorder ans b) t r v i n) w
    = (ans (xw_dev w) (T_Ctl t r v i), w\<lparr>xw_dev := xw_dev w @ [T_Ctl t r v i]\<rparr>)"
  by (simp add: x_control_def host_simps)

lemma x_step_word:
  assumes "request_of req = Some (REQ_VR r)" "r \<noteq> 0" "r \<noteq> 3"
  shows "x_step (send_request (ub_recorder ans b) req (Some p)) ans fs us (word_request r (strtoul 0 p))"
  by (rule x_stepI, rule keep_shown)
    (simp add: send_request_def assms x_word_request_def run_x_control host_simps word_request_def Let_def split_def)

lemma x_step_info: "x_step (send_request (ub_recorder ans b) ''get_info'' p) ans fs us (T_Ctl 0xC0 0 0 0)"
proof (rule x_stepI)
  fix w :: "ub_transfer list xw"
  let ?r = "ans (xw_dev w) (T_Ctl 0xC0 0 0 0)"
  show "\<exists>sh. run_state (send_request (ub_recorder ans b) ''get_info'' p) w
    = (if x_accepts ans (xw_dev w) (T_Ctl 0xC0 0 0 0) then 0 else 1, w\<lparr>xw_dev := xw_dev w @ [T_Ctl 0xC0 0 0 0], xw_shown := sh\<rparr>)"
    by (rule exI [of _ "if fst ?r = 8 then xw_shown w @ [X_Cpu (c_string (put_at 0 (take 8 (snd ?r)) (replicate 9 0)))] else xw_shown w"])
      (simp add: send_request_def request_of_def x_get_info_def run_x_control host_simps split_def)
qed

lemma x_step_flush: "x_step (send_request (ub_recorder ans b) ''flush_cache'' p) ans fs us (T_Ctl 0x40 3 0 0)"
  by (rule x_stepI, rule keep_shown) (simp add: send_request_def request_of_def x_flush_def run_x_control host_simps split_def)

definition whole_file :: "bytes \<Rightarrow> c_file" where
  "whole_file bs = \<lparr>f_data = bs, f_readable = length bs\<rparr>"

lemma run_bulk_write:
  assumes "xw_files w path = Some (whole_file bs)" "length bs < 2 ^ 31"
  defines "out \<equiv> (if option_upload w then take (length bs) (put_at 8 (cpu_bytes w) bs) else bs)"
  shows "run_state (send_request (ub_recorder ans b) ''bulk_write'' (Some path)) w
    = (if int (length bs) \<le> fst (ans (xw_dev w) (T_Out out)) then 0 else 1,
       w\<lparr>xw_dev := xw_dev w @ [T_Out out], option_upload := False, xw_crash := xw_crash w \<or> (option_upload w \<and> length bs < 12)\<rparr>)"
  using assms(1,2)
  by (cases w) (simp add: send_request_def request_of_def x_bulk_write_def host_simps whole_file_def c_int_id fread_at_def Let_def out_def
    not_le, (simp add: split_def)?)

lemma x_step_bulk:
  assumes "fs path = Some (whole_file bs)" "length bs < 2 ^ 31"
  shows "x_step (send_request (ub_recorder ans b) ''bulk_write'' (Some path)) ans fs {False} (T_Out bs)"
  unfolding x_step_def
proof (intro allI impI)
  fix w :: "ub_transfer list xw"
  assume w: "xw_files w = fs \<and> option_upload w \<in> {False}"
  then have "run_state (send_request (ub_recorder ans b) ''bulk_write'' (Some path)) w
    = (if x_accepts ans (xw_dev w) (T_Out bs) then 0 else 1, w\<lparr>xw_dev := xw_dev w @ [T_Out bs]\<rparr>)"
    using run_bulk_write [of w path bs ans b] assms by (cases w) simp
  then show "\<exists>sh. run_state (send_request (ub_recorder ans b) ''bulk_write'' (Some path)) w
    = (if x_accepts ans (xw_dev w) (T_Out bs) then 0 else 1, w\<lparr>xw_dev := xw_dev w @ [T_Out bs], xw_shown := sh\<rparr>)"
    by (rule keep_shown)
qed

section \<open>A list of requests\<close>

definition x_steps :: "(ub_transfer list, bool) xbt \<Rightarrow> ub_answers \<Rightarrow> (string \<Rightarrow> c_file option) \<Rightarrow> bool set \<Rightarrow> ub_transfer list \<Rightarrow> bool" where
  "x_steps m ans fs us ts \<longleftrightarrow> (\<forall>w. xw_files w = fs \<and> option_upload w \<in> us \<longrightarrow>
     (\<exists>sh. run_state m w = (x_all_accepted ans (xw_dev w) ts, w\<lparr>xw_dev := x_sent ans (xw_dev w) ts, xw_shown := sh\<rparr>)))"

lemma x_stepsD:
  "x_steps m ans fs us ts \<Longrightarrow> xw_files w = fs \<Longrightarrow> option_upload w \<in> us \<Longrightarrow>
    \<exists>sh. run_state m w = (x_all_accepted ans (xw_dev w) ts, w\<lparr>xw_dev := x_sent ans (xw_dev w) ts, xw_shown := sh\<rparr>)"
  unfolding x_steps_def by blast

lemma x_steps_Nil: "x_steps (send_all L []) ans fs us []"
  unfolding x_steps_def by (intro allI impI, rule keep_shown) (simp add: host_simps)

lemma x_steps_Cons:
  assumes "x_step (send_request L r (Some p)) ans fs us t" "x_steps (send_all L rs) ans fs us ts"
  shows "x_steps (send_all L ((r, p) # rs)) ans fs us (t # ts)"
  unfolding x_steps_def
proof (intro allI impI)
  fix w :: "ub_transfer list xw"
  assume w: "xw_files w = fs \<and> option_upload w \<in> us"
  obtain sh where 1: "run_state (send_request L r (Some p)) w
      = (if x_accepts ans (xw_dev w) t then 0 else 1, w\<lparr>xw_dev := xw_dev w @ [t], xw_shown := sh\<rparr>)" (is "_ = (_, ?w1)")
    using x_stepD [OF assms(1)] w by blast
  obtain sh' where 2: "run_state (send_all L rs) ?w1
      = (x_all_accepted ans (xw_dev ?w1) ts, ?w1\<lparr>xw_dev := x_sent ans (xw_dev ?w1) ts, xw_shown := sh'\<rparr>)"
    using x_stepsD [OF assms(2), of ?w1] w by auto
  show "\<exists>sh. run_state (send_all L ((r, p) # rs)) w
      = (x_all_accepted ans (xw_dev w) (t # ts), w\<lparr>xw_dev := x_sent ans (xw_dev w) (t # ts), xw_shown := sh\<rparr>)"
    using 1 2 by (cases "x_accepts ans (xw_dev w) t") (auto simp: host_simps)
qed

lemma strtoul_stage1: "strtoul 0 STAGE1_ADDRESS = 0x80002000"
  by (simp add: STAGE1_ADDRESS_def c_string_simps)

lemma request_names:
  "request_of ''set_addr'' = Some (REQ_VR 1)" "request_of ''start1'' = Some (REQ_VR 4)" "request_of ''start2'' = Some (REQ_VR 5)"
  by (simp_all add: request_of_def)

lemma upload_rest:
  assumes "fs path = Some (whole_file prog)" "length prog < 2 ^ 31"
  shows "x_steps (send_all (ub_recorder ans b) (drop 2 (upload_requests DATADIR addr path))) ans fs {False}
    (drop 2 (upload_transfers stage (strtoul 0 addr) prog))"
  unfolding upload_requests_def upload_transfers_def strtoul_stage1 [symmetric]
  by (simp only: drop_Suc_Cons drop_0 numeral_2_eq_2,
      intro x_steps_Cons x_steps_Nil x_step_info x_step_flush x_step_bulk [where fs = fs and path = path, OF assms] x_step_word)
    (simp_all add: request_of_def)

lemma upload_plain:
  assumes "fs (DATADIR @ ''stage1.bin'') = Some (whole_file stage)" "fs path = Some (whole_file prog)"
    and "length stage < 2 ^ 31" "length prog < 2 ^ 31"
  shows "x_steps (send_all (ub_recorder ans b) (upload_requests DATADIR addr path)) ans fs {False}
    (upload_transfers stage (strtoul 0 addr) prog)"
  unfolding upload_requests_def upload_transfers_def strtoul_stage1 [symmetric]
  by (intro x_steps_Cons x_steps_Nil x_step_info x_step_flush x_step_bulk [where fs = fs and path = path, OF assms(2,4)]
      x_step_bulk [where fs = fs and path = "DATADIR @ ''stage1.bin''", OF assms(1,3)] x_step_word)
    (simp_all add: request_of_def)

section \<open>The first attempt\<close>

text \<open>The stage with the four bytes that the program writes into it.\<close>

definition patched_stage :: "u16 \<Rightarrow> u16 \<Rightarrow> bytes \<Rightarrow> bytes" where
  "patched_stage cpu behind stage = put_at 8 (enc_u16 cpu @ enc_u16 behind) stage"

lemma length_patched_stage: "12 \<le> length stage \<Longrightarrow> length (patched_stage cpu behind stage) = length stage"
  by (simp add: patched_stage_def u16c.length_enc)

lemma upload_first:
  fixes addr :: string
  assumes "xw_files w (DATADIR @ ''stage1.bin'') = Some (whole_file stage)" "xw_files w path = Some (whole_file prog)"
    and "12 \<le> length stage" "length stage < 2 ^ 31" "length prog < 2 ^ 31" "option_upload w"
    and "x_accepts ans (xw_dev w) (word_request 1 0x80002000)"
  defines "ts \<equiv> upload_transfers (patched_stage (xburst_cpu w) (xw_behind w) stage) (strtoul 0 addr) prog"
  shows "\<exists>sh. run_state (send_all (ub_recorder ans b) (upload_requests DATADIR addr path)) w
    = (x_all_accepted ans (xw_dev w) ts, w\<lparr>xw_dev := x_sent ans (xw_dev w) ts, xw_shown := sh, option_upload := False\<rparr>)"
proof -
  let ?L = "ub_recorder ans b" and ?out = "patched_stage (xburst_cpu w) (xw_behind w) stage" and ?t = "word_request 1 0x80002000"
  let ?rs = "upload_requests DATADIR addr path"
  have rs: "?rs = (''set_addr'', STAGE1_ADDRESS) # (''bulk_write'', DATADIR @ ''stage1.bin'') # drop 2 ?rs"
    and ts: "ts = ?t # T_Out ?out # drop 2 ts"
    by (simp_all add: upload_requests_def ts_def upload_transfers_def)
  obtain sh where 1: "run_state (send_request ?L ''set_addr'' (Some STAGE1_ADDRESS)) w = (0, w\<lparr>xw_dev := xw_dev w @ [?t], xw_shown := sh\<rparr>)"
      (is "_ = (_, ?w1)")
    using x_stepD [OF x_step_word [OF request_names(1)], of w "xw_files w" UNIV ans b STAGE1_ADDRESS] assms(7)
    by (auto simp: strtoul_stage1)
  have out: "take (length stage) (put_at 8 (cpu_bytes ?w1) stage) = ?out"
    using length_patched_stage [OF assms(3)] by (simp add: patched_stage_def cpu_bytes_def)
  let ?w2 = "?w1\<lparr>xw_dev := xw_dev ?w1 @ [T_Out ?out], option_upload := False\<rparr>"
  have len: "length ?out = length stage" by (rule length_patched_stage [OF assms(3)])
  have 2: "run_state (send_request ?L ''bulk_write'' (Some (DATADIR @ ''stage1.bin''))) ?w1
      = (if x_accepts ans (xw_dev ?w1) (T_Out ?out) then 0 else 1, ?w2)"
    using run_bulk_write [of ?w1 "DATADIR @ ''stage1.bin''" stage ans b] assms(1,3,4,6) out len by simp
  have "\<exists>sh'. run_state (send_all ?L (drop 2 ?rs)) ?w2
      = (x_all_accepted ans (xw_dev ?w2) (drop 2 ts), ?w2\<lparr>xw_dev := x_sent ans (xw_dev ?w2) (drop 2 ts), xw_shown := sh'\<rparr>)"
    unfolding ts_def by (rule x_stepsD [OF upload_rest [where fs = "xw_files w" and path = path, OF assms(2,5)]]) simp_all
  then obtain sh' where 3: "run_state (send_all ?L (drop 2 ?rs)) ?w2
      = (x_all_accepted ans (xw_dev ?w2) (drop 2 ts), ?w2\<lparr>xw_dev := x_sent ans (xw_dev ?w2) (drop 2 ts), xw_shown := sh'\<rparr>)" by blast
  let ?sh = "if x_accepts ans (xw_dev ?w1) (T_Out ?out) then sh' else sh"
  show ?thesis
    by (rule exI [of _ ?sh], subst rs, subst (1 2) ts, cases w; use 1 2 3 assms(7) in \<open>simp add: host_simps\<close>)
qed

section \<open>Finding the device\<close>

lemma run_open:
  assumes "filter is_xburst (concat b) = [dv]"
  shows "\<exists>i. run_state (open_xburst_device (ub_recorder ans b)) w = (True, w\<lparr>xburst_cpu := ud_product dv, xburst_interface := i\<rparr>)"
  using assms by (cases w) (simp add: open_xburst_device_def host_simps ub_recorder_def Let_def)

lemma run_close: "run_state (close_xburst_device (ub_recorder ans b) h) w = ((), w)"
  by (cases w) (simp add: close_xburst_device_def host_simps ub_recorder_def)

section \<open>What the stage makes of its image\<close>

lemma image_word:
  assumes "image_loaded mem bs" "k + 4 \<le> length bs"
  shows "mem_word mem (0x80002000 + of_nat k) = dec_u32 (slice k 4 bs)"
proof -
  have byte: "mem (0x80002000 + of_nat j) = bs ! j" if "j < length bs" for j
    using assms(1) that unfolding image_loaded_def by (metis (no_types, lifting) add_0 nth_map_upt diff_zero)
  have "slice k 4 bs = [bs ! k, bs ! (k + 1), bs ! (k + 2), bs ! (k + 3)]"
    using assms(2) by (intro nth_equalityI) (auto simp: slice_def less_Suc_eq numeral_eq_Suc)
  then show ?thesis
    using byte [of k] byte [of "k + 1"] byte [of "k + 2"] byte [of "k + 3"] assms(2)
    by (simp add: mem_word_def algebra_simps)
qed

lemma le_nat_app: "le_nat (xs @ ys) = le_nat xs + 256 ^ length xs * le_nat ys"
  by (induction xs) (simp_all add: algebra_simps)

lemma dec_two_halves: "dec_u32 (enc_u16 a @ enc_u16 b) = of_nat (unat a + 65536 * unat b)"
  using unsigned_less [of a, where 'a = nat] unsigned_less [of b, where 'a = nat]
  by (simp add: dec_u32_def enc_u16_def le_nat_app le_nat_bytes del: of_nat_add of_nat_mult)

lemma patched_cpu_id:
  assumes "image_loaded mem (patched_stage cpu behind stage)" "12 \<le> length stage"
  shows "mem_word mem 0x80002008 = of_nat (unat cpu + 65536 * unat behind)"
proof -
  have "slice 8 4 (patched_stage cpu behind stage) = enc_u16 cpu @ enc_u16 behind"
    using slice_put_at_same [of 8 stage "enc_u16 cpu @ enc_u16 behind"] assms(2) by (simp add: patched_stage_def u16c.length_enc)
  then show ?thesis
    using image_word [OF assms(1), of 8] length_patched_stage [OF assms(2)] assms(2) by (simp only: dec_two_halves) simp
qed

text \<open>With any other number in the word at 0x80002008 the stage does nothing.\<close>

lemma stage1_ignores:
  assumes "mem_word (s1_mem s) 0x80002008 \<notin> {0x4740, 0x4760}"
  shows "run_state (xb_stage1_main M P) s = ((), s\<lparr>CPU_ID := mem_word (s1_mem s) 0x80002008\<rparr>)"
  using assms by (simp add: xb_stage1_main_def host_simps)

text \<open>What the JZ4740 branch touches, piece by piece.\<close>

lemma pins_in_gpio:
  assumes "k < 128"
  shows "list_all (gpio_reg b) (List.map fst (pin_as_input k))" "list_all (gpio_reg b) (List.map fst (pin_as_output k))"
    "list_all (gpio_reg b) (List.map fst (pin_clear k))" "list_all (gpio_reg b) (List.map fst (pin_enable_pull k))"
proof -
  have "k div 32 < 4" using assms by simp
  then have "k div 32 \<in> {0, 1, 2, 3}" by auto
  then show "list_all (gpio_reg b) (List.map fst (pin_as_input k))" "list_all (gpio_reg b) (List.map fst (pin_as_output k))"
    "list_all (gpio_reg b) (List.map fst (pin_clear k))" "list_all (gpio_reg b) (List.map fst (pin_enable_pull k))"
    by (auto simp: pin_as_input_def pin_as_output_def pin_clear_def pin_enable_pull_def PEC_def gpio_reg_def gpio_defs Let_def)
qed

lemma all_map_concat: "(\<And>x. x \<in> set xs \<Longrightarrow> list_all Q (List.map fst (f x))) \<Longrightarrow> list_all Q (List.map fst (concat (List.map f xs)))"
  by (induction xs) simp_all

lemma touches_xb_gpio: "touches gpio_reg (xb_gpio_init_4740 (bus_io ans))"
  unfolding xb_gpio_init_4740_def
  by (intro touches all_map_concat)
    (simp_all add: pins_in_gpio GPIO_KEYIN_BASE_def GPIO_KEYOUT_BASE_def GPIO_LCD_CS_def,
     simp_all add: pins_nand_def pins_sdram_32bit_def pins_uart0_def pins_lcd_18bit_def pins_msc_def gpio_reg_def gpio_defs)

definition uart0_reg :: "u32 \<Rightarrow> u32 \<Rightarrow> bool" where
  "uart0_reg b a \<longleftrightarrow> uart_reg b a \<or> uart_reg UART0_BASE a"

lemma touches_uart_setup:
  assumes "touches uart0_reg f"
  shows "touches uart0_reg (do {
     put8 (bus_io ans) (UART0_BASE + OFF_IER) 0;
     put8 (bus_io ans) (UART0_BASE + OFF_FCR) (NOT 0x10);
     put8 (bus_io ans) (UART0_BASE + OFF_SIRCR) (NOT 3);
     put8 (bus_io ans) (UART0_BASE + OFF_LCR) 3;
     f;
     put8 (bus_io ans) (UART0_BASE + OFF_FCR) 0x17 })"
  by (intro touches assms) (simp_all add: uart0_reg_def uart_reg_def uart_defs)

lemma touches_setbaud: "touches uart0_reg (xb_serial_setbaud (bus_io ans))"
  by (rule touches_weaken [where A = uart_reg]) (auto simp: xb_serial_setbaud_def uart0_reg_def intro!: touches)

lemma touches_puts: "touches uart0_reg (serial_puts (bus_io ans) P t)"
  by (rule touches_weaken [OF touches_serial_puts]) (simp add: uart0_reg_def)

definition nand_reg :: "u32 \<Rightarrow> u32 \<Rightarrow> bool" where "nand_reg b a \<longleftrightarrow> a \<in> {EMC_SMCR1, EMC_NFCSR}"

lemma touches_xb_nand: "touches nand_reg (xb_nand_init_4740 (bus_io ans))"
  unfolding xb_nand_init_4740_def by (intro touches) (simp_all add: nand_reg_def)

lemma xb_pll_same: "xb_pll_init_4740 M = pll_init_4740 M"
  by (simp add: xb_pll_init_4740_def pll_init_4740_def Let_def)

lemma xb_sdram_same:
  "SDRAM_BW16 s \<noteq> 0xff \<Longrightarrow> run_state (xb_sdram_init_4740 M) s = run_state (sdram_init_4740 M) (s\<lparr>SDRAM_BW16 := 1\<rparr>)"
  by (simp add: xb_sdram_init_4740_def sdram_init_4740_def host_simps)

lemma apart_740:
  "\<not> uart0_reg UART0_BASE CPM_CPPCR" "\<not> uart0_reg UART0_BASE EMC_DMCR" "\<not> nand_reg b CPM_CPPCR" "\<not> nand_reg b EMC_DMCR"
  using late_apart(3,4) [of 0] by (simp_all add: uart0_reg_def nand_reg_def cpm_defs emc_defs EMC_SMCR1_def EMC_NFCSR_def)

text \<open>The state after the arguments have been set, and the accesses that follow.\<close>

definition nanonote_args :: "bus st1 \<Rightarrow> bus st1" where
  "nanonote_args s = snd (run_state xb_load_args_4740 (s\<lparr>CPU_ID := 0x4740\<rparr>))"

lemma nanonote_fields:
  "CFG_EXTAL (nanonote_args s) = 12000000" "CFG_CPU_SPEED (nanonote_args s) = 252000000" "SDRAM_ROW (nanonote_args s) = 13"
  "SDRAM_COL (nanonote_args s) = 9" "SDRAM_BANK4 (nanonote_args s) = 1" "s1_hw (nanonote_args s) = s1_hw s"
  "SDRAM_BW16 (nanonote_args s) = ucast (mem_word (s1_mem s) 0x80002014)"
  by (simp_all add: nanonote_args_def xb_load_args_4740_def host_simps)

lemma at_touched:
  assumes "touches A f" "run_state f s = (x, s')" "\<not> A (UART_BASE s) a"
  shows "settings s' = settings s" "at a (s1_hw s') = at a (s1_hw s)"
proof -
  obtain es where "settings s' = settings s" "s1_hw s' = s1_hw s @ es" "list_all (\<lambda>e. A (UART_BASE s) (ev_addr e)) es"
    by (rule touchesD [OF assms(1,2)])
  then show "settings s' = settings s" "at a (s1_hw s') = at a (s1_hw s)"
    using at_elsewhere [of "A (UART_BASE s)" es a] assms(3) by simp_all
qed

lemma at_emitted:
  assumes "emits f s es" "run_state f s = (x, s')"
  shows "settings s' = settings s" "at a (s1_hw s') = at a (s1_hw s) @ at a es"
  using assms by (simp_all add: emits_def)

lemma settings_update:
  "settings (s\<lparr>UART_BASE := b\<rparr>) = (settings s)\<lparr>UART_BASE := b\<rparr>" "settings (s\<lparr>SDRAM_BW16 := w\<rparr>) = (settings s)\<lparr>SDRAM_BW16 := w\<rparr>"
  by (simp_all add: settings_def)

lemma stage1_4740_run:
  assumes id: "mem_word (s1_mem s) 0x80002008 = 0x4740" and bw: "ucast (mem_word (s1_mem s) 0x80002014) \<noteq> (0xff :: u8)"
    and a: "a \<in> {CPM_CPPCR, EMC_DMCR}"
  shows "\<exists>t ns. settings t = settings (nanonote_args s\<lparr>UART_BASE := UART0_BASE, SDRAM_BW16 := 1\<rparr>)
    \<and> at a (s1_hw (snd (run_state (xb_stage1_main (bus_io ans) P) s)))
      = at a (s1_hw s) @ at a (pll_events (nanonote_args s)) @ at a ([Rd32 CPM_CPCCR, Rd32 CPM_CPCCR] @ sdram_events t ns)"
proof -
  let ?M = "bus_io ans" and ?s0 = "nanonote_args s"
  have apart: "\<not> gpio_reg b a" "\<not> uart0_reg UART0_BASE a" "\<not> nand_reg b a" for b
    using a apart_740 late_apart(5,6) by auto
  define uset where "uset = do {
     put8 ?M (UART0_BASE + OFF_IER) 0;
     put8 ?M (UART0_BASE + OFF_FCR) (NOT 0x10);
     put8 ?M (UART0_BASE + OFF_SIRCR) (NOT 3);
     put8 ?M (UART0_BASE + OFF_LCR) 3;
     xb_serial_setbaud ?M;
     put8 ?M (UART0_BASE + OFF_FCR) 0x17 }"
  obtain s1 where g: "run_state (xb_gpio_init_4740 ?M) ?s0 = ((), s1)" by (cases "run_state (xb_gpio_init_4740 ?M) ?s0") simp
  define s2 where "s2 = s1\<lparr>UART_BASE := UART0_BASE\<rparr>"
  obtain s3 where u: "run_state uset s2 = ((), s3)" by (cases "run_state uset s2") simp
  obtain s4 where p: "run_state (pll_init_4740 ?M) s3 = ((), s4)" by (cases "run_state (pll_init_4740 ?M) s3") simp
  define s5 where "s5 = s4\<lparr>SDRAM_BW16 := 1\<rparr>"
  obtain s6 where d: "run_state (sdram_init_4740 ?M) s5 = ((), s6)" by (cases "run_state (sdram_init_4740 ?M) s5") simp
  obtain s7 where n: "run_state (xb_nand_init_4740 ?M) s6 = ((), s7)" by (cases "run_state (xb_nand_init_4740 ?M) s6") simp
  define msg where "msg = do { serial_puts ?M P (''Ben NanoNote'' @ [CHR 0x0A]);
     serial_puts ?M P (''GPIO, clocks, SDRAM, UART setup'' @ [CHR 0x0A] @ ''now jump back to BOOT ROM...'' @ [CHR 0x0A]) }"
  obtain s8 where m: "run_state msg s7 = ((), s8)" by (cases "run_state msg s7") simp
  note 1 = at_touched [OF touches_xb_gpio g apart(1)]
  have "touches uart0_reg uset" unfolding uset_def by (rule touches_uart_setup [OF touches_setbaud])
  note 3 = at_touched [OF this u, of a]
  note 4 = at_emitted [OF emits_pll_init p]
  have "SDRAM_BW16 s5 \<noteq> 0xff" by (simp add: s5_def)
  then obtain ns where "emits (sdram_init_4740 ?M) s5 ([Rd32 CPM_CPCCR, Rd32 CPM_CPCCR] @ sdram_events s5 ns)"
    by (rule emits_sdram_init)
  note 6 = at_emitted [OF this d]
  note 7 = at_touched [OF touches_xb_nand n apart(3)]
  have "touches uart0_reg msg" unfolding msg_def by (intro touches touches_puts)
  note 8 = at_touched [OF this m, of a]
  have base: "UART_BASE s2 = UART0_BASE" by (simp add: s2_def)
  have set4: "settings s4 = settings s2" using 3(1) 4(1) apart(2) base by simp
  have set5: "settings s5 = settings (?s0\<lparr>UART_BASE := UART0_BASE, SDRAM_BW16 := 1\<rparr>)"
    by (simp only: s5_def settings_update set4) (simp only: s2_def settings_update 1(1))
  have "UART_BASE s7 = UART_BASE s5" using settings_fields(1) [of s7 s5] 6(1) 7(1) by simp
  also have "\<dots> = UART0_BASE" using settings_fields(1) [OF set4] base by (simp add: s5_def)
  finally have base7: "UART_BASE s7 = UART0_BASE" .
  have "run_state xb_load_args_4740 (s\<lparr>CPU_ID := 0x4740\<rparr>) = ((), ?s0)" by (simp add: nanonote_args_def prod_eq_iff)
  moreover have "SDRAM_BW16 s4 = ucast (mem_word (s1_mem s) 0x80002014)"
    using settings_fields(6) [OF set4] settings_fields(6) [OF 1(1)] by (simp add: s2_def nanonote_fields)
  then have "run_state (xb_sdram_init_4740 ?M) s4 = ((), s6)" using xb_sdram_same [of s4 ?M] bw d by (simp add: s5_def)
  moreover have "run_state (serial_init_4740 ?M 0) s1 = ((), s3)"
    using u by (simp add: serial_init_4740_def uart_setup_def uset_def host_simps s2_def)
  ultimately have "s1_hw (snd (run_state (xb_stage1_main ?M P) s)) = s1_hw s8"
    using g p n m id by (simp add: xb_stage1_main_def host_simps xb_pll_same msg_def split: prod.splits)
  moreover have "at a (s1_hw s8) = at a (s1_hw s) @ at a (pll_events s3) @ at a ([Rd32 CPM_CPCCR, Rd32 CPM_CPCCR] @ sdram_events s5 ns)"
    using 1 3 4 6 7 8 base base7 apart(2) by (simp add: nanonote_fields s2_def s5_def)
  moreover have "pll_events s3 = pll_events ?s0"
  proof -
    have "settings s3 = settings s2" using 3(1) apart(2) base by simp
    then show ?thesis using settings_fields [of s3 s2] settings_fields [OF 1(1)] by (simp add: pll_events_def Let_def s2_def)
  qed
  ultimately show ?thesis using set5 by (intro exI [of _ s5] exI [of _ ns]) simp
qed

end
