(* ===== verification/Xbboot_Props.thy ===== *)
theory Xbboot_Props
  imports Xbboot_Facts
begin

unbundle bit_operations_syntax

text \<open>
  The upload of \<^verbatim>\<open>xbboot\<close> from the host to the board: what the first attempt achieves, what a second attempt sends, and the echo
  kernel on a serial line.
\<close>

section \<open>The loop of the upload\<close>

lemma run_turn:
  fixes addr :: string
  assumes one: "filter is_xburst (concat b) = [dv]"
    and files: "xw_files w (DATADIR @ ''stage1.bin'') = Some (whole_file stage)" "xw_files w path = Some (whole_file prog)"
    and len: "12 \<le> length stage" "length stage < 2 ^ 31" "length prog < 2 ^ 31"
    and first: "x_accepts ans (xw_dev w) (word_request 1 0x80002000)"
  defines "ts \<equiv> upload_transfers (if option_upload w then patched_stage (ud_product dv) (xw_behind w) stage else stage) (strtoul 0 addr) prog"
  shows "\<exists>w'. run_state (upload_turn (ub_recorder ans b) (\<lambda>d. d) (upload_requests DATADIR addr path)) w
      = (x_all_accepted ans (xw_dev w) ts, w') \<and> xw_dev w' = x_sent ans (xw_dev w) ts \<and> \<not> option_upload w'
    \<and> xw_files w' = xw_files w \<and> xw_behind w' = xw_behind w \<and> xw_crash w' = xw_crash w"
proof -
  let ?L = "ub_recorder ans b" and ?rs = "upload_requests DATADIR addr path"
  obtain i where o: "run_state (open_xburst_device ?L) w = (True, w\<lparr>xburst_cpu := ud_product dv, xburst_interface := i\<rparr>)"
    (is "_ = (_, ?w1)") using run_open [OF one] by blast
  have "\<exists>w'. run_state (send_all ?L ?rs) ?w1 = (x_all_accepted ans (xw_dev w) ts, w') \<and> xw_dev w' = x_sent ans (xw_dev w) ts
      \<and> \<not> option_upload w' \<and> xw_files w' = xw_files w \<and> xw_behind w' = xw_behind w \<and> xw_crash w' = xw_crash w"
  proof (cases "option_upload w")
    case True
    then show ?thesis
      using upload_first [of ?w1 DATADIR stage path prog ans b addr] files len first by (auto simp: ts_def)
  next
    case False
    then show ?thesis
      using x_stepsD [OF upload_plain [where fs = "xw_files w" and stage = stage and path = path and prog = prog], of DATADIR ?w1 ans b addr]
        files len by (auto simp: ts_def)
  qed
  then obtain w' where w': "run_state (send_all ?L ?rs) ?w1 = (x_all_accepted ans (xw_dev w) ts, w')" "xw_dev w' = x_sent ans (xw_dev w) ts"
      "\<not> option_upload w'" "xw_files w' = xw_files w" "xw_behind w' = xw_behind w" "xw_crash w' = xw_crash w" by blast
  have "run_state (upload_turn ?L (\<lambda>d. d) ?rs) w = (x_all_accepted ans (xw_dev w) ts, w')"
    by (simp add: upload_turn_def host_simps o w'(1) run_close)
  then show ?thesis using w' by blast
qed

lemma main_upload:
  "run_state (xbboot_main L (\<lambda>d. d) DATADIR n [''-u'', addr, path]) w
    = (case run_state (upload_loop L (\<lambda>d. d) n (upload_requests DATADIR addr path)) (w\<lparr>option_upload := True\<rparr>) of
        (done, w') \<Rightarrow> if done then run_state (do { close_xburst_device L True; State_Monad.return (Some 0) }) w' else (None, w'))"
  by (simp add: xbboot_main_def host_simps split: prod.splits)

section \<open>The NanoNote\<close>

lemma first_of_word: "ucast (dec_u32 [a, b, c, d]) = (a :: u8)"
proof -
  have "unat (ucast (dec_u32 [a, b, c, d]) :: u8) = (unat a + 256 * (unat b + 256 * (unat c + 256 * unat d))) mod 2 ^ 32 mod 256"
    by (simp add: dec_u32_def unsigned_ucast_eq take_bit_eq_mod unat_of_nat del: of_nat_add of_nat_mult)
  also have "\<dots> = unat a mod 256" by (subst mod_mod_cancel, simp, simp only: mod_mult_self2)
  also have "\<dots> = unat a" using unsigned_less [of a, where 'a = nat] by simp
  finally show ?thesis by (simp only: word_unat_eq_iff)
qed

lemma patched_bus_width:
  assumes "image_loaded mem (patched_stage cpu behind stage)" "24 \<le> length stage"
  shows "ucast (mem_word mem 0x80002014) = stage ! 20"
proof -
  have "slice 20 4 (patched_stage cpu behind stage) = slice 20 4 stage"
    using assms(2) by (simp add: patched_stage_def put_at_def slice_def u16c.length_enc)
  also have "\<dots> = [stage ! 20, stage ! 21, stage ! 22, stage ! 23]"
    using assms(2) by (intro nth_equalityI) (auto simp: slice_def less_Suc_eq numeral_eq_Suc)
  finally show ?thesis
    using image_word [OF assms(1), of 20] length_patched_stage [of stage cpu behind] assms(2) by (simp add: first_of_word)
qed

text \<open>The clock and the memory that the stage sets up on the JZ4740.\<close>

lemma nanonote_board:
  assumes id: "mem_word (s1_mem s) 0x80002008 = 0x4740" and bw: "ucast (mem_word (s1_mem s) 0x80002014) \<noteq> (0xff :: u8)"
    and hw: "s1_hw s = []"
  shows "\<exists>v. at CPM_CPPCR (s1_hw (snd (run_state (xb_stage1_main (bus_io bus) P) s))) = [Wr32 CPM_CPPCR v]
      \<and> unat (pllout_4740 12000000 v) = 252000000"
    and "\<exists>v1 v2 v3 v. at EMC_DMCR (s1_hw (snd (run_state (xb_stage1_main (bus_io bus) P) s)))
        = [Wr32 EMC_DMCR v1, Wr32 EMC_DMCR v2, Wr32 EMC_DMCR v3, Wr32 EMC_DMCR v] \<and> dmcr_capacity v = 32 * 1024 * 1024"
proof -
  note run = stage1_4740_run [OF id bw, where ans = bus and P = P]
  have pll: "plcr1_4740 (CFG_CPU_SPEED (nanonote_args s) * 2 div CFG_EXTAL (nanonote_args s)) = plcr1_4740 42"
    by (simp add: nanonote_fields)
  obtain t ns where "at CPM_CPPCR (s1_hw (snd (run_state (xb_stage1_main (bus_io bus) P) s)))
      = at CPM_CPPCR (s1_hw s) @ at CPM_CPPCR (pll_events (nanonote_args s)) @ at CPM_CPPCR ([Rd32 CPM_CPCCR, Rd32 CPM_CPCCR] @ sdram_events t ns)"
    using run [of CPM_CPPCR] by auto
  then have "at CPM_CPPCR (s1_hw (snd (run_state (xb_stage1_main (bus_io bus) P) s))) = [Wr32 CPM_CPPCR (plcr1_4740 42)]"
    unfolding at_append at_cppcr hw pll at_Nil by simp
  moreover have "unat (pllout_4740 12000000 (plcr1_4740 42)) = 252000000" by (simp add: pllout_of_multiplier)
  ultimately show "\<exists>v. at CPM_CPPCR (s1_hw (snd (run_state (xb_stage1_main (bus_io bus) P) s))) = [Wr32 CPM_CPPCR v]
      \<and> unat (pllout_4740 12000000 v) = 252000000" by blast
  obtain t ns where t: "settings t = settings (nanonote_args s\<lparr>UART_BASE := UART0_BASE, SDRAM_BW16 := 1\<rparr>)"
    and "at EMC_DMCR (s1_hw (snd (run_state (xb_stage1_main (bus_io bus) P) s)))
      = at EMC_DMCR (s1_hw s) @ at EMC_DMCR (pll_events (nanonote_args s)) @ at EMC_DMCR ([Rd32 CPM_CPCCR, Rd32 CPM_CPCCR] @ sdram_events t ns)"
    using run [of EMC_DMCR] by auto
  then have w: "at EMC_DMCR (s1_hw (snd (run_state (xb_stage1_main (bus_io bus) P) s))) = at EMC_DMCR (sdram_events t ns)"
    unfolding at_append at_dmcr(1,2) hw at_Nil by simp
  have f: "SDRAM_ROW t = 13" "SDRAM_COL t = 9" "SDRAM_BANK4 t = 1" "SDRAM_BW16 t = 1"
    using settings_fields [OF t] by (simp_all add: nanonote_fields)
  have "dmcr_capacity (sdram_value t ns OR push_bit 24 1 OR push_bit 23 1) = 32 * 1024 * 1024"
    unfolding sdram_value_def capacity_of_value f by (simp add: dmcr_capacity_def dmcr_geometry_def)
  then show "\<exists>v1 v2 v3 v. at EMC_DMCR (s1_hw (snd (run_state (xb_stage1_main (bus_io bus) P) s)))
        = [Wr32 EMC_DMCR v1, Wr32 EMC_DMCR v2, Wr32 EMC_DMCR v3, Wr32 EMC_DMCR v] \<and> dmcr_capacity v = 32 * 1024 * 1024"
    unfolding w at_dmcr(3) by blast
qed

text \<open>C10.  The first attempt of \<^verbatim>\<open>xbboot -u\<close> on a JZ4740 that accepts every transfer: the program ends with success after exactly these
  transfers; and when the half word behind \<^verbatim>\<open>xburst_cpu\<close> in the memory of the host is zero, the image it has sent makes the
  first stage set the PLL for 252 MHz and the memory controller for 32 MB, whatever the hardware answers.\<close>

theorem xbboot_nanonote:
  fixes addr :: string
  assumes "filter is_xburst (concat b) = [dv]" "ud_product dv = 0x4740" "xw_behind w = 0"
    and "xw_files w (DATADIR @ ''stage1.bin'') = Some (whole_file stage)" "xw_files w path = Some (whole_file prog)"
    and "24 \<le> length stage" "length stage < 2 ^ 31" "length prog < 2 ^ 31" "stage ! 20 \<noteq> 0xff" "0 < n"
    and "x_all_accepted ans (xw_dev w) ts" "ts = upload_transfers img (strtoul 0 addr) prog"
    and "img = patched_stage (ud_product dv) (xw_behind w) stage"
    and "image_loaded (s1_mem s) img" "s1_hw s = []"
  shows "(\<exists>w'. run_state (xbboot_main (ub_recorder ans b) (\<lambda>d. d) DATADIR n [''-u'', addr, path]) w = (Some 0, w') \<and> xw_dev w' = xw_dev w @ ts)
    \<and> (\<exists>v. at CPM_CPPCR (s1_hw (snd (run_state (xb_stage1_main (bus_io bus) P) s))) = [Wr32 CPM_CPPCR v]
        \<and> unat (pllout_4740 12000000 v) = 252000000)
    \<and> (\<exists>v1 v2 v3 v. at EMC_DMCR (s1_hw (snd (run_state (xb_stage1_main (bus_io bus) P) s)))
        = [Wr32 EMC_DMCR v1, Wr32 EMC_DMCR v2, Wr32 EMC_DMCR v3, Wr32 EMC_DMCR v] \<and> dmcr_capacity v = 32 * 1024 * 1024)"
proof (intro conjI)
  obtain m where n: "n = Suc m" using assms(10) by (cases n) simp_all
  have first: "x_accepts ans (xw_dev w) (word_request 1 0x80002000)" using assms(11) unfolding assms(12) upload_transfers_def by simp
  obtain w' where "run_state (upload_turn (ub_recorder ans b) (\<lambda>d. d) (upload_requests DATADIR addr path)) (w\<lparr>option_upload := True\<rparr>)
      = (True, w')" "xw_dev w' = xw_dev w @ ts"
    using run_turn [OF assms(1), of "w\<lparr>option_upload := True\<rparr>" DATADIR stage path prog ans addr] assms(4-8,11) first x_sent_all [OF assms(11)]
    by (auto simp: assms(12,13))
  then show "\<exists>w'. run_state (xbboot_main (ub_recorder ans b) (\<lambda>d. d) DATADIR n [''-u'', addr, path]) w = (Some 0, w') \<and> xw_dev w' = xw_dev w @ ts"
    unfolding main_upload n by (simp add: host_simps run_close)
next
  have "mem_word (s1_mem s) 0x80002008 = 0x4740"
    using patched_cpu_id [of "s1_mem s" "ud_product dv" "xw_behind w" stage] assms(2,3,6,13,14) by simp
  moreover have "ucast (mem_word (s1_mem s) 0x80002014) \<noteq> (0xff :: u8)"
    using patched_bus_width [of "s1_mem s" "ud_product dv" "xw_behind w" stage] assms(6,9,13,14) by simp
  note board = nanonote_board [OF calculation this assms(15)]
  show "\<exists>v. at CPM_CPPCR (s1_hw (snd (run_state (xb_stage1_main (bus_io bus) P) s))) = [Wr32 CPM_CPPCR v]
        \<and> unat (pllout_4740 12000000 v) = 252000000" by (rule board(1))
  show "\<exists>v1 v2 v3 v. at EMC_DMCR (s1_hw (snd (run_state (xb_stage1_main (bus_io bus) P) s)))
        = [Wr32 EMC_DMCR v1, Wr32 EMC_DMCR v2, Wr32 EMC_DMCR v3, Wr32 EMC_DMCR v] \<and> dmcr_capacity v = 32 * 1024 * 1024" by (rule board(2))
qed

definition nanonote_dev :: usb01_device where
  "nanonote_dev = \<lparr>ud_vendor = 0x601a, ud_product = 0x4740, ud_configs = [[[(0xff, 0, 0)]]]\<rparr>"

definition obliging :: ub_answers where
  "obliging d t = (case t of T_Ctl r q v i \<Rightarrow> (if r = 0xC0 then 8 else 0, []) | T_Out bs \<Rightarrow> (int (length bs), []) | T_In n \<Rightarrow> (int n, []))"

definition start_xw :: "u16 \<Rightarrow> ub_transfer list xw" where
  "start_xw behind = \<lparr>xw_dev = [], xburst_interface = 0, option_upload = False, xburst_cpu = 0x4760, xw_behind = behind,
     xw_files = [''/stage1.bin'' \<mapsto> whole_file (replicate 40 0), ''kernel'' \<mapsto> whole_file [1, 2, 3]], xw_shown = [], xw_crash = False\<rparr>"

lemma obliging_accepts: "x_accepts obliging d t"
  by (cases t) (simp_all add: obliging_def)

lemma obliging_all: "x_all_accepted obliging d ts"
  by (induction ts arbitrary: d) (simp_all add: obliging_accepts)

theorem xbboot_nanonote_witness:
  "fst (run_state (xbboot_main (ub_recorder obliging [[nanonote_dev]]) (\<lambda>d. d) ''/'' 1 [''-u'', ''0x80600000'', ''kernel'']) (start_xw 0)) = Some 0"
  using xbboot_nanonote [where b = "[[nanonote_dev]]" and dv = nanonote_dev and w = "start_xw 0" and DATADIR = "''/''" and stage = "replicate 40 0"
      and path = "''kernel''" and prog = "[1, 2, 3]" and n = 1 and ans = obliging and addr = "''0x80600000''" and bus = "\<lambda>_ _. 0" and P = 0
      and s = "load_image (patched_stage 0x4740 0 (replicate 40 0))", OF _ _ _ _ _ _ _ _ _ _ obliging_all refl refl]
    image_loaded_image [of "patched_stage 0x4740 0 (replicate 40 0)"] length_patched_stage [of "replicate 40 0" "0x4740" 0]
  by (auto simp: nanonote_dev_def start_xw_def is_xburst_def load_image_def)

section \<open>The second attempt\<close>

text \<open>C36.  When the first attempt fails after the stage has been sent, the second one, however well it goes, sends the stage as it is in its file,
  without the number of the processor: the program reports success, and a stage whose file has zeros there leaves the hardware alone when it runs.\<close>

theorem xbboot_retry:
  fixes addr :: string
  assumes "filter is_xburst (concat b) = [dv]"
    and "xw_files w (DATADIR @ ''stage1.bin'') = Some (whole_file stage)" "xw_files w path = Some (whole_file prog)"
    and "12 \<le> length stage" "length stage < 2 ^ 31" "length prog < 2 ^ 31" "slice 8 4 stage = [0, 0, 0, 0]"
    and "ts = upload_transfers (patched_stage (ud_product dv) (xw_behind w) stage) (strtoul 0 addr) prog"
    and "x_accepts ans (xw_dev w) (hd ts)" "\<not> x_all_accepted ans (xw_dev w) ts"
    and "x_all_accepted ans (x_sent ans (xw_dev w) ts) (upload_transfers stage (strtoul 0 addr) prog)"
    and "image_loaded (s1_mem s) stage" "1 < n"
  shows "(\<exists>w'. run_state (xbboot_main (ub_recorder ans b) (\<lambda>d. d) DATADIR n [''-u'', addr, path]) w = (Some 0, w')
        \<and> xw_dev w' = x_sent ans (xw_dev w) ts @ upload_transfers stage (strtoul 0 addr) prog)
    \<and> s1_hw (snd (run_state (xb_stage1_main M P) s)) = s1_hw s"
proof (intro conjI)
  let ?L = "ub_recorder ans b" and ?rs = "upload_requests DATADIR addr path" and ?w = "w\<lparr>option_upload := True\<rparr>"
  let ?ts2 = "upload_transfers stage (strtoul 0 addr) prog"
  obtain m where n: "n = Suc (Suc m)" using assms(13) by (cases n; cases "n - 1") simp_all
  have hd: "hd ts = word_request 1 0x80002000" "hd ?ts2 = word_request 1 0x80002000" by (simp_all add: assms(8) upload_transfers_def)
  obtain w1 where 1: "run_state (upload_turn ?L (\<lambda>d. d) ?rs) ?w = (False, w1)" "xw_dev w1 = x_sent ans (xw_dev w) ts" "\<not> option_upload w1"
      "xw_files w1 = xw_files w"
    using run_turn [OF assms(1), of ?w DATADIR stage path prog ans addr] assms(2-6,9,10) hd by (auto simp: assms(8))
  have "x_accepts ans (xw_dev w1) (word_request 1 0x80002000)" using assms(11) by (simp add: 1(2) upload_transfers_def)
  then obtain w2 where 2: "run_state (upload_turn ?L (\<lambda>d. d) ?rs) w1 = (True, w2)" "xw_dev w2 = xw_dev w1 @ ?ts2"
    using run_turn [OF assms(1), of w1 DATADIR stage path prog ans addr] assms(2-6,11) 1 x_sent_all [OF assms(11)] by auto
  show "\<exists>w'. run_state (xbboot_main ?L (\<lambda>d. d) DATADIR n [''-u'', addr, path]) w = (Some 0, w')
        \<and> xw_dev w' = x_sent ans (xw_dev w) ts @ ?ts2"
    unfolding main_upload n using 1 2 by (simp add: host_simps run_close)
next
  have "mem_word (s1_mem s) 0x80002008 = dec_u32 [0, 0, 0, 0]"
    using image_word [OF assms(12), of 8] assms(4,7) by simp
  then have "mem_word (s1_mem s) 0x80002008 = 0" by (simp add: dec_u32_def)
  then show "s1_hw (snd (run_state (xb_stage1_main M P) s)) = s1_hw s" by (subst stage1_ignores) simp_all
qed

text \<open>A device that refuses the first start request only.\<close>

definition stumbling :: ub_answers where
  "stumbling d t = (if length d = 2 then (1, []) else obliging d t)"

lemma stumbling_late: "3 \<le> length d \<Longrightarrow> x_all_accepted stumbling d ts"
proof (induction ts arbitrary: d)
  case (Cons t ts)
  have "x_accepts stumbling d t" using Cons.prems obliging_accepts [of d t] by (cases t) (simp_all add: stumbling_def)
  then show ?case using Cons by simp
qed simp

lemma stumbling_first:
  "x_accepts stumbling [] t" "\<not> x_all_accepted stumbling [] (upload_transfers stage a prog)"
  "length (x_sent stumbling [] (upload_transfers stage a prog)) = 3"
  by (cases t) (simp_all add: stumbling_def obliging_def upload_transfers_def word_request_def)

theorem xbboot_retry_witness:
  "fst (run_state (xbboot_main (ub_recorder stumbling [[nanonote_dev]]) (\<lambda>d. d) ''/'' 2 [''-u'', ''0x80600000'', ''kernel'']) (start_xw 0)) = Some 0
    \<and> s1_hw (snd (run_state (xb_stage1_main (bus_io (\<lambda>_ _. 0)) 0) (load_image (replicate 40 0)))) = []"
proof -
  have "slice 8 4 (replicate 40 (0 :: u8)) = [0, 0, 0, 0]" by (simp add: slice_def numeral_eq_Suc)
  moreover have "xw_dev (start_xw 0) = []" by (simp add: start_xw_def)
  ultimately show ?thesis
    using xbboot_retry [where b = "[[nanonote_dev]]" and dv = nanonote_dev and w = "start_xw 0" and DATADIR = "''/''" and stage = "replicate 40 0"
        and path = "''kernel''" and prog = "[1, 2, 3]" and n = 2 and ans = stumbling and addr = "''0x80600000''" and M = "bus_io (\<lambda>_ _. 0)"
        and P = 0 and s = "load_image (replicate 40 0)", OF _ _ _ _ _ _ _ refl]
      image_loaded_image [of "replicate 40 0"] stumbling_first stumbling_late
    by (auto simp: nanonote_dev_def start_xw_def is_xburst_def load_image_def)
qed

end
