(* ===== verification/Xbboot_Echo.thy ===== *)
theory Xbboot_Echo
  imports Xbboot_Target Fw_Instances
begin

unbundle bit_operations_syntax

text \<open>
  The echo kernel of \<^verbatim>\<open>xbboot\<close> on a serial line: \<^verbatim>\<open>line_mmio\<close> is a UART at the address that the kernel uses whose transmitter is
  always ready, with the bytes still to be received and those sent.
\<close>

section \<open>A serial line\<close>

record serial_line =
  to_receive :: bytes
  sent :: bytes

definition ECHO_BASE :: u32 where "ECHO_BASE = 0xB0031000"

definition line_mmio :: "serial_line mmio" where
  "line_mmio = \<lparr>io_r8 = (\<lambda>a h. if a = ECHO_BASE + OFF_LSR then (if to_receive h = [] then 0x60 else 0x61, h)
       else if a = ECHO_BASE + OFF_RDR \<and> to_receive h \<noteq> [] then (hd (to_receive h), h\<lparr>to_receive := tl (to_receive h)\<rparr>) else (0, h)),
     io_w8 = (\<lambda>a v h. if a = ECHO_BASE + OFF_TDR then h\<lparr>sent := sent h @ [v]\<rparr> else h),
     io_r16 = (\<lambda>_ h. (0, h)), io_w16 = (\<lambda>_ _ h. h), io_r32 = (\<lambda>_ h. (0, h)), io_w32 = (\<lambda>_ _ h. h)\<rparr>"

text \<open>\<^verbatim>\<open>receives s cs\<close> is \<^verbatim>\<open>s\<close> with other bytes to receive, \<^verbatim>\<open>sends s cs\<close> after more bytes have been sent.\<close>

definition sends :: "serial_line st1 \<Rightarrow> bytes \<Rightarrow> serial_line st1" where
  "sends s bs = s\<lparr>s1_hw := (s1_hw s)\<lparr>sent := sent (s1_hw s) @ bs\<rparr>\<rparr>"

definition receives :: "serial_line st1 \<Rightarrow> bytes \<Rightarrow> serial_line st1" where
  "receives s cs = s\<lparr>s1_hw := (s1_hw s)\<lparr>to_receive := cs\<rparr>\<rparr>"

lemma line_fields [simp]:
  "UART_BASE (sends s bs) = UART_BASE s" "UART_BASE (receives s cs) = UART_BASE s"
  "to_receive (s1_hw (sends s bs)) = to_receive (s1_hw s)" "to_receive (s1_hw (receives s cs)) = cs"
  "sends (sends s bs) bs' = sends s (bs @ bs')" "receives (sends s bs) cs = sends (receives s cs) bs" "receives (receives s cs) cs' = receives s cs'"
  by (simp_all add: sends_def receives_def)

lemma line_nil [simp]: "sends s [] = s" "receives s (to_receive (s1_hw s)) = s"
  by (simp_all add: sends_def receives_def)

lemma run_get8_line:
  assumes "UART_BASE s = ECHO_BASE"
  shows "run_state (get8 line_mmio (UART_BASE s + OFF_LSR)) s = (if to_receive (s1_hw s) = [] then 0x60 else 0x61, s)"
    and "to_receive (s1_hw s) = c # cs \<Longrightarrow> run_state (get8 line_mmio (UART_BASE s + OFF_RDR)) s = (c, receives s cs)"
    and "run_state (put8 line_mmio (UART_BASE s + OFF_TDR) v) s = ((), sends s [v])"
  using assms by (simp_all add: s1_reg_defs line_mmio_def host_simps ECHO_BASE_def OFF_LSR_def OFF_RDR_def OFF_TDR_def receives_def sends_def)

lemma run_send_line:
  assumes "UART_BASE s = ECHO_BASE"
  shows "run_state (uart_send line_mmio (Suc P) v) s = ((), sends s [v])"
  using assms run_get8_line [OF assms] by (simp add: uart_send_def uart_idle_def host_simps)

definition putc_bytes :: "u8 \<Rightarrow> bytes" where
  "putc_bytes c = (if c = 0x0A then [0x0D, 0x0A] else [c])"

lemma run_putc_line:
  assumes "UART_BASE s = ECHO_BASE"
  shows "run_state (serial_putc line_mmio (Suc P) c) s = ((), sends s (putc_bytes c))"
  using assms by (simp add: serial_putc_def host_simps run_send_line putc_bytes_def)

section \<open>The echo\<close>

definition echo_bytes :: "u8 \<Rightarrow> bytes" where
  "echo_bytes c = putc_bytes c @ (if c = 0x0D then putc_bytes 0x0A else [])"

lemma run_turn_line:
  assumes "UART_BASE s = ECHO_BASE"
  shows "run_state (echo_turn line_mmio (Suc P)) s
    = ((), case to_receive (s1_hw s) of [] \<Rightarrow> s | c # cs \<Rightarrow> sends (receives s cs) (echo_bytes c))"
  using assms run_get8_line [OF assms] run_putc_line [where P = P]
  by (simp add: echo_turn_def serial_tstc_def serial_getc_def host_simps echo_bytes_def split: list.split)

lemma run_echo_line:
  assumes "UART_BASE s = ECHO_BASE"
  shows "run_state (echo_main line_mmio (Suc P) n) s
    = ((), sends (receives s (drop n (to_receive (s1_hw s)))) (concat (List.map echo_bytes (take n (to_receive (s1_hw s))))))"
  using assms
proof (induction n arbitrary: s)
  case 0
  then show ?case by (simp add: host_simps)
next
  case (Suc n)
  show ?case
  proof (cases "to_receive (s1_hw s)")
    case Nil
    then show ?thesis using Suc by (simp add: host_simps run_turn_line)
  next
    case (Cons c cs)
    then show ?thesis using Suc by (simp add: host_simps run_turn_line)
  qed
qed

section \<open>The kernel\<close>

definition line_bytes :: "bytes \<Rightarrow> bytes" where
  "line_bytes bs = concat (List.map putc_bytes bs)"

lemma run_bytes_line:
  "UART_BASE s = ECHO_BASE \<Longrightarrow> run_state (serial_put_bytes line_mmio (Suc P) bs) s = ((), sends s (line_bytes bs))"
  by (induction bs arbitrary: s) (simp_all add: host_simps run_putc_line line_bytes_def)

lemma run_print_line:
  assumes "UART_BASE s = ECHO_BASE"
  shows "run_state (serial_puts line_mmio (Suc P) t) s = ((), sends s (line_bytes (ascii t)))"
    and "run_state (serial_put_hex line_mmio (Suc P) d) s = ((), sends s (line_bytes (hex_bytes d @ [0x0A])))"
  by (simp_all only: serial_puts_def serial_put_hex_def run_bytes_line [OF assms])

text \<open>What the kernel says before it listens.\<close>

definition greeting :: "u32 \<Rightarrow> u32 \<Rightarrow> bytes" where
  "greeting start got0 = line_bytes (ascii ''Start address is:'') @ line_bytes (hex_bytes start @ [0x0A])
     @ line_bytes (ascii ''Address offset is:'') @ line_bytes (hex_bytes (start - 0x80000000) @ [0x0A])
     @ line_bytes (ascii ''GOT corrected to:'') @ line_bytes (hex_bytes (got0 + (start - 0x80000000)) @ [0x0A])"

lemma run_pre_main_line:
  assumes "got_fix (start - 0x80000000) (table_at start got0) (got1 + (start - 0x80000000)) (s1_mem s) = Some m"
  shows "run_state (echo_pre_main line_mmio (Suc P) start got0 got1) s
    = ((), sends (s\<lparr>s1_mem := m, UART_BASE := ECHO_BASE\<rparr>) (greeting start got0))"
proof -
  have b: "(0xB0030000 + 0x1000 :: u32) = ECHO_BASE" by (simp add: ECHO_BASE_def)
  show ?thesis
    using assms unfolding echo_pre_main_def Let_def table_at_def b
    by (simp add: host_simps run_print_line greeting_def)
qed

text \<open>C16.  The echo kernel loaded anywhere in the memory corrects every entry of its offset table and no byte outside it, says where it is, and then
  sends back each byte that it receives in its order: a carriage return as two of them and a line feed, a line feed after a
  carriage return, and every other byte alone.\<close>

theorem echo_kernel:
  assumes "unat (table_at start got0) + 4 * k \<le> 0xfffffffc" and "got1 = got0 + 8 + 4 * of_nat k"
    and "s' = snd (run_state (do { echo_pre_main line_mmio (Suc P) start got0 got1; echo_main line_mmio (Suc P) n }) s)"
  shows "sent (s1_hw s') = sent (s1_hw s) @ greeting start got0
      @ concat (List.map (\<lambda>c. if c = 0x0D then [0x0D, 0x0D, 0x0A] else if c = 0x0A then [0x0D, 0x0A] else [c]) (take n (to_receive (s1_hw s))))
    \<and> to_receive (s1_hw s') = drop n (to_receive (s1_hw s)) \<and> s1_hung s' = s1_hung s
    \<and> table_words (s1_mem s') (table_at start got0) k = List.map (\<lambda>x. x + (start - 0x80000000)) (table_words (s1_mem s) (table_at start got0) k)
    \<and> (\<forall>a \<in> outside (table_at start got0) k. s1_mem s' a = s1_mem s a)"
proof -
  let ?a = "table_at start got0" and ?off = "start - 0x80000000"
  have got1: "got1 + ?off = ?a + 4 * of_nat k" using assms(2) by (simp add: table_at_def)
  obtain m where m: "got_fix ?off ?a (?a + 4 * of_nat k) (s1_mem s) = Some m"
      "table_words m ?a k = List.map (\<lambda>x. x + ?off) (table_words (s1_mem s) ?a k)" "\<forall>a \<in> outside ?a k. m a = s1_mem s a"
    using got_fix_run [OF assms(1), of ?off "s1_mem s"] by blast
  let ?s = "sends (s\<lparr>s1_mem := m, UART_BASE := ECHO_BASE\<rparr>) (greeting start got0)"
  have hw: "s1_hw ?s = (s1_hw s)\<lparr>sent := sent (s1_hw s) @ greeting start got0\<rparr>" "UART_BASE ?s = ECHO_BASE" "s1_mem ?s = m" "s1_hung ?s = s1_hung s"
    by (simp_all add: sends_def)
  have e: "echo_bytes = (\<lambda>c. if c = 0x0D then [0x0D, 0x0D, 0x0A] else if c = 0x0A then [0x0D, 0x0A] else [c])"
    by (simp add: echo_bytes_def putc_bytes_def fun_eq_iff)
  have "run_state (echo_pre_main line_mmio (Suc P) start got0 got1) s = ((), ?s)"
    using m(1) by (intro run_pre_main_line) (simp only: got1)
  then have "s' = sends (receives ?s (drop n (to_receive (s1_hw s)))) (concat (List.map echo_bytes (take n (to_receive (s1_hw s)))))"
    using run_echo_line [OF hw(2), of P n] by (simp add: assms(3) host_simps hw(1))
  then show ?thesis using m(2,3) hw unfolding e by (simp add: sends_def receives_def)
qed

definition demo_line :: "bytes \<Rightarrow> serial_line st1" where
  "demo_line rx = \<lparr>s1_hw = \<lparr>to_receive = rx, sent = []\<rparr>, s1_mem = (\<lambda>_. 0), CPU_ID = 0, UART_BASE = 0, CONFIG_BAUDRATE = 0, SDRAM_BW16 = 0,
     SDRAM_BANK4 = 0, SDRAM_ROW = 0, SDRAM_COL = 0, CONFIG_MOBILE_SDRAM = 0, CFG_CPU_SPEED = 0, CFG_EXTAL = 0, PHM_DIV = 0, IS_SHARE = 0,
     s1_junk = 0, s1_rom = False, s1_hung = False, s1_ub = False\<rparr>"

theorem echo_kernel_witness:
  "sent (s1_hw (snd (run_state (do { echo_pre_main line_mmio 1 0x80600000 0x80000100 0x80000110; echo_main line_mmio 1 3 })
      (demo_line [0x41, 0x0D, 0x42])))) = greeting 0x80600000 0x80000100 @ [0x41, 0x0D, 0x0D, 0x0A, 0x42]"
  using echo_kernel [where start = "0x80600000" and ?got0.0 = "0x80000100" and ?got1.0 = "0x80000110" and k = 2 and P = 0 and n = 3
      and s = "demo_line [0x41, 0x0D, 0x42]", OF _ _ refl]
  by (simp add: table_at_def demo_line_def)

end
