(* ===== verification/Nand4760_Facts.thy ===== *)
theory Nand4760_Facts
  imports Nandflash_4760 Frame
begin

unbundle bit_operations_syntax

text \<open>
  The error correction of the JZ4760 driver.  The unit is the parameter \<^verbatim>\<open>code\<close>, any function from the selected code and the
  bytes fed since the last reset to the parity bytes; \<^verbatim>\<open>ans\<close> gives what the other registers read.
\<close>

section \<open>The unit\<close>

record bch_state =
  fed :: bytes
  chosen :: u32

definition bch_unit :: "(u32 \<Rightarrow> bytes \<Rightarrow> nat \<Rightarrow> u8) \<Rightarrow> (bch_state \<Rightarrow> u32 \<Rightarrow> u32) \<Rightarrow> bch_state mmio" where
  "bch_unit code ans = \<lparr>
     io_r8 = \<lambda>a h. (if unat (a - BCH_PAR0) < 40 then code (chosen h) (fed h) (unat (a - BCH_PAR0)) else ucast (ans h a), h),
     io_w8 = \<lambda>a v h. (if a = BCH_DR then h\<lparr>fed := fed h @ [v]\<rparr> else h),
     io_r16 = \<lambda>a h. (ucast (ans h a), h), io_w16 = \<lambda>a v h. h,
     io_r32 = \<lambda>a h. (ans h a, h),
     io_w32 = \<lambda>a v h. (if a = BCH_CRS \<and> v AND 2 \<noteq> 0 then \<lparr>fed = [], chosen = drop_bit 3 v\<rparr> else h)\<rparr>"

lemma same_hw: "s\<lparr>hw := hw s\<rparr> = s" "s\<lparr>fw_ub := fw_ub s\<rparr> = s" "s\<lparr>hung := hung s\<rparr> = s"
  by (cases s; simp)+

lemma reg_apart:
  "BCH_CRS \<noteq> BCH_CRC" "BCH_CRS \<noteq> BCH_CNT" "BCH_CRS \<noteq> BCH_INTS" "BCH_CRC \<noteq> BCH_CRS" "BCH_CNT \<noteq> BCH_CRS" "BCH_INTS \<noteq> BCH_CRS"
  "NAND_DATAPORT \<noteq> BCH_DR"
  by (simp_all add: nand6_reg_defs)

lemma bch_select_less: "bch_select b < 8" by (simp add: bch_select_def)

definition spare_part :: "nat \<Rightarrow> (nat \<Rightarrow> u8) \<Rightarrow> nat \<Rightarrow> u32 \<Rightarrow> nat \<Rightarrow> bytes" where
  "spare_part option buf off per j = (if option = 2 then [] else if j = 0 then [0xff, 0xff] @ buf_bytes buf (off + 2) (unat per - 2)
     else buf_bytes buf (off + unat (per * of_nat j)) (unat per))"

lemma run_encode_spare:
  "\<exists>b. run_state (encode_spare option off per j) s = (spare_part option (bulk_out_buf s) off per j, s\<lparr>fw_ub := b\<rparr>)"
proof -
  have "\<exists>b. s = s\<lparr>fw_ub := b\<rparr>" using same_hw(2) [of s] by metis
  then show ?thesis by (auto simp: encode_spare_def spare_part_def out_bytes_def host_simps)
qed

lemma run_load_in:
  "\<exists>b. run_state (load_all In_Buf (int off) n) s = (buf_bytes (bulk_in_buf s) off n, s\<lparr>fw_ub := b\<rparr>)"
proof (induction n arbitrary: off s)
  case 0
  have "\<exists>b. s = s\<lparr>fw_ub := b\<rparr>" using same_hw(2) [of s] by metis
  then show ?case by (simp add: host_simps buf_bytes_def)
next
  case (Suc n)
  obtain a where a: "run_state (load_byte In_Buf (int off)) s = (bulk_in_buf s off, s\<lparr>fw_ub := a\<rparr>)"
    by (simp add: load_byte_def host_simps)
  obtain b where b: "run_state (load_all In_Buf (int (Suc off)) n) (s\<lparr>fw_ub := a\<rparr>) = (buf_bytes (bulk_in_buf s) (Suc off) n, s\<lparr>fw_ub := b\<rparr>)"
    using Suc [of "Suc off" "s\<lparr>fw_ub := a\<rparr>"] by auto
  have "buf_bytes (bulk_in_buf s) off (Suc n) = bulk_in_buf s off # buf_bytes (bulk_in_buf s) (Suc off) n"
    by (simp add: buf_bytes_def upt_conv_Cons flip: map_Suc_upt del: upt_Suc)
  then have "run_state (load_all In_Buf (int off) (Suc n)) s = (buf_bytes (bulk_in_buf s) off (Suc n), s\<lparr>fw_ub := b\<rparr>)"
    using a b by (simp add: host_simps add.commute)
  then show ?case by blast
qed

lemma run_decode_spare:
  "\<exists>b. run_state (decode_spare option per j) (s\<lparr>fw_ub := a\<rparr>)
    = (if option = 2 then [] else buf_bytes (n6_oob_buf (nf6 s)) (unat (per * of_nat j)) (unat per), s\<lparr>fw_ub := b\<rparr>)"
  by (cases "option = 2") (simp add: decode_spare_def host_simps exI [of _ a], simp add: decode_spare_def get_oob_6_def host_simps, blast)

text \<open>What the driver relies on: the reset with a selection, the data register and the parity registers.\<close>

locale ecc_unit =
  fixes U :: "bch_state mmio" and code :: "u32 \<Rightarrow> bytes \<Rightarrow> nat \<Rightarrow> u8"
  assumes read32: "snd (io_r32 U a h) = h"
    and write32: "a \<noteq> BCH_CRS \<Longrightarrow> io_w32 U a v h = h"
    and reset: "v AND 2 \<noteq> 0 \<Longrightarrow> io_w32 U BCH_CRS v h = \<lparr>fed = [], chosen = drop_bit 3 v\<rparr>"
    and data8: "io_w8 U BCH_DR b h = h\<lparr>fed := fed h @ [b]\<rparr>"
    and write8: "a \<noteq> BCH_DR \<Longrightarrow> io_w8 U a b h = h"
    and write16: "io_w16 U a w h = h"
    and parity8: "k < 40 \<Longrightarrow> io_r8 U (BCH_PAR0 + of_nat k) h = (code (chosen h) (fed h) k, h)"
begin

lemma unit_read: "run_state (jz_readl U a) s = (fst (io_r32 U a (hw s)), s)"
  by (simp add: read32 reg_defs host_simps same_hw)

lemma unit_write: "a \<noteq> BCH_CRS \<Longrightarrow> run_state (jz_writel U a v) s = ((), s)"
  by (simp add: write32 reg_defs host_simps same_hw)

lemma unit_writeb: "a \<noteq> BCH_DR \<Longrightarrow> run_state (jz_writeb U a v) s = ((), s)"
  by (simp add: write8 reg_defs host_simps same_hw)

lemma unit_writew: "run_state (jz_writew U a v) s = ((), s)"
  by (simp add: write16 reg_defs host_simps same_hw)

lemma unit_feed: "run_state (feed U bs) s = ((), s\<lparr>hw := (hw s)\<lparr>fed := fed (hw s) @ bs\<rparr>\<rparr>)"
proof (induction bs arbitrary: s)
  case (Cons b bs)
  have "run_state (jz_writeb U BCH_DR b) s = ((), s\<lparr>hw := (hw s)\<lparr>fed := fed (hw s) @ [b]\<rparr>\<rparr>)"
    by (simp add: data8 reg_defs host_simps)
  then show ?case by (simp add: host_simps Cons)
qed (simp add: host_simps same_hw)

lemma unit_coding:
  assumes "sel < 8"
  shows "run_state (ecc_coding U sel enc) s = ((), s\<lparr>hw := \<lparr>fed = [], chosen = sel\<rparr>\<rparr>)"
proof -
  have "sel \<in> {0, 1, 2, 3, 4, 5, 6, 7}"
  proof -
    have "unat sel < 8" using assms by (simp add: word_less_nat_alt)
    then have "unat sel \<in> {0, 1, 2, 3, 4, 5, 6, 7}" by auto
    then show ?thesis by (auto simp flip: word_unat_eq_iff simp: word_unat_eq_iff)
  qed
  then have "(push_bit 3 sel OR (if enc then 4 else 0) OR 2 OR 1) AND 2 \<noteq> 0"
    "drop_bit 3 (push_bit 3 sel OR (if enc then 4 else 0) OR 2 OR 1) = sel" by auto
  then have "run_state (jz_writel U BCH_CRS (push_bit 3 sel OR (if enc then 4 else 0) OR 2 OR 1)) s
      = ((), s\<lparr>hw := \<lparr>fed = [], chosen = sel\<rparr>\<rparr>)"
    by (simp add: reset reg_defs host_simps)
  then show ?thesis by (simp add: ecc_coding_def Let_def host_simps unit_write reg_apart)
qed

lemma unit_cnt: "run_state (ecc_cnt U p n) s = ((), s)"
  by (simp add: ecc_cnt_def host_simps unit_read unit_write reg_apart)

lemma unit_wait: "run_state (wait_for P (ints_flag_6 U f)) s = ((), s\<lparr>hung := hung s \<or> P = 0 \<or> fst (io_r32 U BCH_INTS (hw s)) AND f = 0\<rparr>)"
  by (induction P) (simp_all add: host_simps ints_flag_6_def unit_read same_hw)

lemma unit_parity:
  "k + n \<le> 40 \<Longrightarrow> run_state (get_parity_6 U k n) s = (List.map (code (chosen (hw s)) (fed (hw s))) [k..<k + n], s)"
proof (induction n arbitrary: k)
  case (Suc n)
  have "run_state (jz_readb U (BCH_PAR0 + of_nat k)) s = (code (chosen (hw s)) (fed (hw s)) k, s)"
    using Suc.prems by (simp add: parity8 reg_defs host_simps same_hw)
  moreover have "[k..<k + Suc n] = k # [Suc k..<Suc k + n]" by (simp add: upt_conv_Cons)
  ultimately show ?case using Suc by (simp add: host_simps)
qed (simp add: host_simps)

lemma unit_encode:
  assumes "sel < 8" "n \<le> 40"
  shows "\<exists>b. run_state (encode_block U P sel count dat spare n) s
    = (List.map (code sel (dat @ spare)) [0..<n], s\<lparr>hw := \<lparr>fed = dat @ spare, chosen = sel\<rparr>, hung := b\<rparr>)"
  using assms
  by (auto simp: encode_block_def host_simps unit_write reg_apart unit_coding unit_cnt unit_feed unit_wait unit_parity ecc_disable_6_def)

lemma unit_decode:
  assumes "sel < 8"
  shows "\<exists>b. run_state (decode_block U P sel count dat spare parity) s
    = (fst (io_r32 U BCH_INTS \<lparr>fed = dat @ spare @ parity, chosen = sel\<rparr>), s\<lparr>hw := \<lparr>fed = dat @ spare @ parity, chosen = sel\<rparr>, hung := b\<rparr>)"
  using assms
  by (auto simp: decode_block_def host_simps unit_write unit_read reg_apart unit_coding unit_cnt unit_feed unit_wait ecc_disable_6_def)

lemma unit_write_proc:
  "run_state (write_proc_6 U bs) s = ((), s\<lparr>fw_ub := fw_ub s \<or> n6_proc (nf6 s) = No_Proc\<rparr>)"
proof -
  have 8: "run_state (write_bytes8 U bs) s = ((), s)" for bs s
    by (induction bs) (simp_all add: host_simps unit_writeb reg_apart)
  have 16: "run_state (write_bytes16 U bs) s = ((), s)" for bs s
    by (induction bs rule: induct_list012) (simp_all add: host_simps unit_writew)
  show ?thesis by (auto simp: write_proc_6_def host_simps 8 16 same_hw split: nand_proc.splits)
qed

text \<open>The inputs of the encoder: block \<^verbatim>\<open>j\<close> of the data at \<^verbatim>\<open>off\<close> and its share of the spare bytes behind the page.\<close>

lemma run_encode_step:
  fixes off j option :: nat and per :: u32
  assumes "nat (sint (n6_par_size1 (nf6 s))) \<le> 40"
  defines "x \<equiv> buf_bytes (bulk_out_buf s) (off + ECC_BLOCK * j) ECC_BLOCK
      @ spare_part option (bulk_out_buf s) (off + unat (n6_pagesize (nf6 s))) per j"
  shows "\<exists>s'. run_state (encode_step_6 U P option off per j) s
      = (List.map (code (bch_select (n6_bchbit (nf6 s))) x) [0..<nat (sint (n6_par_size1 (nf6 s)))], s')
    \<and> fed (hw s') = x \<and> nf6 s' = nf6 s \<and> bulk_out_buf s' = bulk_out_buf s"
proof -
  let ?s = "\<lambda>b c. s\<lparr>fw_ub := b\<rparr>"
  obtain b where d: "run_state (out_bytes (off + ECC_BLOCK * j) ECC_BLOCK) s
      = (buf_bytes (bulk_out_buf s) (off + ECC_BLOCK * j) ECC_BLOCK, s\<lparr>fw_ub := b\<rparr>)"
    by (simp add: out_bytes_def host_simps)
  obtain c where e: "run_state (encode_spare option (off + unat (n6_pagesize (nf6 s))) per j) (s\<lparr>fw_ub := b\<rparr>)
      = (spare_part option (bulk_out_buf s) (off + unat (n6_pagesize (nf6 s))) per j, s\<lparr>fw_ub := c\<rparr>)"
    using run_encode_spare [of option _ per j "s\<lparr>fw_ub := b\<rparr>"] by fastforce
  obtain h where "run_state (encode_block U P (bch_select (n6_bchbit (nf6 s))) (encode_count option per)
        (buf_bytes (bulk_out_buf s) (off + ECC_BLOCK * j) ECC_BLOCK)
        (spare_part option (bulk_out_buf s) (off + unat (n6_pagesize (nf6 s))) per j) (nat (sint (n6_par_size1 (nf6 s))))) (s\<lparr>fw_ub := c\<rparr>)
      = (List.map (code (bch_select (n6_bchbit (nf6 s))) x) [0..<nat (sint (n6_par_size1 (nf6 s)))],
          s\<lparr>fw_ub := c, hw := \<lparr>fed = x, chosen = bch_select (n6_bchbit (nf6 s))\<rparr>, hung := h\<rparr>)"
    using unit_encode [OF bch_select_less assms(1), of P "n6_bchbit (nf6 s)" "encode_count option per"
        "buf_bytes (bulk_out_buf s) (off + ECC_BLOCK * j) ECC_BLOCK"
        "spare_part option (bulk_out_buf s) (off + unat (n6_pagesize (nf6 s))) per j" "s\<lparr>fw_ub := c\<rparr>"]
    unfolding x_def by auto
  then show ?thesis
    by (simp add: encode_step_6_def host_simps d e unit_write_proc)
qed

lemma run_encode_steps:
  assumes "nat (sint (n6_par_size1 (nf6 s))) \<le> 40"
  shows "\<exists>s'. run_state (encode_steps_6 U P option off per j n) s
      = (concat (List.map (\<lambda>i. List.map (code (bch_select (n6_bchbit (nf6 s)))
            (buf_bytes (bulk_out_buf s) (off + ECC_BLOCK * i) ECC_BLOCK
              @ spare_part option (bulk_out_buf s) (off + unat (n6_pagesize (nf6 s))) per i)) [0..<nat (sint (n6_par_size1 (nf6 s)))])
          [j..<j + n]), s') \<and> nf6 s' = nf6 s \<and> bulk_out_buf s' = bulk_out_buf s"
  using assms
proof (induction n arbitrary: j s)
  case (Suc n)
  obtain s1 where 1: "run_state (encode_step_6 U P option off per j) s
      = (List.map (code (bch_select (n6_bchbit (nf6 s))) (buf_bytes (bulk_out_buf s) (off + ECC_BLOCK * j) ECC_BLOCK
              @ spare_part option (bulk_out_buf s) (off + unat (n6_pagesize (nf6 s))) per j)) [0..<nat (sint (n6_par_size1 (nf6 s)))], s1)"
      "nf6 s1 = nf6 s" "bulk_out_buf s1 = bulk_out_buf s"
    using run_encode_step [OF Suc.prems] by blast
  have "[j..<j + Suc n] = j # [Suc j..<Suc j + n]" by (simp add: upt_conv_Cons)
  then show ?case using Suc.IH [of s1 "Suc j"] Suc.prems 1 by (auto simp: host_simps)
qed (simp add: host_simps)

lemma keeps_check_decoding: "keeps hw (check_decoding_6 U In_Buf off flag stat)"
proof -
  have r: "keeps hw (jz_readl U a)" for a by (simp add: keeps_def unit_read)
  have c: "keeps hw (bch_correct In_Buf off idx)" for off idx
    by (simp add: keeps_def bch_correct_def load_byte_def store_byte_def host_simps Let_def)
  have "keeps hw (correct_errors U In_Buf off k)" for k
    by (induction k) (auto simp: error_report_def intro!: keeps r c)
  moreover have "keeps hw (set_status x)" for x by (simp add: keeps_def set_status_def host_simps)
  ultimately show ?thesis unfolding check_decoding_6_def correct_all_def by (intro keeps)
qed

text \<open>What the unit gets when it decodes block \<^verbatim>\<open>j\<close> from the buffer at \<^verbatim>\<open>off\<close>.\<close>

lemma run_decode_step:
  fixes off j option :: nat and per :: u32
  assumes "decode_select (nf6 t) cur = bch_select (n6_bchbit (nf6 t))"
  defines "x \<equiv> buf_bytes (bulk_in_buf t) off ECC_BLOCK
      @ (if option = 2 then [] else buf_bytes (n6_oob_buf (nf6 t)) (unat (per * of_nat j)) (unat per))
      @ buf_bytes (n6_oob_buf (nf6 t)) (unat (n6_eccpos (nf6 t) + of_nat j * n6_par_size1 (nf6 t))) (unat (n6_par_size1 (nf6 t)))"
  shows "\<exists>b c f. run_state (decode_step_6 U P In_Buf (int off) option cur per j) t
    = run_state (check_decoding_6 U In_Buf (int off) f (fst (io_r32 U BCH_INTS \<lparr>fed = x, chosen = bch_select (n6_bchbit (nf6 t))\<rparr>)))
        (t\<lparr>fw_ub := b, hw := \<lparr>fed = x, chosen = bch_select (n6_bchbit (nf6 t))\<rparr>, hung := c\<rparr>)"
    (is "\<exists>b c f. _ = run_state (check_decoding_6 U In_Buf _ f ?r) _")
proof -
  let ?d = "buf_bytes (bulk_in_buf t) off ECC_BLOCK"
    and ?s = "if option = 2 then [] else buf_bytes (n6_oob_buf (nf6 t)) (unat (per * of_nat j)) (unat per)"
    and ?p = "buf_bytes (n6_oob_buf (nf6 t)) (unat (n6_eccpos (nf6 t) + of_nat j * n6_par_size1 (nf6 t))) (unat (n6_par_size1 (nf6 t)))"
  obtain a where a: "run_state (load_all In_Buf (int off) ECC_BLOCK) t = (?d, t\<lparr>fw_ub := a\<rparr>)"
    using run_load_in by blast
  obtain b where b: "run_state (decode_spare option per j) (t\<lparr>fw_ub := a\<rparr>) = (?s, t\<lparr>fw_ub := b\<rparr>)"
    using run_decode_spare by blast
  obtain c where c: "run_state (get_oob_6 (unat (n6_eccpos (nf6 t) + of_nat j * n6_par_size1 (nf6 t))) (unat (n6_par_size1 (nf6 t)))) (t\<lparr>fw_ub := b\<rparr>)
      = (?p, t\<lparr>fw_ub := c\<rparr>)"
    by (simp add: get_oob_6_def host_simps)
  obtain h where d: "run_state (decode_block U P (decode_select (nf6 t) cur) (decode_count (nf6 t) option per) ?d ?s ?p) (t\<lparr>fw_ub := c\<rparr>)
      = (?r, t\<lparr>fw_ub := c, hw := \<lparr>fed = x, chosen = bch_select (n6_bchbit (nf6 t))\<rparr>, hung := h\<rparr>)"
    using unit_decode [OF bch_select_less, of P "n6_bchbit (nf6 t)" "decode_count (nf6 t) option per" ?d ?s ?p "t\<lparr>fw_ub := c\<rparr>"]
    unfolding assms by blast
  have "run_state (decode_step_6 U P In_Buf (int off) option cur per j) t
      = run_state (check_decoding_6 U In_Buf (int off) (list_ex (\<lambda>b. b \<noteq> 0xff) ?p) ?r)
          (t\<lparr>fw_ub := c, hw := \<lparr>fed = x, chosen = bch_select (n6_bchbit (nf6 t))\<rparr>, hung := h\<rparr>)"
    by (simp add: decode_step_6_def host_simps a b c d)
  then show ?thesis by blast
qed

lemma fed_decode_step:
  assumes "decode_select (nf6 t) cur = bch_select (n6_bchbit (nf6 t))"
  shows "fed (hw (snd (run_state (decode_step_6 U P In_Buf (int off) option cur per j) t)))
    = buf_bytes (bulk_in_buf t) off ECC_BLOCK
      @ (if option = 2 then [] else buf_bytes (n6_oob_buf (nf6 t)) (unat (per * of_nat j)) (unat per))
      @ buf_bytes (n6_oob_buf (nf6 t)) (unat (n6_eccpos (nf6 t) + of_nat j * n6_par_size1 (nf6 t))) (unat (n6_par_size1 (nf6 t)))"
proof -
  have "hw (snd (run_state (check_decoding_6 U In_Buf (int off) f r) s)) = hw s" for f r s
    using keeps_check_decoding unfolding keeps_def by blast
  then show ?thesis using run_decode_step [OF assms, of P off option per j] by auto
qed

end

lemma small_register: "k < 40 \<Longrightarrow> unat (of_nat k :: u32) = k"
  by (simp add: unat_of_nat)

interpretation bch: ecc_unit "bch_unit code ans" code for code ans
  by unfold_locales (simp_all add: bch_unit_def small_register)

end
