(* ===== verification/Nand4760_Props.thy ===== *)
theory Nand4760_Props
  imports Nand4760_Facts Fw_Instances
begin

unbundle bit_operations_syntax

text \<open>
  The properties of the driver of the JZ4760: a page read back is checked as the codeword that its programming encoded, reported errors are
  undone, the sizes that the initialisation leaves, and the start page of a read in the region of the loader.
\<close>

section \<open>Programming and reading use the same codeword\<close>

lemma length_uniform: "length (concat (List.map (\<lambda>i. List.map (f i) [0..<p]) [0..<n])) = n * p"
  by (induction n) simp_all

lemma nth_uniform: "j < n \<Longrightarrow> k < p \<Longrightarrow> concat (List.map (\<lambda>i. List.map (f i) [0..<p]) [0..<n]) ! (j * p + k) = f j k"
proof (induction n)
  case (Suc n)
  show ?case
  proof (cases "j < n")
    case True
    then have "j * p + k < n * p" using Suc.prems(2) by (metis add.commute less_le_trans mult_Suc mult_le_mono1 nat_add_left_cancel_less Suc_leI)
    then show ?thesis using Suc True by (simp add: nth_append length_uniform)
  next
    case False
    with Suc.prems have "j = n" by simp
    then show ?thesis using Suc.prems by (simp add: nth_append length_uniform)
  qed
qed simp

lemma two_back: "2 \<le> i \<Longrightarrow> Suc (Suc (x + i - 2)) = x + i" "2 \<le> i \<Longrightarrow> Suc (Suc (x + i - Suc (Suc 0))) = x + i"
  by simp_all

text \<open>The spare bytes of a page as programming writes them.\<close>

lemma run_spare_to_write:
  assumes "option \<le> 2" "run_state (spare_to_write option off ecc) s = ((oob, len), s')"
  shows "oob i = (let pos = unat (n6_eccpos (nf6 s)); ps = unat (n6_pagesize (nf6 s)) in
      if pos \<le> i \<and> i < pos + length ecc then ecc ! (i - pos)
      else if option \<noteq> 2 \<and> 2 \<le> i \<and> i < pos then bulk_out_buf s (off + ps + i) else 0xff)"
proof -
  let ?pos = "unat (n6_eccpos (nf6 s))" and ?ps = "unat (n6_pagesize (nf6 s))"
  have oob: "oob = buf_put ?pos ecc (if option = 2 then \<lambda>_. 0xff
      else buf_put 2 (buf_bytes (bulk_out_buf s) (off + ?ps + 2) (?pos - 2)) (\<lambda>_. 0xff))"
  proof -
    consider "option = 0" | "option = 1" | "option = 2" using assms(1) by linarith
    then show ?thesis using assms(2) by cases (simp_all add: spare_to_write_def out_bytes_def host_simps Let_def)
  qed
  let ?B = "buf_put 2 (buf_bytes (bulk_out_buf s) (off + ?ps + 2) (?pos - 2)) (\<lambda>_. 0xff)"
  have B: "?B i
      = (if 2 \<le> i \<and> i < ?pos then bulk_out_buf s (off + ?ps + i) else 0xff)"
    by (auto simp: buf_put_def buf_bytes_def two_back)
  have "oob i = (if ?pos \<le> i \<and> i < ?pos + length ecc then ecc ! (i - ?pos) else (if option = 2 then \<lambda>_. 0xff else ?B) i)"
    unfolding oob by (subst buf_put_def) (rule refl)
  then show ?thesis by (cases "option = 2") (simp only: Let_def if_True if_False simp_thms, simp only: B Let_def if_False simp_thms)
qed

text \<open>The share of the spare bytes that goes to the encoder is what the page then holds.\<close>

lemma spare_part_written:
  assumes "option \<le> 2" "option = 2 \<or> 2 \<le> unat per" "j < e" "unat per * e \<le> pos" "pos < 2 ^ 32"
    and "\<And>i. i < pos \<Longrightarrow> ob i = (if option \<noteq> 2 \<and> 2 \<le> i then buf (off + i) else (0xff :: u8))"
  shows "(if option = 2 then [] else buf_bytes ob (unat (per * of_nat j)) (unat per)) = spare_part option buf off per j"
proof (cases "option = 2")
  case False
  then have per: "2 \<le> unat per" using assms(2) by simp
  have le: "unat per * j + unat per \<le> pos"
  proof -
    have "unat per * j + unat per = unat per * Suc j" by simp
    also have "\<dots> \<le> unat per * e" using assms(3) by (intro mult_le_mono2) simp
    finally show ?thesis using assms(4) by simp
  qed
  have "e \<le> pos" using assms(4) per by (metis le_trans mult_le_mono1 nat_mult_1 one_le_numeral)
  then have "unat (of_nat j :: u32) = j" using assms(3,5) by (simp add: unat_of_nat)
  then have at: "unat (per * of_nat j) = unat per * j" using le assms(5) by (simp add: unat_word_ariths)
  have in_pos: "unat per * j + k < pos" if "k < unat per" for k using that le by simp
  show ?thesis
  proof (cases "j = 0")
    case True
    have "buf_bytes ob 0 (unat per) = [0xff, 0xff] @ buf_bytes buf (off + 2) (unat per - 2)"
    proof (rule nth_equalityI)
      fix i assume "i < length (buf_bytes ob 0 (unat per))"
      then have i: "i < unat per" by (simp add: buf_bytes_def)
      consider "i = 0" | "i = 1" | "2 \<le> i" by linarith
      then show "buf_bytes ob 0 (unat per) ! i = ([0xff, 0xff] @ buf_bytes buf (off + 2) (unat per - 2)) ! i"
        using i False in_pos [of i] True assms(6) [of i] by cases (auto simp: buf_bytes_def nth_append nth_Cons' two_back)
    qed (use per in \<open>simp add: buf_bytes_def\<close>)
    then show ?thesis using True False by (simp add: spare_part_def at)
  next
    case pos: False
    have "ob (unat per * j + k) = buf (off + (unat per * j + k))" if "k < unat per" for k
    proof -
      have "2 \<le> unat per * j" using per pos by (metis le_trans mult_le_mono2 mult.right_neutral Suc_leI neq0_conv One_nat_def)
      then show ?thesis using assms(6) [OF in_pos [OF that]] False by simp
    qed
    then show ?thesis using False pos by (simp add: spare_part_def at buf_bytes_def add.assoc)
  qed
qed (simp add: spare_part_def)

lemma nat_sint_of_nat: "k < 2 ^ 31 \<Longrightarrow> nat (sint (of_nat k :: u32)) = k"
  by (simp add: sint_uint signed_take_bit_int_eq_self take_bit_nat_eq_self unsigned_of_nat)

lemma nat_sint_small: "unat (w :: u32) < 2 ^ 31 \<Longrightarrow> nat (sint w) = unat w"
  using nat_sint_of_nat [of "unat w"] by simp

lemma buf_bytes_part:
  assumes "buf_bytes b x n = buf_bytes c y n" "d + k \<le> n"
  shows "buf_bytes b (x + d) k = buf_bytes c (y + d) k"
proof (rule nth_equalityI)
  fix i assume "i < length (buf_bytes b (x + d) k)"
  then have "i < k" by (simp add: buf_bytes_def)
  then show "buf_bytes b (x + d) k ! i = buf_bytes c (y + d) k ! i"
    using arg_cong [OF assms(1), of "\<lambda>l. l ! (d + i)"] assms(2) by (simp add: buf_bytes_def add.assoc)
qed (simp add: buf_bytes_def)

lemma parity_written:
  assumes "j < e" "unat pos + e * unat p \<le> 256" "ecc = concat (List.map (\<lambda>i. List.map (f i) [0..<unat p]) [0..<e])"
    and "\<And>i. unat pos \<le> i \<Longrightarrow> i < unat pos + length ecc \<Longrightarrow> ob i = ecc ! (i - unat pos)"
  shows "buf_bytes ob (unat (pos + of_nat j * p :: u32)) (unat p) = List.map (f j) [0..<unat p]"
proof (cases "unat p = 0")
  case False
  have le: "j * unat p + unat p \<le> e * unat p"
    using assms(1) by (metis add.commute mult_Suc mult_le_mono1 Suc_leI)
  have "e \<le> e * unat p" using False by simp
  then have "j < 256" using assms(1,2) by linarith
  then have "unat (of_nat j :: u32) = j" by (simp add: unat_of_nat)
  then have at: "unat (pos + of_nat j * p) = unat pos + j * unat p" using le assms(2) by (simp add: unat_word_ariths)
  show ?thesis
  proof (rule nth_equalityI)
    fix k assume "k < length (buf_bytes ob (unat (pos + of_nat j * p)) (unat p))"
    then have k: "k < unat p" by (simp add: buf_bytes_def)
    then have "ob (unat pos + j * unat p + k) = ecc ! (j * unat p + k)"
      using assms(4) [of "unat pos + j * unat p + k"] le by (simp add: assms(3) length_uniform add.assoc)
    then show "buf_bytes ob (unat (pos + of_nat j * p)) (unat p) ! k = List.map (f j) [0..<unat p] ! k"
      using k nth_uniform [OF assms(1) k, of f] by (simp add: buf_bytes_def at assms(3))
  qed (simp add: buf_bytes_def)
qed (simp add: buf_bytes_def)

definition same_settings :: "nand6_vars \<Rightarrow> nand6_vars \<Rightarrow> bool" where
  "same_settings v w \<longleftrightarrow> w\<lparr>n6_oob_buf := n6_oob_buf v\<rparr> = v"

lemma same_settings_fields:
  assumes "same_settings v w"
  shows "n6_eccpos w = n6_eccpos v" "n6_par_size1 w = n6_par_size1 v" "n6_bchbit w = n6_bchbit v" "n6_pagesize w = n6_pagesize v"
    "n6_par_size w = n6_par_size v"
  using assms by (cases v; cases w; simp add: same_settings_def)+

text \<open>C18.  A page that is programmed with correction and read back undamaged, with the settings unchanged: for every block the unit gets, when
  decoding, the bytes that it got when encoding followed by the parity that it computed from them, with the same code selected
  and the count of the parity added; for any code, and wherever the spare bytes of the page are big enough
  for the parity behind its position and the position leaves two bytes per block.\<close>

theorem codeword_restored:
  fixes off boff e :: nat and s t :: "bch_state fw_state"
  defines "v \<equiv> nf6 s"
  defines "per \<equiv> n6_eccpos v div of_nat e" and "p \<equiv> n6_par_size1 v" and "sel \<equiv> bch_select (n6_bchbit v)"
  assumes page: "e \<le> 16" "option \<le> 2" "option = 2 \<or> 2 \<le> unat per"
    and room: "unat (n6_eccpos v) + e * unat p \<le> unat (n6_oobsize v)" "unat (n6_oobsize v) \<le> 256" "unat p \<le> 40"
    and written: "run_state (do { ecc \<leftarrow> encode_steps_6 (bch_unit code ans) P option off per 0 e; spare_to_write option off ecc }) s = ((oob, len), s')"
    and undamaged: "same_settings v (nf6 t)" "buf_bytes (bulk_in_buf t) boff (e * ECC_BLOCK) = buf_bytes (bulk_out_buf s) off (e * ECC_BLOCK)"
      "buf_bytes (n6_oob_buf (nf6 t)) 0 (unat (n6_oobsize v)) = buf_bytes oob 0 (unat (n6_oobsize v))"
    and block: "j < e" "sdiv32 16384 (n6_pagesize v) \<le> cur"
  shows "\<exists>x. fed (hw (snd (run_state (encode_step_6 (bch_unit code ans) P option off per j) s))) = x
    \<and> take ECC_BLOCK x = buf_bytes (bulk_out_buf s) (off + ECC_BLOCK * j) ECC_BLOCK
    \<and> fed (hw (snd (run_state (decode_step_6 (bch_unit code ans') P In_Buf (int (boff + ECC_BLOCK * j)) option cur per j) t)))
        = x @ List.map (code sel x) [0..<unat p]
    \<and> decode_select (nf6 t) cur = sel \<and> decode_count (nf6 t) option per = encode_count option per + n6_par_size v"
proof -
  note same = same_settings_fields [OF undamaged(1)]
  let ?ps = "unat (n6_pagesize v)" and ?pos = "unat (n6_eccpos v)" and ?U = "bch_unit code ans"
  let ?x = "\<lambda>i. buf_bytes (bulk_out_buf s) (off + ECC_BLOCK * i) ECC_BLOCK @ spare_part option (bulk_out_buf s) (off + ?ps) per i"
  let ?ob = "n6_oob_buf (nf6 t)"
  have p: "nat (sint p) = unat p" using room(3) by (intro nat_sint_small) simp
  have sel: "decode_select (nf6 t) cur = sel" using block(2) by (simp add: decode_select_def same sel_def)
  obtain s1 where s1: "run_state (encode_steps_6 ?U P option off per 0 e) s = (concat (List.map (\<lambda>i. List.map (code sel (?x i)) [0..<unat p]) [0..<e]), s1)"
      "nf6 s1 = v" "bulk_out_buf s1 = bulk_out_buf s"
    using bch.run_encode_steps [where s = s and P = P and option = option and off = off and per = per and j = 0 and n = e and code = code and ans = ans] room(3) p by (auto simp: v_def p_def sel_def)
  define ecc where "ecc = concat (List.map (\<lambda>i. List.map (code sel (?x i)) [0..<unat p]) [0..<e])"
  have len: "length ecc = e * unat p" unfolding ecc_def by (rule length_uniform)
  have "run_state (spare_to_write option off ecc) s1 = ((oob, len), s')" using written s1(1) by (simp add: host_simps ecc_def)
  note oob = run_spare_to_write [OF page(2) this, unfolded s1(2,3) Let_def]
  have ob: "?ob i = oob i" if "i < unat (n6_oobsize v)" for i
    using arg_cong [OF undamaged(3), of "\<lambda>l. l ! i"] that by (simp add: buf_bytes_def)
  have data: "buf_bytes (bulk_in_buf t) (boff + ECC_BLOCK * j) ECC_BLOCK = buf_bytes (bulk_out_buf s) (off + ECC_BLOCK * j) ECC_BLOCK"
    using block(1) by (intro buf_bytes_part [OF undamaged(2)]) (simp add: ECC_BLOCK_def)
  have spare: "(if option = 2 then [] else buf_bytes ?ob (unat (per * of_nat j)) (unat per)) = spare_part option (bulk_out_buf s) (off + ?ps) per j"
  proof (rule spare_part_written [OF page(2,3) block(1)])
    have "unat (of_nat e :: u32) = e" using page(1) by (simp add: unat_of_nat)
    then show "unat per * e \<le> ?pos" by (simp add: per_def unat_div)
    show "?pos < 2 ^ 32" using room by simp
    show "?ob i = (if option \<noteq> 2 \<and> 2 \<le> i then bulk_out_buf s (off + ?ps + i) else 0xff)" if "i < ?pos" for i
      using that oob [of i] ob [of i] room(1) by simp
  qed
  have "buf_bytes ?ob (unat (n6_eccpos v + of_nat j * p)) (unat p) = List.map (code sel (?x j)) [0..<unat p]"
  proof (rule parity_written [OF block(1) _ ecc_def])
    show "unat (n6_eccpos v) + e * unat p \<le> 256" using room by simp
    show "?ob i = ecc ! (i - ?pos)" if "?pos \<le> i" "i < ?pos + length ecc" for i
      using that oob [of i] ob [of i] room(1) len by simp
  qed
  then have "fed (hw (snd (run_state (decode_step_6 (bch_unit code ans') P In_Buf (int (boff + ECC_BLOCK * j)) option cur per j) t)))
      = ?x j @ List.map (code sel (?x j)) [0..<unat p]"
    using bch.fed_decode_step [where t = t and cur = cur and code = code and ans = ans' and P = P and off = "boff + ECC_BLOCK * j"
        and option = option and per = per and j = j] sel
    by (simp add: same data spare sel_def p_def del: of_nat_add of_nat_mult)
  moreover have "fed (hw (snd (run_state (encode_step_6 ?U P option off per j) s))) = ?x j"
    using bch.run_encode_step [where s = s and P = P and option = option and off = off and per = per and j = j and code = code and ans = ans] room(3) p by (fastforce simp: v_def p_def)
  moreover have "take ECC_BLOCK (?x j) = buf_bytes (bulk_out_buf s) (off + ECC_BLOCK * j) ECC_BLOCK" by (simp add: buf_bytes_def)
  moreover have "decode_count (nf6 t) option per = encode_count option per + n6_par_size v"
    by (simp add: decode_count_def encode_count_def same)
  ultimately show ?thesis using sel by blast
qed

definition demo_ecc :: "bch_state fw_state" where
  "demo_ecc = blank_fw \<lparr>fed = [], chosen = 0\<rparr>"

definition demo_code :: "u32 \<Rightarrow> bytes \<Rightarrow> nat \<Rightarrow> u8" where
  "demo_code sel bs k = (if k = 0 then fold (\<lambda>a b. a XOR b) bs 0 else of_nat k)"

text \<open>The spare bytes that programming one page of zeros leaves, and the firmware that has read them.\<close>

definition demo_written :: "(nat \<Rightarrow> u8) \<times> nat" where
  "demo_written = fst (run_state (do { ecc \<leftarrow> encode_steps_6 (bch_unit demo_code (\<lambda>_ _. 0)) 1 1 0 3 0 1; spare_to_write 1 0 ecc }) demo_ecc)"

definition demo_read :: "bch_state fw_state" where
  "demo_read = demo_ecc\<lparr>nf6 := boot_nand6_vars\<lparr>n6_oob_buf := fst demo_written\<rparr>\<rparr>"

theorem codeword_restored_witness:
  "\<exists>x. take ECC_BLOCK x = buf_bytes (bulk_out_buf demo_ecc) 0 ECC_BLOCK
    \<and> fed (hw (snd (run_state (decode_step_6 (bch_unit demo_code (\<lambda>_ _. 0)) 1 In_Buf 0 1 32 3 0) demo_read)))
        = x @ List.map (demo_code 1 x) [0..<13]"
proof -
  obtain oob len s' where w: "run_state (do { ecc \<leftarrow> encode_steps_6 (bch_unit demo_code (\<lambda>_ _. 0)) 1 1 0 3 0 1; spare_to_write 1 0 ecc }) demo_ecc
      = ((oob, len), s')" by (metis prod.collapse)
  then have oob: "fst demo_written = oob" by (simp add: demo_written_def)
  have "nf6 demo_ecc = boot_nand6_vars" by (simp add: demo_ecc_def)
  then show ?thesis
    using codeword_restored [where e = 1 and option = 1 and s = demo_ecc and code = demo_code and ans = "\<lambda>_ _. 0" and P = 1 and off = 0
        and oob = oob and len = len and s' = s' and t = demo_read and boff = 0 and j = 0 and cur = 32 and ans' = "\<lambda>_ _. 0"] w
    by (auto simp: boot_nand6_vars_def same_settings_def demo_read_def oob bch_select_def sdiv32_def demo_ecc_def)
qed

section \<open>Positions that leave less than two bytes per block\<close>

text \<open>C22.  With spare bytes, the encoder always gets the two bytes of all ones of the first block, but only \<^verbatim>\<open>per\<close> of them are counted and
  only \<^verbatim>\<open>per\<close> go to the decoder: when the position of the parity leaves less than two bytes per block, as the default position 3 does
  for every page of 1024 bytes and more, what is decoded is shorter than what was encoded.\<close>

theorem position_too_small:
  fixes s t :: "bch_state fw_state" and per :: u32
  assumes "option \<noteq> 2" "unat per < 2" "nat (sint (n6_par_size1 (nf6 s))) \<le> 40"
    and "decode_select (nf6 t) cur = bch_select (n6_bchbit (nf6 t))"
  shows "length (fed (hw (snd (run_state (encode_step_6 (bch_unit code ans) P option off per 0) s)))) = 514
    \<and> encode_count option per = of_nat (2 * (512 + unat per))
    \<and> length (fed (hw (snd (run_state (decode_step_6 (bch_unit code ans) P In_Buf (int boff) option cur per 0) t))))
        = 512 + unat per + unat (n6_par_size1 (nf6 t))"
proof (intro conjI)
  show "length (fed (hw (snd (run_state (encode_step_6 (bch_unit code ans) P option off per 0) s)))) = 514"
    using bch.run_encode_step [where s = s and P = P and option = option and off = off and per = per and j = 0 and code = code and ans = ans]
      assms(1-3) by (auto simp: spare_part_def buf_bytes_def ECC_BLOCK_def)
  show "encode_count option per = of_nat (2 * (512 + unat per))" using assms(1) by (simp add: encode_count_def ECC_BLOCK_def)
  show "length (fed (hw (snd (run_state (decode_step_6 (bch_unit code ans) P In_Buf (int boff) option cur per 0) t))))
        = 512 + unat per + unat (n6_par_size1 (nf6 t))"
    using assms(1) unfolding bch.fed_decode_step [where t = t and cur = cur and code = code and ans = ans and P = P and off = boff
        and option = option and per = per and j = 0, OF assms(4)]
    by (simp add: buf_bytes_def ECC_BLOCK_def)
qed

theorem position_too_small_witness:
  "length (fed (hw (snd (run_state (encode_step_6 (bch_unit demo_code (\<lambda>_ _. 0)) 1 0 0 (3 div 4) 0) demo_ecc)))) = 514
   \<and> encode_count 0 (3 div 4) = 1024"
  using position_too_small [of 0 "3 div 4" demo_ecc demo_ecc 32 demo_code "\<lambda>_ _. 0" 1 0 0]
  by (simp add: demo_ecc_def boot_nand6_vars_def decode_select_def sdiv32_def)

section \<open>The sizes that the initialisation leaves\<close>

definition ecc_view :: "'h fw_state \<Rightarrow> u32 \<times> u32 \<times> u32" where
  "ecc_view s = (n6_bchbit (nf6 s), n6_par_size (nf6 s), n6_par_size1 (nf6 s))"

lemma keeps_ecc_view:
  "keeps ecc_view (jz_writel M a v)" "keeps ecc_view (jz_readl M a)" "keeps ecc_view (write_regs M rs)"
  "keeps ecc_view (nf6_modify (\<lambda>v. v\<lparr>n6_proc := x\<rparr>))" "keeps ecc_view (nf6_modify (\<lambda>v. v\<lparr>n6_eccpos := y\<rparr>))"
proof -
  show w: "keeps ecc_view (jz_writel M a v)" for a v by (simp add: keeps_def reg_defs host_simps ecc_view_def)
  show "keeps ecc_view (jz_readl M a)" by (simp add: keeps_def reg_defs host_simps ecc_view_def)
  show "keeps ecc_view (write_regs M rs)" by (induction rs) (auto intro!: keeps w)
qed (simp_all add: keeps_def host_simps ecc_view_def)

lemma view_after_modify:
  assumes "\<And>h. keeps view (R h)"
  shows "view (snd (run_state (do { h \<leftarrow> fw_gets g; x \<leftarrow> nf6_modify (f h); R h }) s)) = view (s\<lparr>nf6 := f (g s) (nf6 s)\<rparr>)"
  using assms unfolding keeps_def by (simp add: host_simps)

lemma ecc_view_init:
  "ecc_view (snd (run_state (nand_init_4760 M bw rc ps ppb bch pos bbpos bbpage force) s))
    = (let p = parity_nibbles bch (n6_par_size (nf6 s)) in (bch, p, word_of_int (sint (p + 1) sdiv 2)))"
proof -
  note parts = gpio_as_nand_8bit_def gpio_as_nand_16bit_def gpio_as_output_def gpio_disable_pull_def nand_enable_6_def
  show ?thesis
    unfolding nand_init_4760_def
    by (rule trans [OF view_after_modify], unfold parts, intro keeps keeps_ecc_view, simp add: ecc_view_def Let_def)
qed

text \<open>C21.  After the initialisation for 4, 8, 12, 16 or 20 correctable bits, the parity has 13 bits for each of them (counted in nibbles) and the driver
  stores the whole bytes that hold them; for 24 bits, which select the code for 24, the driver keeps the sizes of the code that it had before,
  which at the start of the program are those for 8.\<close>

theorem parity_size_after_init:
  fixes s :: "'h fw_state" and M :: "'h mmio" and bw rc ps ppb pos bbpos bbpage force :: u32 and P :: nat
  defines "w \<equiv> \<lambda>bch. nf6 (snd (run_state (nd_init (driver_4760 M P) [bw, rc, ps, ppb, bch, pos, bbpos, bbpage, force]) s))"
  shows "(\<forall>n \<in> {4, 8, 12, 16, 20}. n6_par_size (w (of_nat n)) = of_nat (13 * n div 4)
        \<and> n6_par_size1 (w (of_nat n)) = of_nat ((13 * n + 7) div 8) \<and> bch_select (n6_bchbit (w (of_nat n))) = of_nat (n div 4 - 1))
    \<and> n6_par_size (w 24) = n6_par_size (nf6 s) \<and> bch_select (n6_bchbit (w 24)) = 5
    \<and> (nf6 s = boot_nand6_vars \<longrightarrow> n6_par_size (w 24) = 26 \<and> n6_par_size1 (w 24) = 13)"
proof -
  show ?thesis
    using ecc_view_init [of M bw rc ps ppb _ pos bbpos bbpage force s]
    by (simp add: w_def driver_4760_def ecc_view_def Let_def parity_nibbles_def bch_select_def boot_nand6_vars_def)
qed

theorem parity_size_after_init_witness:
  "n6_par_size1 (nf6 (snd (run_state (nd_init (driver_4760 (bch_unit demo_code (\<lambda>_ _. 0)) 1) [8, 3, 2048, 64, 24, 24, 0, 127, 1]) demo_ecc))) = 13
   \<and> n6_par_size1 (nf6 (snd (run_state (nd_init (driver_4760 (bch_unit demo_code (\<lambda>_ _. 0)) 1) [8, 3, 2048, 64, 8, 24, 0, 127, 1]) demo_ecc))) = 13"
  using parity_size_after_init [where s = demo_ecc and M = "bch_unit demo_code (\<lambda>_ _. 0)" and P = 1 and bw = 8 and rc = 3 and ps = 2048
      and ppb = 64 and pos = 24 and bbpos = 0 and bbpage = 127 and force = 1]
  by (simp add: demo_ecc_def)

section \<open>Reported errors are undone\<close>

text \<open>The report registers of a unit that has found the bits \<^verbatim>\<open>errs\<close>: it counts bits from 1, and keeps two reports in a register.\<close>

definition report_index :: "nat list \<Rightarrow> nat \<Rightarrow> u32" where
  "report_index errs i = (if i < length errs then of_nat (errs ! i + 1) else 0)"

definition report_ans :: "nat list \<Rightarrow> bch_state \<Rightarrow> u32 \<Rightarrow> u32" where
  "report_ans errs h a = (if a = BCH_INTS then push_bit 27 (of_nat (length errs)) OR 9
     else let k = unat (a - BCH_ERR 0) div 4 in push_bit 16 (report_index errs (2 * k)) OR report_index errs (2 * k + 1))"

lemma bits_below: "k < 2 ^ m \<Longrightarrow> bit (k :: nat) n \<Longrightarrow> n < m"
proof -
  assume k: "k < 2 ^ m" "bit k n"
  then have "take_bit m k = k" by (simp add: take_bit_nat_eq_self)
  then show ?thesis using k(2) by (metis bit_take_bit_iff)
qed

lemma packed_reports:
  assumes "a < 0x2000" "b < 0x2000"
  shows "(push_bit 16 (of_nat a :: u32) OR of_nat b) AND 0x1fff = of_nat b"
    and "drop_bit 16 ((push_bit 16 (of_nat a :: u32) OR of_nat b) AND 0x1fff0000) = of_nat a"
proof -
  have ab: "bit a i \<Longrightarrow> i < 13" "bit b i \<Longrightarrow> i < 13" for i
    using bits_below [of a 13 i] bits_below [of b 13 i] assms by simp_all
  have m: "(0x1fff :: u32) = mask 13" "(0x1fff0000 :: u32) = push_bit 16 (mask 13)" by (simp_all add: mask_eq_exp_minus_1)
  show "(push_bit 16 (of_nat a :: u32) OR of_nat b) AND 0x1fff = of_nat b"
    unfolding m by (rule bit_word_eqI) (auto simp: bit_simps dest: ab)
  show "drop_bit 16 ((push_bit 16 (of_nat a :: u32) OR of_nat b) AND 0x1fff0000) = of_nat a"
    unfolding m by (rule bit_word_eqI) (auto simp: bit_simps dest: ab)
qed

lemma report_register:
  assumes "k < 12"
  shows "report_ans errs h (BCH_ERR k) = push_bit 16 (report_index errs (2 * k)) OR report_index errs (2 * k + 1)"
proof -
  have k: "unat (of_nat k :: u32) = k" using assms by (simp add: unat_of_nat)
  then have "unat (4 * of_nat k :: u32) = 4 * k" using assms by (simp add: unat_word_ariths)
  then have at: "unat (BCH_ERR k - BCH_ERR 0) div 4 = k" by (simp add: BCH_ERR_def)
  have "unat (BCH_ERR k) \<noteq> unat BCH_INTS"
    using k assms by (simp add: BCH_ERR_def BCH_INTS_def BCH_BASE_def unat_word_ariths)
  then have "BCH_ERR k \<noteq> BCH_INTS" by auto
  then show ?thesis using at by (simp add: report_ans_def Let_def)
qed

lemma run_error_report:
  assumes "i < length errs" "length errs \<le> 24" "\<forall>e \<in> set errs. e < 4096"
  shows "run_state (error_report (bch_unit code (report_ans errs)) (Suc i)) s = (int (errs ! i) + 1, s)"
proof -
  obtain a b where ab: "report_index errs (2 * (i div 2)) = of_nat a" "report_index errs (2 * (i div 2) + 1) = of_nat b"
    "a < 0x2000" "b < 0x2000" "(if even i then a else b) = errs ! i + 1"
  proof -
    have small: "\<exists>a < 0x2000. report_index errs m = of_nat a \<and> (m < length errs \<longrightarrow> a = errs ! m + 1)" for m
    proof (cases "m < length errs")
      case True
      then have "errs ! m < 4096" using assms(3) by simp
      with True show ?thesis by (intro exI [of _ "errs ! m + 1"]) (simp add: report_index_def)
    qed (simp add: report_index_def exI [of _ 0])
    have m: "i = 2 * (i div 2) + (if even i then 0 else 1)" by simp
    obtain a where a: "a < 0x2000" "report_index errs (2 * (i div 2)) = of_nat a" "2 * (i div 2) < length errs \<longrightarrow> a = errs ! (2 * (i div 2)) + 1"
      using small by blast
    obtain b where b: "b < 0x2000" "report_index errs (2 * (i div 2) + 1) = of_nat b"
        "2 * (i div 2) + 1 < length errs \<longrightarrow> b = errs ! (2 * (i div 2) + 1) + 1"
      using small by blast
    have "(if even i then a else b) = errs ! i + 1" using a(3) b(3) assms(1) m by (cases "even i") auto
    then show ?thesis using that a b by blast
  qed
  have k: "i div 2 < 12" using assms(1,2) by linarith
  have "uint (of_nat (errs ! i + 1) :: u32) = int (errs ! i) + 1"
  proof -
    have "errs ! i + 1 < 2 ^ 32" using assms(1,3) nth_mem [OF assms(1)] by fastforce
    then show ?thesis by (simp only: uint_nat unat_of_nat) simp
  qed
  then have index: "uint (of_nat (if even i then a else b) :: u32) = int (errs ! i) + 1" by (simp only: ab(5))
  let ?w = "push_bit 16 (of_nat a) OR of_nat b :: u32"
  have "run_state (jz_readl (bch_unit code (report_ans errs)) (BCH_ERR (i div 2))) s = (?w, s)"
    unfolding bch.unit_read by (simp add: bch_unit_def report_register [OF k] ab(1,2) [simplified])
  then have "run_state (error_report (bch_unit code (report_ans errs)) (Suc i)) s
      = (uint (if even i then drop_bit 16 (?w AND 0x1fff0000) else ?w AND 0x1fff), s)"
    by (simp add: error_report_def host_simps)
  also have "(if even i then drop_bit 16 (?w AND 0x1fff0000) else ?w AND 0x1fff) = of_nat (if even i then a else b)"
    using packed_reports [OF ab(3,4)] by (simp only: if_distrib [of of_nat] split: if_split)
  finally show ?thesis by (simp only: index)
qed

definition flip_bit_at :: "nat \<Rightarrow> nat \<Rightarrow> (nat \<Rightarrow> u8) \<Rightarrow> (nat \<Rightarrow> u8)" where
  "flip_bit_at off e b = b(off + e div 8 := b (off + e div 8) XOR push_bit (e mod 8) 1)"

lemma bit_flip: "bit (flip_bit_at off e b i) n \<longleftrightarrow> bit (b i) n \<noteq> (i = off + e div 8 \<and> n = e mod 8)"
proof -
  have "e mod 8 < 8" by simp
  then show ?thesis by (auto simp: flip_bit_at_def bit_simps)
qed

lemma run_bch_correct:
  assumes "e < 4096" "off + 512 \<le> BULK_BUF_BYTES"
  shows "run_state (bch_correct In_Buf (int off) (int e + 1)) s = ((), s\<lparr>bulk_in_buf := flip_bit_at off e (bulk_in_buf s)\<rparr>)"
proof -
  have e: "nat (int e mod 8) = e mod 8" "int off + int e div 8 = int (off + e div 8)" "int e div 8 < 512"
    using assms(1) by (simp_all add: zdiv_int nat_mod_distrib)
  have "off + e div 8 < BULK_BUF_BYTES" using assms by linarith
  then show ?thesis
    by (simp add: bch_correct_def load_byte_def store_byte_def host_simps Let_def e(1,3) e(2) ECC_BLOCK_def flip_bit_at_def same_hw del: of_nat_add)
qed

text \<open>The corrections that the \<^verbatim>\<open>switch\<close> makes from the report \<^verbatim>\<open>k\<close> down.\<close>

lemma run_correct_errors:
  assumes "distinct errs" "length errs \<le> 24" "\<forall>e \<in> set errs. e < 4096" "off + 512 \<le> BULK_BUF_BYTES" "k \<le> length errs"
  shows "\<exists>b. run_state (correct_errors (bch_unit code (report_ans errs)) In_Buf (int off) k) s = ((), s\<lparr>bulk_in_buf := b\<rparr>)
    \<and> (\<forall>i n. bit (b i) n = (bit (bulk_in_buf s i) n \<noteq> (\<exists>m < k. i = off + errs ! m div 8 \<and> n = errs ! m mod 8)))"
  using assms(5)
proof (induction k arbitrary: s)
  case 0
  have "s = s\<lparr>bulk_in_buf := bulk_in_buf s\<rparr>" by (cases s) simp
  then show ?case by (intro exI [of _ "bulk_in_buf s"]) (simp add: host_simps)
next
  case (Suc k)
  let ?e = "errs ! k" and ?hit = "\<lambda>m i n. i = off + errs ! m div 8 \<and> n = errs ! m mod 8"
  have "?e < 4096" using Suc.prems assms(3) by simp
  note c = run_bch_correct [OF this assms(4)]
  let ?s = "s\<lparr>bulk_in_buf := flip_bit_at off ?e (bulk_in_buf s)\<rparr>"
  obtain b where b: "run_state (correct_errors (bch_unit code (report_ans errs)) In_Buf (int off) k) ?s = ((), ?s\<lparr>bulk_in_buf := b\<rparr>)"
      "\<forall>i n. bit (b i) n = (bit (bulk_in_buf ?s i) n \<noteq> (\<exists>m < k. ?hit m i n))"
    using Suc.IH [of ?s] Suc.prems by auto
  have apart: "\<not> ?hit m i n" if "m < k" "?hit k i n" for m i n
  proof
    assume "?hit m i n"
    with that(2) have "errs ! m div 8 = ?e div 8" "errs ! m mod 8 = ?e mod 8" by auto
    then have "errs ! m = ?e" by (metis div_mult_mod_eq)
    then show False using that(1) Suc.prems assms(1) by (simp add: nth_eq_iff_index_eq)
  qed
  have "bit (b i) n = (bit (bulk_in_buf s i) n \<noteq> (\<exists>m < Suc k. ?hit m i n))" for i n
  proof -
    have "bit (b i) n = ((bit (bulk_in_buf s i) n \<noteq> ?hit k i n) \<noteq> (\<exists>m < k. ?hit m i n))"
    proof -
      have "bulk_in_buf ?s = flip_bit_at off ?e (bulk_in_buf s)" by simp
      then show ?thesis using b(2) by (simp only: bit_flip)
    qed
    moreover have "(\<exists>m < Suc k. ?hit m i n) = (?hit k i n \<or> (\<exists>m < k. ?hit m i n))" by (simp only: less_Suc_eq) blast
    ultimately show ?thesis using apart [of _ i n] by blast
  qed
  moreover have "run_state (correct_errors (bch_unit code (report_ans errs)) In_Buf (int off) (Suc k)) s = ((), s\<lparr>bulk_in_buf := b\<rparr>)"
    using b(1) run_error_report [of k errs code s] Suc.prems assms(2,3) by (simp add: host_simps c)
  ultimately show ?case by blast
qed

lemma report_status:
  assumes "n \<le> (24 :: nat)"
  shows "(push_bit 27 (of_nat n) OR 9 :: u32) AND 1 \<noteq> 0"
 "(push_bit 27 (of_nat n) OR 9 :: u32) AND 2 = 0"
    "unat (drop_bit 27 ((push_bit 27 (of_nat n) OR 9 :: u32) AND 0xF8000000)) = n"
proof -
  have nine: "(9 :: u32) = of_nat 9" by simp
  have n: "bit n i \<Longrightarrow> i < 5" "bit (9 :: nat) i \<Longrightarrow> i < 4" for i
    using bits_below [of n 5 i] bits_below [of 9 4 i] assms by simp_all
  show "(push_bit 27 (of_nat n) OR 9 :: u32) AND 1 \<noteq> 0"
  proof -
    have "odd (push_bit 27 (of_nat n) OR 9 :: u32)" by (simp add: even_or_iff even_push_bit_iff)
    then show ?thesis by (simp add: and_one_eq mod_2_eq_odd)
  qed
  have "push_bit 27 (of_nat n) AND 2 = (0 :: u32)"
  proof (rule bit_word_eqI)
    fix i
    have "bit (2 :: u32) i \<Longrightarrow> i = 1" using bit_exp_iff [of 1 i, where 'a = "32 word"] by simp
    then show "bit (push_bit 27 (of_nat n) AND 2 :: u32) i = bit (0 :: u32) i" by (auto simp: bit_and_iff bit_push_bit_iff)
  qed
  then show "(push_bit 27 (of_nat n) OR 9 :: u32) AND 2 = 0" by (simp add: bit.conj_disj_distrib2)
  have m: "(0xF8000000 :: u32) = push_bit 27 (mask 5)" by (simp add: mask_eq_exp_minus_1)
  have "drop_bit 27 ((push_bit 27 (of_nat n) OR of_nat 9 :: u32) AND push_bit 27 (mask 5)) = of_nat n"
    by (rule bit_word_eqI) (auto simp: bit_simps simp del: of_nat_numeral dest: n)
  then have "unat (drop_bit 27 ((push_bit 27 (of_nat n) OR of_nat 9 :: u32) AND push_bit 27 (mask 5))) = unat (of_nat n :: u32)"
    by (simp only:)
  also have "\<dots> = n" using assms by (simp add: unat_of_nat)
  finally show "unat (drop_bit 27 ((push_bit 27 (of_nat n) OR 9 :: u32) AND 0xF8000000)) = n"
    unfolding m nine .
qed

text \<open>C19.  If the bytes of a block in the buffer are those that were written with the bits \<^verbatim>\<open>errs\<close> inverted, at most 24 different ones of the
  block, and the unit reports these bits, then the decoding of the block leaves in the buffer what was written, changes nothing outside
  the block and reports success.\<close>

theorem errors_corrected:
  fixes t :: "bch_state fw_state" and orig :: "nat \<Rightarrow> u8"
  assumes "distinct errs" "errs \<noteq> []" "length errs \<le> 24" "\<forall>e \<in> set errs. e < 8 * ECC_BLOCK" "off + ECC_BLOCK \<le> BULK_BUF_BYTES"
    and damaged: "\<forall>i n. bit (bulk_in_buf t i) n = (bit (orig i) n \<noteq> (\<exists>e \<in> set errs. i = off + e div 8 \<and> n = e mod 8))"
    and "decode_select (nf6 t) cur = bch_select (n6_bchbit (nf6 t))"
    and "t' = snd (run_state (decode_step_6 (bch_unit code (report_ans errs)) P In_Buf (int off) option cur per j) t)"
  shows "bulk_in_buf t' = orig \<and> handshake_PKT t' = (handshake_PKT t)[3 := 0]"
proof -
  let ?U = "bch_unit code (report_ans errs)" and ?stat = "push_bit 27 (of_nat (length errs)) OR 9 :: u32"
  have n: "0 < length errs" using assms(2) by simp
  have errs: "\<forall>e \<in> set errs. e < 4096" "off + 512 \<le> BULK_BUF_BYTES" using assms(4,5) by (simp_all add: ECC_BLOCK_def)
  note st = report_status [OF assms(3)]
  obtain u c f h where r: "run_state (decode_step_6 ?U P In_Buf (int off) option cur per j) t
      = run_state (check_decoding_6 ?U In_Buf (int off) f ?stat) (t\<lparr>fw_ub := u, hw := h, hung := c\<rparr>)"
    using bch.run_decode_step [OF assms(7), of code "report_ans errs" P off option per j] by (auto simp: bch_unit_def report_ans_def)
  let ?t = "t\<lparr>fw_ub := u, hw := h, hung := c, handshake_PKT := (handshake_PKT t)[3 := 0]\<rparr>"
  obtain b where b: "run_state (correct_errors ?U In_Buf (int off) (length errs)) ?t = ((), ?t\<lparr>bulk_in_buf := b\<rparr>)"
      "\<forall>i n. bit (b i) n = (bit (bulk_in_buf ?t i) n \<noteq> (\<exists>m < length errs. i = off + errs ! m div 8 \<and> n = errs ! m mod 8))"
    using run_correct_errors [OF assms(1,3) errs order.refl, of code ?t] by blast
  have t': "t' = ?t\<lparr>bulk_in_buf := b\<rparr>"
    using b(1) assms(3) st unfolding assms(8) r
    by (simp add: check_decoding_6_def correct_all_def set_status_def host_simps Let_def)
  have "(\<exists>m < length errs. i = off + errs ! m div 8 \<and> n = errs ! m mod 8) = (\<exists>e \<in> set errs. i = off + e div 8 \<and> n = e mod 8)" for i n
    by (metis in_set_conv_nth)
  note hit = this
  have "bit (b i) n = bit (orig i) n" for i n
  proof -
    have "bit (b i) n = ((bit (orig i) n \<noteq> (\<exists>e \<in> set errs. i = off + e div 8 \<and> n = e mod 8))
        \<noteq> (\<exists>e \<in> set errs. i = off + e div 8 \<and> n = e mod 8))"
    proof -
      have "bulk_in_buf ?t = bulk_in_buf t" by simp
      then show ?thesis using b(2) damaged by (simp only: hit)
    qed
    then show ?thesis by blast
  qed
  then have "b = orig" by (intro ext bit_word_eqI) simp
  then show ?thesis by (simp add: t')
qed

theorem errors_corrected_witness:
  "bulk_in_buf (snd (run_state (decode_step_6 (bch_unit demo_code (report_ans [9, 4095])) 1 In_Buf 0 2 32 0 0)
      (demo_ecc\<lparr>bulk_in_buf := (\<lambda>_. 0)(1 := 2, 511 := 0x80)\<rparr>))) = (\<lambda>_. 0)"
proof -
  have "bit (((\<lambda>_. 0)(1 := 2, 511 := 0x80) :: nat \<Rightarrow> u8) i) n = (\<exists>e \<in> set [9, 4095]. i = 0 + e div 8 \<and> n = e mod 8)" for i n
  proof -
    have "bit (2 :: u8) n = (n = 1)" "bit (0x80 :: u8) n = (n = 7)"
      using bit_exp_iff [of 1 n, where 'a = "8 word"] bit_exp_iff [of 7 n, where 'a = "8 word"] by auto
    then show ?thesis by auto
  qed
  then show ?thesis
    using errors_corrected [where errs = "[9, 4095]" and off = 0 and orig = "\<lambda>_. 0" and t = "demo_ecc\<lparr>bulk_in_buf := (\<lambda>_. 0)(1 := 2, 511 := 0x80)\<rparr>"
        and cur = 32 and code = demo_code and P = 1 and option = 2 and per = 0 and j = 0, OF _ _ _ _ _ _ _ refl]
    by (simp add: ECC_BLOCK_def BULK_BUF_BYTES_def demo_ecc_def boot_nand6_vars_def decode_select_def sdiv32_def)
qed

section \<open>The region of the loader\<close>

lemma read_loop_start:
  "a < spl * 2 \<Longrightarrow> b < spl * 2 \<Longrightarrow> cnt < pagenum
    \<Longrightarrow> read_loop_6 M P (Suc n) buf pagenum option spl ecc per off cnt a = read_loop_6 M P (Suc n) buf pagenum option spl ecc per off cnt b"
  by (simp only: read_loop_6.simps if_True)

lemma run_read:
  "run_state (nand_read_4760 M P buf start pagenum option) s
    = run_state (do { fw_mark (n6_pagesize (nf6 s) = 0 \<or> ecc_count_6 (n6_pagesize (nf6 s)) ECC_BLOCK = 0);
        nand_enable_6 M;
        cur \<leftarrow> read_loop_6 M P P buf pagenum option (spl_pages (n6_pagesize (nf6 s))) (ecc_count_6 (n6_pagesize (nf6 s)) ECC_BLOCK)
          (n6_eccpos (nf6 s) div ecc_count_6 (n6_pagesize (nf6 s)) ECC_BLOCK)
          (if start < spl_pages (n6_pagesize (nf6 s)) * 2 then 8 * 1024 else 0) 0 start;
        nand_disable_6 M;
        State_Monad.return cur }) s"
  by (simp add: nand_read_4760_def run_nf6_gets Let_def)

text \<open>C23.  A read that starts anywhere in the region of the loader does what a read that starts at its first page does: the start page is ignored,
  and the data start with page 0 of the chip.\<close>

theorem loader_start_page_ignored:
  fixes s :: "'h fw_state"
  assumes "a < spl_pages (n6_pagesize (nf6 s)) * 2" "0 < P" "0 < pagenum"
  shows "run_state (nand_read_4760 M P buf a pagenum option) s = run_state (nand_read_4760 M P buf 0 pagenum option) s"
proof -
  obtain n where P: "P = Suc n" using assms(2) by (cases P) simp_all
  let ?spl = "spl_pages (n6_pagesize (nf6 s))"
  have pos: "0 < ?spl * 2" by (rule le_less_trans [OF word_zero_le assms(1)])
  have loop: "read_loop_6 M P (Suc n) buf pagenum option ?spl ecc per off 0 a = read_loop_6 M P (Suc n) buf pagenum option ?spl ecc per off 0 0"
    for ecc per off
    by (rule read_loop_start [OF assms(1) pos assms(3)])
  have start: "(if a < ?spl * 2 then 8 * 1024 else 0 :: int) = (if 0 < ?spl * 2 then 8 * 1024 else 0)" using assms(1) pos by (simp only: if_True)
  show ?thesis unfolding run_read P start loop [unfolded P] ..
qed

theorem loader_start_page_ignored_witness:
  "run_state (nand_read_4760 (bch_unit demo_code (\<lambda>_ _. 0)) 5 In_Buf 7 1 2) demo_ecc
    = run_state (nand_read_4760 (bch_unit demo_code (\<lambda>_ _. 0)) 5 In_Buf 0 1 2) demo_ecc"
  using loader_start_page_ignored [of 7 demo_ecc 5 1]
  by (simp add: demo_ecc_def boot_nand6_vars_def spl_pages_def sdiv32_def)

end
