(* ===== verification/Nand4760_Settings.thy ===== *)
theory Nand4760_Settings
  imports Nandflash_4760 Frame Fw_Instances
begin

unbundle bit_operations_syntax

text \<open>
  The settings of the JZ4760 driver: no operation but the initialisation changes them, on any hardware, and they
  stay well formed whatever is called in whatever order.
\<close>

section \<open>What the operations may change\<close>

text \<open>A view of the firmware state that shows none of the things that an operation of the driver may change: the hardware, the two marks, the buffer of
  the answers, the memory, the status and the spare bytes.\<close>

locale driver_view =
  fixes view :: "'h fw_state \<Rightarrow> 'v"
  assumes view_marks: "view (s\<lparr>hw := h\<rparr>) = view s" "view (s\<lparr>fw_ub := u\<rparr>) = view s" "view (s\<lparr>hung := u\<rparr>) = view s"
    and view_data: "view (s\<lparr>bulk_in_buf := b\<rparr>) = view s" "view (s\<lparr>ram := m\<rparr>) = view s" "view (s\<lparr>handshake_PKT := p\<rparr>) = view s"
    and view_oob: "view (s\<lparr>nf6 := (nf6 s)\<lparr>n6_oob_buf := b\<rparr>\<rparr>) = view s"
begin

lemmas hides = view_marks view_data view_oob

lemma kept_access [keeps]:
  "keeps view (fw_gets f)" "keeps view (nf6_gets g)" "keeps view (fw_mark c)" "keeps view hang" "keeps view (reg_read r)" "keeps view (reg_write w)"
  "keeps view (set_status x)"
  by (simp_all add: keeps_def host_simps set_status_def hides)

lemma kept_regs [keeps]:
  "keeps view (jz_readb M p)" "keeps view (jz_writeb M p b)" "keeps view (jz_readw M p)" "keeps view (jz_writew M p w)"
  "keeps view (jz_readl M p)" "keeps view (jz_writel M p l)"
  unfolding reg_defs by (intro keeps)+

lemma kept_write_regs [keeps]: "keeps view (write_regs M rs)"
  by (induction rs) (auto intro!: keeps)

lemma kept_pins [keeps]:
  "keeps view (gpio_as_nand_8bit M)" "keeps view (gpio_as_nand_16bit M)" "keeps view (gpio_as_output M n)" "keeps view (gpio_disable_pull M n)"
  "keeps view (gpio_set_pin M n)" "keeps view (gpio_clear_pin M n)" "keeps view (wp_set_6 M)" "keeps view (wp_clear_6 M)"
  unfolding gpio_as_nand_8bit_def gpio_as_nand_16bit_def gpio_as_output_def gpio_disable_pull_def gpio_set_pin_def gpio_clear_pin_def
    wp_set_6_def wp_clear_6_def by (intro keeps)+

lemma kept_commands [keeps]:
  "keeps view (pn_enable M)" "keeps view (pn_disable M)" "keeps view (nand_cmd_6 M c)" "keeps view (nand_addr_6 M c)" "keeps view (nand_data8_6 M)"
  "keeps view (nand_enable_6 M)" "keeps view (nand_disable_6 M)" "keeps view (ready_pin_6 M)" "keeps view (pn_enable_spl M pg i)"
  unfolding pn_enable_def pn_disable_def nand_cmd_6_def nand_addr_6_def nand_data8_6_def nand_enable_6_def nand_disable_6_def ready_pin_6_def
    pn_enable_spl_def by (intro keeps)+

lemma kept_waits [keeps]: "keeps view r \<Longrightarrow> keeps view (wait_for n r)" "keeps view (wait_busy_6 M k)"
  by (induction n, auto intro!: keeps) (induction k, auto intro!: keeps)

lemma kept_sync [keeps]: "keeps view (nand_sync_6 M P)"
  unfolding nand_sync_6_def by (intro keeps)

lemma kept_small [keeps]: "keeps view f \<Longrightarrow> keeps view (unless_small_6 f)" "keeps view f \<Longrightarrow> keeps view (if_small_6 f)"
  unfolding unless_small_6_def if_small_6_def by (auto intro!: keeps)

lemma kept_block_nr [keeps]: "keeps view (block_nr_6 pg)"
  unfolding block_nr_6_def by (intro keeps)

lemma kept_oob [keeps]: "keeps view (put_oob_6 off bs)" "keeps view (get_oob_6 off n)" "keeps view (out_bytes off n)" "keeps view (decode_spare option per j)"
proof -
  have "keeps view (nf6_modify (\<lambda>v. v\<lparr>n6_oob_buf := buf_put off bs (n6_oob_buf v)\<rparr>))"
    by (simp add: keeps_def host_simps hides)
  then show "keeps view (put_oob_6 off bs)" unfolding put_oob_6_def by (intro keeps)
  show g: "keeps view (get_oob_6 off n)" for off n unfolding get_oob_6_def by (intro keeps)
  show "keeps view (out_bytes off n)" unfolding out_bytes_def by (intro keeps)
  show "keeps view (decode_spare option per j)" unfolding decode_spare_def by (intro keeps g)
qed

lemma kept_bytes [keeps]: "keeps view (store_byte (To_Buf buf) k b)" "keeps view (load_byte buf k)"
  by (cases buf; simp add: keeps_def store_byte_def load_byte_def host_simps hides)+

lemma kept_store_all [keeps]: "keeps view (store_all buf off bs)"
  by (induction bs arbitrary: off) (auto intro!: keeps)

lemma kept_load_all [keeps]: "keeps view (load_all buf off n)"
  by (induction n arbitrary: off) (auto intro!: keeps)

lemma kept_read_bytes [keeps]: "keeps view (read_bytes8 M n)" "keeps view (read_bytes16 M n)"
  by (induction n) (auto intro!: keeps)

lemma kept_write_bytes [keeps]: "keeps view (write_bytes8 M bs)" "keeps view (write_bytes16 M bs)"
proof -
  show "keeps view (write_bytes8 M bs)" by (induction bs) (auto intro!: keeps)
  show "keeps view (write_bytes16 M bs)" by (induction bs rule: induct_list012) (auto intro!: keeps)
qed

lemma kept_proc [keeps]: "keeps view a \<Longrightarrow> keeps view b \<Longrightarrow> keeps view c \<Longrightarrow> keeps view (case p of No_Proc \<Rightarrow> a | Proc8 \<Rightarrow> b | Proc16 \<Rightarrow> c)"
  by (cases p) simp_all

lemma kept_procs [keeps]: "keeps view (read_proc_6 M n)" "keeps view (write_proc_6 M bs)"
  unfolding read_proc_6_def write_proc_6_def by (intro keeps)+

lemma kept_row [keeps]: "keeps view (send_row_6 M w n)"
  by (induction n arbitrary: w) (auto intro!: keeps)

lemma kept_page [keeps]: "keeps view (send_page_6 M pg)" "keeps view (send_page_int M pg)"
  unfolding send_page_6_def send_page_int_def by (intro keeps)+

section \<open>The operations\<close>

lemma kept_read_oob [keeps]: "keeps view (read_oob_6 M P len pg)" "keeps view (fetch_oob_6 M P pg)"
proof -
  show r: "keeps view (read_oob_6 M P len pg)" for len unfolding read_oob_6_def by (intro keeps)
  show "keeps view (fetch_oob_6 M P pg)" unfolding fetch_oob_6_def by (intro keeps r)
qed

lemma kept_oob_loop [keeps]: "keeps view (oob_loop_6 M P off pg n)"
  by (induction n arbitrary: off pg) (auto intro!: keeps)

lemma kept_any [keeps]: "keeps view (any_marked_6 M P pgs)"
  by (induction pgs) (auto intro!: keeps)

lemma kept_check [keeps]: "keeps view (nand_check_block_6 M P b)" "keeps view (bad_here_6 M P pg)"
  unfolding bad_here_6_def nand_check_block_6_def by (intro keeps)+

lemma kept_mark_page [keeps]: "keeps view (nand_mark_bad_page_6 M P pg)"
  unfolding nand_mark_bad_page_6_def by (intro keeps)

lemma kept_mark_pages [keeps]: "keeps view (mark_pages_6 M P pgs)"
  by (induction pgs) (auto intro!: keeps)

lemma kept_mark_bad [keeps]: "keeps view (nand_mark_bad_4760 M P b)"
  unfolding nand_mark_bad_4760_def by (intro keeps)

lemma kept_erase_block [keeps]: "keeps view (erase_block_6 M P cur)"
  unfolding erase_block_6_def by (intro keeps)

lemma kept_erase_loop [keeps]: "keeps view (erase_loop_6 M P n force i num cur)"
  by (induction n arbitrary: i num cur) (simp_all, (intro keeps conjI impI | simp)+)

lemma kept_erase [keeps]: "keeps view (nand_erase_4760 M P num blk force)"
  unfolding nand_erase_4760_def by (intro keeps)

lemma kept_start [keeps]: "keeps view (start_read_6 M P pg)" "keeps view (start_program_6 M pg)"
  unfolding start_read_6_def start_program_6_def by (intro keeps)+

lemma kept_raw_loop [keeps]: "keeps view (raw_loop_6 M P n pages option off cnt pg)"
  by (induction n arbitrary: off cnt pg) (simp_all, (intro keeps conjI impI | simp)+)

lemma kept_feed [keeps]: "keeps view (feed M bs)"
  by (induction bs) (auto intro!: keeps)

lemma kept_parity [keeps]: "keeps view (get_parity_6 M k n)"
  by (induction n arbitrary: k) (auto intro!: keeps)

lemma kept_coding [keeps]:
  "keeps view (decode_block M P sel count dat spare parity)" "keeps view (encode_block M P sel count dat spare n)"
  unfolding decode_block_def encode_block_def ecc_coding_def ecc_cnt_def ints_flag_6_def ecc_disable_6_def by (intro keeps)+

lemma kept_correct_errors [keeps]: "keeps view (correct_errors M buf off k)"
  by (induction k) (auto simp: error_report_def bch_correct_def Let_def intro!: keeps)

lemma kept_correct [keeps]: "keeps view (correct_all M buf off stat)" "keeps view (check_decoding_6 M buf off flag stat)"
  unfolding check_decoding_6_def correct_all_def by (intro keeps)+

lemma kept_spl_blocks [keeps]: "keeps view (read_spl_blocks M P buf pg ecc off i n)"
  by (induction n arbitrary: off i) (auto intro!: keeps)

lemma kept_spl_pages [keeps]: "keeps view (read_spl_pages M P buf m n)"
  by (induction n arbitrary: m) (auto simp: read_nand_spl_page_def intro!: keeps)

lemma kept_decode_steps [keeps]: "keeps view (decode_steps_6 M P buf off option cur per j n)"
  by (induction n arbitrary: off j) (auto simp: decode_step_6_def intro!: keeps)

lemma kept_read_page [keeps]: "keeps view (read_page_6 M P buf off option cur ecc per)"
  unfolding read_page_6_def copy_spare_6_def by (intro keeps)

lemma kept_read_loop [keeps]: "keeps view (read_loop_6 M P n buf pages option spl ecc per off cnt cur)"
  by (induction n arbitrary: off cnt cur) (simp_all, (intro keeps conjI impI | simp)+)

lemma kept_encode_spare [keeps]: "keeps view (encode_spare option off per j)"
  unfolding encode_spare_def by (intro keeps)

lemma kept_encode_steps [keeps]: "keeps view (encode_steps_6 M P option off per j n)"
  by (induction n arbitrary: j) (auto simp: encode_step_6_def intro!: keeps)

lemma kept_program_page [keeps]: "keeps view (program_page_6 M P option ecc per off cur)"
  unfolding program_page_6_def spare_to_write_def by (intro keeps)

lemma kept_program_spl_blocks [keeps]: "keeps view (program_spl_blocks M P pg off i n)"
  by (induction n arbitrary: off i) (auto intro!: keeps)

lemma kept_program_failed [keeps]: "keeps view (program_failed M P)"
  unfolding program_failed_def by (intro keeps)

lemma kept_program_spl_pages [keeps]: "keeps view (program_spl_pages M P k n)"
  by (induction n arbitrary: k) (auto simp: program_nand_spl_page_def intro!: keeps)

lemma kept_nprog_loop [keeps]: "keeps view (nprog_loop_6 M P n option pages spl ecc per spage i cur off)"
  by (induction n arbitrary: spage i cur off) (simp_all, (intro keeps conjI impI | simp)+)

lemma kept_driver:
  "keeps view (nand_query_4760 M P)" "keeps view (nand_program_4760 M P pg pages option)" "keeps view (nand_erase_4760 M P num blk force)"
  "keeps view (nand_read_4760 M P buf pg pages option)" "keeps view (nand_read_oob_4760 M P pg pages)" "keeps view (nand_read_raw_4760 M P pg pages option)"
  "keeps view (nand_mark_bad_4760 M P blk)" "keeps view (nand_enable_4760 M csn)" "keeps view (nand_disable_4760 M csn)"
  unfolding nand_query_4760_def nand_program_4760_def nand_read_4760_def nand_read_oob_4760_def nand_read_raw_4760_def nand_enable_4760_def
    nand_disable_4760_def by (intro keeps)+

end

section \<open>Settings\<close>

definition fixed6 :: "'h fw_state \<Rightarrow> nand6_vars \<times> nand_vars \<times> hand \<times> (nat \<Rightarrow> u8) \<times> udc_phase \<times> u32 \<times> u32 \<times> u32 \<times> driver \<times> u32 option" where
  "fixed6 s = ((nf6 s)\<lparr>n6_oob_buf := (\<lambda>_. 0)\<rparr>, nf s, Hand s, bulk_out_buf s, udc_state s, start_addr s, ops_length s, ram_addr s, nand_drv s, jumped s)"

interpretation drv6: driver_view fixed6
  by unfold_locales (simp_all add: fixed6_def)

text \<open>Well-formed settings: the parity has one of the five sizes that the code knows, the number of its bytes and the size of the spare area are those that
  belong to it and to the page size, the position of the parity is not zero, and the transfers fit the bus.\<close>

definition wf_settings :: "nand6_vars \<Rightarrow> bool" where
  "wf_settings v \<longleftrightarrow> n6_par_size v \<in> {13, 26, 39, 52, 65} \<and> n6_par_size1 v = (n6_par_size v + 1) div 2 \<and> n6_eccpos v \<noteq> 0
     \<and> n6_oobsize v = word_of_int (sint (n6_pagesize v) sdiv 32) \<and> (n6_proc v = No_Proc \<or> (n6_proc v = Proc8) = (n6_bus v = 8))"

lemma wf_settings_cong: "v\<lparr>n6_oob_buf := b\<rparr> = w\<lparr>n6_oob_buf := b\<rparr> \<Longrightarrow> wf_settings v = wf_settings w"
  by (cases v; cases w) (simp add: wf_settings_def)

lemma wf_settings_keeps: "keeps fixed6 f \<Longrightarrow> wf_settings (nf6 s) \<Longrightarrow> wf_settings (nf6 (snd (run_state f s)))"
  using wf_settings_cong [where v = "nf6 (snd (run_state f s))" and b = "\<lambda>_. 0" and w = "nf6 s"] by (simp add: keeps_def fixed6_def)

lemma same_nf6:
  "nf6 (snd (run_state (jz_writel M a v) s)) = nf6 s" "nf6 (snd (run_state (write_regs M rs) s)) = nf6 s" "nf6 (snd (run_state (nand_enable_6 M) s)) = nf6 s"
  "nf6 (snd (run_state (gpio_as_output M n) s)) = nf6 s" "nf6 (snd (run_state (gpio_disable_pull M n) s)) = nf6 s"
  "nf6 (snd (run_state (nf6_modify f) s)) = f (nf6 s)" "run_state (fw_gets g) s = (g s, s)" "run_state (State_Monad.return x) s = (x, s)"
proof -
  have w: "nf6 (snd (run_state (jz_writel M a v) s)) = nf6 s" for a v s by (simp add: reg_defs host_simps)
  then show "nf6 (snd (run_state (jz_writel M a v) s)) = nf6 s" .
  show "nf6 (snd (run_state (write_regs M rs) s)) = nf6 s"
    by (induction rs arbitrary: s) (auto simp: split_def w State_Monad.return_def)
  show "nf6 (snd (run_state (nand_enable_6 M) s)) = nf6 s" by (simp add: nand_enable_6_def reg_defs host_simps)
qed (simp_all add: gpio_as_output_def gpio_disable_pull_def reg_defs host_simps)

text \<open>The settings after the initialisation.\<close>

definition init_settings :: "u32 \<Rightarrow> u32 \<Rightarrow> u32 \<Rightarrow> u32 \<Rightarrow> u32 \<Rightarrow> u32 \<Rightarrow> u32 \<Rightarrow> u32 \<Rightarrow> u32 \<Rightarrow> u32 \<Rightarrow> nand6_vars \<Rightarrow> nand6_vars" where
  "init_settings wp bw rc ps ppb bch pos bbpos bbpage force v = (let p = parity_nibbles bch (n6_par_size v) in
     v\<lparr>n6_bus := bw, n6_row := rc, n6_pagesize := ps, n6_oobsize := word_of_int (sint ps sdiv 32), n6_ppb := ppb, n6_bchbit := bch,
       n6_forceerase := force, n6_eccpos := (if pos = 0 then 3 else pos), n6_bb_pos := bbpos, n6_bb_page := bbpage, n6_wp_pin := wp,
       n6_par_size := p, n6_par_size1 := word_of_int (sint (p + 1) sdiv 2), n6_proc := (if bw = 8 then Proc8 else Proc16)\<rparr>)"

lemma nf6_init:
  "nf6 (snd (run_state (nand_init_4760 M bw rc ps ppb bch pos bbpos bbpage force) s))
    = init_settings (hd_nand_wppin (Hand s)) bw rc ps ppb bch pos bbpos bbpage force (nf6 s)"
  by (simp add: nand_init_4760_def gpio_as_nand_8bit_def gpio_as_nand_16bit_def init_settings_def Let_def split_def same_nf6
      split: if_splits)

lemma wf_init:
  assumes "wf_settings v"
  shows "wf_settings (init_settings wp bw rc ps ppb bch pos bbpos bbpage force v)"
proof -
  have p: "parity_nibbles bch (n6_par_size v) \<in> {13, 26, 39, 52, 65}" using assms by (auto simp: wf_settings_def parity_nibbles_def)
  then have "word_of_int (sint (parity_nibbles bch (n6_par_size v) + 1) sdiv 2) = (parity_nibbles bch (n6_par_size v) + 1) div 2" by auto
  then show ?thesis using p by (simp add: wf_settings_def init_settings_def Let_def)
qed

section \<open>Sequences of calls\<close>

text \<open>What can happen to the statics of the driver: a call of one of its operations, with any arguments, or anything else in the firmware.\<close>

inductive driver6_step :: "'h mmio \<Rightarrow> nat \<Rightarrow> 'h fw_state \<Rightarrow> 'h fw_state \<Rightarrow> bool" for M P where
  init: "length ps = 9 \<Longrightarrow> driver6_step M P s (snd (run_state (nd_init (driver_4760 M P) ps) s))"
| query: "driver6_step M P s (snd (run_state (nd_query (driver_4760 M P)) s))"
| program: "driver6_step M P s (snd (run_state (nd_program (driver_4760 M P) pg pages option) s))"
| erase: "driver6_step M P s (snd (run_state (nd_erase (driver_4760 M P) num blk force) s))"
| read: "driver6_step M P s (snd (run_state (nd_read (driver_4760 M P) buf pg pages option) s))"
| read_oob: "driver6_step M P s (snd (run_state (nd_read_oob (driver_4760 M P) pg pages) s))"
| read_raw: "driver6_step M P s (snd (run_state (nd_read_raw (driver_4760 M P) pg pages option) s))"
| mark_bad: "driver6_step M P s (snd (run_state (nd_mark_bad (driver_4760 M P) blk) s))"
| enable: "driver6_step M P s (snd (run_state (nd_enable (driver_4760 M P) csn) s))"
| disable: "driver6_step M P s (snd (run_state (nd_disable (driver_4760 M P) csn) s))"
| other: "nf6 t = nf6 s \<Longrightarrow> driver6_step M P s t"

lemma driver6_step_wf: "driver6_step M P s t \<Longrightarrow> wf_settings (nf6 s) \<Longrightarrow> wf_settings (nf6 t)"
  by (induction rule: driver6_step.induct)
    (simp_all add: driver_4760_def nf6_init wf_init wf_settings_keeps drv6.kept_driver)

text \<open>C20.  On any hardware, after any sequence of calls of the driver from its start, interleaved with anything else the firmware does, the settings are well
  formed; so the size of the parity is one of those for up to 20 correctable bits, whatever the host configures, and never the 78 nibbles
  of the code for 24.\<close>

theorem settings_well_formed:
  assumes "(driver6_step M P)\<^sup>*\<^sup>* s t" "nf6 s = boot_nand6_vars"
  shows "wf_settings (nf6 t) \<and> n6_par_size (nf6 t) \<noteq> 78"
proof -
  have "wf_settings boot_nand6_vars" by (simp add: wf_settings_def boot_nand6_vars_def)
  with assms(2) have "wf_settings (nf6 s)" by simp
  with assms(1) have "wf_settings (nf6 t)" by (induction rule: rtranclp_induct) (auto intro: driver6_step_wf)
  then show ?thesis by (auto simp: wf_settings_def)
qed

definition dead_mmio :: "unit mmio" where
  "dead_mmio = \<lparr>io_r8 = \<lambda>a h. (0, h), io_w8 = \<lambda>a v h. h, io_r16 = \<lambda>a h. (0, h), io_w16 = \<lambda>a v h. h,
     io_r32 = \<lambda>a h. (0, h), io_w32 = \<lambda>a v h. h\<rparr>"

theorem settings_well_formed_witness:
  "n6_par_size (nf6 (snd (run_state (nd_init (driver_4760 dead_mmio 1) [16, 3, 2048, 64, 24, 0, 0, 0, 1]) (blank_fw ())))) \<noteq> 78"
proof -
  have "driver6_step dead_mmio 1 (blank_fw ()) (snd (run_state (nd_init (driver_4760 dead_mmio 1) [16, 3, 2048, 64, 24, 0, 0, 0, 1]) (blank_fw ())))"
    by (rule driver6_step.init) simp
  then show ?thesis using settings_well_formed [OF r_into_rtranclp [of "driver6_step dead_mmio 1"]] by simp
qed

text \<open>Every operation of the driver but the initialisation leaves all settings, the other driver's variables, the configuration, the data
  received from the host and the pending request as they were, on any hardware.\<close>

theorem driver_4760_keeps_settings:
  "fixed6 (snd (run_state (nd_query (driver_4760 M P)) s)) = fixed6 s
   \<and> fixed6 (snd (run_state (nd_program (driver_4760 M P) pg pages option) s)) = fixed6 s
   \<and> fixed6 (snd (run_state (nd_erase (driver_4760 M P) num blk force) s)) = fixed6 s
   \<and> fixed6 (snd (run_state (nd_read (driver_4760 M P) buf pg pages option) s)) = fixed6 s
   \<and> fixed6 (snd (run_state (nd_read_oob (driver_4760 M P) pg pages) s)) = fixed6 s
   \<and> fixed6 (snd (run_state (nd_read_raw (driver_4760 M P) pg pages option) s)) = fixed6 s
   \<and> fixed6 (snd (run_state (nd_mark_bad (driver_4760 M P) blk) s)) = fixed6 s
   \<and> fixed6 (snd (run_state (nd_enable (driver_4760 M P) csn) s)) = fixed6 s
   \<and> fixed6 (snd (run_state (nd_disable (driver_4760 M P) csn) s)) = fixed6 s"
  by (simp add: driver_4760_def drv6.kept_driver [unfolded keeps_def, rule_format])

end
