(* ===== verification/Spec2Isabelle.thy ===== *)
theory Spec2Isabelle
  imports Jzboot_Main Nand_Facts Boot Link_Configure Shell_Facts Completion Nand4740_Settings Usbboot_Config Usbboot_Frame
    Pll_Search Stage1_Props Stage1_Board Stage1_Memtest Stage1_Serial
    Stage2_Start Xbboot_Host Xbboot_Target
    Xbboot_Props Xbboot_Echo Nand4760_Props Nand4760_Settings
begin

unbundle bit_operations_syntax

text \<open>
  A verification development for \<^verbatim>\<open>xburst-tools\<close>, the programs that boot and flash devices with an Ingenic
  XBurst processor (JZ4740, JZ4760) over USB: host programs, and the programs they load into the device.

  The parts of the program and how they interact.  The boot ROM of the device takes a first stage (at 0x80002000, in
  the locked cache), which sets pins, clocks and memory up from 28 bytes of arguments that the host has patched into it, and returns
  to the ROM.  The host then loads the second stage, which serves requests for memory and NAND.
  There are two such host programs, \<^verbatim>\<open>jzboot\<close> (with a shell) and the older \<^verbatim>\<open>usbboot\<close>; both talk to the second stage of
  \<^verbatim>\<open>usbboot/xburst_stage2\<close>.  A third program, \<^verbatim>\<open>xbboot\<close>, loads a first stage of its own and then any program at any
  address, like the echo kernel that comes with it.

  The theories and the files they model.  \<^verbatim>\<open>Prelude\<close>, \<^verbatim>\<open>Codec\<close>, \<^verbatim>\<open>Host_World\<close> and \<^verbatim>\<open>Frame\<close> hold the machine types,
  the C library functions on strings, the contract of fixed-width encodings, the state of the host process with \<^verbatim>\<open>libusb\<close>
  as a parameter, and the rules for frame conditions.

  \<^verbatim>\<open>jzboot\<close>: \<^verbatim>\<open>Config\<close> (\<^verbatim>\<open>config.c\<close>: the environment), \<^verbatim>\<open>Devmgr\<close> (\<^verbatim>\<open>devmgr.c\<close>), \<^verbatim>\<open>Usbdev\<close> (\<^verbatim>\<open>usbdev.c\<close>),
  \<^verbatim>\<open>Ingenic\<close>, \<^verbatim>\<open>Ingenic_Load\<close>, \<^verbatim>\<open>Ingenic_Nand\<close> (\<^verbatim>\<open>ingenic.c\<close>: identification and configuration, loading, NAND),
  \<^verbatim>\<open>Elfldr\<close> (\<^verbatim>\<open>elfldr.c\<close>: kernels), \<^verbatim>\<open>Lexer\<close> (\<^verbatim>\<open>shell_lex.l\<close>), \<^verbatim>\<open>Shell\<close> (\<^verbatim>\<open>shell.c\<close> and the command tables),
  \<^verbatim>\<open>Completion\<close> (\<^verbatim>\<open>shell.c\<close>: the line editor), \<^verbatim>\<open>Jzboot_Main\<close> (\<^verbatim>\<open>main.c\<close>).  Their properties are in \<^verbatim>\<open>Config\<close>, \<^verbatim>\<open>Ingenic_Facts\<close>, \<^verbatim>\<open>Nand_Facts\<close>,
  \<^verbatim>\<open>Elf_Facts\<close> and \<^verbatim>\<open>Shell_Facts\<close>.

  The second stage: \<^verbatim>\<open>Stage2_State\<close> (registers as the parameter \<^verbatim>\<open>mmio\<close>, the globals), \<^verbatim>\<open>Boothandler\<close>
  (\<^verbatim>\<open>boothandler.c\<close>), \<^verbatim>\<open>Udc\<close> (\<^verbatim>\<open>udc.c\<close>), \<^verbatim>\<open>Nandflash_4740\<close> (\<^verbatim>\<open>nandflash_4740.c\<close>),
  \<^verbatim>\<open>Nandflash_4760\<close> (\<^verbatim>\<open>nandflash_4760.c\<close>), \<^verbatim>\<open>Stage2_Start\<close> (\<^verbatim>\<open>main.c\<close> with its relocation, \<^verbatim>\<open>serial.c\<close>, the lines of \<^verbatim>\<open>cache.c\<close>).
  \<^verbatim>\<open>Nand_Chip\<close> is the contract of a NAND chip, \<^verbatim>\<open>Nand4740_Facts\<close> and \<^verbatim>\<open>Nand4740_Settings\<close> are the properties of the driver of the JZ4740.
  For that of the JZ4760, \<^verbatim>\<open>Nand4760_Facts\<close> has the contract of the error correction unit (the locale \<^verbatim>\<open>ecc_unit\<close>), \<^verbatim>\<open>Nand4760_Props\<close> shows that
  programming and reading use the same codewords and that reported errors are undone, and \<^verbatim>\<open>Nand4760_Settings\<close> that only the initialisation
  changes settings, and that they stay well formed (by induction over the calls, for every view of the state that the locale \<^verbatim>\<open>driver_view\<close> allows).

  \<^verbatim>\<open>usbboot\<close>: \<^verbatim>\<open>Usbboot_Usb\<close> (\<^verbatim>\<open>ingenic_usb.c\<close>), \<^verbatim>\<open>Usbboot_Cmd\<close> (\<^verbatim>\<open>cmd.c\<close>), \<^verbatim>\<open>Usbboot_Line\<close> (\<^verbatim>\<open>ingenic_cfg.c\<close>,
  \<^verbatim>\<open>command_line.c\<close>, \<^verbatim>\<open>main.c\<close>), with their properties in \<^verbatim>\<open>Usbboot_Facts\<close>, \<^verbatim>\<open>Usbboot_Config\<close> and
  \<^verbatim>\<open>Usbboot_Frame\<close> (what the commands leave alone, for every view of the configuration that its locales allow).

  The first stage of \<^verbatim>\<open>usbboot/xburst_stage1\<close>: \<^verbatim>\<open>Stage1_State\<close> (globals, \<^verbatim>\<open>common.c\<close>), \<^verbatim>\<open>Stage1_4740\<close> and
  \<^verbatim>\<open>Stage1_4760\<close> (the board files), \<^verbatim>\<open>Stage1_Main\<close> (\<^verbatim>\<open>main.c\<close>, \<^verbatim>\<open>debug.c\<close>); its properties are in
  \<^verbatim>\<open>Pll_Search\<close>, \<^verbatim>\<open>Stage1_Bus\<close>, \<^verbatim>\<open>Stage1_Props\<close>, \<^verbatim>\<open>Stage1_Board\<close>, \<^verbatim>\<open>Stage1_Memtest\<close> and \<^verbatim>\<open>Stage1_Serial\<close>.

  \<^verbatim>\<open>xbboot\<close>: \<^verbatim>\<open>Xbboot_Host\<close> (\<^verbatim>\<open>host_main.c\<close>), \<^verbatim>\<open>Xbboot_Target\<close> (\<^verbatim>\<open>stage1.c\<close>, what its board files have of their own, and
  \<^verbatim>\<open>echo-kernel.c\<close>); \<^verbatim>\<open>Xbboot_Facts\<close> and \<^verbatim>\<open>Xbboot_Props\<close> follow an upload to the settings of the board, \<^verbatim>\<open>Xbboot_Echo\<close> is the echo kernel on
  a serial line.

  How the parts are put together.  The locales \<^verbatim>\<open>sdram_target\<close> (\<^verbatim>\<open>Sdram_Target\<close>) and \<^verbatim>\<open>boot_target\<close> (\<^verbatim>\<open>Boot\<close>) state what the
  loaders of the host rely on; \<^verbatim>\<open>Usb_Link\<close> and \<^verbatim>\<open>Link_Probe\<close> connect the host's \<^verbatim>\<open>libusb\<close> to the second stage over a controller
  that passes packets on, and interpret the locales with the model of the firmware; \<^verbatim>\<open>Link_Configure\<close> adds the NAND drivers of the
  firmware, which the configuration initialises.  So this theory shows that what the host sends is what the
  firmware stores, that the processor is identified and that the configuration arrives; \<^verbatim>\<open>Boot\<close> shows that a kernel is
  entered with its arguments; \<^verbatim>\<open>Stage1_Props\<close> follows the configuration file of \<^verbatim>\<open>usbboot\<close> through the patched image to the clock and memory
  registers of the device.

  Conventions.  Stateful code is a \<^verbatim>\<open>State_Monad\<close> program over a record of its globals.  The hardware and \<^verbatim>\<open>libusb\<close> are
  records of functions on an abstract state, so that a theorem for every such record holds for every behaviour of the device.
  Undefined behaviour (an access out of bounds, a null pointer, a division by zero, overlapping \<^verbatim>\<open>memcpy\<close>) sets a flag of the state and
  the program goes on with some value.  32-bit arithmetic is that of words; \<^verbatim>\<open>int\<close> values whose sign
  matters are integers.

  Bounds.  A wait for the hardware takes the number \<^verbatim>\<open>P\<close> of polls it may make and sets a flag (\<^verbatim>\<open>hung\<close>,
  \<^verbatim>\<open>s1_hung\<close>) when it would need more; theorems that claim progress assume a ready device and \<^verbatim>\<open>0 < P\<close>.  The loops of the NAND
  transfers take a number of turns and \<^verbatim>\<open>nand_loops_end\<close> shows when it suffices; \<^verbatim>\<open>check_sdram\<close> ends when the number of tested words is
  below its bound (\<^verbatim>\<open>memory_test_result\<close>).  \<^verbatim>\<open>shell_execute\<close> takes a bound for the nesting of \<^verbatim>\<open>source\<close>.

  Not modelled.  The scanner generated by flex (\<^verbatim>\<open>shell_lex.c\<close>; its rules are modelled), messages and \<^verbatim>\<open>debug.c\<close> of
  \<^verbatim>\<open>jzboot\<close>, pauses, cache instructions and start-up code in assembler, and the register headers except for
  the macros and constants in use, which are most of the lines of the program.
\<close>

section \<open>Host and firmware together\<close>

text \<open>C2.  The SDRAM loader of the host, run against the firmware of the second stage over the
  bus, returns 0 and leaves in the device's memory, from the base address on, exactly the bytes
  of the buffer, whatever their number; nothing else of the memory and of the host's state but
  the callback's data changes, the firmware meets no undefined behaviour, and it is ready for
  the next transfer.\<close>

theorem host_load_reaches_memory:
  fixes w :: "(device, 'c) world"
  assumes "ready (usb w)" "unat len \<le> length data"
  shows "\<exists>d c. run_state (ingenic_load_sdram (link D) data base len) w = (0, w\<lparr>usb := d, cb_data := c\<rparr>)
     \<and> ready d
     \<and> (\<forall>i < unat len. ram d (base + of_nat i) = data ! i)
     \<and> (\<forall>x. x \<notin> (\<lambda>i. base + of_nat i) ` {..<unat len} \<longrightarrow> ram d x = ram (usb w) x)"
proof -
  obtain d c where *: "run_state (ingenic_load_sdram (link D) data base len) w = (0, w\<lparr>usb := d, cb_data := c\<rparr>)"
      "ready d" "ram d = mem_put base (take (unat len) data) (ram (usb w))"
    using fw.load_sdram [of w len data "h_usb (hnd w)" D base] assms by blast
  have len: "length (take (unat len) data) = unat len" using assms(2) by simp
  moreover have "unat len < 2 ^ LENGTH(32)" by (rule unsigned_less)
  ultimately have "\<forall>i < unat len. ram d (base + of_nat i) = data ! i"
    unfolding *(3) by (simp add: mem_put_inside)
  moreover have "\<forall>x. x \<notin> (\<lambda>i. base + of_nat i) ` {..<unat len} \<longrightarrow> ram d x = ram (usb w) x"
    unfolding *(3) using mem_put_outside [of _ base "take (unat len) data"] len by simp
  ultimately show ?thesis using * by blast
qed

lemma host_load_reaches_memory_witness:
  "\<exists>d c. run_state (ingenic_load_sdram (link (stage2_drivers 1)) [1, 2, 3] 0x80004000 3) (demo_world idle_device (\<lambda>_. None))
      = (0, (demo_world idle_device (\<lambda>_. None))\<lparr>usb := d, cb_data := c\<rparr>)
    \<and> ram d 0x80004002 = 3"
proof -
  have "ram d 0x80004002 = 3" if "\<forall>i < 3. ram d (0x80004000 + of_nat i) = [1, 2, 3] ! i" for d :: device
    using that by (auto dest: spec [of _ 2])
  then show ?thesis
    using host_load_reaches_memory [of "demo_world idle_device (\<lambda>_. None)" 3 "[1, 2, 3]" "stage2_drivers 1" "0x80004000"]
      ready_idle by fastforce
qed

text \<open>C4.  The host's probe, answered by the firmware of the second stage, gives the type of the
  second stage's command set with the processor of the configuration for the JZ4740 and the
  JZ4760; for every other processor, the JZ4750 that the host knows included, the firmware
  answers with a string that the host rejects.  The device keeps its memory and configuration.\<close>

theorem stage2_identifies:
  fixes w :: "(device, 'c) world"
  assumes "quiet (usb w)"
  defines "cpu \<equiv> fa_cpu_id (hd_fw_args (Hand (usb w)))"
  shows "\<exists>d. run_state (ingenic_probe (link D) h) w
      = (if cpu = 0x4740 \<or> cpu = 0x4760 then (BUILDTYPE CMDSET_USBBOOT cpu, w\<lparr>usb := d\<rparr>)
         else (0, w\<lparr>usb := d, errno := EINVAL\<rparr>))
    \<and> quiet d \<and> Hand d = Hand (usb w) \<and> ram d = ram (usb w)"
  using link_probe [OF assms(1)] unfolding cpu_def by blast

lemma stage2_identifies_witness:
  "fst (run_state (ingenic_probe (link (stage2_drivers 1)) 1) (demo_world idle_device (\<lambda>_. None))) = 0x24760"
  using stage2_identifies [of "demo_world idle_device (\<lambda>_. None)" "stage2_drivers 1" 1] ready_idle
  by (auto simp: ready_def idle_device_def zero_hand_def zero_args_def BUILDTYPE_def CMDSET_USBBOOT_def)

text \<open>C3.  \<^verbatim>\<open>ingenic_configure_stage2\<close> delivers the configuration to the firmware of the second stage with its own NAND drivers:
  the firmware holds in \<^verbatim>\<open>Hand\<close> field by field the host's NAND and firmware structures, and has selected and initialised
  the NAND driver of the processor named there (for a processor without one it keeps the driver that it had).  The statics of
  the selected driver are then the host's NAND settings, but for the number of spare bytes, which the driver takes from the page size;
  the statics of the other driver and the memory are as before, and the firmware is ready for the next request.\<close>

theorem configuration_delivered:
  fixes w :: "(device, 'c) world"
  defines "n \<equiv> h_nand (hnd w)" and "cpu \<equiv> cpu_id (h_cfg (hnd w))"
  assumes "ready (usb w)"
  shows "\<exists>d. run_state (ingenic_configure_stage2 (link (stage2_drivers P))) w = (0, w\<lparr>usb := d\<rparr>) \<and> ready d
     \<and> Hand d = to_hand n (h_cfg (hnd w)) \<and> nand_drv d = driver_of cpu (nand_drv (usb w)) \<and> ram d = ram (usb w)
     \<and> (if cpu = 0x4740 then settings_4740 n (nf d) else nf d = nf (usb w))
     \<and> (if cpu = 0x4760 then settings_4760 n (nf6 d) else nf6 d = nf6 (usb w))"
  using link_configure [OF assms(3), of P] unfolding n_def cpu_def by (auto simp: settings_init)

lemma configuration_delivered_witness:
  "\<exists>d. run_state (ingenic_configure_stage2 (link (stage2_drivers 1))) (demo_world idle_device (\<lambda>_. None))
      = (0, (demo_world idle_device (\<lambda>_. None))\<lparr>usb := d\<rparr>)
    \<and> nand_drv d = Drv_4760 \<and> hd_nand_ps (Hand d) = 2048 \<and> n6_pagesize (nf6 d) = 2048 \<and> n6_eccpos (nf6 d) = 24"
  using configuration_delivered [of "demo_world idle_device (\<lambda>_. None)" 1] ready_idle
  by (auto simp: driver_of_def demo_handle_def to_hand_def settings_4760_def host_simps)

end
